(* ===== verification/Prelude.thy ===== *)
theory Prelude
  imports Main "HOL-Library.Word" "HOL-Library.Multiset" "HOL-Library.AList"
begin

text \<open>
  What every other theory of the library shares: the outcome of a Go call (a value, an error
  or a run-time panic), the two ways the operator sequences calls, Go maps as association
  lists with an arbitrary iteration order, and the string functions of the standard library
  the operator uses.
\<close>

named_theorems outcome_simps \<open>how sequencing acts on values, errors and panics\<close>
named_theorems gomap_simps \<open>what an iteration order keeps of a Go map\<close>

section \<open>Outcomes\<close>

text \<open>
  An error value is told apart by its origin: the operator's own \<open>fmt.Errorf\<close>, the
  Kubernetes API (where the operator distinguishes "not found" from the rest), or a library.
  A fault is what ends a Go call early: a returned error, or one of the two panics the
  modelled code can raise.
\<close>

datatype api_error = ApiNotFound string | ApiOther string

datatype go_error = Errorf string | ApiError api_error | LibraryError string

datatype fault = Fail go_error | NilDereference | NilMapWrite

type_synonym 'a outcome = "fault + 'a"

definition and_then :: "'a outcome \<Rightarrow> ('a \<Rightarrow> 'b outcome) \<Rightarrow> 'b outcome" where
  "and_then m f = (case m of Inl e \<Rightarrow> Inl e | Inr a \<Rightarrow> f a)"

text \<open>Reading through a pointer: \<open>None\<close> is Go's \<open>nil\<close>.\<close>

definition deref :: "'a option \<Rightarrow> 'a outcome" where
  "deref p = (case p of None \<Rightarrow> Inl NilDereference | Some a \<Rightarrow> Inr a)"

text \<open>A \<open>(value, error)\<close> pair of a library call, seen as an outcome.\<close>

definition checked :: "go_error + 'a \<Rightarrow> 'a outcome" where
  "checked r = (case r of Inl e \<Rightarrow> Inl (Fail e) | Inr a \<Rightarrow> Inr a)"

lemma and_then_simps [simp, outcome_simps]:
  "and_then (Inr a) f = f a"
  "and_then (Inl e) f = Inl e"
  by (simp_all add: and_then_def)

lemma and_then_eq_Inr [outcome_simps]:
  "and_then m f = Inr b \<longleftrightarrow> (\<exists>a. m = Inr a \<and> f a = Inr b)"
  by (cases m) auto

lemma and_then_eq_Inl [outcome_simps]:
  "and_then m f = Inl e \<longleftrightarrow> m = Inl e \<or> (\<exists>a. m = Inr a \<and> f a = Inl e)"
  by (cases m) auto

lemma and_then_assoc: "and_then (and_then m f) g = and_then m (\<lambda>a. and_then (f a) g)"
  by (cases m) auto

lemma deref_simps [simp, outcome_simps]:
  "deref None = Inl NilDereference"
  "deref (Some a) = Inr a"
  by (simp_all add: deref_def)

lemma deref_eq_Inr [outcome_simps]: "deref p = Inr a \<longleftrightarrow> p = Some a"
  by (cases p) auto

lemma checked_simps [simp, outcome_simps]:
  "checked (Inl e) = Inl (Fail e)"
  "checked (Inr a) = Inr a"
  by (simp_all add: checked_def)

lemma checked_eq_Inr [outcome_simps]: "checked r = Inr a \<longleftrightarrow> r = Inr a"
  by (cases r) auto

lemma checked_not_panic [simp]:
  "checked r \<noteq> Inl NilDereference"
  "checked r \<noteq> Inl NilMapWrite"
  by (cases r; simp)+

section \<open>Loops\<close>

text \<open>
  \<open>for _, x := range xs { ... }\<close> with an early return on an error: the body takes the loop's
  variables and gives them back updated.
\<close>

fun for_each :: "('x \<Rightarrow> 's \<Rightarrow> 's outcome) \<Rightarrow> 'x list \<Rightarrow> 's \<Rightarrow> 's outcome" where
  "for_each body [] s = Inr s"
| "for_each body (x # xs) s = and_then (body x s) (for_each body xs)"

lemma for_each_append:
  "for_each body (xs @ ys) s = and_then (for_each body xs s) (for_each body ys)"
  by (induction xs arbitrary: s) (auto simp: and_then_assoc and_then_def split: sum.splits)

text \<open>An invariant of a completed loop, and the reason a failed one stopped.\<close>

lemma for_each_invariant:
  assumes "for_each body xs s = Inr t" and "I s"
    and step: "\<And>x s t. x \<in> set xs \<Longrightarrow> I s \<Longrightarrow> body x s = Inr t \<Longrightarrow> I t"
  shows "I t"
  using assms
proof (induction xs arbitrary: s)
  case Nil
  then show ?case by simp
next
  case (Cons x xs)
  from Cons.prems(1) obtain u where u: "body x s = Inr u" and rest: "for_each body xs u = Inr t"
    by (auto simp: outcome_simps)
  have "I u" using Cons.prems(2,3) u by (meson list.set_intros(1))
  then show ?case
    using Cons.IH [OF rest] Cons.prems(3) by (meson list.set_intros(2))
qed

lemma for_each_total:
  assumes "I s"
    and step: "\<And>x s. x \<in> set xs \<Longrightarrow> I s \<Longrightarrow> \<exists>t. body x s = Inr t \<and> I t"
  shows "\<exists>t. for_each body xs s = Inr t \<and> I t"
  using assms
proof (induction xs arbitrary: s)
  case Nil
  then show ?case by simp
next
  case (Cons x xs)
  obtain u where u: "body x s = Inr u" "I u"
    using Cons.prems(1,2) by (meson list.set_intros(1))
  have "\<exists>t. for_each body xs u = Inr t \<and> I t"
    using u(2) Cons.prems(2) by (intro Cons.IH) (auto)
  with u(1) show ?case by simp
qed

lemma for_each_fault:
  assumes "for_each body xs s = Inl e"
  shows "\<exists>x t. x \<in> set xs \<and> body x t = Inl e"
  using assms
proof (induction xs arbitrary: s)
  case Nil
  then show ?case by simp
next
  case (Cons x xs)
  from Cons.prems consider "body x s = Inl e" | t where "for_each body xs t = Inl e"
    by (auto simp: and_then_eq_Inl)
  then show ?case
    using Cons.IH by cases (meson list.set_intros)+
qed

text \<open>
  A method that updates its receiver before it can fail: the receiver's new state survives
  the fault, as it does behind a Go pointer.
\<close>

type_synonym ('s, 'a) stateful = "'s \<Rightarrow> 's \<times> 'a outcome"

definition method_return :: "'a outcome \<Rightarrow> ('s, 'a) stateful" where
  "method_return r s = (s, r)"

definition method_then :: "('s, 'a) stateful \<Rightarrow> ('a \<Rightarrow> ('s, 'b) stateful) \<Rightarrow> ('s, 'b) stateful" where
  "method_then m f s = (case m s of (t, Inl e) \<Rightarrow> (t, Inl e) | (t, Inr a) \<Rightarrow> f a t)"

fun method_for_each :: "('x \<Rightarrow> ('s, unit) stateful) \<Rightarrow> 'x list \<Rightarrow> ('s, unit) stateful" where
  "method_for_each body [] s = (s, Inr ())"
| "method_for_each body (x # xs) s = method_then (body x) (\<lambda>_. method_for_each body xs) s"

lemma method_then_simps [simp, outcome_simps]:
  "m s = (t, Inr a) \<Longrightarrow> method_then m f s = f a t"
  "m s = (t, Inl e) \<Longrightarrow> method_then m f s = (t, Inl e)"
  by (simp_all add: method_then_def)

lemma method_then_return [simp, outcome_simps]:
  "method_then (method_return (Inr a)) f s = f a s"
  "method_then (method_return (Inl e)) f s = (s, Inl e)"
  by (simp_all add: method_then_def method_return_def)

lemma method_then_eq_Inr [outcome_simps]:
  "method_then m f s = (u, Inr b) \<longleftrightarrow> (\<exists>t a. m s = (t, Inr a) \<and> f a t = (u, Inr b))"
  by (auto simp: method_then_def split: prod.splits sum.splits)

lemma method_then_eq_Inl:
  "method_then m f s = (u, Inl e) \<longleftrightarrow>
     m s = (u, Inl e) \<or> (\<exists>t a. m s = (t, Inr a) \<and> f a t = (u, Inl e))"
  by (auto simp: method_then_def split: prod.splits sum.splits)

lemma method_return_eq [simp]: "method_return r s = (t, q) \<longleftrightarrow> s = t \<and> r = q"
  by (auto simp: method_return_def)

text \<open>
  A loop whose completed iterations each append to a list \<open>out\<close> of the state, whose failing
  iteration appends nothing, and which keeps the rest of the state: it leaves what a prefix of
  its input appends, and succeeds when the prefix is all of it.
\<close>

lemma method_for_each_prefix:
  assumes "method_for_each body xs s = (t, res)"
    and "\<And>x s t. x \<in> set xs \<Longrightarrow> body x s = (t, Inr ()) \<Longrightarrow>
      fixed t = fixed s \<and> (\<exists>y. R (fixed s) x y \<and> out t = out s @ y)"
    and "\<And>x s t e. x \<in> set xs \<Longrightarrow> body x s = (t, Inl e) \<Longrightarrow> fixed t = fixed s \<and> out t = out s"
  shows "\<exists>n ys. n \<le> length xs \<and> list_all2 (R (fixed s)) (take n xs) ys \<and>
    out t = out s @ concat ys \<and> fixed t = fixed s \<and> (res = Inr () \<longleftrightarrow> n = length xs)"
  using assms
proof (induction xs arbitrary: s)
  case Nil
  then show ?case by (intro exI [of _ 0] exI [of _ "[]"]) auto
next
  case (Cons x xs)
  obtain u r where step: "body x s = (u, r)" by (cases "body x s")
  show ?case
  proof (cases r)
    case (Inl e)
    then have "t = u" and "res = Inl e" using Cons.prems(1) step by (auto simp: method_then_def)
    with Inl step show ?thesis
      using Cons.prems(3) [of x s u e] by (intro exI [of _ 0] exI [of _ "[]"]) auto
  next
    case (Inr v)
    then have rest: "method_for_each body xs u = (t, res)"
      using Cons.prems(1) step by (simp add: method_then_def)
    obtain y where y: "fixed u = fixed s" "R (fixed s) x y" "out u = out s @ y"
      using Cons.prems(2) [of x s u] step Inr by auto
    have "\<exists>n ys. n \<le> length xs \<and> list_all2 (R (fixed u)) (take n xs) ys \<and>
        out t = out u @ concat ys \<and> fixed t = fixed u \<and> (res = Inr () \<longleftrightarrow> n = length xs)"
      by (rule Cons.IH [OF rest]; rule Cons.prems(2,3)) auto
    then obtain n ys where "n \<le> length xs" "list_all2 (R (fixed u)) (take n xs) ys"
      "out t = out u @ concat ys" "fixed t = fixed u" "res = Inr () \<longleftrightarrow> n = length xs"
      by blast
    with y show ?thesis
      by (intro exI [of _ "Suc n"] exI [of _ "y # ys"]) auto
  qed
qed

text \<open>
  A loop that cannot fail: an invariant over the elements visited so far that every iteration
  re-establishes holds of all of them at the end.
\<close>

lemma method_for_each_total:
  assumes "I [] s"
    and "\<And>before x after s. xs = before @ x # after \<Longrightarrow> I before s \<Longrightarrow>
      \<exists>t. body x s = (t, Inr ()) \<and> I (before @ [x]) t"
  shows "\<exists>t. method_for_each body xs s = (t, Inr ()) \<and> I xs t"
proof -
  have "\<exists>t. method_for_each body todo s = (t, Inr ()) \<and> I xs t"
    if "xs = before @ todo" and "I before s" for before todo s
    using that
  proof (induction todo arbitrary: before s)
    case Nil
    then show ?case by simp
  next
    case (Cons x todo)
    obtain u where u: "body x s = (u, Inr ())" "I (before @ [x]) u"
      using assms(2) [OF Cons.prems] by blast
    then show ?case using Cons.IH [of "before @ [x]" u] Cons.prems(1) by simp
  qed
  from this [of "[]" xs s] assms(1) show ?thesis by simp
qed

section \<open>Go maps\<close>

text \<open>
  A Go map is an association list with distinct keys; a \<open>range\<close> over it visits the entries
  in an order the language leaves open. An iteration order is a function that permutes every
  such list, so that a statement for every order covers every run.
\<close>

definition range_order :: "(('k \<times> 'v) list \<Rightarrow> ('k \<times> 'v) list) \<Rightarrow> bool" where
  "range_order \<rho> \<longleftrightarrow> (\<forall>m. mset (\<rho> m) = mset m)"

lemma range_order_mset [gomap_simps]: "range_order \<rho> \<Longrightarrow> mset (\<rho> m) = mset m"
  by (simp add: range_order_def)

lemma range_order_set [gomap_simps]: "range_order \<rho> \<Longrightarrow> set (\<rho> m) = set m"
  by (metis range_order_def set_mset_mset)

lemma range_order_length [gomap_simps]: "range_order \<rho> \<Longrightarrow> length (\<rho> m) = length m"
  by (metis range_order_def size_mset)

lemma range_order_keys [gomap_simps]:
  assumes "range_order \<rho>"
  shows "distinct (map fst (\<rho> m)) = distinct (map fst m)"
proof -
  have "mset (map fst (\<rho> m)) = mset (map fst m)"
    using assms by (simp add: range_order_def)
  then show ?thesis by (metis mset_eq_imp_distinct_iff)
qed

lemma range_order_map_of:
  assumes "range_order \<rho>" and "distinct (map fst m)"
  shows "map_of (\<rho> m) = map_of m"
proof (rule map_of_inject_set [THEN iffD2])
  show "distinct (map fst (\<rho> m))" using assms by (simp add: range_order_keys)
qed (use assms in \<open>simp_all add: range_order_set\<close>)

lemma range_order_id: "range_order (\<lambda>m. m)"
  by (simp add: range_order_def)

lemma range_order_rev: "range_order rev"
  by (simp add: range_order_def)

lemma range_order_Nil [simp]: "range_order \<rho> \<Longrightarrow> \<rho> [] = []"
  by (metis length_0_conv list.size(3) range_order_length)

lemma range_order_singleton: "range_order \<rho> \<Longrightarrow> \<rho> [x] = [x]"
  by (metis mset_single_iff_right range_order_def mset.simps)

text \<open>
  A loop over a map whose body acts on one key only does what the body does on that key, in
  every iteration order.
\<close>

lemma for_each_one_key:
  assumes "\<And>k' v s. k' \<noteq> k \<Longrightarrow> body (k', v) s = Inr s" and "distinct (map fst m)"
  shows "for_each body m s = (case map_of m k of None \<Rightarrow> Inr s | Some v \<Rightarrow> body (k, v) s)"
  using assms(2)
proof (induction m arbitrary: s)
  case (Cons p m)
  obtain k' v where p: "p = (k', v)" by (cases p)
  show ?case
  proof (cases "k' = k")
    case True
    then have "map_of m k = None"
      using Cons.prems by (simp add: p map_of_eq_None_iff)
    then show ?thesis
      using True Cons by (cases "body (k, v) s") (simp_all add: p)
  next
    case False
    then show ?thesis using Cons assms(1) by (simp add: p)
  qed
qed simp

lemma range_order_one_key:
  assumes "range_order \<rho>" and "distinct (map fst m)"
    and "\<And>k' v s. k' \<noteq> k \<Longrightarrow> body (k', v) s = Inr s"
  shows "for_each body (\<rho> m) s = (case map_of m k of None \<Rightarrow> Inr s | Some v \<Rightarrow> body (k, v) s)"
  using assms for_each_one_key [of k body "\<rho> m" s]
  by (simp add: range_order_keys range_order_map_of)

text \<open>\<open>m[k] = append(m[k], v)\<close> on a map of slices.\<close>

definition map_append :: "'k \<Rightarrow> 'v \<Rightarrow> ('k \<times> 'v list) list \<Rightarrow> ('k \<times> 'v list) list" where
  "map_append k v m =
     AList.update k ((case map_of m k of None \<Rightarrow> [] | Some vs \<Rightarrow> vs) @ [v]) m"

definition map_slice :: "('k \<times> 'v list) list \<Rightarrow> 'k \<Rightarrow> 'v list" where
  "map_slice m k = (case map_of m k of None \<Rightarrow> [] | Some vs \<Rightarrow> vs)"

lemma map_of_map_append:
  "map_of (map_append k v m) k' = (if k' = k then Some (map_slice m k @ [v]) else map_of m k')"
  by (simp add: map_append_def map_slice_def update_conv' fun_upd_def)

lemma map_slice_map_append [simp]:
  "map_slice (map_append k v m) k' = (if k' = k then map_slice m k @ [v] else map_slice m k')"
  by (simp add: map_slice_def [of "map_append k v m"] map_of_map_append)
    (simp add: map_slice_def)

lemma map_append_keys [simp]:
  "distinct (map fst m) \<Longrightarrow> distinct (map fst (map_append k v m))"
  by (simp add: map_append_def distinct_update)

lemma map_append_not_Nil [simp]: "map_append k v m \<noteq> []"
  by (simp add: map_append_def update_nonempty)

section \<open>Strings\<close>

text \<open>\<open>strings.Join\<close>, \<open>strconv.FormatBool\<close> and \<open>strconv.Itoa\<close>.\<close>

fun strings_Join :: "string list \<Rightarrow> string \<Rightarrow> string" where
  "strings_Join [] sep = []"
| "strings_Join [x] sep = x"
| "strings_Join (x # y # xs) sep = x @ sep @ strings_Join (y # xs) sep"

definition FormatBool :: "bool \<Rightarrow> string" where
  "FormatBool b = (if b then ''true'' else ''false'')"

definition digit_char :: "nat \<Rightarrow> char" where
  "digit_char d = char_of (48 + d)"

fun nat_digits :: "nat \<Rightarrow> string" where
  "nat_digits n =
     (if n < 10 then [digit_char n] else nat_digits (n div 10) @ [digit_char (n mod 10)])"

declare nat_digits.simps [simp del]

definition Itoa :: "int \<Rightarrow> string" where
  "Itoa i = (if i < 0 then CHR ''-'' # nat_digits (nat (- i)) else nat_digits (nat i))"

lemma strings_Join_Cons:
  "strings_Join (x # xs) sep = (if xs = [] then x else x @ sep @ strings_Join xs sep)"
  by (cases xs) auto

lemma strings_Join_append:
  "xs \<noteq> [] \<Longrightarrow> ys \<noteq> [] \<Longrightarrow>
   strings_Join (xs @ ys) sep = strings_Join xs sep @ sep @ strings_Join ys sep"
  by (induction xs) (auto simp: strings_Join_Cons)

lemma FormatBool_inject [simp]: "FormatBool a = FormatBool b \<longleftrightarrow> a = b"
  by (simp add: FormatBool_def)

lemma of_char_digit_char: "d < 10 \<Longrightarrow> of_char (digit_char d) = (48 + d :: nat)"
  by (simp add: digit_char_def of_char_of)

lemma digit_char_inject: "a < 10 \<Longrightarrow> b < 10 \<Longrightarrow> digit_char a = digit_char b \<longleftrightarrow> a = b"
  by (metis add_left_cancel of_char_digit_char)

lemma nat_digits_not_Nil [simp]: "nat_digits n \<noteq> []"
  by (subst nat_digits.simps) simp

lemma nat_digits_inject: "nat_digits m = nat_digits n \<Longrightarrow> m = n"
proof (induction m arbitrary: n rule: nat_digits.induct)
  case (1 m)
  show ?case
  proof (cases "m < 10")
    case True
    then have "nat_digits n = [digit_char m]"
      using "1.prems" by (simp add: nat_digits.simps [of m])
    moreover from this have "n < 10"
      by (metis append_eq_Cons_conv nat_digits.simps nat_digits_not_Nil not_Cons_self2
          append_is_Nil_conv list.inject)
    ultimately show ?thesis
      using True by (simp add: nat_digits.simps [of n] digit_char_inject)
  next
    case False
    then have eq: "nat_digits n = nat_digits (m div 10) @ [digit_char (m mod 10)]"
      using "1.prems" by (simp add: nat_digits.simps [of m])
    then have n: "\<not> n < 10"
      by (auto simp: nat_digits.simps [of n] dest: sym)
    with eq have "nat_digits (m div 10) = nat_digits (n div 10)"
      and d: "digit_char (m mod 10) = digit_char (n mod 10)"
      by (simp_all add: nat_digits.simps [of n])
    then have "m div 10 = n div 10" using "1.IH" False by simp
    moreover have "m mod 10 = n mod 10" using d by (simp add: digit_char_inject)
    ultimately show ?thesis by (metis div_mult_mod_eq)
  qed
qed

end
