(* ===== verification/ApiTypes.thy ===== *)
theory ApiTypes
  imports Prelude
begin

text \<open>
  The data the operator works on. First the shapes of library data the code reads or builds
  field by field (Kubernetes core types, the authentication and logging types of the support
  library), then the operator's own API group \<open>api/v1alpha1/airflowcluster_types.go\<close>. A pointer is
  an \<open>option\<close>, a slice a list, a map an association list with distinct keys. The type
  variable \<open>'x\<close> stands for library values the operator only passes on.
\<close>

section \<open>Library data\<close>

record SecretKeySelector =
  sks_Key :: string
  sks_Name :: string

record EnvVar =
  ev_Name :: string
  ev_Value :: string
  ev_ValueFrom :: "SecretKeySelector option"

record VolumeMount =
  vm_Name :: string
  vm_MountPath :: string

record SecretVolumeScope =
  svs_Pod :: bool
  svs_Node :: bool
  svs_Service :: "string list"

text \<open>
  The volumes the operator asks for: a config map by name with its file mode, an empty
  directory with a size limit, and a volume of the secret operator, which the library builds
  from a name, a secret class and a scope.
\<close>

datatype Volume =
    ConfigMapVolume string string "32 word option"
  | EmptyDirVolume string "string option"
  | SecretOperatorVolume string string SecretVolumeScope

fun volume_name :: "Volume \<Rightarrow> string" where
  "volume_name (ConfigMapVolume n c m) = n"
| "volume_name (EmptyDirVolume n l) = n"
| "volume_name (SecretOperatorVolume n c s) = n"

record ContainerPort =
  cp_Name :: string
  cp_ContainerPort :: "32 word"
  cp_Protocol :: string

record CredentialsScope =
  scope_Pod :: bool
  scope_Node :: bool
  scope_Services :: "string list"

record Credentials =
  cred_SecretClass :: string
  cred_Scope :: "CredentialsScope option"

record LDAPFieldNames =
  field_Uid :: string
  field_Surname :: string
  field_GivenName :: string
  field_Email :: string
  field_Group :: string

record LDAPProvider =
  ldap_Hostname :: string
  ldap_Port :: int
  ldap_SearchBase :: string
  ldap_SearchFilter :: string
  ldap_LDAPFieldNames :: "LDAPFieldNames option"
  ldap_BindCredentials :: "Credentials option"

record OIDCProvider =
  oidc_Hostname :: string
  oidc_Port :: int
  oidc_RootPath :: string
  oidc_Scopes :: "string list"
  oidc_ProviderHint :: string

record OidcSpec =
  oidc_ClientCredentialsSecret :: string
  oidc_ExtraScopes :: "string list"

record AuthenticationProvider =
  prov_OIDC :: "OIDCProvider option"
  prov_LDAP :: "LDAPProvider option"

record AuthenticationClass =
  ac_AuthenticationProvider :: "AuthenticationProvider option"

record LogLevelSpec =
  ll_Level :: string

record LoggingConfigSpec =
  lc_Loggers :: "(string \<times> LogLevelSpec option) list"
  lc_Console :: "LogLevelSpec option"
  lc_File :: "LogLevelSpec option"

record LoggingSpec =
  log_Containers :: "(string \<times> LoggingConfigSpec) list"

record 'x RoleGroupConfigSpec =
  rgc_Logging :: "LoggingSpec option"
  rgc_rest :: 'x

section \<open>The API group \<open>airflow.kubedoop.dev/v1alpha1\<close>\<close>

definition DefaultRepository :: string where
  "DefaultRepository = ''quay.io/zncdatadev''"

definition DefaultProductVersion :: string where
  "DefaultProductVersion = ''2.10.5''"

definition DefaultProductName :: string where
  "DefaultProductName = ''airflow''"

definition SchedulersRoleName :: string where
  "SchedulersRoleName = ''schedulers''"

definition WebserversRoleName :: string where
  "WebserversRoleName = ''webservers''"

definition CeleryExecutorsRoleName :: string where
  "CeleryExecutorsRoleName = ''celeryexecutors''"

definition KubernetesExecutorsRoleName :: string where
  "KubernetesExecutorsRoleName = ''kubernetesexecutors''"

lemmas role_name_defs =
  SchedulersRoleName_def WebserversRoleName_def CeleryExecutorsRoleName_def
  KubernetesExecutorsRoleName_def

lemma role_names_distinct:
  "distinct [SchedulersRoleName, WebserversRoleName, CeleryExecutorsRoleName,
     KubernetesExecutorsRoleName]"
  by (simp add: role_name_defs)

record ImageSpec =
  img_Custom :: string
  img_Repo :: string
  img_KubedoopVersion :: string
  img_ProductVersion :: string
  img_PullPolicy :: string
  img_PullSecretName :: string

record AuthenticationSpec =
  as_AuthenticationClass :: string
  as_Oidc :: "OidcSpec option"
  as_SyncRolesAt :: string
  as_UserRegistration :: bool
  as_UserRegistrationRole :: string

record DagsGitSyncSpec =
  dgs_Branch :: string
  dgs_CrdentialsSecret :: string
  dgs_Depth :: "8 word option"
  dgs_GitFolder :: string
  dgs_GitSyncConf :: "(string \<times> string) list"
  dgs_Repo :: string
  dgs_Wait :: "16 word option"

record 'x ClusterConfigSpec =
  cc_Authentication :: "AuthenticationSpec list"
  cc_Credentials :: string
  cc_DagsGitSync :: "DagsGitSyncSpec list"
  cc_ExposeConfig :: bool
  cc_LoadExamples :: bool
  cc_ListenerClass :: string
  cc_VectorAggregatorConfigMapName :: string
  cc_Volumes :: "'x list"
  cc_VolumeMounts :: "'x list"

record 'x ConfigSpec =
  cs_RoleGroupConfigSpec :: "'x RoleGroupConfigSpec option"

record 'x RoleGroupSpec =
  rg_Replicas :: "32 word option"
  rg_Config :: "'x ConfigSpec option"
  rg_OverridesSpec :: "'x option"

text \<open>The three role specifications have the same four fields.\<close>

record 'x RoleSpec =
  role_RoleGroups :: "(string \<times> 'x RoleGroupSpec) list"
  role_RoleConfig :: "'x option"
  role_Config :: "'x ConfigSpec option"
  role_OverridesSpec :: "'x option"

type_synonym 'x CeleryExecutorsSpec = "'x RoleSpec"
type_synonym 'x SchedulersSpec = "'x RoleSpec"
type_synonym 'x WebserversSpec = "'x RoleSpec"

record 'x KubernetesExecutorsSpec =
  kes_RoleConfig :: "'x option"
  kes_Config :: "'x ConfigSpec option"
  kes_OverridesSpec :: "'x option"
  kes_RoleGroupConfigSpec :: "'x RoleGroupConfigSpec option"

record 'x AirflowClusterSpec =
  spec_Image :: "ImageSpec option"
  spec_ClusterOperation :: "'x option"
  spec_ClusterConfig :: "'x ClusterConfigSpec option"
  spec_CeleryExecutors :: "'x CeleryExecutorsSpec option"
  spec_KubernetesExecutors :: "'x KubernetesExecutorsSpec option"
  spec_Schedulers :: "'x SchedulersSpec option"
  spec_Webservers :: "'x WebserversSpec option"

record 'x AirflowCluster =
  ac_Name :: string
  ac_Namespace :: string
  ac_Spec :: "'x AirflowClusterSpec"

text \<open>\<open>api/v1alpha1/groupversion_info.go\<close>\<close>

record GroupVersion =
  gv_Group :: string
  gv_Version :: string

definition AirflowGroupVersion :: GroupVersion where
  "AirflowGroupVersion = \<lparr>gv_Group = ''airflow.kubedoop.dev'', gv_Version = ''v1alpha1''\<rparr>"

end
