(* ===== verification/GoTemplate.thy ===== *)
theory GoTemplate
  imports Prelude "HOL-Library.List_Lexorder" "HOL-Library.Char_ord"
begin

text \<open>
  The part of Go's standard library package \<open>text/template\<close> the operator's two configuration
  templates use: literal text, the actions \<open>.field\<close>, \<open>if .field\<close>, \<open>range .field\<close> and
  \<open>end\<close>, and the trim markers. A template is read in two passes, as the package does: the
  lexer cuts the text at the delimiters, the parser nests the blocks; execution then walks the
  tree with a current value, the dot. The operator calls the package through a parser of its
  support library, whose contract \<open>runs_text_template\<close> is stated at the end.
\<close>

section \<open>Values\<close>

text \<open>
  The values a template is executed on: strings, booleans, pointers (\<open>None\<close> is \<open>nil\<close>) and maps
  with string keys. \<open>GoInvalid\<close> is the zero \<open>reflect.Value\<close> a missing map key evaluates to.
\<close>

datatype gvalue =
    GoInvalid
  | GoString string
  | GoBool bool
  | GoPointer "gvalue option"
  | GoMap "(string \<times> gvalue) list"

datatype template_error =
    UnclosedAction
  | UnexpectedEnd
  | UnclosedBlock
  | UnknownAction string
  | NoSuchField string
  | NilPointerField string
  | CannotRange

fun print_gvalue :: "gvalue \<Rightarrow> string" where
  "print_gvalue GoInvalid = ''<no value>''"
| "print_gvalue (GoString s) = s"
| "print_gvalue (GoBool b) = FormatBool b"
| "print_gvalue (GoPointer None) = ''<nil>''"
| "print_gvalue (GoPointer (Some v)) = print_gvalue v"
| "print_gvalue (GoMap m) =
     ''map['' @ strings_Join (map (\<lambda>kv. fst kv @ '':'' @ snd kv)
       (sort_key fst (map (\<lambda>kv. (fst kv, print_gvalue (snd kv))) m))) '' '' @ '']''"

fun truth :: "gvalue \<Rightarrow> bool" where
  "truth GoInvalid = False"
| "truth (GoString s) = (s \<noteq> [])"
| "truth (GoBool b) = b"
| "truth (GoPointer p) = (p \<noteq> None)"
| "truth (GoMap m) = (m \<noteq> [])"

text \<open>\<open>.name\<close> on the dot: a missing key of a map has no value, any other receiver has no field.\<close>

fun field_value :: "gvalue \<Rightarrow> string \<Rightarrow> template_error + gvalue" where
  "field_value GoInvalid f = Inr GoInvalid"
| "field_value (GoMap m) f = Inr (case map_of m f of None \<Rightarrow> GoInvalid | Some v \<Rightarrow> v)"
| "field_value (GoString s) f = Inl (NoSuchField f)"
| "field_value (GoBool b) f = Inl (NoSuchField f)"
| "field_value (GoPointer None) f = Inl (NilPointerField f)"
| "field_value (GoPointer (Some v)) f = field_value v f"

text \<open>What a \<open>range\<close> visits: the values of a map in the order of its keys.\<close>

fun range_values :: "gvalue \<Rightarrow> template_error + gvalue list" where
  "range_values GoInvalid = Inr []"
| "range_values (GoMap m) = Inr (map snd (sort_key fst m))"
| "range_values (GoPointer (Some v)) = range_values v"
| "range_values v = Inl CannotRange"

section \<open>Lexing\<close>

text \<open>
  A token is a stretch of text or the body of an action. \<open>{{-\<close> followed by a blank removes the
  white space before the action, and \<open>-}}\<close> preceded by a blank the white space after it.
\<close>

datatype token = Text string | Action string

definition blank :: "char \<Rightarrow> bool" where
  "blank c \<longleftrightarrow> c = CHR '' '' \<or> c = CHR 0x09 \<or> c = CHR 0x0A \<or> c = CHR 0x0D"

definition trim_left :: "string \<Rightarrow> string" where
  "trim_left s = dropWhile blank s"

definition trim_right :: "string \<Rightarrow> string" where
  "trim_right s = rev (dropWhile blank (rev s))"

text \<open>\<open>cut a b s\<close> splits \<open>s\<close> at the first occurrence of the two characters \<open>a b\<close>.\<close>

fun cut :: "char \<Rightarrow> char \<Rightarrow> string \<Rightarrow> (string \<times> string) option" where
  "cut a b (x # y # s) =
     (if x = a \<and> y = b then Some ([], s)
      else map_option (\<lambda>(p, q). (x # p, q)) (cut a b (y # s)))"
| "cut a b s = None"

lemma cut_length: "cut a b s = Some (p, q) \<Longrightarrow> length q < length s"
  by (induction a b s arbitrary: p q rule: cut.induct) (fastforce split: if_splits)+

text \<open>
  The same function with an accumulator and no branching on open terms, as its code equation:
  evaluation inside the kernel is then linear in the length of the text.
\<close>

fun cut_from :: "bool \<Rightarrow> char \<Rightarrow> char \<Rightarrow> string \<Rightarrow> char \<Rightarrow> char \<Rightarrow> string \<Rightarrow>
    (string \<times> string) option"
where
  "cut_from True a b acc x y s = Some (rev acc, s)"
| "cut_from False a b acc x y [] = None"
| "cut_from False a b acc x y (z # s) = cut_from (y = a \<and> z = b) a b (x # acc) y z s"

lemma cut_from_eq:
  "cut_from (x = a \<and> y = b) a b acc x y s =
     map_option (\<lambda>(p, q). (rev acc @ p, q)) (cut a b (x # y # s))"
proof (induction s arbitrary: acc x y)
  case Nil
  then show ?case by (cases "x = a \<and> y = b") auto
next
  case (Cons z s)
  show ?case
  proof (cases "x = a \<and> y = b")
    case False
    then have "cut_from (x = a \<and> y = b) a b acc x y (z # s) =
        map_option (\<lambda>(p, q). (rev (x # acc) @ p, q)) (cut a b (y # z # s))"
      using Cons.IH [of y z "x # acc"] by (simp only: simp_thms cut_from.simps)
    also have "\<dots> = map_option (\<lambda>(p, q). (rev acc @ p, q)) (cut a b (x # y # z # s))"
      using False by (cases "cut a b (y # z # s)") auto
    finally show ?thesis .
  qed simp
qed

lemma cut_code [code]:
  "cut a b [] = None"
  "cut a b [x] = None"
  "cut a b (x # y # s) = cut_from (x = a \<and> y = b) a b [] x y s"
  by (simp, simp, subst cut_from_eq, cases "cut a b (x # y # s)", simp_all)

definition strip_left_marker :: "string \<Rightarrow> bool \<times> string" where
  "strip_left_marker s =
     (case s of m # b # _ \<Rightarrow> if m = CHR ''-'' \<and> blank b then (True, tl s) else (False, s)
      | _ \<Rightarrow> (False, s))"

definition strip_right_marker :: "string \<Rightarrow> bool \<times> string" where
  "strip_right_marker s =
     (case rev s of m # b # _ \<Rightarrow> if m = CHR ''-'' \<and> blank b then (True, butlast s) else (False, s)
      | _ \<Rightarrow> (False, s))"

function lex :: "bool \<Rightarrow> string \<Rightarrow> template_error + token list" where
  "lex trim s =
     (case cut (CHR ''{'') (CHR ''{'') s of
        None \<Rightarrow> Inr [Text (if trim then trim_left s else s)]
      | Some (lead, body) \<Rightarrow>
          (case cut (CHR ''}'') (CHR ''}'') body of
             None \<Rightarrow> Inl UnclosedAction
           | Some (inner, rest) \<Rightarrow>
               let (trim_before, inner1) = strip_left_marker inner;
                   (trim_after, inner2) = strip_right_marker inner1;
                   txt = (if trim then trim_left lead else lead);
                   txt = (if trim_before then trim_right txt else txt)
               in case lex trim_after rest of
                    Inl e \<Rightarrow> Inl e
                  | Inr toks \<Rightarrow> Inr (Text txt # Action (trim_right (trim_left inner2)) # toks)))"
  by pat_completeness auto
termination
  by (relation "measure (\<lambda>(t, s). length s)") (auto dest!: cut_length)

declare lex.simps [simp del]

section \<open>Parsing\<close>

datatype tnode =
    NText string
  | NField string
  | NIf string "tnode list"
  | NRange string "tnode list"

datatype opener = OpenIf string | OpenRange string

fun close_block :: "opener \<Rightarrow> tnode list \<Rightarrow> tnode" where
  "close_block (OpenIf f) ns = NIf f ns"
| "close_block (OpenRange f) ns = NRange f ns"

datatype action = AField string | AOpen opener | AEnd | AUnknown

definition name_char :: "char \<Rightarrow> bool" where
  "name_char c \<longleftrightarrow>
     c \<in> set ''_abcdefghijklmnopqrstuvwxyzABCDEFGHIJKLMNOPQRSTUVWXYZ0123456789''"

definition field_name :: "string \<Rightarrow> string option" where
  "field_name s =
     (case s of [] \<Rightarrow> None
      | d # n \<Rightarrow>
          if d = CHR ''.'' \<and> n \<noteq> [] \<and> hd n \<notin> set ''0123456789'' \<and> list_all name_char n
          then Some n else None)"

definition read_action :: "string \<Rightarrow> action" where
  "read_action s =
     (if s = ''end'' then AEnd
      else if take 3 s = ''if '' then
        (case field_name (trim_left (drop 3 s)) of Some f \<Rightarrow> AOpen (OpenIf f) | None \<Rightarrow> AUnknown)
      else if take 6 s = ''range '' then
        (case field_name (trim_left (drop 6 s)) of Some f \<Rightarrow> AOpen (OpenRange f) | None \<Rightarrow> AUnknown)
      else case field_name s of Some f \<Rightarrow> AField f | None \<Rightarrow> AUnknown)"

text \<open>
  The parser keeps the blocks that are open: for each, its opener and the nodes read before
  it, newest first.
\<close>

fun parse_tokens ::
  "(opener \<times> tnode list) list \<Rightarrow> tnode list \<Rightarrow> token list \<Rightarrow> template_error + tnode list"
where
  "parse_tokens [] acc [] = Inr (rev acc)"
| "parse_tokens (b # bs) acc [] = Inl UnclosedBlock"
| "parse_tokens bs acc (Text t # ts) = parse_tokens bs (if t = [] then acc else NText t # acc) ts"
| "parse_tokens bs acc (Action s # ts) =
     (case read_action s of
        AField f \<Rightarrow> parse_tokens bs (NField f # acc) ts
      | AOpen b \<Rightarrow> parse_tokens ((b, acc) # bs) [] ts
      | AEnd \<Rightarrow>
          (case bs of
             [] \<Rightarrow> Inl UnexpectedEnd
           | (b, outer) # bs' \<Rightarrow> parse_tokens bs' (close_block b (rev acc) # outer) ts)
      | AUnknown \<Rightarrow> Inl (UnknownAction s))"

definition parse_template :: "string \<Rightarrow> template_error + tnode list" where
  "parse_template tpl =
     (case lex False tpl of Inl e \<Rightarrow> Inl e | Inr toks \<Rightarrow> parse_tokens [] [] toks)"

section \<open>Execution\<close>

text \<open>
  Output is concatenated in order and the first error ends the execution. The body of a
  \<open>range\<close> runs once per visited value, with that value as the dot.
\<close>

definition append_output ::
  "template_error + string \<Rightarrow> template_error + string \<Rightarrow> template_error + string"
where
  "append_output a b =
     (case a of Inl e \<Rightarrow> Inl e
      | Inr x \<Rightarrow> (case b of Inl e \<Rightarrow> Inl e | Inr y \<Rightarrow> Inr (x @ y)))"

lemma append_output_simps [simp]:
  "append_output (Inl e) b = Inl e"
  "append_output (Inr x) (Inr y) = Inr (x @ y)"
  "append_output (Inr x) (Inl e) = Inl e"
  by (simp_all add: append_output_def)

lemma append_output_Nil [simp]: "append_output r (Inr []) = r"
  by (cases r) auto

fun exec_node :: "tnode \<Rightarrow> gvalue \<Rightarrow> template_error + string"
  and exec_nodes :: "tnode list \<Rightarrow> gvalue \<Rightarrow> template_error + string"
where
  "exec_node (NText t) dot = Inr t"
| "exec_node (NField f) dot =
     (case field_value dot f of Inl e \<Rightarrow> Inl e | Inr v \<Rightarrow> Inr (print_gvalue v))"
| "exec_node (NIf f body) dot =
     (case field_value dot f of Inl e \<Rightarrow> Inl e
      | Inr v \<Rightarrow> if truth v then exec_nodes body dot else Inr [])"
| "exec_node (NRange f body) dot =
     (case field_value dot f of Inl e \<Rightarrow> Inl e
      | Inr v \<Rightarrow>
          (case range_values v of Inl e \<Rightarrow> Inl e
           | Inr vs \<Rightarrow> foldr (\<lambda>d out. append_output (exec_nodes body d) out) vs (Inr [])))"
| "exec_nodes [] dot = Inr []"
| "exec_nodes (n # ns) dot = append_output (exec_node n dot) (exec_nodes ns dot)"

definition text_template :: "string \<Rightarrow> gvalue \<Rightarrow> template_error + string" where
  "text_template tpl data =
     (case parse_template tpl of Inl e \<Rightarrow> Inl e | Inr ns \<Rightarrow> exec_nodes ns data)"

lemma exec_nodes_append:
  "exec_nodes (ns @ ms) dot = append_output (exec_nodes ns dot) (exec_nodes ms dot)"
  by (induction ns) (auto simp: append_output_def split: sum.splits)

text \<open>A body that fails on every value fails as soon as the range visits one.\<close>

lemma range_fails:
  assumes "range_values v = Inr (d # ds)" and "field_value dot f = Inr v"
    and "exec_nodes body d = Inl e"
  shows "exec_node (NRange f body) dot = Inl e"
  using assms by simp

text \<open>
  The data of the operator's templates: a Go map whose values are strings, booleans, pointers to
  one of these, or maps from strings to strings.
\<close>

definition string_map :: "(string \<times> gvalue) list \<Rightarrow> bool" where
  "string_map m \<longleftrightarrow> distinct (map fst m) \<and> list_all (\<lambda>(k, v). \<exists>s. v = GoString s) m"

fun template_value :: "gvalue \<Rightarrow> bool" where
  "template_value (GoString s) = True"
| "template_value (GoBool b) = True"
| "template_value (GoPointer None) = True"
| "template_value (GoPointer (Some (GoString s))) = True"
| "template_value (GoPointer (Some (GoBool b))) = True"
| "template_value (GoMap m) = string_map m"
| "template_value v = False"

definition template_data :: "(string \<times> gvalue) list \<Rightarrow> bool" where
  "template_data m \<longleftrightarrow> distinct (map fst m) \<and> list_all (\<lambda>(k, v). template_value v) m"

lemma list_all_update:
  "list_all (\<lambda>(k, v). P v) m \<Longrightarrow> P v \<Longrightarrow> list_all (\<lambda>(k, v). P v) (AList.update k v m)"
  by (induction m) auto

lemma string_map_Nil [simp]: "string_map []"
  by (simp add: string_map_def)

lemma template_data_Nil [simp]: "template_data []"
  by (simp add: template_data_def)

lemma string_map_update: "string_map m \<Longrightarrow> string_map (AList.update k (GoString s) m)"
  unfolding string_map_def
  by (simp add: distinct_update list_all_update [where P = "\<lambda>v. \<exists>s. v = GoString s"])

lemma template_data_update:
  "template_data m \<Longrightarrow> template_value v \<Longrightarrow> template_data (AList.update k v m)"
  unfolding template_data_def by (simp add: distinct_update list_all_update)

lemma string_map_data: "string_map m \<Longrightarrow> template_data m"
  by (auto simp: string_map_def template_data_def list_all_iff split_beta)

text \<open>
  The contract of the support library's \<open>TemplateParser.Parse\<close>: it runs \<open>text/template\<close>, and
  reports an error, of its own wording, exactly when the execution does. It is asked only where the
  package is modelled: of templates that the parser above reads, on data of the kind above. Nothing
  is asked of any other template.
\<close>

definition runs_text_template :: "(string \<Rightarrow> gvalue \<Rightarrow> go_error + string) \<Rightarrow> bool" where
  "runs_text_template parse \<longleftrightarrow>
     (\<forall>tpl nodes data. parse_template tpl = Inr nodes \<longrightarrow> template_data data \<longrightarrow>
        (case exec_nodes nodes (GoMap data) of
           Inr out \<Rightarrow> parse tpl (GoMap data) = Inr out
         | Inl _ \<Rightarrow> \<exists>e. parse tpl (GoMap data) = Inl e))"

lemma runs_text_templateD:
  assumes "runs_text_template parse" and "parse_template tpl = Inr nodes" and "template_data data"
  shows "exec_nodes nodes (GoMap data) = Inr out \<Longrightarrow> parse tpl (GoMap data) = Inr out"
    and "exec_nodes nodes (GoMap data) = Inl e \<Longrightarrow> \<exists>e'. parse tpl (GoMap data) = Inl e'"
proof -
  note at = assms(1) [unfolded runs_text_template_def, rule_format, OF assms(2,3)]
  from at show "exec_nodes nodes (GoMap data) = Inr out \<Longrightarrow> parse tpl (GoMap data) = Inr out"
    by simp
  from at show "exec_nodes nodes (GoMap data) = Inl e \<Longrightarrow> \<exists>e'. parse tpl (GoMap data) = Inl e'"
    by simp
qed

definition plain_text_template :: "string \<Rightarrow> gvalue \<Rightarrow> go_error + string" where
  "plain_text_template tpl data =
     (case text_template tpl data of Inl _ \<Rightarrow> Inl (LibraryError ''template'') | Inr out \<Rightarrow> Inr out)"

lemma runs_plain_text_template: "runs_text_template plain_text_template"
  by (auto simp: runs_text_template_def plain_text_template_def text_template_def split: sum.splits)

end
