(* ===== verification/Library.thy ===== *)
theory Library
  imports ApiTypes GoTemplate
begin

text \<open>
  The boundary to code outside the repository: the support library \<open>operator-go\<close>, the
  controller runtime and the cluster's API server. A library object is described by the
  arguments it was built with and the calls made on it, in order; what the operator reads back
  from the library is a field of \<open>operator_lib\<close>, a parameter of every definition that uses it.
  The named hypotheses at the end state the documented behaviour some theorems rely on.
\<close>

section \<open>Objects handed to the library\<close>

record GVK =
  gvk_Group :: string
  gvk_Version :: string
  gvk_Kind :: string

record ClusterInfo =
  ci_GVK :: GVK
  ci_ClusterName :: string

record RoleInfo =
  ri_ClusterInfo :: ClusterInfo
  ri_RoleName :: string

record RoleGroupInfo =
  rgi_RoleInfo :: RoleInfo
  rgi_RoleGroupName :: string

text \<open>
  Label and annotation maps live in a store, because the code updates one of them through the
  reference the library hands out. \<open>None\<close> is the nil map.
\<close>

type_synonym map_ref = nat
type_synonym go_map = "(string \<times> string) list"
type_synonym map_store = "map_ref \<Rightarrow> go_map option"

text \<open>The fields an option function of the operator sets on \<open>builder.Options\<close>.\<close>

record BuilderOptions =
  o_ClusterName :: string
  o_RoleName :: string
  o_RoleGroupName :: string
  o_Labels :: "map_ref option"
  o_Annotations :: "map_ref option"

text \<open>
  \<open>util.NewImage\<close> with its arguments, the fields its option function sets, and the version
  written into the image afterwards, if one is.
\<close>

record Image =
  im_ProductName :: string
  im_BuildVersion :: string
  im_ProductVersion :: string
  im_Custom :: string
  im_Repo :: string
  im_PullPolicy :: string
  im_KubedoopVersion :: "string option"

text \<open>A container builder: \<open>NewContainer(name, image)\<close> and the calls made on it.\<close>

datatype container_call =
    SetCommand "string list"
  | SetArgs "string list"
  | AddEnvVars "EnvVar list"
  | AddVolumeMounts "VolumeMount list"

record ContainerBuilder =
  cb_Name :: string
  cb_Image :: Image
  cb_Calls :: "container_call list"

definition NewContainer :: "string \<Rightarrow> Image \<Rightarrow> ContainerBuilder" where
  "NewContainer name img = \<lparr>cb_Name = name, cb_Image = img, cb_Calls = []\<rparr>"

definition container_do :: "container_call \<Rightarrow> ContainerBuilder \<Rightarrow> ContainerBuilder" where
  "container_do c b = b\<lparr>cb_Calls := cb_Calls b @ [c]\<rparr>"

text \<open>
  The library's stateful set builder: the arguments of \<open>NewStatefulSetBuilder\<close> and the calls
  made on it. A container is one built from a container builder of the operator, or the
  library's log shipper.
\<close>

datatype container =
    BuiltContainer ContainerBuilder
  | VectorContainer string string Image

datatype builder_call =
    AddContainer container
  | AddVolumes "Volume list"

record 'x StatefulSetBase =
  sb_Name :: string
  sb_Replicas :: "32 word option"
  sb_Image :: Image
  sb_Overrides :: "'x option"
  sb_RoleGroupConfig :: "'x RoleGroupConfigSpec option"
  sb_Options :: BuilderOptions
  sb_Calls :: "builder_call list"

definition base_do :: "builder_call \<Rightarrow> 'x StatefulSetBase \<Rightarrow> 'x StatefulSetBase" where
  "base_do c b = b\<lparr>sb_Calls := sb_Calls b @ [c]\<rparr>"

text \<open>The library's config map builder.\<close>

record ConfigMapBase =
  cmb_Name :: string
  cmb_Options :: BuilderOptions
  cmb_Items :: "(string \<times> string) list"

definition AddItem :: "string \<Rightarrow> string \<Rightarrow> ConfigMapBase \<Rightarrow> ConfigMapBase" where
  "AddItem k v b = b\<lparr>cmb_Items := cmb_Items b @ [(k, v)]\<rparr>"

text \<open>
  \<open>properties.Properties\<close> by the sequence of its \<open>Add\<close> calls.
\<close>

type_synonym Properties = "(string \<times> string) list"

section \<open>What the operator reads from the library\<close>

record 'x operator_lib =
  KubedoopRoot :: string
  KubedoopConfigDirMount :: string
  KubedoopLogDir :: string
  KubedoopSecretDir :: string
  VectorShutdownFile :: string
  VectorWatcherDir :: string
  ServiceScope :: string
  IndentTab4Spaces :: "string \<Rightarrow> string"
  TemplateParse :: "string \<Rightarrow> gvalue \<Rightarrow> go_error + string"
  PropertiesKeys :: "Properties \<Rightarrow> string list"
  PropertiesGet :: "Properties \<Rightarrow> string \<Rightarrow> string"
  GetAuthenticationClass :: "string \<Rightarrow> api_error + AuthenticationClass"
  OwnerNamespace :: string
  MakeVectorYaml :: "string \<Rightarrow> string \<Rightarrow> string \<Rightarrow> string \<Rightarrow> string \<Rightarrow> go_error + string"
  GetFullName :: "RoleGroupInfo \<Rightarrow> string"
  GetLabels :: "RoleGroupInfo \<Rightarrow> map_store \<Rightarrow> map_ref option \<times> map_store"
  GetAnnotations :: "RoleGroupInfo \<Rightarrow> map_store \<Rightarrow> map_ref option \<times> map_store"
  MergeConfig :: "'x ConfigSpec option \<Rightarrow> 'x ConfigSpec option \<Rightarrow> go_error + 'x ConfigSpec option"
  MergeOverrides :: "'x option \<Rightarrow> 'x option \<Rightarrow> go_error + 'x option"
  IsStopped :: "'x option \<Rightarrow> bool"
  StatefulSetObject :: "'x StatefulSetBase \<Rightarrow> go_error + 'x"
  StatefulSetVolumes :: "'x StatefulSetBase \<Rightarrow> Volume list"
  ConfigMapObject :: "ConfigMapBase \<Rightarrow> 'x"
  BuildVersion :: string

text \<open>
  \<open>Get(k)\<close> returns the last value added for \<open>k\<close>, and \<open>Keys()\<close> lists the keys that were
  added, in some order.
\<close>

definition properties_ok :: "'x operator_lib \<Rightarrow> bool" where
  "properties_ok L \<longleftrightarrow>
     (\<forall>ps. set (PropertiesKeys L ps) = fst ` set ps) \<and>
     (\<forall>ps k v. PropertiesGet L (ps @ [(k, v)]) k = v) \<and>
     (\<forall>ps k k' v. k' \<noteq> k \<longrightarrow> PropertiesGet L (ps @ [(k, v)]) k' = PropertiesGet L ps k')"

text \<open>The parser runs \<open>text/template\<close> on the templates and data \<open>GoTemplate\<close> models, and may do anything else on others.\<close>

definition template_ok :: "'x operator_lib \<Rightarrow> bool" where
  "template_ok L \<longleftrightarrow> runs_text_template (TemplateParse L)"

text \<open>The directories of the product image are absolute paths below the root.\<close>

definition paths_ok :: "'x operator_lib \<Rightarrow> bool" where
  "paths_ok L \<longleftrightarrow> KubedoopRoot L \<noteq> [] \<and> hd (KubedoopRoot L) = CHR ''/''"

lemma PropertiesGet_rev:
  assumes "properties_ok L" and "k \<in> fst ` set ps"
  shows "PropertiesGet L ps k = the (map_of (rev ps) k)"
  using assms(2)
proof (induction ps rule: rev_induct)
  case (snoc p ps)
  obtain k' v where p: "p = (k', v)" by (cases p)
  show ?case
  proof (cases "k = k'")
    case True
    then show ?thesis using assms(1) by (simp add: p properties_ok_def)
  next
    case False
    then have "PropertiesGet L (ps @ [p]) k = PropertiesGet L ps k"
      using assms(1) by (simp add: p properties_ok_def)
    then show ?thesis using snoc False by (simp add: p)
  qed
qed simp

section \<open>A concrete library\<close>

text \<open>
  An instance for closed statements: the simplest behaviour that meets the hypotheses. Its
  cluster holds no authentication class, its maps are copied into fresh cells.
\<close>

definition last_added :: "Properties \<Rightarrow> string \<Rightarrow> string" where
  "last_added ps k = (case map_of (rev ps) k of None \<Rightarrow> [] | Some v \<Rightarrow> v)"

definition sample_lib :: "nat operator_lib" where
  "sample_lib = \<lparr>
     KubedoopRoot = ''/kubedoop'',
     KubedoopConfigDirMount = ''/kubedoop/mount/config'',
     KubedoopLogDir = ''/kubedoop/log'',
     KubedoopSecretDir = ''/kubedoop/secret'',
     VectorShutdownFile = ''/kubedoop/log/_vector/shutdown'',
     VectorWatcherDir = ''/kubedoop/log/_vector'',
     ServiceScope = ''service'',
     IndentTab4Spaces = (\<lambda>s. s),
     TemplateParse = plain_text_template,
     PropertiesKeys = (\<lambda>ps. remdups (map fst ps)),
     PropertiesGet = last_added,
     GetAuthenticationClass = (\<lambda>n. Inl (ApiNotFound n)),
     OwnerNamespace = ''default'',
     MakeVectorYaml = (\<lambda>ns c r g m. Inr ''sources: {}''),
     GetFullName = (\<lambda>i. ci_ClusterName (ri_ClusterInfo (rgi_RoleInfo i)) @ ''-'' @
        ri_RoleName (rgi_RoleInfo i) @ ''-'' @ rgi_RoleGroupName i),
     GetLabels = (\<lambda>i s. (Some 0, s)),
     GetAnnotations = (\<lambda>i s. (Some 1, s)),
     MergeConfig = (\<lambda>a b. Inr (case b of None \<Rightarrow> a | Some c \<Rightarrow> Some c)),
     MergeOverrides = (\<lambda>a b. Inr (case b of None \<Rightarrow> a | Some c \<Rightarrow> Some c)),
     IsStopped = (\<lambda>c. False),
     StatefulSetObject = (\<lambda>b. Inr (length (sb_Calls b))),
     StatefulSetVolumes = (\<lambda>b. concat (map (\<lambda>c. case c of AddVolumes vs \<Rightarrow> vs | _ \<Rightarrow> []) (sb_Calls b))),
     ConfigMapObject = (\<lambda>b. length (cmb_Items b)),
     BuildVersion = ''N/A''\<rparr>"

lemma properties_ok_sample_lib: "properties_ok sample_lib"
  by (auto simp: properties_ok_def sample_lib_def last_added_def)

lemma template_ok_sample_lib: "template_ok sample_lib"
  by (simp add: template_ok_def sample_lib_def runs_plain_text_template)

lemma paths_ok_sample_lib: "paths_ok sample_lib"
  by (simp add: paths_ok_def sample_lib_def)

end
