(* ===== verification/GoPath.thy ===== *)
theory GoPath
  imports Prelude
begin

text \<open>
  The two functions of Go's standard library package \<open>path\<close> the operator builds its file names
  with: \<open>path.Clean\<close> (purely lexical) and \<open>path.Join\<close>. A path is read component by component
  against a stack; the lemmas give its normal form, that cleaning is idempotent, and when a
  joined path stays below the directory it starts in.
\<close>

fun split_slash :: "string \<Rightarrow> string list" where
  "split_slash [] = [[]]"
| "split_slash (c # cs) =
     (if c = CHR ''/'' then [] # split_slash cs
      else case split_slash cs of [] \<Rightarrow> [[c]] | w # ws \<Rightarrow> (c # w) # ws)"

definition clean_step :: "bool \<Rightarrow> string list \<Rightarrow> string \<Rightarrow> string list" where
  "clean_step rooted stack w =
     (if w = [] \<or> w = ''.'' then stack
      else if w = ''..'' then
        (case stack of
           v # vs \<Rightarrow> if v = ''..'' then w # stack else vs
         | [] \<Rightarrow> if rooted then [] else [w])
      else w # stack)"

definition path_stack :: "bool \<Rightarrow> string list \<Rightarrow> string \<Rightarrow> string list" where
  "path_stack rooted stack p = foldl (clean_step rooted) stack (split_slash p)"

definition is_rooted :: "string \<Rightarrow> bool" where
  "is_rooted p = (case p of [] \<Rightarrow> False | c # _ \<Rightarrow> c = CHR ''/'')"

definition path_Clean :: "string \<Rightarrow> string" where
  "path_Clean p =
     (let body = strings_Join (rev (path_stack (is_rooted p) [] p)) ''/''
      in if is_rooted p then CHR ''/'' # body else if body = [] then ''.'' else body)"

text \<open>
  \<open>path.Join\<close> concatenates its arguments with slashes, dropping the leading empty ones, and
  cleans the result; it is empty when every argument is.
\<close>

fun join_buffer :: "string \<Rightarrow> string list \<Rightarrow> string" where
  "join_buffer buf [] = buf"
| "join_buffer buf (e # es) =
     (if buf \<noteq> [] then join_buffer (buf @ ''/'' @ e) es else join_buffer e es)"

definition path_Join :: "string list \<Rightarrow> string" where
  "path_Join es = (if concat es = [] then [] else path_Clean (join_buffer [] es))"

section \<open>Components\<close>

lemma split_slash_not_Nil [simp]: "split_slash p \<noteq> []"
  by (induction p) (auto split: list.splits)

lemma split_slash_append:
  "split_slash (p @ CHR ''/'' # q) = split_slash p @ split_slash q"
  by (induction p) (auto split: list.splits)

lemma split_slash_plain: "CHR ''/'' \<notin> set w \<Longrightarrow> split_slash w = [w]"
  by (induction w) auto

lemma split_slash_components: "w \<in> set (split_slash p) \<Longrightarrow> CHR ''/'' \<notin> set w"
proof (induction p arbitrary: w)
  case (Cons c cs)
  then show ?case
    by (cases "split_slash cs") (auto split: if_splits)
qed simp

lemma split_slash_strings_Join:
  "ws \<noteq> [] \<Longrightarrow> \<forall>w \<in> set ws. CHR ''/'' \<notin> set w \<Longrightarrow>
   split_slash (strings_Join ws ''/'') = ws"
proof (induction ws rule: induct_list012)
  case (3 x y zs)
  then show ?case by (simp add: split_slash_append split_slash_plain)
qed (simp_all add: split_slash_plain)

text \<open>The names a cleaned path is made of, and the shape of a cleaned stack.\<close>

definition plain :: "string \<Rightarrow> bool" where
  "plain w \<longleftrightarrow> w \<noteq> [] \<and> w \<noteq> ''.'' \<and> w \<noteq> ''..'' \<and> CHR ''/'' \<notin> set w"

definition stack_ok :: "bool \<Rightarrow> string list \<Rightarrow> bool" where
  "stack_ok rooted stack \<longleftrightarrow>
     (\<exists>ups names. stack = names @ ups \<and> (\<forall>w \<in> set names. plain w) \<and>
        set ups \<subseteq> {''..''} \<and> (rooted \<longrightarrow> ups = []))"

lemma stack_ok_Nil [simp]: "stack_ok rooted []"
  by (simp add: stack_ok_def)

lemma clean_step_ok:
  assumes "stack_ok rooted stack" and "CHR ''/'' \<notin> set w"
  shows "stack_ok rooted (clean_step rooted stack w)"
proof -
  obtain ups names where stack: "stack = names @ ups" and names: "\<forall>v \<in> set names. plain v"
    and ups: "set ups \<subseteq> {''..''}" and r: "rooted \<longrightarrow> ups = []"
    using assms(1) by (auto simp: stack_ok_def)
  consider "w = [] \<or> w = ''.''" | "w = ''..''" | "plain w"
    using assms(2) by (auto simp: plain_def)
  then show ?thesis
  proof cases
    case 1
    then show ?thesis using assms(1) by (auto simp: clean_step_def)
  next
    case 2
    show ?thesis
    proof (cases names)
      case Nil
      with stack ups r 2 show ?thesis
        unfolding stack_ok_def
        by (intro exI [of _ "clean_step rooted stack w"] exI [of _ "[]"])
          (auto simp: clean_step_def split: list.splits)
    next
      case (Cons v vs)
      then have "clean_step rooted stack w = vs @ ups"
        using 2 stack names by (auto simp: clean_step_def plain_def)
      then show ?thesis using names ups r Cons by (auto simp: stack_ok_def)
    qed
  next
    case 3
    then have "clean_step rooted stack w = (w # names) @ ups"
      using stack by (auto simp: clean_step_def plain_def)
    moreover have "\<forall>v \<in> set (w # names). plain v"
      using 3 names by simp
    ultimately show ?thesis
      unfolding stack_ok_def using ups r by blast
  qed
qed

lemma foldl_clean_step_ok:
  "stack_ok rooted stack \<Longrightarrow> \<forall>w \<in> set ws. CHR ''/'' \<notin> set w \<Longrightarrow>
   stack_ok rooted (foldl (clean_step rooted) stack ws)"
  by (induction ws arbitrary: stack) (auto intro: clean_step_ok)

lemma path_stack_ok: "stack_ok rooted (path_stack rooted [] p)"
  unfolding path_stack_def
  by (rule foldl_clean_step_ok) (auto dest: split_slash_components)

text \<open>Reading the components of a cleaned stack again changes nothing.\<close>

lemma foldl_clean_step_plain:
  "''..'' \<notin> set ws \<Longrightarrow>
   foldl (clean_step rooted) stack ws = rev (filter (\<lambda>w. w \<noteq> [] \<and> w \<noteq> ''.'') ws) @ stack"
  by (induction ws arbitrary: stack) (auto simp: clean_step_def)

lemma foldl_clean_step_ups:
  "set ws \<subseteq> {''..''} \<Longrightarrow> set stack \<subseteq> {''..''} \<Longrightarrow>
   foldl (clean_step False) stack ws = rev ws @ stack"
proof (induction ws arbitrary: stack)
  case (Cons w ws)
  then have w: "w = ''..''" by simp
  with Cons.prems(2) have "clean_step False stack w = w # stack"
    by (cases stack) (simp_all add: clean_step_def)
  moreover have "set (w # stack) \<subseteq> {''..''}"
    using w Cons.prems(2) by simp
  ultimately show ?case
    using Cons.IH [of "w # stack"] Cons.prems(1) by simp
qed simp

lemma foldl_clean_step_rev:
  assumes "stack_ok rooted stack"
  shows "foldl (clean_step rooted) [] (rev stack) = stack"
proof -
  obtain ups names where stack: "stack = names @ ups" and names: "\<forall>v \<in> set names. plain v"
    and ups: "set ups \<subseteq> {''..''}" and r: "rooted \<longrightarrow> ups = []"
    using assms by (auto simp: stack_ok_def)
  have "foldl (clean_step rooted) [] (rev ups) = ups"
    using foldl_clean_step_ups [of "rev ups" "[]"] ups r by (cases rooted) auto
  moreover have "filter (\<lambda>w. w \<noteq> [] \<and> w \<noteq> ''.'') (rev names) = rev names"
    using names by (auto simp: filter_id_conv plain_def)
  moreover have "''..'' \<notin> set (rev names)"
    using names by (auto simp: plain_def)
  ultimately show ?thesis
    by (simp add: stack foldl_clean_step_plain)
qed

section \<open>Cleaning\<close>

lemma path_stack_Cons_slash: "path_stack rooted stack (CHR ''/'' # p) = path_stack rooted stack p"
  by (simp add: path_stack_def clean_step_def)

lemma path_stack_append:
  "path_stack rooted stack (p @ CHR ''/'' # q) = path_stack rooted (path_stack rooted stack p) q"
  by (simp add: path_stack_def split_slash_append)

lemma stack_ok_component:
  assumes "stack_ok rooted stack" and "w \<in> set stack"
  shows "CHR ''/'' \<notin> set w \<and> w \<noteq> []"
proof -
  obtain ups names where "stack = names @ ups" and "\<forall>v \<in> set names. plain v"
    and "set ups \<subseteq> {''..''}"
    using assms(1) by (auto simp: stack_ok_def)
  with assms(2) consider "plain w" | "w = ''..''" by auto
  then show ?thesis by cases (simp_all add: plain_def)
qed

lemmas stack_ok_no_slash = stack_ok_component [THEN conjunct1]

lemma path_stack_join:
  assumes "stack_ok rooted stack"
  shows "path_stack rooted [] (strings_Join (rev stack) ''/'') = stack"
proof (cases "stack = []")
  case True
  then show ?thesis by (simp add: path_stack_def clean_step_def)
next
  case False
  then have "split_slash (strings_Join (rev stack) ''/'') = rev stack"
    using assms by (intro split_slash_strings_Join) (auto dest: stack_ok_no_slash)
  then show ?thesis
    using assms by (simp add: path_stack_def foldl_clean_step_rev)
qed

lemma not_rooted_append: "w \<noteq> [] \<Longrightarrow> CHR ''/'' \<notin> set w \<Longrightarrow> \<not> is_rooted (w @ q)"
  by (cases w) (auto simp: is_rooted_def)

lemma not_rooted_join:
  assumes "stack_ok rooted stack"
  shows "\<not> is_rooted (strings_Join (rev stack) ''/'')"
proof (cases "rev stack")
  case Nil
  then show ?thesis by (simp add: is_rooted_def)
next
  case (Cons w ws)
  then have "w \<in> set stack" by (metis list.set_intros(1) set_rev)
  with assms have w: "CHR ''/'' \<notin> set w" "w \<noteq> []"
    by (auto dest: stack_ok_component)
  show ?thesis
    unfolding Cons using not_rooted_append [OF w(2,1)] not_rooted_append [OF w(2,1), of "[]"]
    by (simp add: strings_Join_Cons)
qed

lemma path_Clean_rooted: "is_rooted p \<Longrightarrow> is_rooted (path_Clean p)"
  by (simp add: path_Clean_def is_rooted_def Let_def)

lemma is_rooted_append [simp]: "is_rooted p \<Longrightarrow> is_rooted (p @ q)"
  by (cases p) (auto simp: is_rooted_def)

theorem path_Clean_idempotent: "path_Clean (path_Clean p) = path_Clean p"
proof (cases "is_rooted p")
  case True
  define stack where "stack = path_stack True [] p"
  have "path_Clean p = CHR ''/'' # strings_Join (rev stack) ''/''"
    using True by (simp add: path_Clean_def stack_def)
  moreover have "path_stack True [] (strings_Join (rev stack) ''/'') = stack"
    unfolding stack_def by (intro path_stack_join path_stack_ok)
  ultimately show ?thesis
    by (simp add: path_Clean_def is_rooted_def path_stack_Cons_slash)
next
  case False
  define stack where "stack = path_stack False [] p"
  define body where "body = strings_Join (rev stack) ''/''"
  have ok: "stack_ok False stack"
    unfolding stack_def by (rule path_stack_ok)
  have clean: "path_Clean p = (if body = [] then ''.'' else body)"
    using False by (simp add: path_Clean_def stack_def body_def)
  have "path_stack False [] body = stack" and "\<not> is_rooted body"
    using path_stack_join [OF ok] not_rooted_join [OF ok] by (simp_all add: body_def)
  then have "path_Clean body = (if body = [] then ''.'' else body)"
    by (simp add: path_Clean_def body_def)
  moreover have "path_Clean ''.'' = ''.''"
    by (simp add: path_Clean_def path_stack_def clean_step_def is_rooted_def)
  ultimately show ?thesis by (simp add: clean)
qed

section \<open>Joining below a directory\<close>

text \<open>
  The components an absolute path consists of; joining adds the components of the second
  path to those of the first.
\<close>

definition components :: "string \<Rightarrow> string list" where
  "components p = rev (path_stack True [] p)"

definition absolute_path :: "string list \<Rightarrow> string" where
  "absolute_path ws = CHR ''/'' # strings_Join ws ''/''"

lemma path_Clean_absolute: "is_rooted p \<Longrightarrow> path_Clean p = absolute_path (components p)"
  by (simp add: path_Clean_def components_def absolute_path_def)

lemma join_two:
  assumes "is_rooted p"
  shows "path_Join [p, q] = absolute_path (rev (path_stack True (rev (components p)) q))"
proof -
  have "p \<noteq> []" using assms by (auto simp: is_rooted_def)
  then show ?thesis
    using assms
    by (simp add: path_Join_def path_Clean_absolute components_def path_stack_append)
qed

lemma components_absolute_path:
  assumes "\<And>w. w \<in> set ws \<Longrightarrow> plain w"
  shows "components (absolute_path ws) = ws"
proof -
  have "stack_ok True (rev ws)"
    unfolding stack_ok_def using assms by (intro exI [of _ "[]"] exI [of _ "rev ws"]) auto
  from path_stack_join [OF this] show ?thesis
    by (simp add: components_def absolute_path_def path_stack_Cons_slash)
qed

lemma components_plain: "w \<in> set (components p) \<Longrightarrow> plain w"
  using path_stack_ok [of True p] by (auto simp: components_def stack_ok_def)

lemma components_path_Clean: "is_rooted p \<Longrightarrow> components (path_Clean p) = components p"
  by (simp add: path_Clean_absolute components_absolute_path components_plain)

text \<open>Without a \<open>..\<close> the second path only adds components.\<close>

lemma path_stack_without_up:
  assumes "''..'' \<notin> set (split_slash q)"
  shows "path_stack True stack q =
    rev (filter (\<lambda>w. w \<noteq> [] \<and> w \<noteq> ''.'') (split_slash q)) @ stack"
  unfolding path_stack_def using assms by (intro foldl_clean_step_plain) auto

definition path_names :: "string \<Rightarrow> string list" where
  "path_names q = filter (\<lambda>w. w \<noteq> [] \<and> w \<noteq> ''.'') (split_slash q)"

lemma path_names_plain:
  "''..'' \<notin> set (split_slash q) \<Longrightarrow> list_all plain (path_names q)"
  by (auto simp: path_names_def plain_def list_all_iff dest: split_slash_components)

lemma join_below:
  assumes "is_rooted p" and "''..'' \<notin> set (split_slash q)"
  shows "path_Join [p, q] = absolute_path (components p @ path_names q)"
  by (simp add: join_two path_stack_without_up path_names_def assms)

lemma components_join_below:
  assumes "is_rooted p" and "''..'' \<notin> set (split_slash q)"
  shows "components (path_Join [p, q]) = components p @ path_names q"
  unfolding join_below [OF assms]
  using path_names_plain [OF assms(2)]
  by (intro components_absolute_path) (auto simp: list_all_iff dest: components_plain)

lemma split_slash_absolute_path:
  assumes "ws \<noteq> []" and "list_all plain ws"
  shows "split_slash (absolute_path ws) = [] # ws"
proof -
  have "\<forall>w \<in> set ws. CHR ''/'' \<notin> set w" using assms(2) by (simp add: list_all_iff plain_def)
  from split_slash_strings_Join [OF assms(1) this] show ?thesis by (simp add: absolute_path_def)
qed

text \<open>A single name is appended after a slash, below any directory but the root itself.\<close>

lemma path_Join_clean: "path_Clean (path_Join es) = path_Join es \<or> path_Join es = []"
  by (simp add: path_Join_def path_Clean_idempotent)

lemma is_rooted_path_Join2: "is_rooted p \<Longrightarrow> is_rooted (path_Join [p, q])"
  by (simp add: join_two absolute_path_def is_rooted_def)

lemma path_Join_name:
  assumes "is_rooted p" and "path_Clean p = p" and "p \<noteq> ''/''" and "plain w"
  shows "path_Join [p, w] = p @ CHR ''/'' # w"
proof -
  have p: "p = absolute_path (components p)"
    using assms(1,2) by (simp add: path_Clean_absolute)
  have ne: "components p \<noteq> []"
    using p assms(3) by (auto simp: absolute_path_def)
  have w: "split_slash w = [w]" "filter (\<lambda>v. v \<noteq> [] \<and> v \<noteq> ''.'') [w] = [w]" "''..'' \<noteq> w"
    using assms(4) by (auto simp: plain_def split_slash_plain)
  have "path_stack True (rev (components p)) w = w # rev (components p)"
    using w by (subst path_stack_without_up) simp_all
  then have "path_Join [p, w] = absolute_path (components p @ [w])"
    using assms(1) by (simp add: join_two)
  also have "\<dots> = absolute_path (components p) @ CHR ''/'' # w"
    using ne by (simp add: absolute_path_def strings_Join_append)
  finally show ?thesis by (simp flip: p)
qed

text \<open>Joining three elements is joining twice.\<close>

lemma path_Join_three:
  assumes "is_rooted p"
  shows "path_Join [p, x, y] = path_Join [path_Join [p, x], y]"
proof -
  have "p \<noteq> []" using assms by (auto simp: is_rooted_def)
  then have "path_Join [p, x, y] = path_Clean (p @ CHR ''/'' # x @ CHR ''/'' # y)"
    by (simp add: path_Join_def)
  also have "\<dots> = absolute_path (rev (path_stack True (path_stack True (rev (components p)) x) y))"
    using assms by (simp add: path_Clean_absolute components_def path_stack_append)
  also have "\<dots> = path_Join [path_Join [p, x], y]"
  proof -
    have join: "path_Join [p, x] = absolute_path (components (p @ CHR ''/'' # x))"
      by (simp add: join_two [OF assms] components_def path_stack_append)
    have "components (path_Join [p, x]) = components (p @ CHR ''/'' # x)"
      unfolding join by (rule components_absolute_path) (rule components_plain)
    then show ?thesis
      by (simp add: join_two is_rooted_path_Join2 [OF assms])
        (simp add: components_def path_stack_append)
  qed
  finally show ?thesis .
qed

end
