(* ===== verification/GoUrl.thy ===== *)
theory GoUrl
  imports Prelude
begin

text \<open>
  The part of Go's \<open>net/url\<close> behind \<open>(url.URL{Scheme, Host, Path}).String()\<close>: which bytes of a
  host and of a path are percent-encoded, and how the pieces are put together. The lemmas show
  that encoding loses nothing, so that two different hosts give two different URLs.
\<close>

datatype url_part = EncodeHost | EncodePath

definition alnum :: "char \<Rightarrow> bool" where
  "alnum c \<longleftrightarrow>
     c \<in> set ''abcdefghijklmnopqrstuvwxyzABCDEFGHIJKLMNOPQRSTUVWXYZ0123456789''"

definition should_escape :: "url_part \<Rightarrow> char \<Rightarrow> bool" where
  \<open>should_escape part c =
     (if alnum c then False
      else if part = EncodeHost \<and> (c = CHR 0x27 \<or> c \<in> set ''!$&()*+,;=:[]<>"'') then False
      else if c \<in> set ''-_.~'' then False
      else if c \<in> set ''$&+,/:;=?@'' \<and> part = EncodePath then c = CHR ''?''
      else True)\<close>

definition hex_upper :: "nat \<Rightarrow> char" where
  "hex_upper d = ''0123456789ABCDEF'' ! d"

definition percent_encode :: "char \<Rightarrow> string" where
  "percent_encode c =
     [CHR ''%'', hex_upper (of_char c div 16), hex_upper (of_char c mod 16)]"

fun url_escape :: "url_part \<Rightarrow> string \<Rightarrow> string" where
  "url_escape part [] = []"
| "url_escape part (c # cs) =
     (if should_escape part c then percent_encode c else [c]) @ url_escape part cs"

record URL =
  url_Scheme :: string
  url_Host :: string
  url_Path :: string

definition escaped_path :: "string \<Rightarrow> string" where
  "escaped_path p = (if p = ''*'' then ''*'' else url_escape EncodePath p)"

text \<open>
  \<open>String\<close> for a URL with a scheme and no user, query or fragment, which is the only kind the
  operator builds.
\<close>

definition URL_String :: "URL \<Rightarrow> string" where
  "URL_String u =
     url_Scheme u @ '':'' @
     (if url_Host u \<noteq> [] \<or> url_Path u \<noteq> [] then ''//'' else []) @
     url_escape EncodeHost (url_Host u) @
     (let path = escaped_path (url_Path u)
      in if path \<noteq> [] \<and> hd path \<noteq> CHR ''/'' \<and> url_Host u \<noteq> [] then CHR ''/'' # path else path)"

section \<open>Encoding is injective\<close>

lemma hex_upper_inject:
  assumes "a < 16" and "b < 16" and "hex_upper a = hex_upper b"
  shows "a = b"
proof -
  have "distinct ''0123456789ABCDEF''" by simp
  moreover have "a < length ''0123456789ABCDEF''" "b < length ''0123456789ABCDEF''"
    using assms(1,2) by simp_all
  ultimately show ?thesis
    using assms(3) unfolding hex_upper_def by (simp only: nth_eq_iff_index_eq)
qed

lemma percent_encode_inject [simp]: "percent_encode a = percent_encode b \<longleftrightarrow> a = b"
proof
  assume eq: "percent_encode a = percent_encode b"
  let ?a = "of_char a :: nat" and ?b = "of_char b :: nat"
  have "?a < 16 * 16" "?b < 16 * 16" by simp_all
  then have "?a div 16 < 16" "?b div 16 < 16" by (simp_all only: less_mult_imp_div_less)
  then have "?a div 16 = ?b div 16"
    using eq by (intro hex_upper_inject) (simp_all add: percent_encode_def)
  moreover have "?a mod 16 = ?b mod 16"
    using eq by (intro hex_upper_inject) (simp_all add: percent_encode_def)
  ultimately have "?a = ?b" by (metis div_mult_mod_eq)
  then show "a = b" by simp
qed simp

lemma percent_is_escaped: "should_escape part (CHR ''%'')"
  by (simp add: should_escape_def alnum_def)

lemma url_escape_inject: "url_escape part s = url_escape part t \<Longrightarrow> s = t"
proof (induction s arbitrary: t)
  case Nil
  then show ?case by (cases t) (auto simp: percent_encode_def split: if_splits)
next
  case (Cons c cs)
  then obtain d ds where t: "t = d # ds"
    by (cases t) (auto simp: percent_encode_def split: if_splits)
  have len: "length (percent_encode x) = length (percent_encode y)" for x y
    by (simp add: percent_encode_def)
  have "c = d \<and> url_escape part cs = url_escape part ds"
  proof (cases "should_escape part c"; cases "should_escape part d")
    assume "should_escape part c" "should_escape part d"
    then show ?thesis using Cons.prems len [of c d] by (auto simp: t)
  next
    assume "should_escape part c" "\<not> should_escape part d"
    then show ?thesis
      using Cons.prems percent_is_escaped by (auto simp: t percent_encode_def)
  next
    assume "\<not> should_escape part c" "should_escape part d"
    then show ?thesis
      using Cons.prems percent_is_escaped by (auto simp: t percent_encode_def)
  next
    assume "\<not> should_escape part c" "\<not> should_escape part d"
    then show ?thesis using Cons.prems by (auto simp: t)
  qed
  with Cons.IH show ?case by (simp add: t)
qed

lemma URL_String_without_path:
  "url_Path u = [] \<Longrightarrow>
   URL_String u = url_Scheme u @ '':'' @
     (if url_Host u \<noteq> [] then ''//'' else []) @ url_escape EncodeHost (url_Host u)"
  by (simp add: URL_String_def escaped_path_def)

end
