(* ===== verification/Authenticator.thy ===== *)
theory Authenticator
  imports Library GoPath GoUrl
begin

text \<open>
  \<open>internal/controller/common/auth.go\<close>, the two authenticators: LDAP and OpenID Connect. Each
  contributes environment variables, volumes, volume mounts and a set of properties for the web
  server's configuration. The interface \<open>Authenticator\<close> of the source is the locale
  \<open>authenticator_contract\<close>, which both implement.
\<close>

section \<open>Constants\<close>

definition DefaultLDAPFieldEmail :: string where "DefaultLDAPFieldEmail = ''email''"
definition DefaultLDAPFieldGivenName :: string where "DefaultLDAPFieldGivenName = ''givenName''"
definition DefaultLDAPFieldGroup :: string where "DefaultLDAPFieldGroup = ''memberOf''"
definition DefaultLDAPFieldSurname :: string where "DefaultLDAPFieldSurname = ''sn''"
definition DefaultLDAPFieldUid :: string where "DefaultLDAPFieldUid = ''uid''"

definition EnvKeyOidcClientId :: string where "EnvKeyOidcClientId = ''OIDC_CLIENT_ID''"
definition EnvKeyOidcClientSecret :: string where "EnvKeyOidcClientSecret = ''OIDC_CLIENT_SECRET''"

section \<open>The interface\<close>

text \<open>
  What the operator expects of an authenticator: a mount for each of its volumes and no other,
  environment variables that only name entries of a secret, and one value per property.
\<close>

locale authenticator_contract =
  fixes env_vars :: "'a \<Rightarrow> EnvVar list outcome"
    and vols :: "'a \<Rightarrow> Volume list"
    and mounts :: "'a \<Rightarrow> VolumeMount list"
    and config :: "'a \<Rightarrow> Properties outcome"
  assumes mounts_match: "map vm_Name (mounts a) = map volume_name (vols a)"
    and env_from_secret: "env_vars a = Inr es \<Longrightarrow> e \<in> set es \<Longrightarrow> ev_Value e = [] \<and> ev_ValueFrom e \<noteq> None"
    and env_distinct: "env_vars a = Inr es \<Longrightarrow> distinct (map ev_Name es)"
    and config_distinct: "config a = Inr ps \<Longrightarrow> distinct (map fst ps)"
begin

lemma all_mounts_match:
  "map vm_Name (concat (map mounts as)) = map volume_name (concat (map vols as))"
  by (induction as) (auto simp: mounts_match)

lemma mount_has_volume:
  "m \<in> set (concat (map mounts as)) \<Longrightarrow>
   \<exists>v \<in> set (concat (map vols as)). volume_name v = vm_Name m"
proof -
  assume "m \<in> set (concat (map mounts as))"
  then have "vm_Name m \<in> set (map vm_Name (concat (map mounts as)))"
    by (metis image_eqI list.set_map)
  then have "vm_Name m \<in> set (map volume_name (concat (map vols as)))"
    by (simp only: all_mounts_match)
  then show ?thesis by (auto simp del: set_concat)
qed

lemma config_value:
  "config a = Inr ps \<Longrightarrow> (k, v) \<in> set ps \<Longrightarrow> map_of (rev ps) k = Some v"
  using config_distinct [of a ps]
  by (intro map_of_is_SomeI) (simp_all add: rev_map [symmetric])

end

section \<open>LDAP\<close>

definition ldap_GetEnvVars :: "LDAPProvider \<Rightarrow> EnvVar list outcome" where
  "ldap_GetEnvVars a = Inr []"

definition ldap_getVolumeName :: "Credentials \<Rightarrow> string" where
  "ldap_getVolumeName bind = ''ldap-'' @ cred_SecretClass bind"

definition ldap_scope :: "'x operator_lib \<Rightarrow> Credentials \<Rightarrow> SecretVolumeScope" where
  "ldap_scope L bind =
     (case cred_Scope bind of
        None \<Rightarrow> \<lparr>svs_Pod = False, svs_Node = False, svs_Service = []\<rparr>
      | Some scope \<Rightarrow>
          \<lparr>svs_Pod = scope_Pod scope, svs_Node = scope_Node scope,
           svs_Service = map (\<lambda>s. ServiceScope L @ ''='' @ s) (scope_Services scope)\<rparr>)"

definition ldap_GetVolumes :: "'x operator_lib \<Rightarrow> LDAPProvider \<Rightarrow> Volume list" where
  "ldap_GetVolumes L a =
     (case ldap_BindCredentials a of
        None \<Rightarrow> []
      | Some bind \<Rightarrow>
          [SecretOperatorVolume (ldap_getVolumeName bind) (cred_SecretClass bind) (ldap_scope L bind)])"

definition ldap_mount_path :: "'x operator_lib \<Rightarrow> Credentials \<Rightarrow> string" where
  "ldap_mount_path L bind = path_Join [KubedoopSecretDir L, cred_SecretClass bind]"

definition ldap_GetVolumeMounts :: "'x operator_lib \<Rightarrow> LDAPProvider \<Rightarrow> VolumeMount list" where
  "ldap_GetVolumeMounts L a =
     (case ldap_BindCredentials a of
        None \<Rightarrow> []
      | Some bind \<Rightarrow>
          [\<lparr>vm_Name = ldap_getVolumeName bind, vm_MountPath = ldap_mount_path L bind\<rparr>])"

definition ldap_server :: "LDAPProvider \<Rightarrow> string" where
  "ldap_server a =
     URL_String \<lparr>url_Scheme = ''ldap'',
       url_Host = ldap_Hostname a @ (if ldap_Port a \<noteq> 0 then '':'' @ Itoa (ldap_Port a) else []),
       url_Path = []\<rparr>"

definition default_LDAPFieldNames :: LDAPFieldNames where
  "default_LDAPFieldNames =
     \<lparr>field_Uid = DefaultLDAPFieldUid, field_Surname = DefaultLDAPFieldSurname,
      field_GivenName = DefaultLDAPFieldGivenName, field_Email = DefaultLDAPFieldEmail,
      field_Group = DefaultLDAPFieldGroup\<rparr>"

text \<open>
  The mount path is computed from the bind credentials before the test that they are there, so
  their absence is a nil dereference.
\<close>

definition ldap_GetConfig :: "'x operator_lib \<Rightarrow> LDAPProvider \<Rightarrow> Properties outcome" where
  "ldap_GetConfig L a =
     (let names = (case ldap_LDAPFieldNames a of None \<Rightarrow> default_LDAPFieldNames | Some n \<Rightarrow> n);
          cfg = [(''auth_ldap_server'', ldap_server a),
                 (''auth_ldap_search'', ldap_SearchBase a),
                 (''auth_ldap_search_filter'', ldap_SearchFilter a),
                 (''auth_ldap_uid_field'', field_Uid names),
                 (''auth_ldap_group_field'', field_Group names),
                 (''auth_ldap_firstname_field'', field_GivenName names),
                 (''auth_ldap_lastname_field'', field_Surname names),
                 (''auth_ldap_email_field'', field_Email names)]
      in and_then (deref (ldap_BindCredentials a)) (\<lambda>bind.
           let mountPath = ldap_mount_path L bind
           in Inr (if ldap_BindCredentials a \<noteq> None
                   then cfg @ [(''auth_ldap_bind_user_file'', path_Join [mountPath, ''username'']),
                               (''auth_ldap_bind_password_file'', path_Join [mountPath, ''password''])]
                   else cfg)))"

definition ldap_GetCommands :: "LDAPProvider \<Rightarrow> string list" where
  "ldap_GetCommands a = []"

section \<open>OpenID Connect\<close>

record oidcAuthenticator =
  oa_config :: "OidcSpec option"
  oa_provider :: OIDCProvider

definition secret_env :: "string \<Rightarrow> string \<Rightarrow> string \<Rightarrow> EnvVar" where
  "secret_env name key secret =
     \<lparr>ev_Name = name, ev_Value = [], ev_ValueFrom = Some \<lparr>sks_Key = key, sks_Name = secret\<rparr>\<rparr>"

definition oidc_GetEnvVars :: "oidcAuthenticator \<Rightarrow> EnvVar list outcome" where
  "oidc_GetEnvVars a =
     and_then (deref (oa_config a)) (\<lambda>config.
       Inr [secret_env EnvKeyOidcClientId ''CLIENT_ID'' (oidc_ClientCredentialsSecret config),
            secret_env EnvKeyOidcClientSecret ''CLIENT_SECRET'' (oidc_ClientCredentialsSecret config)])"

definition oidc_GetVolumes :: "oidcAuthenticator \<Rightarrow> Volume list" where
  "oidc_GetVolumes a = []"

definition oidc_GetVolumeMounts :: "oidcAuthenticator \<Rightarrow> VolumeMount list" where
  "oidc_GetVolumeMounts a = []"

definition oidc_issuer :: "OIDCProvider \<Rightarrow> string" where
  "oidc_issuer p =
     URL_String \<lparr>url_Scheme = ''http'',
       url_Host = (if oidc_Port p \<noteq> 0 then oidc_Hostname p @ '':'' @ Itoa (oidc_Port p)
                   else oidc_Hostname p),
       url_Path = oidc_RootPath p\<rparr>"

definition environ_get :: "string \<Rightarrow> string" where
  "environ_get name = ''os.environ.get('' @ [CHR 0x27] @ name @ [CHR 0x27] @ '')''"

definition oidc_GetConfig :: "oidcAuthenticator \<Rightarrow> Properties outcome" where
  "oidc_GetConfig a =
     and_then (deref (oa_config a)) (\<lambda>config.
       let scopes = oidc_Scopes (oa_provider a) @ oidc_ExtraScopes config;
           issuer = oidc_issuer (oa_provider a)
       in Inr [(''client_id'', environ_get EnvKeyOidcClientId),
               (''client_secret'', environ_get EnvKeyOidcClientSecret),
               (''scopes'', strings_Join scopes '' ''),
               (''api_base_url'', issuer @ ''/protocol/''),
               (''server_metadata_url'', issuer @ ''/.well-known/openid-configuration''),
               (''provider_hint'', oidc_ProviderHint (oa_provider a))])"

definition oidc_GetCommands :: "oidcAuthenticator \<Rightarrow> string list" where
  "oidc_GetCommands a = []"

section \<open>Dynamic dispatch\<close>

datatype authenticator = LdapAuthenticator LDAPProvider | OidcAuthenticator oidcAuthenticator

fun GetEnvVars :: "authenticator \<Rightarrow> EnvVar list outcome" where
  "GetEnvVars (LdapAuthenticator a) = ldap_GetEnvVars a"
| "GetEnvVars (OidcAuthenticator a) = oidc_GetEnvVars a"

fun GetVolumes :: "'x operator_lib \<Rightarrow> authenticator \<Rightarrow> Volume list" where
  "GetVolumes L (LdapAuthenticator a) = ldap_GetVolumes L a"
| "GetVolumes L (OidcAuthenticator a) = oidc_GetVolumes a"

fun GetVolumeMounts :: "'x operator_lib \<Rightarrow> authenticator \<Rightarrow> VolumeMount list" where
  "GetVolumeMounts L (LdapAuthenticator a) = ldap_GetVolumeMounts L a"
| "GetVolumeMounts L (OidcAuthenticator a) = oidc_GetVolumeMounts a"

fun GetConfig :: "'x operator_lib \<Rightarrow> authenticator \<Rightarrow> Properties outcome" where
  "GetConfig L (LdapAuthenticator a) = ldap_GetConfig L a"
| "GetConfig L (OidcAuthenticator a) = oidc_GetConfig a"

section \<open>Both implement the interface\<close>

lemma ldap_GetConfig_Some:
  "ldap_BindCredentials a = Some bind \<Longrightarrow>
   ldap_GetConfig L a =
     (let names = (case ldap_LDAPFieldNames a of None \<Rightarrow> default_LDAPFieldNames | Some n \<Rightarrow> n)
      in Inr [(''auth_ldap_server'', ldap_server a),
              (''auth_ldap_search'', ldap_SearchBase a),
              (''auth_ldap_search_filter'', ldap_SearchFilter a),
              (''auth_ldap_uid_field'', field_Uid names),
              (''auth_ldap_group_field'', field_Group names),
              (''auth_ldap_firstname_field'', field_GivenName names),
              (''auth_ldap_lastname_field'', field_Surname names),
              (''auth_ldap_email_field'', field_Email names),
              (''auth_ldap_bind_user_file'', path_Join [ldap_mount_path L bind, ''username'']),
              (''auth_ldap_bind_password_file'', path_Join [ldap_mount_path L bind, ''password''])])"
  by (simp add: ldap_GetConfig_def Let_def)

lemma ldap_GetConfig_None:
  "ldap_BindCredentials a = None \<Longrightarrow> ldap_GetConfig L a = Inl NilDereference"
  by (simp add: ldap_GetConfig_def Let_def)

lemma ldap_GetConfig_total: "(\<exists>ps. ldap_GetConfig L a = Inr ps) \<longleftrightarrow> ldap_BindCredentials a \<noteq> None"
  by (cases "ldap_BindCredentials a") (simp_all add: ldap_GetConfig_None ldap_GetConfig_Some Let_def)

interpretation ldap: authenticator_contract
  ldap_GetEnvVars "ldap_GetVolumes L" "ldap_GetVolumeMounts L" "ldap_GetConfig L"
  for L :: "'x operator_lib"
proof unfold_locales
  fix a es e ps
  show "map vm_Name (ldap_GetVolumeMounts L a) = map volume_name (ldap_GetVolumes L a)"
    by (simp add: ldap_GetVolumeMounts_def ldap_GetVolumes_def split: option.split)
  show "ldap_GetEnvVars a = Inr es \<Longrightarrow> e \<in> set es \<Longrightarrow> ev_Value e = [] \<and> ev_ValueFrom e \<noteq> None"
    by (auto simp: ldap_GetEnvVars_def)
  show "ldap_GetEnvVars a = Inr es \<Longrightarrow> distinct (map ev_Name es)"
    by (auto simp: ldap_GetEnvVars_def)
  show "ldap_GetConfig L a = Inr ps \<Longrightarrow> distinct (map fst ps)"
    by (cases "ldap_BindCredentials a")
      (auto simp: ldap_GetConfig_None ldap_GetConfig_Some Let_def)
qed

interpretation oidc: authenticator_contract
  oidc_GetEnvVars oidc_GetVolumes oidc_GetVolumeMounts oidc_GetConfig
  by unfold_locales
    (auto simp: oidc_GetEnvVars_def oidc_GetVolumes_def oidc_GetVolumeMounts_def
      oidc_GetConfig_def secret_env_def Let_def outcome_simps
      EnvKeyOidcClientId_def EnvKeyOidcClientSecret_def)

interpretation dispatch: authenticator_contract
  GetEnvVars "GetVolumes L" "GetVolumeMounts L" "GetConfig L"
  for L :: "'x operator_lib"
proof unfold_locales
  fix a es e ps
  show "map vm_Name (GetVolumeMounts L a) = map volume_name (GetVolumes L a)"
    by (cases a) (simp_all add: ldap.mounts_match oidc.mounts_match)
  show "GetEnvVars a = Inr es \<Longrightarrow> e \<in> set es \<Longrightarrow> ev_Value e = [] \<and> ev_ValueFrom e \<noteq> None"
    by (cases a) (auto dest: ldap.env_from_secret oidc.env_from_secret)
  show "GetEnvVars a = Inr es \<Longrightarrow> distinct (map ev_Name es)"
    by (cases a) (auto dest: ldap.env_distinct oidc.env_distinct)
  show "GetConfig L a = Inr ps \<Longrightarrow> distinct (map fst ps)"
    by (cases a) (auto dest: ldap.config_distinct oidc.config_distinct)
qed

section \<open>Examples for closed statements\<close>

definition sample_bind :: Credentials where
  "sample_bind = \<lparr>cred_SecretClass = ''ldap-bind'',
     cred_Scope = Some \<lparr>scope_Pod = True, scope_Node = False, scope_Services = [''web'']\<rparr>\<rparr>"

definition sample_ldap :: LDAPProvider where
  "sample_ldap = \<lparr>ldap_Hostname = ''ldap.example.org'', ldap_Port = 389,
     ldap_SearchBase = ''dc=example'', ldap_SearchFilter = ''(uid=*)'',
     ldap_LDAPFieldNames = None, ldap_BindCredentials = Some sample_bind\<rparr>"

definition sample_oidc_spec :: OidcSpec where
  "sample_oidc_spec = \<lparr>oidc_ClientCredentialsSecret = ''oidc-client'', oidc_ExtraScopes = [''groups'']\<rparr>"

definition sample_oidc_provider :: OIDCProvider where
  "sample_oidc_provider = \<lparr>oidc_Hostname = ''sso.example.org'', oidc_Port = 8080,
     oidc_RootPath = ''/realms/main'', oidc_Scopes = [''openid''], oidc_ProviderHint = ''keycloak''\<rparr>"

definition sample_oidc :: oidcAuthenticator where
  "sample_oidc = \<lparr>oa_config = Some sample_oidc_spec, oa_provider = sample_oidc_provider\<rparr>"

section \<open>Properties\<close>

lemma nat_digits_no_char:
  "c \<in> set (nat_digits n) \<Longrightarrow> of_char c \<in> {48..<58 :: nat}"
proof (induction n rule: nat_digits.induct)
  case (1 n)
  then show ?case
    by (cases "n < 10")
      (auto simp: nat_digits.simps [of n] of_char_digit_char)
qed

lemma Itoa_chars: "c \<in> set (Itoa i) \<Longrightarrow> c = CHR ''-'' \<or> of_char c \<in> {48..<58 :: nat}"
  by (auto simp: Itoa_def dest: nat_digits_no_char split: if_splits)

lemma Itoa_no_colon: "CHR '':'' \<notin> set (Itoa i)"
  by (auto dest: Itoa_chars)

lemma Itoa_inject: "Itoa i = Itoa j \<Longrightarrow> i = j"
proof -
  have hd_digit: "nat_digits n \<noteq> CHR ''-'' # s" for n s
  proof
    assume "nat_digits n = CHR ''-'' # s"
    then have "CHR ''-'' \<in> set (nat_digits n)" by simp
    from nat_digits_no_char [OF this] show False by simp
  qed
  assume "Itoa i = Itoa j"
  then show "i = j"
    by (auto simp: Itoa_def hd_digit hd_digit [symmetric] dest!: nat_digits_inject
        split: if_splits)
qed

text \<open>
  The LDAP server URL in the configuration identifies the server: two providers whose host
  names contain no colon and that yield the same URL have the same host name and the same port.
\<close>

theorem ldap_server_identifies:
  assumes "ldap_server a = ldap_server b"
    and "CHR '':'' \<notin> set (ldap_Hostname a)" and "CHR '':'' \<notin> set (ldap_Hostname b)"
  shows "ldap_Hostname a = ldap_Hostname b \<and> ldap_Port a = ldap_Port b"
proof -
  define port where "port p = (if p \<noteq> 0 then '':'' @ Itoa p else [])" for p :: int
  have no_host: "url_escape EncodeHost s = [] \<longleftrightarrow> s = []" for s
    by (cases s) (auto simp: percent_encode_def)
  have host: "ldap_server x = ''ldap:'' @
      (if ldap_Hostname x @ port (ldap_Port x) \<noteq> [] then ''//'' else []) @
      url_escape EncodeHost (ldap_Hostname x @ port (ldap_Port x))" for x
    by (simp add: ldap_server_def URL_String_without_path port_def)
  have "url_escape EncodeHost (ldap_Hostname a @ port (ldap_Port a)) =
        url_escape EncodeHost (ldap_Hostname b @ port (ldap_Port b))"
    using assms(1) unfolding host by (auto simp del: append_is_Nil_conv simp: no_host split: if_splits)
  then have eq: "ldap_Hostname a @ port (ldap_Port a) = ldap_Hostname b @ port (ldap_Port b)"
    by (rule url_escape_inject)
  have cut: "takeWhile (\<lambda>c. c \<noteq> CHR '':'') (h @ port p) = h"
    if "CHR '':'' \<notin> set h" for h p
    using that by (cases "p = 0") (auto simp: port_def takeWhile_tail)
  have "ldap_Hostname a = ldap_Hostname b"
    using cut [OF assms(2)] cut [OF assms(3)] eq by metis
  moreover from this eq have "port (ldap_Port a) = port (ldap_Port b)" by simp
  then have "ldap_Port a = ldap_Port b"
    by (auto simp: port_def dest: Itoa_inject split: if_splits)
  ultimately show ?thesis ..
qed

theorem ldap_server_identifies_witness:
  "ldap_server (sample_ldap\<lparr>ldap_SearchBase := []\<rparr>) = ldap_server sample_ldap \<and>
   ldap_Port (sample_ldap\<lparr>ldap_SearchBase := []\<rparr>) = ldap_Port sample_ldap \<and>
   ldap_server sample_ldap = ''ldap://ldap.example.org:389''"
proof -
  have same: "ldap_server (sample_ldap\<lparr>ldap_SearchBase := []\<rparr>) = ldap_server sample_ldap"
    by (simp add: ldap_server_def)
  have "CHR '':'' \<notin> set (ldap_Hostname sample_ldap)"
    by (simp add: sample_ldap_def)
  then have "ldap_Port (sample_ldap\<lparr>ldap_SearchBase := []\<rparr>) = ldap_Port sample_ldap"
    using ldap_server_identifies [OF same] by simp
  moreover have "ldap_server sample_ldap = ''ldap://ldap.example.org:389''"
    by code_simp
  ultimately show ?thesis using same by blast
qed

text \<open>
  The two files the LDAP configuration reads the bind credentials from lie directly in the
  directory at which the provider's only volume is mounted, for a secret class that does not
  take the path back to the file system's root.
\<close>

theorem ldap_files_below_mount:
  assumes "is_rooted (KubedoopSecretDir L)" and "ldap_BindCredentials a = Some bind"
    and "ldap_mount_path L bind \<noteq> ''/''"
  shows "\<exists>ps m. ldap_GetConfig L a = Inr ps \<and> ldap_GetVolumeMounts L a = [m] \<and>
    map_of ps ''auth_ldap_bind_user_file'' = Some (vm_MountPath m @ ''/username'') \<and>
    map_of ps ''auth_ldap_bind_password_file'' = Some (vm_MountPath m @ ''/password'')"
proof -
  let ?m = "ldap_mount_path L bind"
  have rooted: "is_rooted ?m"
    unfolding ldap_mount_path_def by (rule is_rooted_path_Join2 [OF assms(1)])
  then have "path_Clean ?m = ?m"
    using path_Join_clean [of "[KubedoopSecretDir L, cred_SecretClass bind]"]
    by (auto simp: ldap_mount_path_def is_rooted_def)
  then have "path_Join [?m, ''username''] = ?m @ ''/username''"
    and "path_Join [?m, ''password''] = ?m @ ''/password''"
    using path_Join_name [OF rooted _ assms(3), of "''username''"]
      path_Join_name [OF rooted _ assms(3), of "''password''"] by (simp_all add: plain_def)
  then show ?thesis
    by (simp add: ldap_GetConfig_Some [OF assms(2)] ldap_GetVolumeMounts_def assms(2) Let_def)
qed

theorem ldap_files_below_mount_witness:
  "\<exists>ps m. ldap_GetConfig sample_lib sample_ldap = Inr ps \<and>
    ldap_GetVolumeMounts sample_lib sample_ldap = [m] \<and>
    vm_MountPath m = ''/kubedoop/secret/ldap-bind'' \<and>
    map_of ps ''auth_ldap_bind_user_file'' = Some (vm_MountPath m @ ''/username'')"
proof -
  have m: "ldap_mount_path sample_lib sample_bind = ''/kubedoop/secret/ldap-bind''"
    by code_simp
  have "is_rooted (KubedoopSecretDir sample_lib)"
    by (simp add: sample_lib_def is_rooted_def)
  moreover have "ldap_BindCredentials sample_ldap = Some sample_bind"
    by (simp add: sample_ldap_def)
  moreover have "ldap_mount_path sample_lib sample_bind \<noteq> ''/''"
    by (simp add: m)
  ultimately have "\<exists>ps m. ldap_GetConfig sample_lib sample_ldap = Inr ps \<and>
      ldap_GetVolumeMounts sample_lib sample_ldap = [m] \<and>
      map_of ps ''auth_ldap_bind_user_file'' = Some (vm_MountPath m @ ''/username'') \<and>
      map_of ps ''auth_ldap_bind_password_file'' = Some (vm_MountPath m @ ''/password'')"
    by (rule ldap_files_below_mount)
  then show ?thesis
    by (auto simp: ldap_GetVolumeMounts_def sample_ldap_def m)
qed

text \<open>
  The OpenID Connect configuration reads the client credentials from exactly the environment
  variables the authenticator sets, and these refer to the configured secret.
\<close>

theorem oidc_config_reads_its_env:
  assumes "oa_config a = Some c"
  shows "\<exists>ps id secret. oidc_GetConfig a = Inr ps \<and> oidc_GetEnvVars a = Inr [id, secret] \<and>
    map_of ps ''client_id'' = Some (environ_get (ev_Name id)) \<and>
    map_of ps ''client_secret'' = Some (environ_get (ev_Name secret)) \<and>
    map_option sks_Name (ev_ValueFrom id) = Some (oidc_ClientCredentialsSecret c) \<and>
    map_option sks_Name (ev_ValueFrom secret) = Some (oidc_ClientCredentialsSecret c)"
  using assms by (simp add: oidc_GetConfig_def oidc_GetEnvVars_def secret_env_def Let_def)

theorem oidc_config_reads_its_env_witness:
  "\<exists>ps id secret. oidc_GetConfig sample_oidc = Inr ps \<and>
    oidc_GetEnvVars sample_oidc = Inr [id, secret] \<and>
    map_of ps ''client_id'' = Some (environ_get (ev_Name id)) \<and>
    map_of ps ''client_secret'' = Some (environ_get (ev_Name secret)) \<and>
    map_option sks_Name (ev_ValueFrom id) = Some ''oidc-client'' \<and>
    map_option sks_Name (ev_ValueFrom secret) = Some ''oidc-client''"
  using oidc_config_reads_its_env [of sample_oidc sample_oidc_spec]
  by (simp add: sample_oidc_def sample_oidc_spec_def)

end
