(* ===== verification/Authentication.thy ===== *)
theory Authentication
  imports Authenticator
begin

text \<open>
  \<open>internal/controller/common/auth.go\<close>, the aggregation of a cluster's authenticators: looking an
  authentication class up, building the authenticators with their common settings, collecting
  what they contribute.
  The authenticators are kept in a Go map from their type to the slice of them, so every range
  over it takes an arbitrary order \<open>\<rho>\<close>.
\<close>

section \<open>Types and constants\<close>

type_synonym AuthenticatorType = string

definition AuthenticatorTypeLDAP :: AuthenticatorType where
  "AuthenticatorTypeLDAP = ''ldap''"

definition AuthenticatorTypeOIDC :: AuthenticatorType where
  "AuthenticatorTypeOIDC = ''oidc''"

lemmas authenticator_type_defs = AuthenticatorTypeLDAP_def AuthenticatorTypeOIDC_def

lemma authenticator_types_distinct [simp]:
  "AuthenticatorTypeLDAP \<noteq> AuthenticatorTypeOIDC" "AuthenticatorTypeOIDC \<noteq> AuthenticatorTypeLDAP"
  by (simp_all add: authenticator_type_defs)

definition AirflowSupportAuthTypes :: "AuthenticatorType list" where
  "AirflowSupportAuthTypes = [AuthenticatorTypeLDAP, AuthenticatorTypeOIDC]"

type_synonym authenticator_map = "(AuthenticatorType \<times> authenticator list) list"

type_synonym auth_order = "authenticator_map \<Rightarrow> authenticator_map"

record Authentication =
  auth_authenticators :: authenticator_map
  auth_syncRolesAt :: "string option"
  auth_userRegistration :: "bool option"
  auth_userRegistrationRole :: "string option"

section \<open>Building the authenticators\<close>

definition IgnoreNotFound :: "api_error \<Rightarrow> api_error option" where
  "IgnoreNotFound e = (case e of ApiNotFound _ \<Rightarrow> None | ApiOther _ \<Rightarrow> Some e)"

text \<open>
  A class that is not found is only logged: the object stays empty and its provider is the nil
  pointer.
\<close>

definition GetAuthProvider ::
  "'x operator_lib \<Rightarrow> string \<Rightarrow> AuthenticationProvider option outcome"
where
  "GetAuthProvider L authclass =
     (case GetAuthenticationClass L authclass of
        Inl err \<Rightarrow>
          (case IgnoreNotFound err of Some _ \<Rightarrow> Inl (Fail (ApiError err)) | None \<Rightarrow> Inr None)
      | Inr obj \<Rightarrow> Inr (ac_AuthenticationProvider obj))"

fun containsAuthType :: "AuthenticatorType list \<Rightarrow> AuthenticatorType \<Rightarrow> bool" where
  "containsAuthType [] authType = False"
| "containsAuthType (at # ats) authType = (if at = authType then True else containsAuthType ats authType)"

text \<open>The first value is kept, every later one has to agree with it.\<close>

definition keep_same :: "string \<Rightarrow> 'a option \<Rightarrow> 'a \<Rightarrow> 'a option outcome" where
  "keep_same field old new =
     (case old of
        None \<Rightarrow> Inr (Some new)
      | Some v \<Rightarrow>
          if v \<noteq> new
          then Inl (Fail (Errorf (field @ '' must be the same for all authentication providers'')))
          else Inr old)"

definition choose_authenticator ::
  "AuthenticationSpec \<Rightarrow> AuthenticationProvider \<Rightarrow> authenticator_map \<Rightarrow> authenticator_map outcome"
where
  "choose_authenticator auth provider m =
     (if prov_OIDC provider \<noteq> None \<and> containsAuthType AirflowSupportAuthTypes AuthenticatorTypeOIDC
      then Inr (map_append AuthenticatorTypeOIDC
             (OidcAuthenticator \<lparr>oa_config = as_Oidc auth, oa_provider = the (prov_OIDC provider)\<rparr>) m)
      else if prov_LDAP provider \<noteq> None \<and> containsAuthType AirflowSupportAuthTypes AuthenticatorTypeLDAP
      then Inr (map_append AuthenticatorTypeLDAP (LdapAuthenticator (the (prov_LDAP provider))) m)
      else Inl (Fail (Errorf (''unsupported authentication provider: '' @ as_AuthenticationClass auth))))"

definition add_authentication ::
  "'x operator_lib \<Rightarrow> AuthenticationSpec \<Rightarrow> Authentication \<Rightarrow> Authentication outcome"
where
  "add_authentication L auth s =
     and_then (GetAuthProvider L (as_AuthenticationClass auth)) (\<lambda>p.
     and_then (deref p) (\<lambda>provider.
     and_then (choose_authenticator auth provider (auth_authenticators s)) (\<lambda>m.
     and_then (keep_same ''syncRolesAt'' (auth_syncRolesAt s) (as_SyncRolesAt auth)) (\<lambda>sync.
     and_then (keep_same ''userRegistration'' (auth_userRegistration s) (as_UserRegistration auth)) (\<lambda>reg.
     and_then (keep_same ''userRegistrationRole'' (auth_userRegistrationRole s)
         (as_UserRegistrationRole auth)) (\<lambda>role.
       Inr \<lparr>auth_authenticators = m, auth_syncRolesAt = sync, auth_userRegistration = reg,
            auth_userRegistrationRole = role\<rparr>))))))"

definition empty_authentication :: Authentication where
  "empty_authentication = \<lparr>auth_authenticators = [], auth_syncRolesAt = None,
     auth_userRegistration = None, auth_userRegistrationRole = None\<rparr>"

definition NewAuthentication ::
  "'x operator_lib \<Rightarrow> AuthenticationSpec list \<Rightarrow> Authentication outcome"
where
  "NewAuthentication L auths = for_each (add_authentication L) auths empty_authentication"

section \<open>Collecting what the authenticators contribute\<close>

definition getTotalAuthenticatorCount :: "auth_order \<Rightarrow> Authentication \<Rightarrow> nat" where
  "getTotalAuthenticatorCount \<rho> a =
     foldl (\<lambda>total (t, typed). total + length typed) 0 (\<rho> (auth_authenticators a))"

definition Authentication_GetEnvVars :: "auth_order \<Rightarrow> Authentication \<Rightarrow> EnvVar list outcome" where
  "Authentication_GetEnvVars \<rho> a =
     for_each (\<lambda>(t, typed). for_each (\<lambda>auth envVars.
         and_then (GetEnvVars auth) (\<lambda>es. Inr (envVars @ es))) typed)
       (\<rho> (auth_authenticators a)) []"

definition Authentication_GetVolumes ::
  "'x operator_lib \<Rightarrow> auth_order \<Rightarrow> Authentication \<Rightarrow> Volume list"
where
  "Authentication_GetVolumes L \<rho> a =
     foldl (\<lambda>vols (t, typed). foldl (\<lambda>vols auth. vols @ GetVolumes L auth) vols typed)
       [] (\<rho> (auth_authenticators a))"

definition Authentication_GetVolumeMounts ::
  "'x operator_lib \<Rightarrow> auth_order \<Rightarrow> Authentication \<Rightarrow> VolumeMount list"
where
  "Authentication_GetVolumeMounts L \<rho> a =
     foldl (\<lambda>mounts (t, typed). foldl (\<lambda>mounts auth. mounts @ GetVolumeMounts L auth) mounts typed)
       [] (\<rho> (auth_authenticators a))"

section \<open>Well-formed aggregates\<close>

text \<open>
  The map's keys are distinct, no slice is empty and every authenticator sits under its own
  type; the three common settings are known exactly when there is an authenticator.
\<close>

fun authenticator_type :: "authenticator \<Rightarrow> AuthenticatorType" where
  "authenticator_type (LdapAuthenticator _) = AuthenticatorTypeLDAP"
| "authenticator_type (OidcAuthenticator _) = AuthenticatorTypeOIDC"

definition well_typed_map :: "authenticator_map \<Rightarrow> bool" where
  "well_typed_map m \<longleftrightarrow> distinct (map fst m) \<and>
     list_all (\<lambda>(t, typed). typed \<noteq> [] \<and> list_all (\<lambda>x. authenticator_type x = t) typed) m"

definition authentication_ok :: "Authentication \<Rightarrow> bool" where
  "authentication_ok a \<longleftrightarrow> well_typed_map (auth_authenticators a) \<and>
     (auth_syncRolesAt a = None \<longleftrightarrow> auth_authenticators a = []) \<and>
     (auth_userRegistration a = None \<longleftrightarrow> auth_authenticators a = []) \<and>
     (auth_userRegistrationRole a = None \<longleftrightarrow> auth_authenticators a = [])"

lemma well_typed_map_alt:
  "well_typed_map m \<longleftrightarrow> distinct (map fst m) \<and>
     (\<forall>t typed. map_of m t = Some typed \<longrightarrow>
        typed \<noteq> [] \<and> (\<forall>x \<in> set typed. authenticator_type x = t))"
proof (cases "distinct (map fst m)")
  case True
  then show ?thesis
    by (simp add: well_typed_map_def list_all_iff map_of_eq_Some_iff) fastforce
qed (simp add: well_typed_map_def)

lemma map_append_well_typed:
  assumes "well_typed_map m"
  shows "well_typed_map (map_append (authenticator_type x) x m)"
  unfolding well_typed_map_alt
proof (intro conjI allI impI)
  show "distinct (map fst (map_append (authenticator_type x) x m))"
    using assms by (simp add: well_typed_map_def)
next
  fix t typed
  assume t: "map_of (map_append (authenticator_type x) x m) t = Some typed"
  have "typed \<noteq> [] \<and> (\<forall>y \<in> set typed. authenticator_type y = t)"
  proof (cases "t = authenticator_type x")
    case True
    then have "typed = map_slice m t @ [x]" using t by (simp add: map_of_map_append)
    moreover have "\<forall>y \<in> set (map_slice m t). authenticator_type y = t"
      using assms by (cases "map_of m t") (simp_all add: well_typed_map_alt map_slice_def)
    ultimately show ?thesis using True by simp
  next
    case False
    then show ?thesis using assms t by (auto simp: well_typed_map_alt map_of_map_append)
  qed
  then show "typed \<noteq> []" and "\<forall>y \<in> set typed. authenticator_type y = t" by auto
qed

lemma update_length:
  "distinct (map fst m) \<Longrightarrow>
   sum_list (map (length \<circ> snd) (AList.update k vs m)) + (case map_of m k of None \<Rightarrow> 0 | Some us \<Rightarrow> length us)
     = sum_list (map (length \<circ> snd) m) + length vs"
proof (induction m)
  case (Cons p m)
  then show ?case
    by (cases p) (auto simp: map_of_eq_None_iff [THEN iffD2] split: option.splits)
qed simp

lemma map_append_length:
  "distinct (map fst m) \<Longrightarrow>
   sum_list (map (length \<circ> snd) (map_append k v m)) = Suc (sum_list (map (length \<circ> snd) m))"
  using update_length [of m k "(case map_of m k of None \<Rightarrow> [] | Some vs \<Rightarrow> vs) @ [v]"]
  by (cases "map_of m k") (simp_all add: map_append_def)

section \<open>One step of the loop\<close>

lemma containsAuthType_set: "containsAuthType ts t \<longleftrightarrow> t \<in> set ts"
  by (induction ts) auto

lemma supported_types [simp]:
  "containsAuthType AirflowSupportAuthTypes AuthenticatorTypeOIDC"
  "containsAuthType AirflowSupportAuthTypes AuthenticatorTypeLDAP"
  by (simp_all add: containsAuthType_set AirflowSupportAuthTypes_def)

lemma keep_same_eq_Inr:
  "keep_same f old new = Inr v \<longleftrightarrow> (old = None \<or> old = Some new) \<and> v = Some new"
  by (auto simp: keep_same_def split: option.splits if_splits)

lemma choose_authenticator_eq_Inr:
  "choose_authenticator auth provider m = Inr m' \<Longrightarrow>
   \<exists>x. m' = map_append (authenticator_type x) x m"
  by (auto simp: choose_authenticator_def split: if_splits
      intro: exI [of _ "OidcAuthenticator y" for y] exI [of _ "LdapAuthenticator y" for y])

text \<open>The class resolves to a provider of a supported kind.\<close>

definition supported :: "'x operator_lib \<Rightarrow> AuthenticationSpec \<Rightarrow> bool" where
  "supported L auth \<longleftrightarrow>
     (case GetAuthenticationClass L (as_AuthenticationClass auth) of
        Inl _ \<Rightarrow> False
      | Inr obj \<Rightarrow>
          (case ac_AuthenticationProvider obj of
             None \<Rightarrow> False
           | Some p \<Rightarrow> prov_OIDC p \<noteq> None \<or> prov_LDAP p \<noteq> None))"

definition settings :: "AuthenticationSpec \<Rightarrow> string \<times> bool \<times> string" where
  "settings auth = (as_SyncRolesAt auth, as_UserRegistration auth, as_UserRegistrationRole auth)"

definition holds_settings :: "Authentication \<Rightarrow> AuthenticationSpec \<Rightarrow> bool" where
  "holds_settings s auth \<longleftrightarrow> auth_syncRolesAt s = Some (as_SyncRolesAt auth) \<and>
     auth_userRegistration s = Some (as_UserRegistration auth) \<and>
     auth_userRegistrationRole s = Some (as_UserRegistrationRole auth)"

lemma holds_settings_same: "holds_settings s a \<Longrightarrow> holds_settings s b \<longleftrightarrow> settings a = settings b"
  by (auto simp: holds_settings_def settings_def)

lemma choose_authenticator_supported:
  "(\<exists>m'. choose_authenticator auth p m = Inr m') \<longleftrightarrow> prov_OIDC p \<noteq> None \<or> prov_LDAP p \<noteq> None"
  by (auto simp: choose_authenticator_def)

lemma GetAuthProvider_supported:
  "supported L auth \<longleftrightarrow>
   (\<exists>p. GetAuthProvider L (as_AuthenticationClass auth) = Inr (Some p) \<and>
     (prov_OIDC p \<noteq> None \<or> prov_LDAP p \<noteq> None))"
  by (auto simp: supported_def GetAuthProvider_def IgnoreNotFound_def
      split: sum.splits option.splits api_error.splits)

lemma add_authentication_eq_Inr:
  assumes "add_authentication L auth s = Inr t"
  shows "supported L auth" and "holds_settings t auth"
    and "\<exists>x. auth_authenticators t = map_append (authenticator_type x) x (auth_authenticators s)"
    and "auth_syncRolesAt s = None \<or> auth_syncRolesAt s = Some (as_SyncRolesAt auth)"
    and "auth_userRegistration s = None \<or> auth_userRegistration s = Some (as_UserRegistration auth)"
    and "auth_userRegistrationRole s = None \<or>
         auth_userRegistrationRole s = Some (as_UserRegistrationRole auth)"
proof -
  obtain p m where p: "GetAuthProvider L (as_AuthenticationClass auth) = Inr (Some p)"
    and m: "choose_authenticator auth p (auth_authenticators s) = Inr m"
    and same: "auth_syncRolesAt s = None \<or> auth_syncRolesAt s = Some (as_SyncRolesAt auth)"
      "auth_userRegistration s = None \<or> auth_userRegistration s = Some (as_UserRegistration auth)"
      "auth_userRegistrationRole s = None \<or>
       auth_userRegistrationRole s = Some (as_UserRegistrationRole auth)"
    and t: "t = \<lparr>auth_authenticators = m, auth_syncRolesAt = Some (as_SyncRolesAt auth),
      auth_userRegistration = Some (as_UserRegistration auth),
      auth_userRegistrationRole = Some (as_UserRegistrationRole auth)\<rparr>"
    using assms unfolding add_authentication_def outcome_simps keep_same_eq_Inr by blast
  have "prov_OIDC p \<noteq> None \<or> prov_LDAP p \<noteq> None"
    using m choose_authenticator_supported [of auth p "auth_authenticators s"] by blast
  with p show "supported L auth" by (auto simp: GetAuthProvider_supported)
  show "holds_settings t auth" by (simp add: t holds_settings_def)
  show "\<exists>x. auth_authenticators t = map_append (authenticator_type x) x (auth_authenticators s)"
    using choose_authenticator_eq_Inr [OF m] by (simp add: t)
qed (use assms in \<open>auto simp: add_authentication_def outcome_simps keep_same_eq_Inr\<close>)

lemma add_authentication_total:
  assumes "supported L auth" and "holds_settings s auth \<or> authentication_ok s \<and> auth_authenticators s = []"
  shows "\<exists>t. add_authentication L auth s = Inr t"
proof -
  obtain p where p: "GetAuthProvider L (as_AuthenticationClass auth) = Inr (Some p)"
    and "prov_OIDC p \<noteq> None \<or> prov_LDAP p \<noteq> None"
    using assms(1) by (auto simp: GetAuthProvider_supported)
  then obtain m where "choose_authenticator auth p (auth_authenticators s) = Inr m"
    using choose_authenticator_supported by metis
  then show ?thesis
    using assms(2) p
    by (auto simp: add_authentication_def keep_same_def holds_settings_def authentication_ok_def)
qed

lemma add_authentication_ok:
  assumes "add_authentication L auth s = Inr t" and "authentication_ok s"
  shows "authentication_ok t"
proof -
  obtain x where "auth_authenticators t = map_append (authenticator_type x) x (auth_authenticators s)"
    using add_authentication_eq_Inr(3) [OF assms(1)] by blast
  then show ?thesis
    using add_authentication_eq_Inr(2) [OF assms(1)] assms(2)
    by (simp add: authentication_ok_def holds_settings_def map_append_well_typed)
qed

lemma empty_authentication_ok: "authentication_ok empty_authentication"
  by (simp add: authentication_ok_def empty_authentication_def well_typed_map_def)

section \<open>The whole loop\<close>

lemma new_authentication_loop_ok:
  "for_each (add_authentication L) auths s = Inr t \<Longrightarrow> authentication_ok s \<Longrightarrow> authentication_ok t"
  by (rule for_each_invariant [where I = authentication_ok]) (auto intro: add_authentication_ok)

lemma add_authentication_count:
  assumes "add_authentication L auth s = Inr t" and "authentication_ok s"
  shows "sum_list (map (length \<circ> snd) (auth_authenticators t)) =
    Suc (sum_list (map (length \<circ> snd) (auth_authenticators s)))"
proof -
  obtain x where "auth_authenticators t = map_append (authenticator_type x) x (auth_authenticators s)"
    using add_authentication_eq_Inr(3) [OF assms(1)] by blast
  moreover have "distinct (map fst (auth_authenticators s))"
    using assms(2) by (simp add: authentication_ok_def well_typed_map_def)
  ultimately show ?thesis by (simp only: map_append_length)
qed

lemma new_authentication_loop_count:
  assumes "for_each (add_authentication L) auths s = Inr t" and "authentication_ok s"
  shows "sum_list (map (length \<circ> snd) (auth_authenticators t)) =
    sum_list (map (length \<circ> snd) (auth_authenticators s)) + length auths"
  using assms
proof (induction auths arbitrary: s)
  case (Cons auth auths)
  then obtain u where u: "add_authentication L auth s = Inr u"
    and rest: "for_each (add_authentication L) auths u = Inr t"
    by (auto simp: outcome_simps)
  have "authentication_ok u" using u Cons.prems(2) by (rule add_authentication_ok)
  from Cons.IH [OF rest this] add_authentication_count [OF u Cons.prems(2)] show ?case
    by (simp add: o_def)
qed simp

text \<open>
  From a state that already holds the settings of \<open>x\<close>, the loop completes exactly when every
  further entry is supported and has the same settings.
\<close>

lemma add_authentication_iff:
  assumes "holds_settings s x"
  shows "(\<exists>t. add_authentication L auth s = Inr t) \<longleftrightarrow> supported L auth \<and> settings x = settings auth"
proof
  assume "\<exists>t. add_authentication L auth s = Inr t"
  then obtain t where t: "add_authentication L auth s = Inr t" ..
  from add_authentication_eq_Inr(1,4-6) [OF t] assms
  show "supported L auth \<and> settings x = settings auth"
    by (simp add: holds_settings_def settings_def)
next
  assume "supported L auth \<and> settings x = settings auth"
  then show "\<exists>t. add_authentication L auth s = Inr t"
    using assms holds_settings_same [OF assms, of auth] by (intro add_authentication_total) auto
qed

text \<open>What an entry does to a state that holds the settings of \<open>first\<close>, on every branch.\<close>

definition entry_fault :: "'x operator_lib \<Rightarrow> AuthenticationSpec \<Rightarrow> AuthenticationSpec \<Rightarrow> fault option" where
  "entry_fault L first x =
     (case GetAuthenticationClass L (as_AuthenticationClass x) of
        Inl (ApiNotFound _) \<Rightarrow> Some NilDereference
      | Inl (ApiOther e) \<Rightarrow> Some (Fail (ApiError (ApiOther e)))
      | Inr cls \<Rightarrow>
          if ac_AuthenticationProvider cls = None then Some NilDereference
          else if \<not> supported L x
          then Some (Fail (Errorf (''unsupported authentication provider: '' @ as_AuthenticationClass x)))
          else if as_SyncRolesAt x \<noteq> as_SyncRolesAt first
          then Some (Fail (Errorf (''syncRolesAt'' @ '' must be the same for all authentication providers'')))
          else if as_UserRegistration x \<noteq> as_UserRegistration first
          then Some (Fail (Errorf (''userRegistration'' @ '' must be the same for all authentication providers'')))
          else if as_UserRegistrationRole x \<noteq> as_UserRegistrationRole first
          then Some (Fail (Errorf (''userRegistrationRole'' @ '' must be the same for all authentication providers'')))
          else None)"

lemma keep_same_Some:
  "keep_same f (Some v) new =
     (if v \<noteq> new then Inl (Fail (Errorf (f @ '' must be the same for all authentication providers'')))
      else Inr (Some v))"
  by (simp add: keep_same_def)

lemma add_authentication_fault:
  assumes "holds_settings s first"
  shows "case add_authentication L x s of
      Inl fault \<Rightarrow> entry_fault L first x = Some fault | Inr _ \<Rightarrow> entry_fault L first x = None"
proof (cases "GetAuthenticationClass L (as_AuthenticationClass x)")
  case (Inl e)
  then show ?thesis
    by (cases e) (simp_all add: add_authentication_def GetAuthProvider_def IgnoreNotFound_def entry_fault_def)
next
  case (Inr cls)
  note held = assms [unfolded holds_settings_def]
  show ?thesis
  proof (cases "ac_AuthenticationProvider cls")
    case None
    with Inr show ?thesis
      by (simp add: add_authentication_def GetAuthProvider_def entry_fault_def)
  next
    case (Some p)
    have supp: "supported L x \<longleftrightarrow> prov_OIDC p \<noteq> None \<or> prov_LDAP p \<noteq> None"
      by (simp add: supported_def Inr Some)
    show ?thesis
    proof (cases "supported L x")
      case False
      then show ?thesis
        using supp by (simp add: add_authentication_def GetAuthProvider_def entry_fault_def Inr Some
            choose_authenticator_def)
    next
      case True
      then obtain m where m: "choose_authenticator x p (auth_authenticators s) = Inr m"
        using supp choose_authenticator_supported by metis
      show ?thesis
        using True by (simp add: add_authentication_def GetAuthProvider_def entry_fault_def Inr Some
            m held keep_same_Some)
    qed
  qed
qed

lemma new_authentication_loop_iff:
  "holds_settings s x \<Longrightarrow>
   (\<exists>t. for_each (add_authentication L) auths s = Inr t) \<longleftrightarrow>
     (\<forall>auth \<in> set auths. supported L auth \<and> settings x = settings auth)"
proof (induction auths arbitrary: s)
  case (Cons auth auths)
  show ?case
  proof (cases "\<exists>u. add_authentication L auth s = Inr u")
    case True
    then obtain u where u: "add_authentication L auth s = Inr u" ..
    have ok: "supported L auth \<and> settings x = settings auth"
      using add_authentication_iff [OF Cons.prems] True by blast
    have "holds_settings u x"
      using add_authentication_eq_Inr(2) [OF u] ok by (metis holds_settings_same)
    from Cons.IH [OF this] u ok show ?thesis by simp
  next
    case False
    then have "\<not> (supported L auth \<and> settings x = settings auth)"
      using add_authentication_iff [OF Cons.prems] by blast
    moreover have "\<nexists>t. for_each (add_authentication L) (auth # auths) s = Inr t"
      using False by (auto simp: outcome_simps)
    ultimately show ?thesis by auto
  qed
qed simp

section \<open>The authenticators of a type\<close>

definition of_type :: "Authentication \<Rightarrow> AuthenticatorType \<Rightarrow> authenticator list" where
  "of_type a t = map_slice (auth_authenticators a) t"

lemma of_type_typed: "authentication_ok a \<Longrightarrow> x \<in> set (of_type a t) \<Longrightarrow> authenticator_type x = t"
  by (cases "map_of (auth_authenticators a) t")
    (auto simp: of_type_def map_slice_def authentication_ok_def well_typed_map_alt)

lemma of_type_Nil_iff:
  "authentication_ok a \<Longrightarrow> of_type a t = [] \<longleftrightarrow> map_of (auth_authenticators a) t = None"
  by (cases "map_of (auth_authenticators a) t")
    (auto simp: of_type_def map_slice_def authentication_ok_def well_typed_map_alt)

text \<open>What an entry of the specification asks for; OpenID Connect is preferred.\<close>

definition entry_authenticator :: "'x operator_lib \<Rightarrow> AuthenticationSpec \<Rightarrow> authenticator option" where
  "entry_authenticator L auth =
     (case GetAuthenticationClass L (as_AuthenticationClass auth) of
        Inl _ \<Rightarrow> None
      | Inr cls \<Rightarrow>
          (case ac_AuthenticationProvider cls of
             None \<Rightarrow> None
           | Some p \<Rightarrow>
               (case prov_OIDC p of
                  Some provider \<Rightarrow> Some (OidcAuthenticator \<lparr>oa_config = as_Oidc auth, oa_provider = provider\<rparr>)
                | None \<Rightarrow> map_option LdapAuthenticator (prov_LDAP p))))"

lemma add_authentication_appends:
  assumes "add_authentication L auth s = Inr t"
  shows "\<exists>x. entry_authenticator L auth = Some x \<and>
    auth_authenticators t = map_append (authenticator_type x) x (auth_authenticators s)"
proof -
  obtain p m where p: "GetAuthProvider L (as_AuthenticationClass auth) = Inr (Some p)"
    and m: "choose_authenticator auth p (auth_authenticators s) = Inr m"
    and t: "auth_authenticators t = m"
    using assms by (auto simp: add_authentication_def outcome_simps)
  have "GetAuthenticationClass L (as_AuthenticationClass auth) = Inr cls \<Longrightarrow>
      ac_AuthenticationProvider cls = Some p" for cls
    using p by (simp add: GetAuthProvider_def)
  moreover obtain cls where "GetAuthenticationClass L (as_AuthenticationClass auth) = Inr cls"
    using p by (auto simp: GetAuthProvider_def split: sum.splits option.splits)
  ultimately show ?thesis
    using m t by (cases "prov_OIDC p"; cases "prov_LDAP p")
      (auto simp: entry_authenticator_def choose_authenticator_def)
qed

lemma new_authentication_loop_of_type:
  "for_each (add_authentication L) auths s = Inr t \<Longrightarrow>
   of_type t ty = of_type s ty @
     filter (\<lambda>x. authenticator_type x = ty) (map (\<lambda>auth. the (entry_authenticator L auth)) auths) \<and>
   (\<forall>auth \<in> set auths. entry_authenticator L auth \<noteq> None)"
proof (induction auths arbitrary: s)
  case (Cons auth auths)
  then obtain u where u: "add_authentication L auth s = Inr u"
    and rest: "for_each (add_authentication L) auths u = Inr t"
    by (auto simp: and_then_eq_Inr)
  obtain x where x: "entry_authenticator L auth = Some x"
    and m: "auth_authenticators u = map_append (authenticator_type x) x (auth_authenticators s)"
    using add_authentication_appends [OF u] by blast
  have "of_type u ty = of_type s ty @ (if authenticator_type x = ty then [x] else [])"
    by (simp add: of_type_def m)
  then show ?case using Cons.IH [OF rest] x by simp
qed simp

section \<open>Collecting over any iteration order\<close>

lemma for_each_nested:
  "for_each (\<lambda>(t, typed). for_each f typed) m s = for_each f (concat (map snd m)) s"
  by (induction m arbitrary: s) (auto simp: for_each_append and_then_def split: sum.splits)

definition all_authenticators :: "auth_order \<Rightarrow> Authentication \<Rightarrow> authenticator list" where
  "all_authenticators \<rho> a = concat (map snd (\<rho> (auth_authenticators a)))"

lemma all_authenticators_mset:
  "range_order \<rho> \<Longrightarrow> range_order \<sigma> \<Longrightarrow>
   mset (all_authenticators \<rho> a) = mset (all_authenticators \<sigma> a)"
  unfolding all_authenticators_def
  by (simp add: mset_concat gomap_simps flip: mset_map sum_mset_sum_list)
    (simp add: gomap_simps)

lemma foldl_nested:
  "foldl (\<lambda>acc (t, typed). foldl (\<lambda>acc x. acc @ f x) acc typed) acc m =
     acc @ concat (map f (concat (map snd m)))"
proof -
  have inner: "foldl (\<lambda>acc x. acc @ f x) acc typed = acc @ concat (map f typed)" for acc typed
    by (induction typed arbitrary: acc) auto
  show ?thesis by (induction m arbitrary: acc) (auto simp: inner)
qed

lemma Authentication_GetVolumes_all:
  "Authentication_GetVolumes L \<rho> a = concat (map (GetVolumes L) (all_authenticators \<rho> a))"
  by (simp add: Authentication_GetVolumes_def foldl_nested all_authenticators_def)

lemma Authentication_GetVolumeMounts_all:
  "Authentication_GetVolumeMounts L \<rho> a = concat (map (GetVolumeMounts L) (all_authenticators \<rho> a))"
  by (simp add: Authentication_GetVolumeMounts_def foldl_nested all_authenticators_def)

lemma collect_env_vars:
  "for_each (\<lambda>auth envVars. and_then (GetEnvVars auth) (\<lambda>es. Inr (envVars @ es))) xs acc =
     (if \<forall>x \<in> set xs. \<exists>es. GetEnvVars x = Inr es
      then Inr (acc @ concat (map (\<lambda>x. projr (GetEnvVars x)) xs)) else Inl NilDereference)"
proof (induction xs arbitrary: acc)
  case (Cons x xs)
  have "(\<exists>es. GetEnvVars x = Inr es) \<or> GetEnvVars x = Inl NilDereference"
    by (cases x) (auto simp: ldap_GetEnvVars_def oidc_GetEnvVars_def and_then_def deref_def
        split: option.splits)
  with Cons show ?case by (auto; blast)
qed simp

lemma Authentication_GetEnvVars_all:
  "Authentication_GetEnvVars \<rho> a =
     (if \<forall>x \<in> set (all_authenticators \<rho> a). \<exists>es. GetEnvVars x = Inr es
      then Inr (concat (map (\<lambda>x. projr (GetEnvVars x)) (all_authenticators \<rho> a)))
      else Inl NilDereference)"
  by (simp add: Authentication_GetEnvVars_def for_each_nested collect_env_vars
      all_authenticators_def del: set_concat set_map)

lemma getTotalAuthenticatorCount_sum:
  assumes "range_order \<rho>"
  shows "getTotalAuthenticatorCount \<rho> a = sum_list (map (length \<circ> snd) (auth_authenticators a))"
proof -
  have fold: "foldl (\<lambda>total (t, typed). total + length typed) n m =
      n + sum_list (map (length \<circ> snd) m)" for n and m :: authenticator_map
    by (induction m arbitrary: n) (auto simp: algebra_simps)
  have "sum_mset (image_mset (length \<circ> snd) (mset (\<rho> (auth_authenticators a)))) =
        sum_mset (image_mset (length \<circ> snd) (mset (auth_authenticators a)))"
    using assms by (simp add: gomap_simps)
  then show ?thesis
    by (simp add: getTotalAuthenticatorCount_def fold flip: sum_mset_sum_list)
qed

section \<open>Examples for closed statements\<close>

text \<open>A cluster that knows one LDAP and one OpenID Connect class.\<close>

definition auth_lib :: "nat operator_lib" where
  "auth_lib = sample_lib\<lparr>GetAuthenticationClass := (\<lambda>n.
     if n = ''ldap'' then Inr \<lparr>ac_AuthenticationProvider =
         Some \<lparr>prov_OIDC = None, prov_LDAP = Some sample_ldap\<rparr>\<rparr>
     else if n = ''sso'' then Inr \<lparr>ac_AuthenticationProvider =
         Some \<lparr>prov_OIDC = Some sample_oidc_provider, prov_LDAP = None\<rparr>\<rparr>
     else Inl (ApiNotFound n))\<rparr>"

definition auth_entry :: "string \<Rightarrow> AuthenticationSpec" where
  "auth_entry n = \<lparr>as_AuthenticationClass = n, as_Oidc = Some sample_oidc_spec,
     as_SyncRolesAt = ''Login'', as_UserRegistration = True, as_UserRegistrationRole = ''Public''\<rparr>"

definition sample_authentication :: Authentication where
  "sample_authentication = \<lparr>
     auth_authenticators =
       [(AuthenticatorTypeLDAP, [LdapAuthenticator sample_ldap]),
        (AuthenticatorTypeOIDC, [OidcAuthenticator sample_oidc])],
     auth_syncRolesAt = Some ''Login'', auth_userRegistration = Some True,
     auth_userRegistrationRole = Some ''Public''\<rparr>"

lemma sample_new_authentication:
  "NewAuthentication auth_lib [auth_entry ''ldap'', auth_entry ''sso''] = Inr sample_authentication"
  by (simp add: NewAuthentication_def add_authentication_def GetAuthProvider_def auth_lib_def
      auth_entry_def choose_authenticator_def keep_same_def empty_authentication_def
      map_append_def sample_authentication_def sample_oidc_def)

section \<open>Properties\<close>

text \<open>
  C6: Building the authenticators succeeds exactly when every entry's class resolves to an LDAP
  or OpenID Connect provider and all entries agree on the three common settings.
\<close>

theorem new_authentication_succeeds_iff:
  "(\<exists>a. NewAuthentication L auths = Inr a) \<longleftrightarrow>
     (\<forall>x \<in> set auths. supported L x) \<and>
     (\<forall>x \<in> set auths. \<forall>y \<in> set auths. settings x = settings y)"
proof (cases auths)
  case (Cons x xs)
  have first: "(\<exists>s. add_authentication L x empty_authentication = Inr s) \<longleftrightarrow> supported L x"
    using add_authentication_eq_Inr(1) add_authentication_total [of L x empty_authentication]
      empty_authentication_ok by (auto simp: empty_authentication_def)
  show ?thesis
  proof (cases "supported L x")
    case True
    then obtain s where s: "add_authentication L x empty_authentication = Inr s"
      using first by blast
    have pairs: "(\<forall>y \<in> set (x # xs). \<forall>z \<in> set (x # xs). settings y = settings z) \<longleftrightarrow>
        (\<forall>y \<in> set xs. settings x = settings y)"
      by (metis list.set_intros set_ConsD)
    have "(\<exists>a. NewAuthentication L auths = Inr a) \<longleftrightarrow>
        (\<forall>y \<in> set xs. supported L y \<and> settings x = settings y)"
      using new_authentication_loop_iff [OF add_authentication_eq_Inr(2) [OF s], of L xs]
      by (simp add: Cons NewAuthentication_def s)
    then show ?thesis
      unfolding Cons pairs using True by (simp add: ball_conj_distrib)
  next
    case False
    then have "\<nexists>a. NewAuthentication L auths = Inr a"
      using first by (auto simp: Cons NewAuthentication_def outcome_simps)
    with False show ?thesis by (simp add: Cons)
  qed
qed (simp add: NewAuthentication_def)

theorem new_authentication_succeeds_iff_witness:
  "(\<exists>a. NewAuthentication auth_lib [auth_entry ''ldap'', auth_entry ''sso''] = Inr a) \<and>
   \<not> (\<exists>a. NewAuthentication auth_lib [auth_entry ''ldap'', auth_entry ''none''] = Inr a)"
  by (simp add: new_authentication_succeeds_iff auth_lib_def auth_entry_def supported_def
      settings_def)

text \<open>
  C35: A successful run gives a well-formed aggregate (distinct types, no empty slice, every
  authenticator under its own type, settings present exactly when there is an authenticator)
  that holds one authenticator per entry, however the count ranges over the map.
\<close>

theorem new_authentication_well_formed:
  assumes "NewAuthentication L auths = Inr a" and "range_order \<rho>"
  shows "authentication_ok a \<and> getTotalAuthenticatorCount \<rho> a = length auths"
proof
  show "authentication_ok a"
    using assms(1) empty_authentication_ok new_authentication_loop_ok
    unfolding NewAuthentication_def by blast
  have "sum_list (map (length \<circ> snd) (auth_authenticators a)) = length auths"
    using new_authentication_loop_count [OF _ empty_authentication_ok] assms(1)
    unfolding NewAuthentication_def by (fastforce simp: empty_authentication_def)
  then show "getTotalAuthenticatorCount \<rho> a = length auths"
    by (simp only: getTotalAuthenticatorCount_sum [OF assms(2)])
qed

theorem new_authentication_well_formed_witness:
  "authentication_ok sample_authentication \<and>
   getTotalAuthenticatorCount rev sample_authentication = 2"
  using new_authentication_well_formed [OF sample_new_authentication range_order_rev] by simp

text \<open>
  C36: The authenticators of each type are those the entries ask for, in the order of the entries,
  where an entry whose class has both kinds of provider asks for OpenID Connect.
\<close>

theorem new_authentication_entry_order:
  assumes "NewAuthentication L auths = Inr a"
  shows "of_type a t =
    filter (\<lambda>x. authenticator_type x = t) (map (\<lambda>auth. the (entry_authenticator L auth)) auths)"
  using new_authentication_loop_of_type [of L auths empty_authentication a t] assms
  by (simp add: NewAuthentication_def of_type_def empty_authentication_def map_slice_def)

theorem new_authentication_entry_order_witness:
  "of_type sample_authentication AuthenticatorTypeOIDC = [OidcAuthenticator sample_oidc]"
  using new_authentication_entry_order [OF sample_new_authentication, of AuthenticatorTypeOIDC]
  by (simp add: entry_authenticator_def auth_lib_def auth_entry_def sample_oidc_def)

text \<open>
  C18: What the next entry of the list does, on every branch: a class that is not found ends in a
  nil dereference rather than in an error, any other API error is returned, a class without a
  usable provider is refused by name, and a setting that differs from the first entry's is
  refused by field, in the order of the source's tests.
\<close>

theorem new_authentication_next_entry:
  assumes "NewAuthentication L (first # rest) = Inr s"
  shows "case NewAuthentication L (first # rest @ [x]) of
      Inr _ \<Rightarrow> entry_fault L first x = None
    | Inl fault \<Rightarrow> entry_fault L first x = Some fault"
proof -
  have step: "NewAuthentication L (first # rest @ [x]) = add_authentication L x s"
    using assms for_each_append [of "add_authentication L" "first # rest" "[x]"]
    by (simp add: NewAuthentication_def and_then_def split: sum.splits)
  have held: "holds_settings s first"
  proof -
    obtain u where u: "add_authentication L first empty_authentication = Inr u"
      and rest: "for_each (add_authentication L) rest u = Inr s"
      using assms by (auto simp: NewAuthentication_def outcome_simps)
    show ?thesis
    proof (rule for_each_invariant [where I = "\<lambda>s. holds_settings s first", OF rest])
      show "holds_settings u first" by (rule add_authentication_eq_Inr(2) [OF u])
      fix y v w
      assume v: "holds_settings v first" and w: "add_authentication L y v = Inr w"
      then have "settings first = settings y" using add_authentication_iff [OF v] by blast
      then show "holds_settings w first"
        using add_authentication_eq_Inr(2) [OF w] by (simp add: holds_settings_same)
    qed
  qed
  show ?thesis
    using add_authentication_fault [OF held, of L x] by (simp only: step split: sum.split)
qed

theorem new_authentication_next_entry_witness:
  "NewAuthentication auth_lib [auth_entry ''ldap'', auth_entry ''sso'', auth_entry ''none'']
     = Inl NilDereference \<and>
   (\<exists>s. NewAuthentication auth_lib (auth_entry ''ldap'' # [auth_entry ''sso'']) = Inr s)"
  using new_authentication_next_entry [OF sample_new_authentication, of "auth_entry ''none''"]
    sample_new_authentication
  by (auto simp: auth_lib_def auth_entry_def entry_fault_def split: sum.splits)

text \<open>
  The environment variables do not depend on the order in which the map is ranged over: any
  two orders give the same variables up to their order, or fail alike.
\<close>

theorem env_vars_order_independent:
  assumes "range_order \<rho>" and "range_order \<sigma>"
  shows "case (Authentication_GetEnvVars \<rho> a, Authentication_GetEnvVars \<sigma> a) of
      (Inr es, Inr fs) \<Rightarrow> mset es = mset fs
    | (Inl e, Inl f) \<Rightarrow> e = NilDereference \<and> f = NilDereference
    | _ \<Rightarrow> False"
proof -
  have same: "mset (all_authenticators \<rho> a) = mset (all_authenticators \<sigma> a)"
    by (rule all_authenticators_mset [OF assms])
  then have "set (all_authenticators \<rho> a) = set (all_authenticators \<sigma> a)"
    by (metis set_mset_mset)
  moreover have "mset (concat (map f (all_authenticators \<rho> a))) =
      mset (concat (map f (all_authenticators \<sigma> a)))" for f :: "authenticator \<Rightarrow> EnvVar list"
  proof -
    have "mset (concat (map f xs)) = sum_mset (image_mset (mset \<circ> f) (mset xs))" for xs
      by (induction xs) auto
    then show ?thesis using same by simp
  qed
  ultimately show ?thesis by (simp add: Authentication_GetEnvVars_all)
qed

theorem env_vars_order_independent_witness:
  "case (Authentication_GetEnvVars (\<lambda>m. m) sample_authentication,
         Authentication_GetEnvVars rev sample_authentication) of
      (Inr es, Inr fs) \<Rightarrow> mset es = mset fs
    | (Inl e, Inl f) \<Rightarrow> e = NilDereference \<and> f = NilDereference
    | _ \<Rightarrow> False"
  by (rule env_vars_order_independent [OF range_order_id range_order_rev])

text \<open>
  Every volume mount the aggregate asks for names one of the volumes it asks for, whatever the
  two ranges' orders.
\<close>

theorem every_mount_has_a_volume:
  assumes "range_order \<rho>" and "range_order \<sigma>"
    and "m \<in> set (Authentication_GetVolumeMounts L \<rho> a)"
  shows "\<exists>v. v \<in> set (Authentication_GetVolumes L \<sigma> a) \<and> volume_name v = vm_Name m"
proof -
  have "set (all_authenticators \<rho> a) = set (all_authenticators \<sigma> a)"
    using all_authenticators_mset [OF assms(1,2)] by (metis set_mset_mset)
  moreover have "m \<in> set (concat (map (GetVolumeMounts L) (all_authenticators \<rho> a)))"
    using assms(3) by (simp only: Authentication_GetVolumeMounts_all)
  from dispatch.mount_has_volume [OF this]
  obtain v x where "x \<in> set (all_authenticators \<rho> a)" and "v \<in> set (GetVolumes L x)"
    and "volume_name v = vm_Name m" by auto
  ultimately show ?thesis by (auto simp: Authentication_GetVolumes_all)
qed

theorem every_mount_has_a_volume_witness:
  "\<exists>v. v \<in> set (Authentication_GetVolumes sample_lib rev sample_authentication) \<and>
     volume_name v = ''ldap-ldap-bind''"
proof -
  let ?m = "\<lparr>vm_Name = ''ldap-ldap-bind'', vm_MountPath = ldap_mount_path sample_lib sample_bind\<rparr>"
  have "?m \<in> set (Authentication_GetVolumeMounts sample_lib (\<lambda>m. m) sample_authentication)"
    by (simp add: Authentication_GetVolumeMounts_all all_authenticators_def
        sample_authentication_def ldap_GetVolumeMounts_def sample_ldap_def ldap_getVolumeName_def
        sample_bind_def oidc_GetVolumeMounts_def)
  from every_mount_has_a_volume [OF range_order_id range_order_rev this] show ?thesis by simp
qed

end
