(* ===== verification/WebserverConfig.thy ===== *)
theory WebserverConfig
  imports Authentication
begin

text \<open>
  \<open>internal/controller/common/auth.go\<close>, the web server's configuration: the properties of the
  authenticators are copied into a Go map, and two templates are rendered on it.
\<close>

section \<open>The web server's configuration\<close>

definition getAuthDBConfig :: string where
  \<open>getAuthDBConfig = ''AUTH_TYPE = 'AUTH_DB'' @ [CHR 0x27]\<close>

text \<open>The properties of one authenticator, copied key by key into a Go map.\<close>

definition copy_properties ::
  "'x operator_lib \<Rightarrow> Properties \<Rightarrow> (string \<times> gvalue) list \<Rightarrow> (string \<times> gvalue) list"
where
  "copy_properties L cfg data =
     foldl (\<lambda>d k. AList.update k (GoString (PropertiesGet L cfg k)) d) data (PropertiesKeys L cfg)"

definition copy_config ::
  "'x operator_lib \<Rightarrow> authenticator \<Rightarrow> (string \<times> gvalue) list \<Rightarrow> (string \<times> gvalue) list outcome"
where
  "copy_config L auth data = and_then (GetConfig L auth) (\<lambda>cfg. Inr (copy_properties L cfg data))"

definition common_settings :: "string \<Rightarrow> Authentication \<Rightarrow> (string \<times> gvalue) list \<Rightarrow> (string \<times> gvalue) list"
where
  "common_settings auth_type a data =
     AList.update ''user_registration_role'' (GoPointer (map_option GoString (auth_userRegistrationRole a)))
    (AList.update ''user_registration'' (GoPointer (map_option GoBool (auth_userRegistration a)))
    (AList.update ''auth_roles_sync_at_login'' (GoPointer (map_option GoString (auth_syncRolesAt a)))
    (AList.update ''auth_type'' (GoString auth_type) data)))"

definition oidc_template :: string where
  \<open>oidc_template = ''
AUTH_TYPE = '{{ .auth_type }}'

{{- if .auth_roles_sync_at_login }}
AUTH_ROLES_SYNC_AT_LOGIN = '{{ .auth_roles_sync_at_login }}'
{{- end }}
{{- if .user_registration }}
AUTH_USER_REGISTRATION = {{ .user_registration }}
{{- end }}
{{- if .user_registration_role }}
AUTH_USER_REGISTRATION_ROLE = '{{ .user_registration_role }}'
{{- end }}

OAUTH_PROVIDERS = [
{{- range .providers }}
					{
						'name': 'keycloak',
						'token_key': 'access_token',
						'remote_app': {
							'client_id': {{ .client_id }},
							'client_secret': {{ .client_secret }},
							'client_kwargs': {
								'scope': {{ .scopes }},
							},
							'api_base_url': {{ .api_base_url }},
							'server_metadata_url': {{ .server_metadata_url }},
						}
					},
{{ end }}
				]
''\<close>

definition ldap_template :: string where
  \<open>ldap_template = ''
AUTH_TYPE = '{{ .auth_type }}'

{{- if .auth_roles_sync_at_login }}
AUTH_ROLES_SYNC_AT_LOGIN = '{{ .auth_roles_sync_at_login }}'
{{- end }}
{{- if .user_registration }}
AUTH_USER_REGISTRATION = {{ .user_registration }}
{{- end }}
{{- if .user_registration_role }}
AUTH_USER_REGISTRATION_ROLE = '{{ .user_registration_role }}'
{{- end }}

AUTH_LDAP_SERVER = '{{ .auth_ldap_server }}'
AUTH_LDAP_SEARCH = '{{ .auth_ldap_search }}'
AUTH_LDAP_SEARCH_FILTER = '{{ .auth_ldap_search_filter }}'
AUTH_LDAP_UID_FIELD = '{{ .auth_ldap_uid_field }}'
AUTH_LDAP_GROUP_FIELD = '{{ .auth_ldap_group_field }}'
AUTH_LDAP_FIRSTNAME_FIELD = '{{ .auth_ldap_firstname_field }}'
AUTH_LDAP_LASTNAME_FIELD = '{{ .auth_ldap_lastname_field }}'
AUTH_LDAP_EMAIL_FIELD = '{{ .auth_ldap_email_field }}'

{{- if .auth_ldap_bind_user_file }}
with open('{{ .auth_ldap_bind_user_file }}', 'r') as f:
	AUTH_LDAP_BIND_USER = f.read().strip()
{{- end }}

{{- if .auth_ldap_bind_password_file }}
with open('{{ .auth_ldap_bind_password_file }}', 'r') as f:
	AUTH_LDAP_BIND_PASSWORD = f.read().strip()
{{- end }}
''\<close>

text \<open>
  Every authenticator type of the map is visited; only the one the template is for contributes
  data. The LDAP loop also has the source's test that a first LDAP entry was seen already.
\<close>

definition oidc_data ::
  "'x operator_lib \<Rightarrow> auth_order \<Rightarrow> Authentication \<Rightarrow> (string \<times> gvalue) list outcome"
where
  "oidc_data L \<rho> a =
     for_each (\<lambda>(authType, typed) data.
         if authType = AuthenticatorTypeOIDC
         then and_then (for_each (copy_config L) typed []) (\<lambda>providerData.
                Inr (AList.update ''providers'' (GoMap providerData) data))
         else Inr data)
       (\<rho> (auth_authenticators a)) []"

definition getOidcConfig :: "'x operator_lib \<Rightarrow> auth_order \<Rightarrow> Authentication \<Rightarrow> string outcome" where
  "getOidcConfig L \<rho> a =
     and_then (oidc_data L \<rho> a) (\<lambda>data.
       checked (TemplateParse L oidc_template (GoMap (common_settings ''AUTH_OAUTH'' a data))))"

definition ldap_data ::
  "'x operator_lib \<Rightarrow> auth_order \<Rightarrow> Authentication \<Rightarrow> ((string \<times> gvalue) list \<times> bool) outcome"
where
  "ldap_data L \<rho> a =
     for_each (\<lambda>(authType, typed) (data, exist).
         if authType = AuthenticatorTypeLDAP
         then if exist then Inr (data, exist)
              else and_then (for_each (copy_config L) typed data) (\<lambda>data'. Inr (data', True))
         else Inr (data, exist))
       (\<rho> (auth_authenticators a)) ([], False)"

definition getLdapConfig :: "'x operator_lib \<Rightarrow> auth_order \<Rightarrow> Authentication \<Rightarrow> string outcome" where
  "getLdapConfig L \<rho> a =
     and_then (ldap_data L \<rho> a) (\<lambda>(data, exist).
       checked (TemplateParse L ldap_template (GoMap (common_settings ''AUTH_LDAP'' a data))))"

text \<open>The two templates are rendered one after the other, each with a range of its own.\<close>

definition Authentication_GetConfig ::
  "'x operator_lib \<Rightarrow> auth_order \<Rightarrow> auth_order \<Rightarrow> Authentication \<Rightarrow> string outcome"
where
  "Authentication_GetConfig L \<rho> \<sigma> a =
     (if auth_authenticators a = [] then Inr getAuthDBConfig
      else and_then (getLdapConfig L \<rho> a) (\<lambda>ldapConfig.
           and_then (getOidcConfig L \<sigma> a) (\<lambda>oidcConfig.
             Inr (strings_Join [ldapConfig, oidcConfig] [CHR 0x0A]))))"


section \<open>The templates, parsed\<close>

abbreviation nl :: string where "nl \<equiv> [CHR 0x0A]"
abbreviation q :: string where "q \<equiv> [CHR 0x27]"

definition common_nodes :: "tnode list" where
  "common_nodes =
     [NText (nl @ ''AUTH_TYPE = '' @ q), NField ''auth_type'', NText q,
      NIf ''auth_roles_sync_at_login''
        [NText (nl @ ''AUTH_ROLES_SYNC_AT_LOGIN = '' @ q), NField ''auth_roles_sync_at_login'', NText q],
      NIf ''user_registration''
        [NText (nl @ ''AUTH_USER_REGISTRATION = ''), NField ''user_registration''],
      NIf ''user_registration_role''
        [NText (nl @ ''AUTH_USER_REGISTRATION_ROLE = '' @ q), NField ''user_registration_role'', NText q]]"

definition bind_nodes :: "string \<Rightarrow> string \<Rightarrow> tnode" where
  "bind_nodes key variable =
     NIf key [NText (nl @ ''with open('' @ q), NField key,
       NText (q @ '', '' @ q @ ''r'' @ q @ '') as f:'' @ nl @ [CHR 0x09] @ variable @ '' = f.read().strip()'')]"

definition ldap_nodes :: "tnode list" where
  "ldap_nodes = common_nodes @
     [NText (nl @ nl @ ''AUTH_LDAP_SERVER = '' @ q), NField ''auth_ldap_server'',
      NText (q @ nl @ ''AUTH_LDAP_SEARCH = '' @ q), NField ''auth_ldap_search'',
      NText (q @ nl @ ''AUTH_LDAP_SEARCH_FILTER = '' @ q), NField ''auth_ldap_search_filter'',
      NText (q @ nl @ ''AUTH_LDAP_UID_FIELD = '' @ q), NField ''auth_ldap_uid_field'',
      NText (q @ nl @ ''AUTH_LDAP_GROUP_FIELD = '' @ q), NField ''auth_ldap_group_field'',
      NText (q @ nl @ ''AUTH_LDAP_FIRSTNAME_FIELD = '' @ q), NField ''auth_ldap_firstname_field'',
      NText (q @ nl @ ''AUTH_LDAP_LASTNAME_FIELD = '' @ q), NField ''auth_ldap_lastname_field'',
      NText (q @ nl @ ''AUTH_LDAP_EMAIL_FIELD = '' @ q), NField ''auth_ldap_email_field'',
      NText q,
      bind_nodes ''auth_ldap_bind_user_file'' ''AUTH_LDAP_BIND_USER'',
      bind_nodes ''auth_ldap_bind_password_file'' ''AUTH_LDAP_BIND_PASSWORD'',
      NText nl]"

definition provider_nodes :: "tnode list" where
  \<open>provider_nodes =
     [NText (nl @ ''					{
						'name': 'keycloak',
						'token_key': 'access_token',
						'remote_app': {
							'client_id': ''), NField ''client_id'',
      NText ('','' @ nl @ ''							'client_secret': ''), NField ''client_secret'',
      NText ('','' @ nl @ ''							'client_kwargs': {
								'scope': ''), NField ''scopes'',
      NText ('','' @ nl @ ''							},
							'api_base_url': ''), NField ''api_base_url'',
      NText ('','' @ nl @ ''							'server_metadata_url': ''), NField ''server_metadata_url'',
      NText ('','' @ nl @ ''						}
					},
'')]\<close>

definition oidc_nodes :: "tnode list" where
  "oidc_nodes = common_nodes @
     [NText (nl @ nl @ ''OAUTH_PROVIDERS = [''),
      NRange ''providers'' provider_nodes,
      NText (nl @ replicate 4 (CHR 0x09) @ '']'' @ nl)]"

lemma parse_ldap_template: "parse_template ldap_template = Inr ldap_nodes"
  by code_simp

lemma parse_oidc_template: "parse_template oidc_template = Inr oidc_nodes"
  by code_simp

section \<open>The texts they render\<close>

definition quoted :: "string \<Rightarrow> string" where "quoted s = q @ s @ q"

definition common_text :: "string \<Rightarrow> Authentication \<Rightarrow> string" where
  "common_text auth_type a =
     nl @ ''AUTH_TYPE = '' @ quoted auth_type @
     (case auth_syncRolesAt a of None \<Rightarrow> [] | Some s \<Rightarrow> nl @ ''AUTH_ROLES_SYNC_AT_LOGIN = '' @ quoted s) @
     (case auth_userRegistration a of None \<Rightarrow> [] | Some b \<Rightarrow> nl @ ''AUTH_USER_REGISTRATION = '' @ FormatBool b) @
     (case auth_userRegistrationRole a of None \<Rightarrow> [] | Some r \<Rightarrow> nl @ ''AUTH_USER_REGISTRATION_ROLE = '' @ quoted r)"

definition shown :: "string option \<Rightarrow> string" where
  "shown v = (case v of None \<Rightarrow> ''<no value>'' | Some s \<Rightarrow> s)"

definition bind_text :: "string \<Rightarrow> string option \<Rightarrow> string" where
  "bind_text variable file =
     (case file of None \<Rightarrow> []
      | Some f \<Rightarrow>
          if f = [] then []
          else nl @ ''with open('' @ quoted f @ '', '' @ quoted ''r'' @ '') as f:'' @ nl @
            [CHR 0x09] @ variable @ '' = f.read().strip()'')"

definition ldap_text :: "Authentication \<Rightarrow> (string \<Rightarrow> string option) \<Rightarrow> string" where
  "ldap_text a get = common_text ''AUTH_LDAP'' a @ nl @
     nl @ ''AUTH_LDAP_SERVER = '' @ quoted (shown (get ''auth_ldap_server'')) @
     nl @ ''AUTH_LDAP_SEARCH = '' @ quoted (shown (get ''auth_ldap_search'')) @
     nl @ ''AUTH_LDAP_SEARCH_FILTER = '' @ quoted (shown (get ''auth_ldap_search_filter'')) @
     nl @ ''AUTH_LDAP_UID_FIELD = '' @ quoted (shown (get ''auth_ldap_uid_field'')) @
     nl @ ''AUTH_LDAP_GROUP_FIELD = '' @ quoted (shown (get ''auth_ldap_group_field'')) @
     nl @ ''AUTH_LDAP_FIRSTNAME_FIELD = '' @ quoted (shown (get ''auth_ldap_firstname_field'')) @
     nl @ ''AUTH_LDAP_LASTNAME_FIELD = '' @ quoted (shown (get ''auth_ldap_lastname_field'')) @
     nl @ ''AUTH_LDAP_EMAIL_FIELD = '' @ quoted (shown (get ''auth_ldap_email_field'')) @
     bind_text ''AUTH_LDAP_BIND_USER'' (get ''auth_ldap_bind_user_file'') @
     bind_text ''AUTH_LDAP_BIND_PASSWORD'' (get ''auth_ldap_bind_password_file'') @ nl"

text \<open>The OpenID Connect text with an empty list of providers.\<close>

definition no_providers_text :: "Authentication \<Rightarrow> string" where
  "no_providers_text a = common_text ''AUTH_OAUTH'' a @ nl @ nl @ ''OAUTH_PROVIDERS = ['' @
     nl @ replicate 4 (CHR 0x09) @ '']'' @ nl"

lemma map_of_common_settings:
  "map_of (common_settings t a data) k =
     (if k = ''user_registration_role'' then Some (GoPointer (map_option GoString (auth_userRegistrationRole a)))
      else if k = ''user_registration'' then Some (GoPointer (map_option GoBool (auth_userRegistration a)))
      else if k = ''auth_roles_sync_at_login'' then Some (GoPointer (map_option GoString (auth_syncRolesAt a)))
      else if k = ''auth_type'' then Some (GoString t) else map_of data k)"
  by (simp add: common_settings_def update_conv' fun_upd_def)

lemma exec_common:
  "exec_nodes common_nodes (GoMap (common_settings t a data)) = Inr (common_text t a)"
  by (cases "auth_syncRolesAt a"; cases "auth_userRegistration a"; cases "auth_userRegistrationRole a")
    (simp_all add: common_nodes_def common_text_def quoted_def map_of_common_settings)

lemma exec_bind:
  assumes "map_of m key = map_option GoString v"
  shows "exec_node (bind_nodes key variable) (GoMap m) = Inr (bind_text variable v)"
  using assms by (cases v) (simp_all add: bind_nodes_def bind_text_def quoted_def)

definition only_strings :: "(string \<times> gvalue) list \<Rightarrow> (string \<Rightarrow> string option) \<Rightarrow> bool" where
  "only_strings data get \<longleftrightarrow> (\<forall>k. map_of data k = map_option GoString (get k))"

lemma exec_field_string:
  "map_of m k = map_option GoString v \<Longrightarrow> exec_node (NField k) (GoMap m) = Inr (shown v)"
  by (cases v) (simp_all add: shown_def)

lemma exec_ldap:
  assumes "only_strings data get"
  shows "exec_nodes ldap_nodes (GoMap (common_settings ''AUTH_LDAP'' a data)) = Inr (ldap_text a get)"
proof -
  let ?m = "common_settings ''AUTH_LDAP'' a data"
  have keys: "map_of ?m k = map_option GoString (get k)"
    if "k \<notin> {''user_registration_role'', ''user_registration'', ''auth_roles_sync_at_login'', ''auth_type''}" for k
    using assms that by (simp add: map_of_common_settings only_strings_def)
  have field: "exec_node (NField k) (GoMap ?m) = Inr (shown (get k))"
    if "k \<notin> {''user_registration_role'', ''user_registration'', ''auth_roles_sync_at_login'', ''auth_type''}" for k
    using keys [OF that] by (rule exec_field_string)
  have bind: "exec_node (bind_nodes k v) (GoMap ?m) = Inr (bind_text v (get k))"
    if "k \<notin> {''user_registration_role'', ''user_registration'', ''auth_roles_sync_at_login'', ''auth_type''}" for k v
    using keys [OF that] by (rule exec_bind)
  show ?thesis
    by (simp add: ldap_nodes_def exec_nodes_append exec_common field bind ldap_text_def quoted_def
        del: exec_node.simps(2))
qed

lemma exec_provider_string:
  "exec_nodes provider_nodes (GoString s) = Inl (NoSuchField ''client_id'')"
  by (simp add: provider_nodes_def)

lemma exec_oidc_without_providers:
  assumes "map_of data ''providers'' = None"
  shows "exec_nodes oidc_nodes (GoMap (common_settings ''AUTH_OAUTH'' a data)) = Inr (no_providers_text a)"
  using assms
  by (simp add: oidc_nodes_def exec_nodes_append exec_common no_providers_text_def map_of_common_settings)

text \<open>
  With providers, the range hands each provider property to the body as a string, and the first
  field the body asks for does not exist on it.
\<close>

lemma exec_oidc_with_providers:
  assumes "map_of data ''providers'' = Some (GoMap ps)" and "ps \<noteq> []"
    and "list_all (\<lambda>(k, v). \<exists>s. v = GoString s) ps"
  shows "\<exists>e. exec_nodes oidc_nodes (GoMap (common_settings ''AUTH_OAUTH'' a data)) = Inl e"
proof -
  let ?m = "common_settings ''AUTH_OAUTH'' a data"
  have "sort_key fst ps \<noteq> []"
    using assms(2) by (metis set_empty set_sort)
  then obtain p rest where sorted: "sort_key fst ps = p # rest" by (meson neq_Nil_conv)
  then have "p \<in> set ps" by (metis list.set_intros(1) set_sort)
  then obtain k s where "p = (k, GoString s)"
    using assms(3) by (auto simp: list_all_iff)
  with sorted have "sort_key fst ps = (k, GoString s) # rest" by simp
  then have "range_values (GoMap ps) = Inr (GoString s # map snd rest)" by simp
  moreover have "field_value (GoMap ?m) ''providers'' = Inr (GoMap ps)"
    using assms(1) by (simp add: map_of_common_settings)
  ultimately have "exec_node (NRange ''providers'' provider_nodes) (GoMap ?m) = Inl (NoSuchField ''client_id'')"
    using exec_provider_string by (intro range_fails)
  then show ?thesis
    by (simp add: oidc_nodes_def exec_nodes_append exec_common del: exec_node.simps(4))
qed

section \<open>The data the templates are rendered on\<close>

lemma foldl_update_strings:
  "map_of (foldl (\<lambda>d k. AList.update k (GoString (f k)) d) data ks) k =
     (if k \<in> set ks then Some (GoString (f k)) else map_of data k)"
  by (induction ks arbitrary: data) (auto simp: update_conv')

lemma copy_properties_strings:
  assumes "properties_ok L" and "only_strings data get"
  shows "only_strings (copy_properties L cfg data) (get ++ map_of (rev cfg))"
proof -
  have keys: "set (PropertiesKeys L cfg) = fst ` set cfg"
    using assms(1) by (simp add: properties_ok_def)
  have dom: "k \<in> fst ` set cfg \<longleftrightarrow> map_of (rev cfg) k \<noteq> None" for k
    by (metis map_of_eq_None_iff set_rev)
  show ?thesis
    using assms(2) PropertiesGet_rev [OF assms(1)] dom
    by (fastforce simp: only_strings_def copy_properties_def foldl_update_strings keys map_add_def
        split: option.splits)
qed

lemma copy_config_eq_Inr:
  "copy_config L x data = Inr data' \<longleftrightarrow> (\<exists>cfg. GetConfig L x = Inr cfg \<and> data' = copy_properties L cfg data)"
  by (auto simp: copy_config_def outcome_simps)

definition keys_within :: "'x operator_lib \<Rightarrow> string set \<Rightarrow> authenticator \<Rightarrow> bool" where
  "keys_within L K x \<longleftrightarrow> (\<forall>cfg. GetConfig L x = Inr cfg \<longrightarrow> fst ` set cfg \<subseteq> K)"

lemma copy_config_loop:
  assumes "properties_ok L" and "for_each (copy_config L) xs data = Inr data'" and "only_strings data get"
    and "\<forall>x \<in> set xs. keys_within L K x" and "dom get \<subseteq> K"
  shows "\<exists>get'. only_strings data' get' \<and> dom get' \<subseteq> K"
  using assms(2-5)
proof (induction xs arbitrary: data get)
  case (Cons x xs)
  obtain cfg where cfg: "GetConfig L x = Inr cfg"
    and rest: "for_each (copy_config L) xs (copy_properties L cfg data) = Inr data'"
    using Cons.prems(1) by (auto simp: copy_config_eq_Inr and_then_eq_Inr)
  have "fst ` set cfg \<subseteq> K" using Cons.prems(3) cfg by (simp add: keys_within_def)
  then have "dom (get ++ map_of (rev cfg)) \<subseteq> K"
    using Cons.prems(4) by (auto simp: dom_map_of_conv_image_fst)
  then show ?case
    using Cons.IH [OF rest copy_properties_strings [OF assms(1) Cons.prems(2)]] Cons.prems(3) by simp
qed auto

lemma copy_config_loop_last:
  assumes "properties_ok L" and "for_each (copy_config L) (xs @ [x]) [] = Inr data"
    and "GetConfig L x = Inr cfg"
    and "\<forall>x \<in> set xs. keys_within L (fst ` set cfg) x"
  shows "only_strings data (map_of (rev cfg))"
proof -
  obtain d where d: "for_each (copy_config L) xs [] = Inr d" and data: "data = copy_properties L cfg d"
    using assms(2,3) by (auto simp: for_each_append copy_config_eq_Inr and_then_eq_Inr)
  have "only_strings [] Map.empty" by (simp add: only_strings_def)
  then obtain get where get: "only_strings d get" "dom get \<subseteq> fst ` set cfg"
    using copy_config_loop [OF assms(1) d _ assms(4), of Map.empty] by (metis dom_empty empty_subsetI)
  have dom: "dom (map_of (rev cfg)) = fst ` set cfg"
    by (simp add: dom_map_of_conv_image_fst)
  have "get k = None" if "map_of (rev cfg) k = None" for k
    using that get(2) dom by (metis domIff subsetD)
  then have "get ++ map_of (rev cfg) = map_of (rev cfg)"
    by (intro ext) (simp add: map_add_def split: option.split)
  then show ?thesis
    using copy_properties_strings [OF assms(1) get(1), of cfg] by (simp add: data)
qed

definition ldap_keys :: "string set" where
  "ldap_keys = {''auth_ldap_server'', ''auth_ldap_search'', ''auth_ldap_search_filter'',
     ''auth_ldap_uid_field'', ''auth_ldap_group_field'', ''auth_ldap_firstname_field'',
     ''auth_ldap_lastname_field'', ''auth_ldap_email_field'', ''auth_ldap_bind_user_file'',
     ''auth_ldap_bind_password_file''}"

lemma ldap_GetConfig_keys: "ldap_GetConfig L p = Inr cfg \<Longrightarrow> fst ` set cfg = ldap_keys"
  by (cases "ldap_BindCredentials p")
    (auto simp: ldap_GetConfig_None ldap_GetConfig_Some Let_def ldap_keys_def)

lemma ldap_keys_within: "keys_within L ldap_keys (LdapAuthenticator p)"
  by (simp add: keys_within_def ldap_GetConfig_keys)

lemma authentication_ok_distinct: "authentication_ok a \<Longrightarrow> distinct (map fst (auth_authenticators a))"
  by (simp add: authentication_ok_def well_typed_map_def)

lemma ldap_of_type:
  assumes "authentication_ok a" and "x \<in> set (of_type a AuthenticatorTypeLDAP)"
  shows "\<exists>p. x = LdapAuthenticator p"
  using of_type_typed [OF assms] by (cases x) simp_all

lemma oidc_of_type:
  assumes "authentication_ok a" and "x \<in> set (of_type a AuthenticatorTypeOIDC)"
  shows "\<exists>p. x = OidcAuthenticator p"
  using of_type_typed [OF assms] by (cases x) simp_all

lemma ldap_data_eq:
  assumes "range_order \<rho>" and "authentication_ok a"
  shows "ldap_data L \<rho> a =
     (if of_type a AuthenticatorTypeLDAP = [] then Inr ([], False)
      else and_then (for_each (copy_config L) (of_type a AuthenticatorTypeLDAP) [])
        (\<lambda>data. Inr (data, True)))"
  unfolding ldap_data_def
  using of_type_Nil_iff [OF assms(2), of AuthenticatorTypeLDAP]
  by (subst range_order_one_key [where k = AuthenticatorTypeLDAP])
    (auto simp: assms authentication_ok_distinct of_type_def map_slice_def split: option.splits)

lemma oidc_data_eq:
  assumes "range_order \<rho>" and "authentication_ok a"
  shows "oidc_data L \<rho> a =
     (if of_type a AuthenticatorTypeOIDC = [] then Inr []
      else and_then (for_each (copy_config L) (of_type a AuthenticatorTypeOIDC) [])
        (\<lambda>ps. Inr [(''providers'', GoMap ps)]))"
  unfolding oidc_data_def
  using of_type_Nil_iff [OF assms(2), of AuthenticatorTypeOIDC]
  by (subst range_order_one_key [where k = AuthenticatorTypeOIDC])
    (auto simp: assms authentication_ok_distinct of_type_def map_slice_def split: option.splits)

text \<open>What the loops copy is data the template parser's contract speaks of.\<close>

lemma copy_properties_data: "string_map data \<Longrightarrow> string_map (copy_properties L cfg data)"
proof -
  have "string_map d \<Longrightarrow> string_map (foldl (\<lambda>d k. AList.update k (GoString (f k)) d) d ks)" for f d ks
    by (induction ks arbitrary: d) (auto intro: string_map_update)
  then show "string_map data \<Longrightarrow> string_map (copy_properties L cfg data)"
    by (simp add: copy_properties_def)
qed

lemma copied_data:
  assumes "for_each (copy_config L) xs data = Inr data'" and "string_map data"
  shows "string_map data'"
  by (rule for_each_invariant [where I = string_map, OF assms(1)])
    (use assms(2) in \<open>auto simp: copy_config_eq_Inr copy_properties_data\<close>)

lemma common_settings_data: "template_data data \<Longrightarrow> template_data (common_settings t a data)"
  unfolding common_settings_def
  by (cases "auth_syncRolesAt a"; cases "auth_userRegistration a"; cases "auth_userRegistrationRole a")
    (simp_all add: template_data_update)

lemma ldap_data_ok:
  assumes "range_order \<rho>" and "authentication_ok a" and "ldap_data L \<rho> a = Inr (data, exist)"
  shows "template_data data"
  using assms(3) copied_data [of L "of_type a AuthenticatorTypeLDAP" "[]"]
  by (auto simp: ldap_data_eq [OF assms(1,2)] and_then_eq_Inr intro: string_map_data split: if_splits)

lemma render_ldap:
  assumes "template_ok L" and "range_order \<rho>" and "authentication_ok a"
    and "ldap_data L \<rho> a = Inr (data, exist)" and "only_strings data get"
  shows "getLdapConfig L \<rho> a = Inr (ldap_text a get)"
  using runs_text_templateD(1) [OF assms(1) [unfolded template_ok_def] parse_ldap_template
      common_settings_data [OF ldap_data_ok [OF assms(2-4)]] exec_ldap [OF assms(5)]]
  by (simp add: getLdapConfig_def assms(4))

lemma render_oidc_without_providers:
  assumes "template_ok L" and "range_order \<rho>" and "authentication_ok a"
    and "of_type a AuthenticatorTypeOIDC = []"
  shows "getOidcConfig L \<rho> a = Inr (no_providers_text a)"
  using runs_text_templateD(1) [OF assms(1) [unfolded template_ok_def] parse_oidc_template
      common_settings_data [OF template_data_Nil] exec_oidc_without_providers]
  by (simp add: getOidcConfig_def oidc_data_eq assms)

lemma copy_config_loop_total:
  "(\<exists>data'. for_each (copy_config L) xs data = Inr data') \<longleftrightarrow> (\<forall>x \<in> set xs. \<exists>cfg. GetConfig L x = Inr cfg)"
proof (induction xs arbitrary: data)
  case (Cons x xs)
  show ?case
  proof (cases "GetConfig L x")
    case (Inr cfg)
    then show ?thesis using Cons.IH by (simp add: copy_config_def)
  qed (simp add: copy_config_def)
qed simp

lemma ldap_data_total:
  assumes "range_order \<rho>" and "authentication_ok a"
  shows "(\<exists>data exist. ldap_data L \<rho> a = Inr (data, exist)) \<longleftrightarrow>
    (\<forall>x \<in> set (of_type a AuthenticatorTypeLDAP). \<exists>cfg. GetConfig L x = Inr cfg)"
  using copy_config_loop_total [of L "of_type a AuthenticatorTypeLDAP" "[]"]
  by (auto simp: ldap_data_eq [OF assms] and_then_eq_Inr)

lemma ldap_data_strings:
  assumes "properties_ok L" and "range_order \<rho>" and "authentication_ok a"
    and "ldap_data L \<rho> a = Inr (data, exist)"
  shows "\<exists>get. only_strings data get"
proof (cases "of_type a AuthenticatorTypeLDAP = []")
  case True
  then have "only_strings data Map.empty"
    using assms(4) by (simp add: ldap_data_eq [OF assms(2,3)] only_strings_def)
  then show ?thesis by (rule exI [of _ Map.empty])
next
  case False
  then have loop: "for_each (copy_config L) (of_type a AuthenticatorTypeLDAP) [] = Inr data"
    using assms(4) by (auto simp: ldap_data_eq [OF assms(2,3)] and_then_eq_Inr)
  show ?thesis
    using copy_config_loop [OF assms(1) loop, of Map.empty UNIV]
    by (auto simp: only_strings_def keys_within_def)
qed

text \<open>A provider's configuration has entries, so a non-empty slice leaves data behind.\<close>

lemma oidc_copied_data:
  assumes "properties_ok L" and "for_each (copy_config L) (xs @ [OidcAuthenticator u]) [] = Inr ps"
  shows "ps \<noteq> []" and "string_map ps"
proof -
  obtain d cfg where cfg: "oidc_GetConfig u = Inr cfg" and ps: "ps = copy_properties L cfg d"
    using assms(2) by (auto simp: for_each_append copy_config_eq_Inr and_then_eq_Inr)
  have "''client_id'' \<in> set (PropertiesKeys L cfg)"
    using assms(1) cfg by (auto simp: properties_ok_def oidc_GetConfig_def Let_def outcome_simps)
  then have "map_of ps ''client_id'' \<noteq> None"
    by (simp add: ps copy_properties_def foldl_update_strings)
  then show "ps \<noteq> []" by auto
  show "string_map ps" by (rule copied_data [OF assms(2)]) simp
qed

lemma oidc_config_fails:
  assumes "template_ok L" and "properties_ok L" and "range_order \<rho>" and "authentication_ok a"
    and "of_type a AuthenticatorTypeOIDC \<noteq> []"
  shows "\<exists>fault. getOidcConfig L \<rho> a = Inl fault"
proof (cases "oidc_data L \<rho> a")
  case (Inr data)
  obtain xs x where slice: "of_type a AuthenticatorTypeOIDC = xs @ [x]"
    using assms(5) by (metis rev_exhaust)
  then obtain u where x: "x = OidcAuthenticator u"
    using oidc_of_type [OF assms(4), of x] by auto
  from Inr obtain ps where loop: "for_each (copy_config L) (xs @ [OidcAuthenticator u]) [] = Inr ps"
    and data: "data = [(''providers'', GoMap ps)]"
    by (auto simp: oidc_data_eq [OF assms(3,4)] slice x and_then_eq_Inr)
  note copied = oidc_copied_data [OF assms(2) loop]
  have "template_data data" using copied(2) by (simp add: data template_data_def)
  moreover obtain e where "exec_nodes oidc_nodes (GoMap (common_settings ''AUTH_OAUTH'' a data)) = Inl e"
    using exec_oidc_with_providers [of data ps a] copied by (auto simp: data string_map_def)
  ultimately show ?thesis
    using runs_text_templateD(2) [OF assms(1) [unfolded template_ok_def] parse_oidc_template common_settings_data]
    by (fastforce simp: getOidcConfig_def Inr)
qed (simp add: getOidcConfig_def)

section \<open>When rendering succeeds\<close>

lemma config_succeeds_iff:
  assumes "template_ok L" and "properties_ok L" and "range_order \<rho>" and "range_order \<sigma>"
    and "authentication_ok a"
  shows "(\<exists>cfg. Authentication_GetConfig L \<rho> \<sigma> a = Inr cfg) \<longleftrightarrow>
    of_type a AuthenticatorTypeOIDC = [] \<and>
    list_all (\<lambda>x. \<exists>ps. GetConfig L x = Inr ps) (of_type a AuthenticatorTypeLDAP)"
proof (cases "auth_authenticators a = []")
  case True
  then show ?thesis by (simp add: Authentication_GetConfig_def of_type_def map_slice_def)
next
  case False
  have ldap: "(\<exists>cfg. getLdapConfig L \<rho> a = Inr cfg) \<longleftrightarrow>
      list_all (\<lambda>x. \<exists>ps. GetConfig L x = Inr ps) (of_type a AuthenticatorTypeLDAP)"
    using ldap_data_total [OF assms(3,5), of L] ldap_data_strings [OF assms(2,3,5)]
      render_ldap [OF assms(1,3,5)]
    by (fastforce simp: list_all_iff getLdapConfig_def and_then_eq_Inr)
  have oidc: "(\<exists>cfg. getOidcConfig L \<sigma> a = Inr cfg) \<longleftrightarrow> of_type a AuthenticatorTypeOIDC = []"
    using oidc_config_fails [OF assms(1,2,4,5)] render_oidc_without_providers [OF assms(1,4,5)]
    by fastforce
  show ?thesis
    using ldap oidc False by (auto simp: Authentication_GetConfig_def and_then_eq_Inr)
qed

section \<open>What a configuration assigns\<close>

text \<open>
  The configuration is a Python file. Its lines, and what the lines of the form \<open>name = value\<close>
  assign to a name, in order: the last one counts.
\<close>

fun text_lines :: "string \<Rightarrow> string list" where
  "text_lines [] = [[]]"
| "text_lines (c # s) =
     (if c = CHR 0x0A then [] # text_lines s
      else (c # hd (text_lines s)) # tl (text_lines s))"




lemma text_lines_not_Nil [simp]: "text_lines s \<noteq> []"
  by (cases s) auto




definition lines_text :: "string list \<Rightarrow> string" where
  "lines_text ls = concat (map (\<lambda>l. CHR 0x0A # l) ls)"

lemma lines_text_simps [simp]:
  "lines_text [] = []"
  "lines_text (l # ls) = CHR 0x0A # l @ lines_text ls"
  "lines_text (ls @ ms) = lines_text ls @ lines_text ms"
  by (simp_all add: lines_text_def)










section \<open>Examples for closed statements\<close>

definition second_ldap :: LDAPProvider where
  "second_ldap = sample_ldap\<lparr>ldap_Hostname := ''ldap2'', ldap_Port := 0\<rparr>"

definition ldap_only :: Authentication where
  "ldap_only = \<lparr>auth_authenticators =
       [(AuthenticatorTypeLDAP, [LdapAuthenticator sample_ldap, LdapAuthenticator second_ldap])],
     auth_syncRolesAt = Some ''Login'', auth_userRegistration = Some True,
     auth_userRegistrationRole = Some ''Public''\<rparr>"

lemma ldap_only_ok: "authentication_ok ldap_only"
  by (simp add: authentication_ok_def ldap_only_def well_typed_map_def)

lemma ldap_only_of_type:
  "of_type ldap_only AuthenticatorTypeLDAP = [LdapAuthenticator sample_ldap] @ [LdapAuthenticator second_ldap]"
  "of_type ldap_only AuthenticatorTypeOIDC = []"
  by (simp_all add: of_type_def ldap_only_def map_slice_def)

lemma sample_authentication_ok: "authentication_ok sample_authentication"
  by (simp add: authentication_ok_def sample_authentication_def well_typed_map_def)

section \<open>Properties\<close>

text \<open>
  C19: The LDAP part of the web server's configuration, for any number of LDAP authenticators: it
  is the template's text filled with the properties of the last one (the source's log message
  promises the first), whatever the order of the range over the map.
\<close>

theorem ldap_config_text:
  assumes "template_ok L" and "properties_ok L" and "range_order \<rho>" and "authentication_ok a"
    and "of_type a AuthenticatorTypeLDAP = xs @ [LdapAuthenticator p]"
    and "ldap_GetConfig L p = Inr cfg"
    and "\<forall>x \<in> set xs. \<exists>cfg. GetConfig L x = Inr cfg"
  shows "getLdapConfig L \<rho> a = Inr (ldap_text a (map_of cfg))"
proof -
  have "\<exists>data. for_each (copy_config L) (xs @ [LdapAuthenticator p]) [] = Inr data"
    using assms(6,7) by (simp add: copy_config_loop_total)
  then obtain data where data: "for_each (copy_config L) (xs @ [LdapAuthenticator p]) [] = Inr data" ..
  have "\<forall>x \<in> set xs. keys_within L (fst ` set cfg) x"
  proof
    fix x
    assume "x \<in> set xs"
    then obtain q' where "x = LdapAuthenticator q'"
      using ldap_of_type [OF assms(4), of x] assms(5) by auto
    then show "keys_within L (fst ` set cfg) x"
      by (simp only: ldap_GetConfig_keys [OF assms(6)] ldap_keys_within)
  qed
  then have strings: "only_strings data (map_of (rev cfg))"
    using copy_config_loop_last [OF assms(2) data, of cfg] assms(6) by simp
  have "map_of (rev cfg) = map_of cfg"
    using ldap.config_distinct [OF assms(6)] by (rule range_order_map_of [OF range_order_rev])
  moreover have "ldap_data L \<rho> a = Inr (data, True)"
    using data by (simp add: ldap_data_eq [OF assms(3,4)] assms(5))
  ultimately show ?thesis
    using render_ldap [OF assms(1,3,4) _ strings] by simp
qed

theorem ldap_config_text_witness:
  "\<exists>cfg. ldap_GetConfig sample_lib second_ldap = Inr cfg \<and>
    getLdapConfig sample_lib rev ldap_only = Inr (ldap_text ldap_only (map_of cfg)) \<and>
    map_of cfg ''auth_ldap_server'' = Some (ldap_server second_ldap)"
proof -
  have bind: "ldap_BindCredentials second_ldap = Some sample_bind"
    "ldap_BindCredentials sample_ldap = Some sample_bind"
    by (simp_all add: second_ldap_def sample_ldap_def)
  obtain cfg where cfg: "ldap_GetConfig sample_lib second_ldap = Inr cfg"
    and "map_of cfg ''auth_ldap_server'' = Some (ldap_server second_ldap)"
    by (simp add: ldap_GetConfig_Some [OF bind(1)] Let_def)
  moreover have "getLdapConfig sample_lib rev ldap_only = Inr (ldap_text ldap_only (map_of cfg))"
    by (rule ldap_config_text [OF template_ok_sample_lib properties_ok_sample_lib range_order_rev
          ldap_only_ok ldap_only_of_type(1) cfg])
      (simp add: ldap_GetConfig_Some [OF bind(2)] Let_def)
  ultimately show ?thesis by blast
qed

text \<open>
  C7: When the web server of a cluster has a configuration at all: exactly when every entry of
  the authentication list resolves to an LDAP provider with bind credentials. One OpenID Connect
  provider is enough to make every rendering fail, because the template ranges over the
  provider's properties where it should range over providers.
\<close>

theorem webserver_config_succeeds_iff:
  assumes "template_ok L" and "properties_ok L" and "range_order \<rho>" and "range_order \<sigma>"
    and "NewAuthentication L auths = Inr a"
  shows "(\<exists>cfg. Authentication_GetConfig L \<rho> \<sigma> a = Inr cfg) \<longleftrightarrow>
    list_all (\<lambda>auth. \<exists>p. entry_authenticator L auth = Some (LdapAuthenticator p) \<and>
      ldap_BindCredentials p \<noteq> None) auths"
proof -
  have ok: "authentication_ok a"
    using new_authentication_loop_ok [OF _ empty_authentication_ok] assms(5)
    unfolding NewAuthentication_def by blast
  have asked: "of_type a t = filter (\<lambda>x. authenticator_type x = t)
      (map (\<lambda>auth. the (entry_authenticator L auth)) auths)"
    "\<forall>auth \<in> set auths. entry_authenticator L auth \<noteq> None" for t
    using new_authentication_loop_of_type [of L auths empty_authentication a t] assms(5)
    by (simp_all add: NewAuthentication_def of_type_def empty_authentication_def map_slice_def)
  have entry: "authenticator_type (the (entry_authenticator L auth)) \<noteq> AuthenticatorTypeOIDC \<and>
      (authenticator_type (the (entry_authenticator L auth)) = AuthenticatorTypeLDAP \<longrightarrow>
        (\<exists>ps. GetConfig L (the (entry_authenticator L auth)) = Inr ps)) \<longleftrightarrow>
      (\<exists>p. entry_authenticator L auth = Some (LdapAuthenticator p) \<and> ldap_BindCredentials p \<noteq> None)"
    if some: "entry_authenticator L auth \<noteq> None" for auth
  proof -
    obtain x where "entry_authenticator L auth = Some x" using some by blast
    then show ?thesis
      by (cases x) (simp_all add: ldap_GetConfig_total)
  qed
  have "(\<exists>cfg. Authentication_GetConfig L \<rho> \<sigma> a = Inr cfg) \<longleftrightarrow>
      of_type a AuthenticatorTypeOIDC = [] \<and>
      list_all (\<lambda>x. \<exists>ps. GetConfig L x = Inr ps) (of_type a AuthenticatorTypeLDAP)"
    by (rule config_succeeds_iff [OF assms(1-4) ok])
  also have "\<dots> \<longleftrightarrow> (\<forall>auth \<in> set auths.
      authenticator_type (the (entry_authenticator L auth)) \<noteq> AuthenticatorTypeOIDC \<and>
      (authenticator_type (the (entry_authenticator L auth)) = AuthenticatorTypeLDAP \<longrightarrow>
        (\<exists>ps. GetConfig L (the (entry_authenticator L auth)) = Inr ps)))"
    by (auto simp: asked(1) list_all_iff filter_empty_conv)
  finally show ?thesis
    using entry asked(2) by (simp add: list_all_iff)
qed

theorem webserver_config_succeeds_iff_witness:
  "\<nexists>cfg. Authentication_GetConfig auth_lib rev (\<lambda>m. m) sample_authentication = Inr cfg"
proof -
  have "template_ok auth_lib" and "properties_ok auth_lib"
    using template_ok_sample_lib properties_ok_sample_lib
    by (simp_all add: template_ok_def properties_ok_def auth_lib_def)
  from webserver_config_succeeds_iff [OF this range_order_rev range_order_id sample_new_authentication]
  show ?thesis
    by (simp add: entry_authenticator_def auth_lib_def auth_entry_def)
qed



text \<open>
  C37: The configuration does not depend on the order in which Go ranges over the map of
  authenticators.
\<close>

theorem webserver_config_order_independent:
  assumes "range_order \<rho>" and "range_order \<rho>'" and "range_order \<sigma>" and "range_order \<sigma>'"
    and "authentication_ok a"
  shows "Authentication_GetConfig L \<rho> \<sigma> a = Authentication_GetConfig L \<rho>' \<sigma>' a"
  by (simp add: Authentication_GetConfig_def getLdapConfig_def getOidcConfig_def
      ldap_data_eq oidc_data_eq assms)

theorem webserver_config_order_independent_witness:
  "Authentication_GetConfig sample_lib rev (\<lambda>m. m) sample_authentication =
   Authentication_GetConfig sample_lib (\<lambda>m. m) rev sample_authentication"
  by (rule webserver_config_order_independent [OF range_order_rev range_order_id range_order_id
        range_order_rev sample_authentication_ok])

end
