(* ===== verification/ConfigMap.thy ===== *)
theory ConfigMap
  imports WebserverConfig
begin

text \<open>
  \<open>internal/controller/common/config.go\<close>: the config map of a role group. It holds three files,
  the web server's configuration, the Python logging configuration and the log shipper's
  configuration. The builder keeps the arguments it was made from; building it computes all
  three files before it adds the first.
\<close>

section \<open>The builder\<close>

definition DefaultLogLevel :: string where "DefaultLogLevel = ''INFO''"

record 'x ConfigMapBuilder =
  cm_base :: ConfigMapBase
  cm_ClusterConfig :: "'x ClusterConfigSpec option"
  cm_RoleGroupConfig :: "'x ConfigSpec option"
  cm_Auth :: "Authentication option"

definition NewConfigMapBuilder ::
  "string \<Rightarrow> 'x ClusterConfigSpec option \<Rightarrow> 'x ConfigSpec option \<Rightarrow> Authentication option \<Rightarrow>
   BuilderOptions \<Rightarrow> 'x ConfigMapBuilder"
where
  "NewConfigMapBuilder name clusterConfig roleGroupConfig auth options =
     \<lparr>cm_base = \<lparr>cmb_Name = name, cmb_Options = options, cmb_Items = []\<rparr>,
      cm_ClusterConfig = clusterConfig, cm_RoleGroupConfig = roleGroupConfig, cm_Auth = auth\<rparr>"

definition NewConfigReconciler ::
  "'x operator_lib \<Rightarrow> 'x ClusterConfigSpec option \<Rightarrow> 'x ConfigSpec option \<Rightarrow> RoleGroupInfo \<Rightarrow>
   Authentication option \<Rightarrow> BuilderOptions \<Rightarrow> 'x ConfigMapBuilder"
where
  "NewConfigReconciler L clusterConfig roleGroupConfig roleGroupInfo auth options =
     NewConfigMapBuilder (GetFullName L roleGroupInfo) clusterConfig roleGroupConfig auth options"

abbreviation cm_RoleName :: "'x ConfigMapBuilder \<Rightarrow> string" where
  "cm_RoleName b \<equiv> o_RoleName (cmb_Options (cm_base b))"

section \<open>The logging configuration\<close>

record log_levels =
  file_level :: string
  console_level :: string
  root_level :: string

definition default_log_levels :: log_levels where
  "default_log_levels =
     \<lparr>file_level = DefaultLogLevel, console_level = DefaultLogLevel, root_level = DefaultLogLevel\<rparr>"

text \<open>The levels of one container's logging entry; a logger that is present but nil is read anyway.\<close>

definition container_log_levels :: "LoggingConfigSpec \<Rightarrow> log_levels outcome" where
  "container_log_levels logConfig =
     (let file = (case lc_File logConfig of None \<Rightarrow> DefaultLogLevel | Some f \<Rightarrow> ll_Level f);
          console = (case lc_Console logConfig of None \<Rightarrow> DefaultLogLevel | Some c \<Rightarrow> ll_Level c)
      in case map_of (lc_Loggers logConfig) ''root'' of
           None \<Rightarrow> Inr \<lparr>file_level = file, console_level = console, root_level = DefaultLogLevel\<rparr>
         | Some rootLogger \<Rightarrow>
             and_then (deref rootLogger) (\<lambda>l.
               Inr \<lparr>file_level = file, console_level = console, root_level = ll_Level l\<rparr>))"

text \<open>
  \<open>Logging\<close> is a field of the embedded \<open>*RoleGroupConfigSpec\<close>, so it is read through that
  pointer.
\<close>

definition log_levels_of :: "'x ConfigMapBuilder \<Rightarrow> log_levels outcome" where
  "log_levels_of b =
     (case cm_RoleGroupConfig b of
        None \<Rightarrow> Inr default_log_levels
      | Some config \<Rightarrow>
          and_then (deref (cs_RoleGroupConfigSpec config)) (\<lambda>rgc.
            case rgc_Logging rgc of
              None \<Rightarrow> Inr default_log_levels
            | Some logging \<Rightarrow>
                (case map_of (log_Containers logging) (cm_RoleName b) of
                   None \<Rightarrow> Inr default_log_levels
                 | Some logConfig \<Rightarrow> container_log_levels logConfig)))"

definition logging_text :: "string \<Rightarrow> string \<Rightarrow> string \<Rightarrow> string \<Rightarrow> string \<Rightarrow> string" where
  \<open>logging_text logDir consoleLogLevel fileLogLevel logFile rootLogLevel = ''
import logging
import os
from copy import deepcopy
from logging.config import dictConfig

from airflow.config_templates.airflow_local_settings import DEFAULT_LOGGING_CONFIG

LOGDIR = '' @ [CHR 0x27] @
     logDir @
     [CHR 0x27] @ ''

os.makedirs(LOGDIR, exist_ok=True)

LOGGING_CONFIG = deepcopy(DEFAULT_LOGGING_CONFIG)

LOGGING_CONFIG.setdefault('loggers', {})
for logger_name, logger_config in LOGGING_CONFIG['loggers'].items():
	logger_config['level'] = logging.NOTSET
	# Do not change the setting of the airflow.task logger because
	# otherwise DAGs cannot be loaded anymore.
	if logger_name != 'airflow.task':
		logger_config['propagate'] == True

LOGGING_CONFIG.setdefault('formatters', {})
LOGGING_CONFIG['formatters']['json'] = {
	'()': 'airflow.utils.log.json_formatter.JSONFormatter',
	'json_fields': ['asctime', 'levelname', 'message', 'name']
}

LOGGING_CONFIG.setdefault('handlers', {})
LOGGING_CONFIG['handlers'].setdefault('console', {})
LOGGING_CONFIG['handlers']['console']['level'] = '' @ [CHR 0x27] @
     consoleLogLevel @
     [CHR 0x27] @ ''
LOGGING_CONFIG['handlers']['file'] = {
	'class': 'logging.handlers.RotatingFileHandler',
	'formatter': 'json',
	'level': '' @ [CHR 0x27] @
     fileLogLevel @
     [CHR 0x27] @ '',
	'filename': '' @ [CHR 0x27] @
     logFile @
     [CHR 0x27] @ '',
	'maxBytes': 10485760,
	'backupCount': 5
}

LOGGING_CONFIG['root'] = {
	'level': '' @ [CHR 0x27] @
     rootLogLevel @
     [CHR 0x27] @ '',
	'handlers': ['console', 'file'],
	'filters': ['mask_secrets']
}
''\<close>

definition getLogging :: "'x operator_lib \<Rightarrow> 'x ConfigMapBuilder \<Rightarrow> string outcome" where
  "getLogging L b =
     and_then (log_levels_of b) (\<lambda>levels.
       let logFile = path_Join [KubedoopLogDir L, cm_RoleName b, ''airflow.log.json''];
           logDir = path_Join [KubedoopLogDir L, cm_RoleName b]
       in Inr (IndentTab4Spaces L
            (logging_text logDir (console_level levels) (file_level levels) logFile (root_level levels))))"

section \<open>The web server's and the log shipper's configuration\<close>

definition webserver_prelude :: string where
  \<open>webserver_prelude = ''
import os

from flask_appbuilder.const import (AUTH_DB, AUTH_LDAP, AUTH_OAUTH, AUTH_OID, AUTH_REMOTE_USER)


baseDir = os.path.abspath(os.path.dirname(__file__))

WTF_CSRF_ENABLED = False

''\<close>

definition getAirflowConfig ::
  "'x operator_lib \<Rightarrow> auth_order \<Rightarrow> auth_order \<Rightarrow> 'x ConfigMapBuilder \<Rightarrow> string outcome"
where
  "getAirflowConfig L \<rho> \<sigma> b =
     (case cm_Auth b of
        None \<Rightarrow> Inr (IndentTab4Spaces L webserver_prelude)
      | Some auth \<Rightarrow>
          and_then (Authentication_GetConfig L \<rho> \<sigma> auth) (\<lambda>authCfg.
            Inr (IndentTab4Spaces L (webserver_prelude @ authCfg))))"

definition getVector :: "'x operator_lib \<Rightarrow> 'x ConfigMapBuilder \<Rightarrow> string outcome" where
  "getVector L b =
     (case cm_ClusterConfig b of
        None \<Rightarrow> Inr []
      | Some cc \<Rightarrow>
          if cc_VectorAggregatorConfigMapName cc \<noteq> []
          then let opts = cmb_Options (cm_base b)
               in checked (MakeVectorYaml L (OwnerNamespace L) (o_ClusterName opts) (o_RoleName opts)
                    (o_RoleGroupName opts) (cc_VectorAggregatorConfigMapName cc))
          else Inr [])"

section \<open>Build\<close>

definition ConfigMapBuilder_Build ::
  "'x operator_lib \<Rightarrow> auth_order \<Rightarrow> auth_order \<Rightarrow> ('x ConfigMapBuilder, 'x) stateful"
where
  "ConfigMapBuilder_Build L \<rho> \<sigma> b =
     method_then (method_return (getAirflowConfig L \<rho> \<sigma> b)) (\<lambda>airflowConfig.
     method_then (method_return (getLogging L b)) (\<lambda>loggingConfig.
     method_then (method_return (getVector L b)) (\<lambda>vectorConfig b.
       let base = AddItem ''vector.yaml'' vectorConfig
                 (AddItem ''log_config.py'' loggingConfig
                 (AddItem ''webserver_config.py'' airflowConfig (cm_base b)))
       in (b\<lparr>cm_base := base\<rparr>, Inr (ConfigMapObject L base))))) b"

section \<open>Which levels are rendered\<close>

text \<open>The logging entry of the role's container, read without the pointers' hazards.\<close>

definition container_entry :: "'x ConfigMapBuilder \<Rightarrow> LoggingConfigSpec option" where
  "container_entry b =
     Option.bind (cm_RoleGroupConfig b) (\<lambda>config.
     Option.bind (cs_RoleGroupConfigSpec config) (\<lambda>rgc.
     Option.bind (rgc_Logging rgc) (\<lambda>logging. map_of (log_Containers logging) (cm_RoleName b))))"

definition configured_levels :: "'x ConfigMapBuilder \<Rightarrow> string list" where
  "configured_levels b =
     (case container_entry b of
        None \<Rightarrow> []
      | Some e \<Rightarrow> map ll_Level (concat (map (\<lambda>l. case l of None \<Rightarrow> [] | Some l \<Rightarrow> [l])
          [lc_File e, lc_Console e, Option.bind (map_of (lc_Loggers e) ''root'') (\<lambda>l. l)])))"

lemma log_levels_of_cases:
  assumes "log_levels_of b = Inr ls"
  shows "container_entry b = None \<and> ls = default_log_levels \<or>
    (\<exists>e. container_entry b = Some e \<and> container_log_levels e = Inr ls)"
  using assms
  by (auto simp: log_levels_of_def container_entry_def and_then_eq_Inr deref_eq_Inr
      split: option.splits Option.bind_splits)

lemma log_levels_configured:
  assumes "log_levels_of b = Inr ls"
  shows "insert DefaultLogLevel {file_level ls, console_level ls, root_level ls} =
    insert DefaultLogLevel (set (configured_levels b))"
  using log_levels_of_cases [OF assms]
proof (elim disjE exE conjE)
  fix e
  assume e: "container_entry b = Some e" and "container_log_levels e = Inr ls"
  then show ?thesis
    by (cases "lc_File e"; cases "lc_Console e"; cases "map_of (lc_Loggers e) ''root''")
      (auto simp: configured_levels_def container_log_levels_def Let_def and_then_eq_Inr deref_eq_Inr)
qed (simp add: configured_levels_def default_log_levels_def)

text \<open>
  The levels the custom resource definition admits, and the names Python's \<open>logging\<close> module
  knows.
\<close>

definition crd_log_levels :: "string list" where
  "crd_log_levels = [''FATAL'', ''ERROR'', ''WARN'', ''INFO'', ''DEBUG'', ''TRACE'']"

definition python_log_levels :: "string list" where
  "python_log_levels =
     [''CRITICAL'', ''FATAL'', ''ERROR'', ''WARN'', ''WARNING'', ''INFO'', ''DEBUG'', ''NOTSET'']"

lemma crd_level_known_to_python:
  "l \<in> set crd_log_levels \<Longrightarrow> l \<in> set python_log_levels \<longleftrightarrow> l \<noteq> ''TRACE''"
  by (auto simp: crd_log_levels_def python_log_levels_def)

section \<open>Examples for closed statements\<close>

definition sample_options :: BuilderOptions where
  "sample_options = \<lparr>o_ClusterName = ''airflow'', o_RoleName = WebserversRoleName,
     o_RoleGroupName = ''default'', o_Labels = Some 0, o_Annotations = Some 1\<rparr>"

definition sample_logging :: LoggingConfigSpec where
  "sample_logging = \<lparr>lc_Loggers = [(''root'', Some \<lparr>ll_Level = ''TRACE''\<rparr>)],
     lc_Console = Some \<lparr>ll_Level = ''DEBUG''\<rparr>, lc_File = None\<rparr>"

definition sample_config :: "nat ConfigSpec" where
  "sample_config = \<lparr>cs_RoleGroupConfigSpec =
     Some \<lparr>rgc_Logging = Some \<lparr>log_Containers = [(WebserversRoleName, sample_logging)]\<rparr>, rgc_rest = 0\<rparr>\<rparr>"

definition sample_config_map :: "nat ConfigMapBuilder" where
  "sample_config_map =
     NewConfigMapBuilder ''airflow-web'' None (Some sample_config) (Some sample_authentication) sample_options"

lemmas sample_config_map_defs =
  sample_config_map_def NewConfigMapBuilder_def sample_config_def sample_options_def sample_logging_def

section \<open>Properties\<close>

text \<open>
  Building the config map is all or nothing: either the three files are added in one go, in
  the order web server, logging, log shipper, or the builder is left as it was and the fault is
  that of the first file that could not be computed.
\<close>

theorem config_map_build_all_or_nothing:
  "case ConfigMapBuilder_Build L \<rho> \<sigma> b of
     (b', Inr obj) \<Rightarrow> \<exists>web log vec.
        getAirflowConfig L \<rho> \<sigma> b = Inr web \<and> getLogging L b = Inr log \<and> getVector L b = Inr vec \<and>
        cmb_Items (cm_base b') = cmb_Items (cm_base b) @
          [(''webserver_config.py'', web), (''log_config.py'', log), (''vector.yaml'', vec)] \<and>
        b' = b\<lparr>cm_base := cm_base b'\<rparr> \<and> obj = ConfigMapObject L (cm_base b')
   | (b', Inl fault) \<Rightarrow> b' = b \<and>
       (getAirflowConfig L \<rho> \<sigma> b = Inl fault \<or>
        (\<exists>web. getAirflowConfig L \<rho> \<sigma> b = Inr web \<and> getLogging L b = Inl fault) \<or>
        (\<exists>web log. getAirflowConfig L \<rho> \<sigma> b = Inr web \<and> getLogging L b = Inr log \<and>
           getVector L b = Inl fault))"
  by (cases "getAirflowConfig L \<rho> \<sigma> b"; cases "getLogging L b"; cases "getVector L b")
    (simp_all add: ConfigMapBuilder_Build_def AddItem_def Let_def)

text \<open>
  C40: Rendering the logging configuration fails only in two ways, both nil dereferences: a
  configuration without its embedded role group part, and a root logger that is present but nil.
\<close>

theorem logging_fails_iff:
  "(case getLogging L b of
      Inr text \<Rightarrow> \<exists>ls. log_levels_of b = Inr ls
    | Inl fault \<Rightarrow> fault = NilDereference \<and>
        (map_option cs_RoleGroupConfigSpec (cm_RoleGroupConfig b) = Some None \<or>
         Option.bind (container_entry b) (\<lambda>e. map_of (lc_Loggers e) ''root'') = Some None)) \<and>
   (map_option cs_RoleGroupConfigSpec (cm_RoleGroupConfig b) = Some None \<or>
    Option.bind (container_entry b) (\<lambda>e. map_of (lc_Loggers e) ''root'') = Some None
      \<longleftrightarrow> getLogging L b = Inl NilDereference)"
  by (auto simp: getLogging_def Let_def log_levels_of_def container_entry_def
      container_log_levels_def and_then_def deref_def split: option.splits)

text \<open>
  C39: With levels the custom resource definition admits, every level the logging configuration
  is rendered with is known to Python unless \<open>TRACE\<close> is configured: levels are copied verbatim,
  the documented mapping of \<open>TRACE\<close> to \<open>DEBUG\<close> does not take place.
\<close>

theorem log_levels_known_to_python_iff:
  assumes "log_levels_of b = Inr ls"
    and "list_all (\<lambda>l. l \<in> set crd_log_levels) (configured_levels b)"
  shows "{file_level ls, console_level ls, root_level ls} \<subseteq> set python_log_levels \<longleftrightarrow>
    ''TRACE'' \<notin> set (configured_levels b)"
proof -
  have default: "DefaultLogLevel \<in> set python_log_levels"
    by (simp add: DefaultLogLevel_def python_log_levels_def)
  then have "{file_level ls, console_level ls, root_level ls} \<subseteq> set python_log_levels \<longleftrightarrow>
      insert DefaultLogLevel {file_level ls, console_level ls, root_level ls} \<subseteq> set python_log_levels"
    by blast
  also have "\<dots> \<longleftrightarrow> set (configured_levels b) \<subseteq> set python_log_levels"
    unfolding log_levels_configured [OF assms(1)] using default by blast
  also have "\<dots> \<longleftrightarrow> ''TRACE'' \<notin> set (configured_levels b)"
    using assms(2) crd_level_known_to_python by (auto simp: list_all_iff)
  finally show ?thesis .
qed

theorem log_levels_known_to_python_iff_witness:
  "\<exists>ls. log_levels_of sample_config_map = Inr ls \<and>
    \<not> {file_level ls, console_level ls, root_level ls} \<subseteq> set python_log_levels"
proof -
  have levels: "configured_levels sample_config_map = [''DEBUG'', ''TRACE'']"
    by (simp add: configured_levels_def container_entry_def sample_config_map_defs)
  obtain ls where ls: "log_levels_of sample_config_map = Inr ls"
    by (simp add: log_levels_of_def container_log_levels_def sample_config_map_defs)
  have "list_all (\<lambda>l. l \<in> set crd_log_levels) (configured_levels sample_config_map)"
    by (simp add: levels crd_log_levels_def)
  from log_levels_known_to_python_iff [OF ls this] ls show ?thesis
    by (simp add: levels)
qed

text \<open>
  The log file the configuration writes to lies directly in the directory the configuration
  creates.
\<close>

theorem log_file_in_log_dir:
  assumes "is_rooted (KubedoopLogDir L)" and "path_Join [KubedoopLogDir L, cm_RoleName b] \<noteq> ''/''"
    and "log_levels_of b = Inr ls"
  shows "\<exists>dir. dir = path_Join [KubedoopLogDir L, cm_RoleName b] \<and> is_rooted dir \<and>
    getLogging L b = Inr (IndentTab4Spaces L
      (logging_text dir (console_level ls) (file_level ls) (dir @ ''/airflow.log.json'') (root_level ls)))"
proof -
  let ?dir = "path_Join [KubedoopLogDir L, cm_RoleName b]"
  have rooted: "is_rooted ?dir"
    by (rule is_rooted_path_Join2 [OF assms(1)])
  then have "path_Clean ?dir = ?dir"
    using path_Join_clean [of "[KubedoopLogDir L, cm_RoleName b]"] by (auto simp: is_rooted_def)
  then have "path_Join [KubedoopLogDir L, cm_RoleName b, ''airflow.log.json''] = ?dir @ ''/airflow.log.json''"
    using path_Join_name [OF rooted _ assms(2), of "''airflow.log.json''"]
    by (simp add: path_Join_three [OF assms(1)] plain_def)
  with rooted show ?thesis by (simp add: getLogging_def assms(3))
qed

theorem log_file_in_log_dir_witness:
  "\<exists>ls :: log_levels. getLogging sample_lib sample_config_map = Inr
     (logging_text ''/kubedoop/log/webservers'' (console_level ls) (file_level ls)
        ''/kubedoop/log/webservers/airflow.log.json'' (root_level ls))"
proof -
  obtain ls where ls: "log_levels_of sample_config_map = Inr ls"
    by (simp add: log_levels_of_def container_log_levels_def sample_config_map_defs)
  have dir: "path_Join [KubedoopLogDir sample_lib, cm_RoleName sample_config_map] = ''/kubedoop/log/webservers''"
    by code_simp
  have "is_rooted (KubedoopLogDir sample_lib)" and "IndentTab4Spaces sample_lib = (\<lambda>s. s)"
    by (simp_all add: sample_lib_def is_rooted_def)
  then have "getLogging sample_lib sample_config_map = Inr
     (logging_text ''/kubedoop/log/webservers'' (console_level ls) (file_level ls)
        ''/kubedoop/log/webservers/airflow.log.json'' (root_level ls))"
    using log_file_in_log_dir [OF _ _ ls, of sample_lib] by (simp add: dir)
  then show ?thesis by (rule exI [where x = ls])
qed

end
