(* ===== verification/Executor.thy ===== *)
theory Executor
  imports ApiTypes
begin

text \<open>
  \<open>internal/controller/common/commons.go\<close>: the kinds of executor and their names. The type is a
  32-bit integer in the source, so values outside the three constants exist.
\<close>

type_synonym ExecutorType = "32 word"

definition LocalExecutor :: ExecutorType where
  "LocalExecutor = 0"

definition CeleryExecutor :: ExecutorType where
  "CeleryExecutor = 1"

definition KubernetesExecutor :: ExecutorType where
  "KubernetesExecutor = 2"

lemmas executor_defs = LocalExecutor_def CeleryExecutor_def KubernetesExecutor_def

definition GetExecutorName :: "ExecutorType \<Rightarrow> string" where
  "GetExecutorName executor =
     (if executor = LocalExecutor then ''LocalExecutor''
      else if executor = CeleryExecutor then ''CeleryExecutor''
      else if executor = KubernetesExecutor then ''KubernetesExecutor''
      else ''UnknownExecutor'')"

lemma executors_distinct [simp]:
  "LocalExecutor \<noteq> CeleryExecutor" "CeleryExecutor \<noteq> LocalExecutor"
  "LocalExecutor \<noteq> KubernetesExecutor" "KubernetesExecutor \<noteq> LocalExecutor"
  "CeleryExecutor \<noteq> KubernetesExecutor" "KubernetesExecutor \<noteq> CeleryExecutor"
  by (simp_all add: executor_defs)

lemma GetExecutorName_known [simp]:
  "GetExecutorName LocalExecutor = ''LocalExecutor''"
  "GetExecutorName CeleryExecutor = ''CeleryExecutor''"
  "GetExecutorName KubernetesExecutor = ''KubernetesExecutor''"
  by (simp_all add: GetExecutorName_def)

text \<open>A known name determines the executor, and only unknown values share the last one.\<close>

lemma GetExecutorName_inject:
  assumes "GetExecutorName e = GetExecutorName f" and "GetExecutorName e \<noteq> ''UnknownExecutor''"
  shows "e = f"
  using assms by (auto simp: GetExecutorName_def split: if_splits)

lemma GetExecutorName_unknown:
  "GetExecutorName e = ''UnknownExecutor'' \<longleftrightarrow>
     e \<notin> {LocalExecutor, CeleryExecutor, KubernetesExecutor}"
  by (simp add: GetExecutorName_def)

end
