(* ===== verification/StatefulSet.thy ===== *)
theory StatefulSet
  imports ConfigMap Executor
begin

text \<open>
  \<open>internal/controller/common/statefulset.go\<close>: the stateful set of a role group. It has a main
  container with the role's command, its environment and two mounts, a metrics exporter beside
  it, and, when a log aggregator is configured, a log shipper. Arguments, environment and the
  main container are computed before the builder is touched; from then on every call is recorded
  in the library's builder, also when a later step fails.
\<close>

section \<open>Constants\<close>

definition AppConfigPath :: "'x operator_lib \<Rightarrow> string" where
  "AppConfigPath L = path_Join [KubedoopRoot L, ''app'', ''config'']"

definition AirflowHome :: "'x operator_lib \<Rightarrow> string" where
  "AirflowHome L = path_Join [KubedoopRoot L, ''airflow'']"

definition EnvKeyAdminUserName :: string where "EnvKeyAdminUserName = ''ADMIN_USERNAME''"
definition ENVKeyAdminFirstName :: string where "ENVKeyAdminFirstName = ''ADMIN_FIRSTNAME''"
definition EnvKeyAdminLastName :: string where "EnvKeyAdminLastName = ''ADMIN_LASTNAME''"
definition EnvKeyAdminEmail :: string where "EnvKeyAdminEmail = ''ADMIN_EMAIL''"
definition EnvKeyAdminPassword :: string where "EnvKeyAdminPassword = ''ADMIN_PASSWORD''"

lemmas admin_env_defs =
  EnvKeyAdminUserName_def ENVKeyAdminFirstName_def EnvKeyAdminLastName_def EnvKeyAdminEmail_def
  EnvKeyAdminPassword_def

definition LogVolumeMountName :: string where "LogVolumeMountName = ''log''"
definition ConfigVolumeMountName :: string where "ConfigVolumeMountName = ''config''"

lemmas volume_name_defs = LogVolumeMountName_def ConfigVolumeMountName_def

definition BashLibs :: string where
  \<open>BashLibs = ''
prepare_signal_handlers()
{
    unset term_child_pid
    unset term_kill_needed
    trap 'handle_term_signal' TERM
}

handle_term_signal()
{
    if [ "${term_child_pid}" ]; then
        kill -TERM "${term_child_pid}" 2>/dev/null
    else
        term_kill_needed="yes"
    fi
}

wait_for_termination()
{
    set +e
    term_child_pid=$1
    if [[ -v term_kill_needed ]]; then
        kill -TERM "${term_child_pid}" 2>/dev/null
    fi
    wait ${term_child_pid} 2>/dev/null
    trap - TERM
    wait ${term_child_pid} 2>/dev/null
    set -e
}
''\<close>

section \<open>The builder\<close>

record 'x StatefulSetBuilder =
  ss_base :: "'x StatefulSetBase"
  ss_ClusterConfig :: "'x ClusterConfigSpec option"
  ss_Executor :: ExecutorType
  ss_Auth :: "Authentication option"

abbreviation ss_RoleName :: "'x StatefulSetBuilder \<Rightarrow> string" where
  "ss_RoleName b \<equiv> o_RoleName (sb_Options (ss_base b))"

abbreviation ss_RoleGroupName :: "'x StatefulSetBuilder \<Rightarrow> string" where
  "ss_RoleGroupName b \<equiv> o_RoleGroupName (sb_Options (ss_base b))"

text \<open>
  The composite literal of the source sets every field but \<open>Auth\<close>, which so keeps its zero value.
\<close>

definition NewStatefulSetBuilder ::
  "string \<Rightarrow> 'x ClusterConfigSpec option \<Rightarrow> 32 word option \<Rightarrow> Image \<Rightarrow> ContainerPort list \<Rightarrow>
   'x option \<Rightarrow> 'x RoleGroupConfigSpec option \<Rightarrow> ExecutorType \<Rightarrow> Authentication option \<Rightarrow>
   BuilderOptions \<Rightarrow> 'x StatefulSetBuilder"
where
  "NewStatefulSetBuilder name clusterConfig replicas img ports overrides roleGroupConfig executor auth options =
     \<lparr>ss_base = \<lparr>sb_Name = name, sb_Replicas = replicas, sb_Image = img, sb_Overrides = overrides,
        sb_RoleGroupConfig = roleGroupConfig, sb_Options = options, sb_Calls = []\<rparr>,
      ss_ClusterConfig = clusterConfig, ss_Executor = executor, ss_Auth = None\<rparr>"

text \<open>The reconciler is the builder with the flag that stops the workload.\<close>

record 'x StatefulSetReconciler =
  ssr_builder :: "'x StatefulSetBuilder"
  ssr_stopped :: bool

definition NewStatefulSetReconciler ::
  "'x operator_lib \<Rightarrow> RoleGroupInfo \<Rightarrow> 'x ClusterConfigSpec option \<Rightarrow> ContainerPort list \<Rightarrow> Image \<Rightarrow>
   32 word option \<Rightarrow> bool \<Rightarrow> 'x option \<Rightarrow> 'x RoleGroupConfigSpec option \<Rightarrow> ExecutorType \<Rightarrow>
   Authentication option \<Rightarrow> BuilderOptions \<Rightarrow> 'x StatefulSetReconciler outcome"
where
  "NewStatefulSetReconciler L roleGroupInfo clusterConfig ports img replicas stopped overrides
       roleGroupConfig executor auth options =
     Inr \<lparr>ssr_builder = NewStatefulSetBuilder (GetFullName L roleGroupInfo) clusterConfig replicas img
            ports overrides roleGroupConfig executor auth options,
          ssr_stopped = stopped\<rparr>"

section \<open>The main container's arguments\<close>

definition scheduler_command :: string where
  \<open>scheduler_command = ''
airflow db init
airflow db upgrade
set +x	# disable xtrace
airflow users create '' @ [CHR 0x5C] @ ''
	--username $'' @ EnvKeyAdminUserName @ '' '' @ [CHR 0x5C] @ ''
	--firstname $'' @ ENVKeyAdminFirstName @ '' '' @ [CHR 0x5C] @ ''
	--lastname $'' @ EnvKeyAdminLastName @ '' '' @ [CHR 0x5C] @ ''
	--email $'' @ EnvKeyAdminEmail @ '' '' @ [CHR 0x5C] @ ''
	--password $'' @ EnvKeyAdminPassword @ '' '' @ [CHR 0x5C] @ ''
	--role "Admin"

set -x 	# enable xtrace

airflow scheduler &
''\<close>

definition main_command :: "string \<Rightarrow> string outcome" where
  "main_command role =
     (if role = WebserversRoleName then Inr ''airflow webserver &''
      else if role = SchedulersRoleName then Inr scheduler_command
      else if role = CeleryExecutorsRoleName then Inr ''airflow celery worker &''
      else Inl (Fail (Errorf (''unsupported role '' @ role))))"

definition container_script :: "'x operator_lib \<Rightarrow> string \<Rightarrow> string" where
  \<open>container_script L mainCommand = ''
mkdir -p '' @ AppConfigPath L @ ''
mkdir -p '' @ AirflowHome L @ ''
cp -RL '' @ KubedoopConfigDirMount L @ ''/*.py '' @ AppConfigPath L @ ''
cp -RL '' @ KubedoopConfigDirMount L @ ''/*.py '' @ AirflowHome L @ ''

'' @ BashLibs @ ''

prepare_signal_handlers
rm -rf '' @ VectorShutdownFile L @ ''

'' @ mainCommand @ ''
wait_for_termination $!
mkdir -p '' @ VectorWatcherDir L @ '' && touch '' @ VectorShutdownFile L @ ''
''\<close>

definition getMainContainerArgs :: "'x operator_lib \<Rightarrow> 'x StatefulSetBuilder \<Rightarrow> string outcome" where
  "getMainContainerArgs L b =
     and_then (main_command (ss_RoleName b)) (\<lambda>mainCommand.
       Inr (IndentTab4Spaces L (container_script L mainCommand)))"

section \<open>The main container's environment\<close>

definition value_env :: "string \<Rightarrow> string \<Rightarrow> EnvVar" where
  "value_env name val = \<lparr>ev_Name = name, ev_Value = val, ev_ValueFrom = None\<rparr>"

definition dag_folder :: "'x operator_lib \<Rightarrow> 'x ClusterConfigSpec \<Rightarrow> string" where
  "dag_folder L cc =
     (let DagFloder = path_Join [KubedoopRoot L, ''airflow'', ''dags'']
      in case cc_DagsGitSync cc of
           [] \<Rightarrow> DagFloder
         | dag # _ \<Rightarrow> if dgs_GitFolder dag \<noteq> [] then path_Join [DagFloder, dgs_GitFolder dag] else DagFloder)"

definition base_envs :: "'x operator_lib \<Rightarrow> 'x ClusterConfigSpec \<Rightarrow> ExecutorType \<Rightarrow> EnvVar list" where
  "base_envs L cc executor =
     [value_env ''PYTHONPATH'' (strings_Join [AppConfigPath L, dag_folder L cc] '':''),
      value_env ''AIRFLOW__CORE__DAGS_FOLDER'' (dag_folder L cc),
      value_env ''AIRFLOW__LOGGING__LOGGING_CONFIG_CLASS'' ''log_config.LOGGING_CONFIG'',
      value_env ''AIRFLOW__METRICS__STATSD_ON'' ''True'',
      value_env ''AIRFLOW__METRICS__STATSD_HOST'' ''0.0.0.0'',
      value_env ''AIRFLOW__METRICS__STATSD_PORT'' ''8125'',
      value_env ''AIRFLOW__API__AUTH_BACKENDS'' ''airflow.api.auth.backend.basic_auth'',
      secret_env ''AIRFLOW__WEBSERVER__SECRET_KEY'' ''appSecretKey'' (cc_Credentials cc),
      secret_env ''AIRFLOW__DATABASE__SQL_ALCHEMY_CONN'' ''connections.sqlalchemyDatabaseUri'' (cc_Credentials cc),
      value_env ''AIRFLOW__CORE__LOAD_EXAMPLES'' (FormatBool (cc_LoadExamples cc)),
      value_env ''AIRFLOW__WEBSERVER__EXPOSE_CONFIG'' (FormatBool (cc_ExposeConfig cc)),
      value_env ''AIRFLOW__CORE__EXECUTOR'' (GetExecutorName executor)]"

definition celery_envs :: "string \<Rightarrow> EnvVar list" where
  "celery_envs credentialsName =
     [secret_env ''AIRFLOW__CELERY__RESULT_BACKEND'' ''connections.celeryResultBackend'' credentialsName,
      secret_env ''AIRFLOW__CELERY__BROKER_URL'' ''connections.celeryBrokerUrl'' credentialsName]"

definition admin_envs :: "string \<Rightarrow> EnvVar list" where
  "admin_envs credentialsName =
     map (\<lambda>(name, key). secret_env name key credentialsName)
       [(EnvKeyAdminUserName, ''adminUser.username''),
        (ENVKeyAdminFirstName, ''adminUser.firstname''),
        (EnvKeyAdminLastName, ''adminUser.lastname''),
        (EnvKeyAdminEmail, ''adminUser.email''),
        (EnvKeyAdminPassword, ''adminUser.password'')]"

definition setMainContainerEnv ::
  "'x operator_lib \<Rightarrow> auth_order \<Rightarrow> 'x StatefulSetBuilder \<Rightarrow> EnvVar list outcome"
where
  "setMainContainerEnv L \<rho> b =
     and_then (deref (ss_ClusterConfig b)) (\<lambda>cc.
       if cc_Credentials cc = []
       then Inl (Fail (Errorf ''credentials secret name in cluster config is empty''))
       else
         let envs = base_envs L cc (ss_Executor b);
             envs = (if ss_Executor b = CeleryExecutor then envs @ celery_envs (cc_Credentials cc) else envs);
             envs = (if ss_RoleName b = SchedulersRoleName then envs @ admin_envs (cc_Credentials cc) else envs)
         in case ss_Auth b of
              None \<Rightarrow> Inr envs
            | Some auth \<Rightarrow>
                if ss_RoleGroupName b = WebserversRoleName
                then and_then (Authentication_GetEnvVars \<rho> auth) (\<lambda>es. Inr (envs @ es))
                else Inr envs)"

section \<open>The containers\<close>

definition getMainContainerVolumeMount :: "'x operator_lib \<Rightarrow> VolumeMount list" where
  "getMainContainerVolumeMount L =
     [\<lparr>vm_Name = ConfigVolumeMountName, vm_MountPath = KubedoopConfigDirMount L\<rparr>,
      \<lparr>vm_Name = LogVolumeMountName, vm_MountPath = KubedoopLogDir L\<rparr>]"

definition bash_command :: "string list" where
  "bash_command = [''/bin/bash'', ''-x'', ''-euo'', ''pipefail'', ''-c'']"

definition getMainContainer ::
  "'x operator_lib \<Rightarrow> auth_order \<Rightarrow> 'x StatefulSetBuilder \<Rightarrow> ContainerBuilder outcome"
where
  "getMainContainer L \<rho> b =
     (let container = container_do (SetCommand bash_command)
            (NewContainer (ss_RoleName b) (sb_Image (ss_base b)))
      in and_then (getMainContainerArgs L b) (\<lambda>args.
         let container = container_do (SetArgs [args]) container
         in and_then (setMainContainerEnv L \<rho> b) (\<lambda>envs.
            let container = container_do (AddEnvVars envs) container
            in Inr (container_do (AddVolumeMounts (getMainContainerVolumeMount L)) container))))"

definition metric_script :: "'x operator_lib \<Rightarrow> string" where
  \<open>metric_script L = BashLibs @ ''

prepare_signal_handlers

'' @
     path_Join [KubedoopRoot L, ''bin'', ''statsd-exporter''] @ ''&
wait_for_termination $!''\<close>

definition getMetricContainer :: "'x operator_lib \<Rightarrow> 'x StatefulSetBuilder \<Rightarrow> ContainerBuilder" where
  "getMetricContainer L b =
     container_do (SetArgs [IndentTab4Spaces L (metric_script L)])
       (container_do (SetCommand bash_command) (NewContainer ''metric'' (sb_Image (ss_base b))))"

section \<open>Build\<close>

definition pod_volumes :: "string \<Rightarrow> Volume list" where
  "pod_volumes name =
     [ConfigMapVolume ConfigVolumeMountName name (Some 420),
      EmptyDirVolume LogVolumeMountName (Some ''500Mi'')]"

definition ss_do :: "builder_call \<Rightarrow> 'x StatefulSetBuilder \<Rightarrow> 'x StatefulSetBuilder" where
  "ss_do c b = b\<lparr>ss_base := base_do c (ss_base b)\<rparr>"

definition wants_vector :: "'x ClusterConfigSpec option \<Rightarrow> bool" where
  "wants_vector cc = (case cc of None \<Rightarrow> False | Some cc \<Rightarrow> cc_VectorAggregatorConfigMapName cc \<noteq> [])"

definition StatefulSetBuilder_Build ::
  "'x operator_lib \<Rightarrow> auth_order \<Rightarrow> ('x StatefulSetBuilder, 'x) stateful"
where
  "StatefulSetBuilder_Build L \<rho> b =
     method_then (method_return (getMainContainer L \<rho> b)) (\<lambda>cb b.
       let mc = getMetricContainer L b;
           b = ss_do (AddContainer (BuiltContainer cb)) b;
           b = ss_do (AddContainer (BuiltContainer mc)) b;
           b = ss_do (AddVolumes (pod_volumes (sb_Name (ss_base b)))) b
       in method_then (method_return (checked (StatefulSetObject L (ss_base b)))) (\<lambda>obj b.
            if wants_vector (ss_ClusterConfig b)
            then let vector = VectorContainer (sb_Name (ss_base b)) LogVolumeMountName (sb_Image (ss_base b));
                     b = ss_do (AddContainer vector) b;
                     b = ss_do (AddVolumes (StatefulSetVolumes L (ss_base b))) b
                 in (b, Inr obj)
            else (b, Inr obj)) b) b"

section \<open>The environment without authentication\<close>

text \<open>A builder made by \<open>NewStatefulSetBuilder\<close> has no authentication; this is its environment.\<close>

definition role_envs ::
  "'x operator_lib \<Rightarrow> 'x ClusterConfigSpec \<Rightarrow> ExecutorType \<Rightarrow> string \<Rightarrow> EnvVar list"
where
  "role_envs L cc executor role = base_envs L cc executor @
     (if executor = CeleryExecutor then celery_envs (cc_Credentials cc) else []) @
     (if role = SchedulersRoleName then admin_envs (cc_Credentials cc) else [])"

lemma setMainContainerEnv_no_auth:
  assumes "ss_Auth b = None"
  shows "setMainContainerEnv L \<rho> b =
     (case ss_ClusterConfig b of
        None \<Rightarrow> Inl NilDereference
      | Some cc \<Rightarrow>
          if cc_Credentials cc = []
          then Inl (Fail (Errorf ''credentials secret name in cluster config is empty''))
          else Inr (role_envs L cc (ss_Executor b) (ss_RoleName b)))"
  using assms by (simp add: setMainContainerEnv_def role_envs_def Let_def split: option.split)

lemma NewStatefulSetBuilder_simps [simp]:
  "ss_Auth (NewStatefulSetBuilder name cc replicas img ports ov rgc ex auth opts) = None"
  "ss_ClusterConfig (NewStatefulSetBuilder name cc replicas img ports ov rgc ex auth opts) = cc"
  "ss_Executor (NewStatefulSetBuilder name cc replicas img ports ov rgc ex auth opts) = ex"
  "ss_RoleName (NewStatefulSetBuilder name cc replicas img ports ov rgc ex auth opts) = o_RoleName opts"
  "sb_Name (ss_base (NewStatefulSetBuilder name cc replicas img ports ov rgc ex auth opts)) = name"
  "sb_Image (ss_base (NewStatefulSetBuilder name cc replicas img ports ov rgc ex auth opts)) = img"
  "sb_Calls (ss_base (NewStatefulSetBuilder name cc replicas img ports ov rgc ex auth opts)) = []"
  by (simp_all add: NewStatefulSetBuilder_def)

lemmas env_entry_simps = value_env_def secret_env_def

definition base_env_names :: "string list" where
  "base_env_names =
     [''PYTHONPATH'', ''AIRFLOW__CORE__DAGS_FOLDER'', ''AIRFLOW__LOGGING__LOGGING_CONFIG_CLASS'',
      ''AIRFLOW__METRICS__STATSD_ON'', ''AIRFLOW__METRICS__STATSD_HOST'',
      ''AIRFLOW__METRICS__STATSD_PORT'', ''AIRFLOW__API__AUTH_BACKENDS'',
      ''AIRFLOW__WEBSERVER__SECRET_KEY'', ''AIRFLOW__DATABASE__SQL_ALCHEMY_CONN'',
      ''AIRFLOW__CORE__LOAD_EXAMPLES'', ''AIRFLOW__WEBSERVER__EXPOSE_CONFIG'',
      ''AIRFLOW__CORE__EXECUTOR'']"

definition celery_env_names :: "string list" where
  "celery_env_names = [''AIRFLOW__CELERY__RESULT_BACKEND'', ''AIRFLOW__CELERY__BROKER_URL'']"

definition admin_env_names :: "string list" where
  "admin_env_names = [EnvKeyAdminUserName, ENVKeyAdminFirstName, EnvKeyAdminLastName,
     EnvKeyAdminEmail, EnvKeyAdminPassword]"

lemma env_group_names:
  "map ev_Name (base_envs L cc executor) = base_env_names"
  "map ev_Name (celery_envs secret) = celery_env_names"
  "map ev_Name (admin_envs secret) = admin_env_names"
  by (simp_all add: base_envs_def celery_envs_def admin_envs_def env_entry_simps
      base_env_names_def celery_env_names_def admin_env_names_def)

lemma role_env_names:
  "map ev_Name (role_envs L cc executor role) = base_env_names @
     (if executor = CeleryExecutor then celery_env_names else []) @
     (if role = SchedulersRoleName then admin_env_names else [])"
  by (simp add: role_envs_def env_group_names)

lemma env_names_distinct: "distinct (base_env_names @ celery_env_names @ admin_env_names)"
  by (simp add: base_env_names_def celery_env_names_def admin_env_names_def admin_env_defs)

text \<open>The variables a shell script refers to by \<open>$NAME\<close>.\<close>

definition env_char :: "char \<Rightarrow> bool" where
  "env_char c \<longleftrightarrow> c \<in> set ''ABCDEFGHIJKLMNOPQRSTUVWXYZ_''"

fun shell_vars :: "string \<Rightarrow> string list" where
  "shell_vars [] = []"
| "shell_vars (c # cs) =
     (if c = CHR ''$'' then takeWhile env_char cs # shell_vars cs else shell_vars cs)"

lemma scheduler_command_vars: "shell_vars scheduler_command = admin_env_names"
  by code_simp

section \<open>Examples for closed statements\<close>

definition sample_image :: Image where
  "sample_image = \<lparr>im_ProductName = ''airflow'', im_BuildVersion = ''0.0.0-dev'',
     im_ProductVersion = ''2.10.5'', im_Custom = [], im_Repo = ''quay.io/zncdatadev'',
     im_PullPolicy = ''IfNotPresent'', im_KubedoopVersion = None\<rparr>"

definition sample_git_sync :: "string \<Rightarrow> DagsGitSyncSpec" where
  "sample_git_sync folder = \<lparr>dgs_Branch = ''main'', dgs_CrdentialsSecret = [], dgs_Depth = None,
     dgs_GitFolder = folder, dgs_GitSyncConf = [], dgs_Repo = ''https://example.org/dags'', dgs_Wait = None\<rparr>"

definition sample_cluster_config :: "string \<Rightarrow> nat ClusterConfigSpec" where
  "sample_cluster_config folder = \<lparr>cc_Authentication = [], cc_Credentials = ''airflow-credentials'',
     cc_DagsGitSync = [sample_git_sync folder], cc_ExposeConfig = False, cc_LoadExamples = True,
     cc_ListenerClass = ''cluster-internal'', cc_VectorAggregatorConfigMapName = ''vector'',
     cc_Volumes = [], cc_VolumeMounts = []\<rparr>"

definition sample_stateful_set :: "string \<Rightarrow> nat StatefulSetBuilder" where
  "sample_stateful_set role = NewStatefulSetBuilder ''airflow-default''
     (Some (sample_cluster_config ''team'')) (Some 1) sample_image [] None None CeleryExecutor
     (Some sample_authentication) (sample_options\<lparr>o_RoleName := role\<rparr>)"

lemma sample_stateful_set_env:
  "setMainContainerEnv L \<rho> (sample_stateful_set role) =
     Inr (role_envs L (sample_cluster_config ''team'') CeleryExecutor role)"
  by (simp add: setMainContainerEnv_no_auth sample_stateful_set_def sample_cluster_config_def)

section \<open>Properties\<close>

text \<open>
  The main container's environment, on every path: a missing cluster configuration is a nil
  dereference, an empty credentials name an error, and the only other fault comes from the
  authentication's own variables, which are asked for in a role group called \<open>webservers\<close>.
\<close>

theorem container_env_outcome:
  "case setMainContainerEnv L \<rho> b of
     Inl fault \<Rightarrow>
       ss_ClusterConfig b = None \<and> fault = NilDereference \<or>
       map_option cc_Credentials (ss_ClusterConfig b) = Some [] \<and>
         fault = Fail (Errorf ''credentials secret name in cluster config is empty'') \<or>
       ss_RoleGroupName b = WebserversRoleName \<and>
         map_option (Authentication_GetEnvVars \<rho>) (ss_Auth b) = Some (Inl fault)
   | Inr envs \<Rightarrow> \<exists>cc auth. ss_ClusterConfig b = Some cc \<and> cc_Credentials cc \<noteq> [] \<and>
       envs = role_envs L cc (ss_Executor b) (ss_RoleName b) @ auth \<and>
       (auth = [] \<or> ss_RoleGroupName b = WebserversRoleName)"
  by (cases "ss_ClusterConfig b"; cases "ss_Auth b"; cases "Authentication_GetEnvVars \<rho> (the (ss_Auth b))")
    (simp_all add: setMainContainerEnv_def role_envs_def Let_def)

text \<open>
  C28: The environment of a container the operator builds names every variable once, and every
  variable that comes from a secret comes from the cluster's credentials secret.
\<close>

theorem container_env_well_formed:
  assumes "setMainContainerEnv L \<rho>
      (NewStatefulSetBuilder name (Some cc) replicas img ports ov rgc ex auth opts) = Inr envs"
  shows "distinct (map ev_Name envs) \<and>
    list_all (\<lambda>e. case ev_ValueFrom e of None \<Rightarrow> True
      | Some s \<Rightarrow> ev_Value e = [] \<and> sks_Name s = cc_Credentials cc) envs"
proof
  have envs: "envs = role_envs L cc ex (o_RoleName opts)"
    using assms by (auto simp: setMainContainerEnv_no_auth split: if_splits)
  show "distinct (map ev_Name envs)"
    using env_names_distinct by (simp add: envs role_env_names Int_Un_distrib)
  show "list_all (\<lambda>e. case ev_ValueFrom e of None \<Rightarrow> True
      | Some s \<Rightarrow> ev_Value e = [] \<and> sks_Name s = cc_Credentials cc) envs"
    by (simp add: envs role_envs_def base_envs_def celery_envs_def admin_envs_def env_entry_simps)
qed

theorem container_env_well_formed_witness:
  "distinct (map ev_Name (role_envs sample_lib (sample_cluster_config ''team'') CeleryExecutor SchedulersRoleName))"
  using container_env_well_formed [OF sample_stateful_set_env [unfolded sample_stateful_set_def]]
  by simp

text \<open>
  C27: The administrator's credentials reach the schedulers and nobody else, the broker settings
  reach exactly the clusters that run the Celery executor, and no container ever gets the OpenID
  Connect client credentials the web server's configuration reads.
\<close>

theorem container_env_separation:
  assumes "setMainContainerEnv L \<rho>
      (NewStatefulSetBuilder name (Some cc) replicas img ports ov rgc ex auth opts) = Inr envs"
    and "key \<in> set admin_env_names" and "broker \<in> set celery_env_names"
  shows "(key \<in> set (map ev_Name envs) \<longleftrightarrow> o_RoleName opts = SchedulersRoleName) \<and>
    (broker \<in> set (map ev_Name envs) \<longleftrightarrow> ex = CeleryExecutor) \<and>
    EnvKeyOidcClientId \<notin> set (map ev_Name envs) \<and> EnvKeyOidcClientSecret \<notin> set (map ev_Name envs)"
proof -
  have envs: "envs = role_envs L cc ex (o_RoleName opts)"
    using assms(1) by (auto simp: setMainContainerEnv_no_auth split: if_splits)
  have others: "key \<notin> set base_env_names" "key \<notin> set celery_env_names"
    "broker \<notin> set base_env_names" "broker \<notin> set admin_env_names"
    using env_names_distinct assms(2,3) by auto
  have oidc: "EnvKeyOidcClientId \<notin> set (base_env_names @ celery_env_names @ admin_env_names)"
    "EnvKeyOidcClientSecret \<notin> set (base_env_names @ celery_env_names @ admin_env_names)"
    by code_simp+
  show ?thesis
    unfolding envs role_env_names using others oidc assms(2,3) by simp
qed

theorem container_env_separation_witness:
  "EnvKeyAdminPassword \<notin>
     set (map ev_Name (role_envs sample_lib (sample_cluster_config ''team'') CeleryExecutor WebserversRoleName)) \<and>
   ''AIRFLOW__CELERY__BROKER_URL'' \<in>
     set (map ev_Name (role_envs sample_lib (sample_cluster_config ''team'') CeleryExecutor WebserversRoleName))"
proof -
  have "EnvKeyAdminPassword \<in> set admin_env_names" by (simp add: admin_env_names_def)
  moreover have "''AIRFLOW__CELERY__BROKER_URL'' \<in> set celery_env_names" by (simp add: celery_env_names_def)
  ultimately show ?thesis
    using container_env_separation [OF sample_stateful_set_env [unfolded sample_stateful_set_def]]
    by (simp add: role_name_defs)
qed

text \<open>
  C29: The command of every role only refers to environment variables the same container sets;
  the scripts run under \<open>set -u\<close>, where an unset one ends the container.
\<close>

theorem command_variables_are_set:
  assumes "main_command (ss_RoleName b) = Inr cmd" and "setMainContainerEnv L \<rho> b = Inr envs"
  shows "set (shell_vars cmd) \<subseteq> set (map ev_Name envs)"
proof (cases "ss_RoleName b = SchedulersRoleName")
  case True
  then have "cmd = scheduler_command"
    using assms(1) by (auto simp: main_command_def role_name_defs split: if_splits)
  moreover have "\<exists>auth. envs = role_envs L (the (ss_ClusterConfig b)) (ss_Executor b) (ss_RoleName b) @ auth"
    using assms(2) by (auto simp: setMainContainerEnv_def role_envs_def Let_def and_then_eq_Inr deref_eq_Inr
        split: if_splits option.splits)
  then have "set admin_env_names \<subseteq> set (map ev_Name envs)"
    using True by (auto simp: role_env_names simp del: set_map list.map)
  ultimately show ?thesis by (simp add: scheduler_command_vars)
next
  case False
  then show ?thesis
    using assms(1) by (auto simp: main_command_def split: if_splits)
qed

theorem command_variables_are_set_witness:
  "set (shell_vars scheduler_command) \<subseteq>
     set (map ev_Name (role_envs sample_lib (sample_cluster_config ''team'') CeleryExecutor SchedulersRoleName))"
  by (rule command_variables_are_set [OF _ sample_stateful_set_env])
    (simp add: main_command_def sample_stateful_set_def role_name_defs)

lemma dags_components:
  assumes "is_rooted (KubedoopRoot L)"
  shows "is_rooted (path_Join [KubedoopRoot L, ''airflow'', ''dags''])"
    and "components (path_Join [KubedoopRoot L, ''airflow'', ''dags'']) =
      components (KubedoopRoot L) @ [''airflow'', ''dags'']"
proof -
  have rooted: "is_rooted (path_Join [KubedoopRoot L, ''airflow''])"
    using assms by (rule is_rooted_path_Join2)
  then show "is_rooted (path_Join [KubedoopRoot L, ''airflow'', ''dags''])"
    by (simp add: path_Join_three assms is_rooted_path_Join2)
  show "components (path_Join [KubedoopRoot L, ''airflow'', ''dags'']) =
      components (KubedoopRoot L) @ [''airflow'', ''dags'']"
    by (simp add: path_Join_three assms components_join_below rooted path_names_def split_slash_plain)
qed

lemma dag_folder_names:
  assumes "is_rooted (KubedoopRoot L)" and "cc_DagsGitSync cc = dag # others"
    and "''..'' \<notin> set (split_slash (dgs_GitFolder dag))"
  shows "dag_folder L cc =
    absolute_path (components (KubedoopRoot L) @ [''airflow'', ''dags''] @ path_names (dgs_GitFolder dag))"
proof (cases "dgs_GitFolder dag = []")
  case True
  have "path_Join [KubedoopRoot L, ''airflow'', ''dags''] =
      absolute_path (components (path_Join [KubedoopRoot L, ''airflow'', ''dags'']))"
    using path_Join_clean [of "[KubedoopRoot L, ''airflow'', ''dags'']"] dags_components(1) [OF assms(1)]
      path_Clean_absolute by (metis is_rooted_def list.simps(4))
  then show ?thesis
    by (simp add: dag_folder_def Let_def assms(2) True dags_components(2) [OF assms(1)] path_names_def)
next
  case False
  then show ?thesis
    using join_below [OF dags_components(1) [OF assms(1)] assms(3)]
    by (simp add: dag_folder_def Let_def assms(2) dags_components(2) [OF assms(1)])
qed

text \<open>
  C30: The DAG folder the container is given, in both variables that name it, lies below the
  operator's DAG directory as long as the configured git folder has no \<open>..\<close> component: read
  component by component, the path is the components of the image's root, then \<open>airflow\<close> and \<open>dags\<close>,
  then the names of the git folder, none of which is empty, \<open>.\<close> or \<open>..\<close> (the witness shows a git
  folder with \<open>..\<close> that leads out).
\<close>

theorem dag_folder_contained:
  assumes "is_rooted (KubedoopRoot L)"
    and "setMainContainerEnv L \<rho>
      (NewStatefulSetBuilder name (Some cc) replicas img ports ov rgc ex auth opts) = Inr envs"
    and "cc_DagsGitSync cc = dag # others" and "''..'' \<notin> set (split_slash (dgs_GitFolder dag))"
  shows "\<exists>folder names. names = filter (\<lambda>w. w \<noteq> [] \<and> w \<noteq> ''.'') (split_slash (dgs_GitFolder dag)) \<and>
    list_all (\<lambda>w. w \<notin> {[], ''.'', ''..''}) (components (KubedoopRoot L) @ names) \<and>
    split_slash folder = [] # components (KubedoopRoot L) @ [''airflow'', ''dags''] @ names \<and>
    value_env ''AIRFLOW__CORE__DAGS_FOLDER'' folder \<in> set envs \<and>
    value_env ''PYTHONPATH'' (AppConfigPath L @ '':'' @ folder) \<in> set envs"
proof -
  let ?names = "path_names (dgs_GitFolder dag)"
  let ?all = "components (KubedoopRoot L) @ [''airflow'', ''dags''] @ ?names"
  have plain: "list_all plain (components (KubedoopRoot L) @ ?names)"
    using path_names_plain [OF assms(4)] components_plain by (auto simp: list_all_iff)
  then have "list_all plain ?all" by (simp add: plain_def)
  then have "split_slash (absolute_path ?all) = [] # ?all"
    by (intro split_slash_absolute_path) auto
  then have split: "split_slash (dag_folder L cc) = [] # ?all"
    using dag_folder_names [OF assms(1,3,4)] by simp
  have "envs = role_envs L cc ex (o_RoleName opts)"
    using assms(2) by (auto simp: setMainContainerEnv_no_auth split: if_splits)
  then have "value_env ''AIRFLOW__CORE__DAGS_FOLDER'' (dag_folder L cc) \<in> set envs"
    and "value_env ''PYTHONPATH'' (AppConfigPath L @ '':'' @ dag_folder L cc) \<in> set envs"
    by (simp_all add: role_envs_def base_envs_def)
  moreover have "list_all (\<lambda>w. w \<notin> {[], ''.'', ''..''}) (components (KubedoopRoot L) @ ?names)"
    using plain by (rule list.pred_mono_strong) (simp add: plain_def)
  ultimately show ?thesis
    using split unfolding path_names_def by blast
qed

theorem dag_folder_contained_witness:
  "(\<exists>folder. value_env ''AIRFLOW__CORE__DAGS_FOLDER'' folder \<in>
     set (role_envs sample_lib (sample_cluster_config ''team'') CeleryExecutor WebserversRoleName) \<and>
     split_slash folder = [[], ''kubedoop'', ''airflow'', ''dags'', ''team'']) \<and>
   dag_folder sample_lib (sample_cluster_config ''../../../etc'') = ''/etc''"
proof -
  have rooted: "is_rooted (KubedoopRoot sample_lib)" by (simp add: sample_lib_def is_rooted_def)
  have dag: "cc_DagsGitSync (sample_cluster_config ''team'') = sample_git_sync ''team'' # []"
    by (simp add: sample_cluster_config_def)
  have plain: "''..'' \<notin> set (split_slash (dgs_GitFolder (sample_git_sync ''team'')))"
    by (simp add: sample_git_sync_def)
  have root: "components (KubedoopRoot sample_lib) = [''kubedoop'']" by code_simp
  have names: "filter (\<lambda>w. w \<noteq> [] \<and> w \<noteq> ''.'') (split_slash (dgs_GitFolder (sample_git_sync ''team''))) = [''team'']"
    by (simp add: sample_git_sync_def)
  from dag_folder_contained [OF rooted sample_stateful_set_env [unfolded sample_stateful_set_def] dag plain]
  have "\<exists>folder. value_env ''AIRFLOW__CORE__DAGS_FOLDER'' folder \<in>
     set (role_envs sample_lib (sample_cluster_config ''team'') CeleryExecutor WebserversRoleName) \<and>
     split_slash folder = [[], ''kubedoop'', ''airflow'', ''dags'', ''team'']"
    unfolding root names by auto
  moreover have "dag_folder sample_lib (sample_cluster_config ''../../../etc'') = ''/etc''"
    by code_simp
  ultimately show ?thesis ..
qed

text \<open>
  The operator's own stateful set does not depend on the authentication: whatever
  authentication \<open>NewStatefulSetBuilder\<close> is handed, the same calls are made and the same object
  is returned, because the constructor never stores it.
\<close>

theorem statefulset_ignores_authentication:
  "StatefulSetBuilder_Build L \<rho>
     (NewStatefulSetBuilder name cc replicas img ports ov rgc ex auth opts) =
   StatefulSetBuilder_Build L \<rho>'
     (NewStatefulSetBuilder name cc replicas img ports' ov rgc ex auth' opts)"
proof -
  have same: "NewStatefulSetBuilder name cc replicas img ports ov rgc ex auth opts =
      NewStatefulSetBuilder name cc replicas img ports' ov rgc ex auth' opts"
    by (simp add: NewStatefulSetBuilder_def)
  have "setMainContainerEnv L \<rho> b = setMainContainerEnv L \<rho>' b" if "ss_Auth b = None" for b
    using that by (simp add: setMainContainerEnv_no_auth)
  then have "getMainContainer L \<rho> b = getMainContainer L \<rho>' b" if "ss_Auth b = None" for b
    using that by (simp add: getMainContainer_def)
  then show ?thesis
    unfolding same by (simp add: StatefulSetBuilder_Build_def method_then_def method_return_def)
qed

section \<open>What is built\<close>

text \<open>The library's builder when its object is asked for.\<close>

definition workload :: "'x operator_lib \<Rightarrow> 'x StatefulSetBuilder \<Rightarrow> ContainerBuilder \<Rightarrow> 'x StatefulSetBase" where
  "workload L b cb = (ss_base b)\<lparr>sb_Calls := sb_Calls (ss_base b) @
     [AddContainer (BuiltContainer cb), AddContainer (BuiltContainer (getMetricContainer L b)),
      AddVolumes (pod_volumes (sb_Name (ss_base b)))]\<rparr>"

definition vector_calls :: "'x operator_lib \<Rightarrow> 'x StatefulSetBuilder \<Rightarrow> ContainerBuilder \<Rightarrow> builder_call list" where
  "vector_calls L b cb =
     (if wants_vector (ss_ClusterConfig b)
      then let vector = AddContainer (VectorContainer (sb_Name (ss_base b)) LogVolumeMountName (sb_Image (ss_base b)))
           in [vector, AddVolumes (StatefulSetVolumes L (base_do vector (workload L b cb)))]
      else [])"

lemma StatefulSetBuilder_Build_eq:
  "StatefulSetBuilder_Build L \<rho> b =
     (case getMainContainer L \<rho> b of
        Inl fault \<Rightarrow> (b, Inl fault)
      | Inr cb \<Rightarrow>
          (case StatefulSetObject L (workload L b cb) of
             Inl e \<Rightarrow> (b\<lparr>ss_base := workload L b cb\<rparr>, Inl (Fail e))
           | Inr obj \<Rightarrow>
               (b\<lparr>ss_base := (workload L b cb)\<lparr>sb_Calls := sb_Calls (workload L b cb) @ vector_calls L b cb\<rparr>\<rparr>,
                Inr obj)))"
proof (cases "getMainContainer L \<rho> b")
  case (Inr cb)
  let ?b = "ss_do (AddVolumes (pod_volumes (sb_Name (ss_base b))))
      (ss_do (AddContainer (BuiltContainer (getMetricContainer L b)))
        (ss_do (AddContainer (BuiltContainer cb)) b))"
  have base: "ss_base ?b = workload L b cb"
    by (simp add: workload_def ss_do_def base_do_def)
  have b: "?b = b\<lparr>ss_base := workload L b cb\<rparr>" and cc: "ss_ClusterConfig ?b = ss_ClusterConfig b"
    by (simp_all add: workload_def ss_do_def base_do_def)
  have "StatefulSetBuilder_Build L \<rho> b =
      (case StatefulSetObject L (ss_base ?b) of
         Inl e \<Rightarrow> (?b, Inl (Fail e))
       | Inr obj \<Rightarrow>
           if wants_vector (ss_ClusterConfig ?b)
           then let vector = AddContainer (VectorContainer (sb_Name (ss_base ?b)) LogVolumeMountName (sb_Image (ss_base ?b)));
                    b = ss_do vector ?b
                in (ss_do (AddVolumes (StatefulSetVolumes L (ss_base b))) b, Inr obj)
           else (?b, Inr obj))"
    by (simp add: StatefulSetBuilder_Build_def Inr Let_def ss_do_def base_do_def
        split: sum.split)
  then show ?thesis
    unfolding base cc
    by (simp add: b Inr vector_calls_def Let_def ss_do_def base_do_def workload_def
        split: sum.split)
qed (simp add: StatefulSetBuilder_Build_def)

lemma StatefulSetBuilder_Build_Inr:
  "StatefulSetBuilder_Build L \<rho> b = (b', Inr obj) \<Longrightarrow>
   \<exists>cb. getMainContainer L \<rho> b = Inr cb \<and> StatefulSetObject L (workload L b cb) = Inr obj"
  by (auto simp: StatefulSetBuilder_Build_eq split: sum.splits)

text \<open>What the calls on a container amount to.\<close>

definition container_mounts :: "ContainerBuilder \<Rightarrow> VolumeMount list" where
  "container_mounts cb =
     concat (map (\<lambda>c. case c of AddVolumeMounts ms \<Rightarrow> ms | _ \<Rightarrow> []) (cb_Calls cb))"

definition container_env :: "ContainerBuilder \<Rightarrow> EnvVar list" where
  "container_env cb = concat (map (\<lambda>c. case c of AddEnvVars es \<Rightarrow> es | _ \<Rightarrow> []) (cb_Calls cb))"

lemma getMainContainer_eq_Inr:
  "getMainContainer L \<rho> b = Inr cb \<longleftrightarrow>
     (\<exists>args envs. getMainContainerArgs L b = Inr args \<and> setMainContainerEnv L \<rho> b = Inr envs \<and>
       cb = \<lparr>cb_Name = ss_RoleName b, cb_Image = sb_Image (ss_base b),
             cb_Calls = [SetCommand bash_command, SetArgs [args], AddEnvVars envs,
               AddVolumeMounts (getMainContainerVolumeMount L)]\<rparr>)"
  by (auto simp: getMainContainer_def Let_def and_then_eq_Inr NewContainer_def container_do_def)

lemma main_container_mounts:
  "getMainContainer L \<rho> b = Inr cb \<Longrightarrow> container_mounts cb = getMainContainerVolumeMount L"
  by (auto simp: getMainContainer_eq_Inr container_mounts_def)

lemma main_container_env:
  "getMainContainer L \<rho> b = Inr cb \<Longrightarrow> setMainContainerEnv L \<rho> b = Inr (container_env cb)"
  by (auto simp: getMainContainer_eq_Inr container_env_def)

lemma main_command_total:
  "(\<exists>cmd. main_command role = Inr cmd) \<longleftrightarrow>
   role \<in> set [WebserversRoleName, SchedulersRoleName, CeleryExecutorsRoleName]"
  by (auto simp: main_command_def)

lemma mount_names: "map vm_Name (getMainContainerVolumeMount L) = map volume_name (pod_volumes name)"
  by (simp add: getMainContainerVolumeMount_def pod_volumes_def)

section \<open>Properties of what is built\<close>

text \<open>
  C17: Building fails before the builder is touched exactly when the role has no command or the
  cluster configuration has no credentials; otherwise only the library can fail, and then the
  containers and volumes stay behind in the builder.
\<close>

theorem statefulset_build_outcome:
  assumes "b = NewStatefulSetBuilder name cc replicas img ports ov rgc ex auth opts"
  shows "case StatefulSetBuilder_Build L \<rho> b of
     (b', Inr obj) \<Rightarrow> (\<exists>cb. getMainContainer L \<rho> b = Inr cb \<and> StatefulSetObject L (workload L b cb) = Inr obj)
   | (b', Inl fault) \<Rightarrow>
       if o_RoleName opts \<in> set [WebserversRoleName, SchedulersRoleName, CeleryExecutorsRoleName] \<and>
          map_option (\<lambda>c. cc_Credentials c = []) cc = Some False
       then \<exists>cb e. getMainContainer L \<rho> b = Inr cb \<and> StatefulSetObject L (workload L b cb) = Inl e \<and>
              fault = Fail e \<and> length (sb_Calls (ss_base b')) = 3
       else b' = b"
proof (cases "getMainContainer L \<rho> b")
  case (Inl fault)
  have "\<not> (o_RoleName opts \<in> set [WebserversRoleName, SchedulersRoleName, CeleryExecutorsRoleName] \<and>
      map_option (\<lambda>c. cc_Credentials c = []) cc = Some False)"
  proof (rule notI, elim conjE)
    assume role: "o_RoleName opts \<in> set [WebserversRoleName, SchedulersRoleName, CeleryExecutorsRoleName]"
      and cred: "map_option (\<lambda>c. cc_Credentials c = []) cc = Some False"
    from role obtain cmd where "main_command (o_RoleName opts) = Inr cmd"
      using main_command_total by metis
    with cred Inl show False
      by (auto simp: assms getMainContainer_def getMainContainerArgs_def setMainContainerEnv_no_auth Let_def)
  qed
  then show ?thesis
    unfolding StatefulSetBuilder_Build_eq Inl by (simp only: sum.case prod.case if_False)
next
  case (Inr cb)
  then have "main_command (o_RoleName opts) \<noteq> Inl e" for e
    by (auto simp: getMainContainer_eq_Inr getMainContainerArgs_def and_then_eq_Inr assms)
  then have role: "o_RoleName opts \<in> set [WebserversRoleName, SchedulersRoleName, CeleryExecutorsRoleName]"
    using main_command_total [of "o_RoleName opts"] by (cases "main_command (o_RoleName opts)") auto
  have cred: "map_option (\<lambda>c. cc_Credentials c = []) cc = Some False"
    using Inr by (auto simp: getMainContainer_eq_Inr setMainContainerEnv_no_auth assms
        split: option.splits if_splits)
  show ?thesis
  proof (cases "StatefulSetObject L (workload L b cb)")
    case (Inl e)
    have calls: "length (sb_Calls (workload L b cb)) = 3" by (simp add: workload_def assms)
    show ?thesis
      unfolding StatefulSetBuilder_Build_eq Inr using Inl role cred calls by (simp del: list.set)
  next
    case obj: (Inr obj)
    show ?thesis
      unfolding StatefulSetBuilder_Build_eq Inr using obj by simp
  qed
qed

theorem statefulset_build_outcome_witness:
  "case StatefulSetBuilder_Build sample_lib rev (sample_stateful_set ''kubernetesexecutors'') of
     (b', Inr obj) \<Rightarrow> False
   | (b', Inl fault) \<Rightarrow> b' = sample_stateful_set ''kubernetesexecutors''"
proof -
  have "getMainContainer sample_lib rev (sample_stateful_set ''kubernetesexecutors'') \<noteq> Inr cb" for cb
    by (simp add: getMainContainer_eq_Inr getMainContainerArgs_def and_then_eq_Inr main_command_def
        role_name_defs sample_stateful_set_def)
  then show ?thesis
    using statefulset_build_outcome [OF sample_stateful_set_def [of "''kubernetesexecutors''"], of sample_lib rev]
    by (auto simp: role_name_defs split: prod.splits sum.splits)
qed

text \<open>
  C12: A built stateful set is consistent: the object comes from exactly two containers and the
  pod's volumes, the main container bears the role's name and mounts each volume once, the
  metrics container mounts nothing, and the configuration volume is the config map that has the
  stateful set's own name.
\<close>

theorem built_statefulset_consistent:
  assumes "StatefulSetBuilder_Build L \<rho>
      (NewStatefulSetBuilder name cc replicas img ports ov rgc ex auth opts) = (b', Inr obj)"
  shows "\<exists>base cb mc. StatefulSetObject L base = Inr obj \<and>
    sb_Calls base = [AddContainer (BuiltContainer cb), AddContainer (BuiltContainer mc),
      AddVolumes (pod_volumes name)] \<and>
    cb_Name cb = o_RoleName opts \<and> cb_Image cb = img \<and> cb_Image mc = img \<and>
    map vm_Name (container_mounts cb) = map volume_name (pod_volumes name) \<and>
    distinct (map volume_name (pod_volumes name)) \<and> container_mounts mc = [] \<and>
    ConfigMapVolume ConfigVolumeMountName name (Some 420) \<in> set (pod_volumes name) \<and>
    sb_Replicas base = replicas \<and> sb_Overrides base = ov"
proof -
  let ?b = "NewStatefulSetBuilder name cc replicas img ports ov rgc ex auth opts"
  obtain cb where cb: "getMainContainer L \<rho> ?b = Inr cb"
    and obj: "StatefulSetObject L (workload L ?b cb) = Inr obj"
    using StatefulSetBuilder_Build_Inr [OF assms] by blast
  have "cb_Name cb = o_RoleName opts \<and> cb_Image cb = img"
    using cb by (auto simp: getMainContainer_eq_Inr)
  moreover have "map vm_Name (container_mounts cb) = map volume_name (pod_volumes name)"
    using main_container_mounts [OF cb] mount_names by simp
  moreover have "distinct (map volume_name (pod_volumes name))"
    by (simp add: pod_volumes_def volume_name_defs)
  moreover have "container_mounts (getMetricContainer L ?b) = []" and "cb_Image (getMetricContainer L ?b) = img"
    by (simp_all add: container_mounts_def getMetricContainer_def container_do_def NewContainer_def)
  ultimately show ?thesis
    using obj by (intro exI [of _ "workload L ?b cb"] exI [of _ cb] exI [of _ "getMetricContainer L ?b"])
      (simp add: workload_def pod_volumes_def NewStatefulSetBuilder_def)
qed

theorem built_statefulset_consistent_witness:
  "\<exists>base cb mc. StatefulSetObject sample_lib base = Inr (3 :: nat) \<and>
    sb_Calls base = [AddContainer (BuiltContainer cb), AddContainer (BuiltContainer mc),
      AddVolumes (pod_volumes ''airflow-default'')] \<and> cb_Name cb = WebserversRoleName"
proof -
  let ?b = "sample_stateful_set WebserversRoleName"
  obtain args where "getMainContainerArgs sample_lib ?b = Inr args"
    by (simp add: getMainContainerArgs_def main_command_def sample_stateful_set_def)
  then obtain cb where cb: "getMainContainer sample_lib (\<lambda>m. m) ?b = Inr cb"
    using sample_stateful_set_env by (fastforce simp: getMainContainer_eq_Inr)
  have "StatefulSetObject sample_lib (workload sample_lib ?b cb) = Inr 3"
    by (simp add: sample_lib_def workload_def sample_stateful_set_def)
  then obtain b' where "StatefulSetBuilder_Build sample_lib (\<lambda>m. m) ?b = (b', Inr 3)"
    by (simp add: StatefulSetBuilder_Build_eq cb)
  from built_statefulset_consistent [OF this [unfolded sample_stateful_set_def]] show ?thesis
    by (auto simp: sample_options_def)
qed

text \<open>
  C38: The files the LDAP configuration reads its bind credentials from are never there: no
  volume mount an authentication asks for is a mount of the main container.
\<close>

theorem authentication_mounts_missing:
  assumes "getMainContainer L \<rho> b = Inr cb" and "m \<in> set (Authentication_GetVolumeMounts L \<sigma> a)"
  shows "vm_Name m \<notin> set (map vm_Name (container_mounts cb))"
proof -
  obtain p where m: "m \<in> set (ldap_GetVolumeMounts L p)"
  proof -
    from assms(2) obtain x where "m \<in> set (GetVolumeMounts L x)"
      by (auto simp: Authentication_GetVolumeMounts_all)
    then show thesis
      using that by (cases x) (auto simp: oidc_GetVolumeMounts_def)
  qed
  then have "take 5 (vm_Name m) = ''ldap-''"
    by (auto simp: ldap_GetVolumeMounts_def ldap_getVolumeName_def split: option.splits)
  then have "vm_Name m \<noteq> ''config'' \<and> vm_Name m \<noteq> ''log''" by auto
  then show ?thesis
    by (simp add: main_container_mounts [OF assms(1)] getMainContainerVolumeMount_def volume_name_defs)
qed

theorem authentication_mounts_missing_witness:
  "\<exists>cb m. getMainContainer sample_lib (\<lambda>m. m) (sample_stateful_set WebserversRoleName) = Inr cb \<and>
    m \<in> set (Authentication_GetVolumeMounts sample_lib (\<lambda>m. m) sample_authentication) \<and>
    vm_Name m \<notin> set (map vm_Name (container_mounts cb))"
proof -
  obtain args where "getMainContainerArgs sample_lib (sample_stateful_set WebserversRoleName) = Inr args"
    by (simp add: getMainContainerArgs_def main_command_def sample_stateful_set_def)
  then obtain cb where cb: "getMainContainer sample_lib (\<lambda>m. m) (sample_stateful_set WebserversRoleName) = Inr cb"
    using sample_stateful_set_env by (fastforce simp: getMainContainer_eq_Inr)
  obtain m where m: "m \<in> set (Authentication_GetVolumeMounts sample_lib (\<lambda>m. m) sample_authentication)"
    by (auto simp: Authentication_GetVolumeMounts_all all_authenticators_def sample_authentication_def
        ldap_GetVolumeMounts_def sample_ldap_def)
  from authentication_mounts_missing [OF cb m] cb m show ?thesis by blast
qed

text \<open>
  Asking for the log shipper does not change the object that is returned: its container is
  added after the object was taken from the builder.
\<close>

theorem vector_not_in_object:
  "snd (StatefulSetBuilder_Build L \<rho>
     (b\<lparr>ss_ClusterConfig := Some (cc\<lparr>cc_VectorAggregatorConfigMapName := x\<rparr>)\<rparr>)) =
   snd (StatefulSetBuilder_Build L \<rho>
     (b\<lparr>ss_ClusterConfig := Some (cc\<lparr>cc_VectorAggregatorConfigMapName := y\<rparr>)\<rparr>))"
proof -
  let ?bx = "b\<lparr>ss_ClusterConfig := Some (cc\<lparr>cc_VectorAggregatorConfigMapName := x\<rparr>)\<rparr>"
  let ?by = "b\<lparr>ss_ClusterConfig := Some (cc\<lparr>cc_VectorAggregatorConfigMapName := y\<rparr>)\<rparr>"
  have env: "setMainContainerEnv L \<rho> ?bx = setMainContainerEnv L \<rho> ?by"
  proof -
    have "base_envs L (cc\<lparr>cc_VectorAggregatorConfigMapName := z\<rparr>) ex = base_envs L cc ex" for z ex
      by (simp add: base_envs_def dag_folder_def)
    then show ?thesis by (simp add: setMainContainerEnv_def Let_def split: option.split)
  qed
  have "getMainContainer L \<rho> ?bx = getMainContainer L \<rho> ?by"
    unfolding getMainContainer_def env by (simp add: getMainContainerArgs_def)
  moreover have "workload L ?bx cb = workload L ?by cb" for cb
    by (simp add: workload_def getMetricContainer_def)
  ultimately show ?thesis
    by (simp add: StatefulSetBuilder_Build_eq split: sum.split)
qed

end
