(* ===== verification/Service.thy ===== *)
theory Service
  imports StatefulSet
begin

text \<open>
  \<open>internal/controller/common/service.go\<close> and \<open>internal/controller/role/port.go\<close>: the service
  that exposes a role group's metrics. Its labels are a copy of the role group's, its
  annotations are the role group's own map, written in place; the maps live in a store so that
  the difference is visible.
\<close>

section \<open>Maps behind references\<close>

definition read_map :: "map_store \<Rightarrow> map_ref option \<Rightarrow> go_map" where
  "read_map s r = (case r of None \<Rightarrow> [] | Some a \<Rightarrow> (case s a of None \<Rightarrow> [] | Some m \<Rightarrow> m))"

text \<open>\<open>maps.Copy\<close> on map values, and into the map behind a reference: writing to the nil map panics.\<close>

definition put_all :: "go_map \<Rightarrow> go_map \<Rightarrow> go_map" where
  "put_all dst src = foldl (\<lambda>m (k, v). AList.update k v m) dst src"

definition maps_Copy :: "map_ref option \<Rightarrow> go_map \<Rightarrow> (map_store, unit) stateful" where
  "maps_Copy dst src s =
     (if src = [] then (s, Inr ())
      else case dst of
        None \<Rightarrow> (s, Inl NilMapWrite)
      | Some a \<Rightarrow> (s(a \<mapsto> put_all (read_map s (Some a)) src), Inr ()))"

section \<open>The ports of a role\<close>

definition role_ports :: "ContainerPort list" where
  "role_ports =
     [\<lparr>cp_Name = ''http'', cp_ContainerPort = 8080, cp_Protocol = ''TCP''\<rparr>,
      \<lparr>cp_Name = ''metrics'', cp_ContainerPort = 9102, cp_Protocol = ''TCP''\<rparr>]"

section \<open>The service\<close>

text \<open>The library's service reconciler: name, ports and what its option function sets.\<close>

record ServiceReconciler =
  svc_Name :: string
  svc_Ports :: "ContainerPort list"
  svc_Annotations :: "map_ref option"
  svc_Labels :: "go_map option"

definition getPrometheusAnnotations :: "32 word \<Rightarrow> go_map" where
  "getPrometheusAnnotations port =
     [(''prometheus.io/scrape'', ''true''),
      (''prometheus.io/port'', Itoa (sint port)),
      (''prometheus.io/path'', ''/metrics''),
      (''prometheus.io/scheme'', ''http'')]"

text \<open>The loop over the ports stops at the first one called \<open>metrics\<close>; \<open>int(...)\<close> keeps the sign.\<close>

fun metrics_port :: "ContainerPort list \<Rightarrow> int" where
  "metrics_port [] = 0"
| "metrics_port (port # ports) =
     (if cp_Name port = ''metrics'' then sint (cp_ContainerPort port) else metrics_port ports)"

definition GetServiceReconciler ::
  "'x operator_lib \<Rightarrow> RoleGroupInfo \<Rightarrow> ContainerPort list \<Rightarrow> (map_store, ServiceReconciler option) stateful"
where
  "GetServiceReconciler L rgInfo ports s =
     (let metricsPort = metrics_port ports
      in if metricsPort > 0
         then let (annotations, s) = GetAnnotations L rgInfo s
              in method_then (maps_Copy annotations (getPrometheusAnnotations (word_of_int metricsPort)))
                   (\<lambda>_ s. let (groupLabels, s) = GetLabels L rgInfo s;
                              labels = put_all [] (read_map s groupLabels);
                              labels = AList.update ''prometheus.io/scrape'' ''true'' labels
                          in (s, Inr (Some
                               \<lparr>svc_Name = GetFullName L rgInfo,
                                svc_Ports = [\<lparr>cp_Name = ''metrics'', cp_ContainerPort = word_of_int metricsPort,
                                              cp_Protocol = []\<rparr>],
                                svc_Annotations = annotations,
                                svc_Labels = Some labels\<rparr>))) s
         else (s, Inr None))"

section \<open>Copying\<close>

lemma map_of_put_all:
  "distinct (map fst src) \<Longrightarrow> map_of (put_all dst src) = map_of dst ++ map_of src"
proof (induction src arbitrary: dst)
  case (Cons p src)
  obtain k v where p: "p = (k, v)" by (cases p)
  have "map_of src k = None"
    using Cons.prems by (simp add: p map_of_eq_None_iff)
  moreover have "map_of (put_all dst (p # src)) = map_of (AList.update k v dst) ++ map_of src"
    using Cons.IH [of "AList.update k v dst"] Cons.prems by (simp add: put_all_def p)
  ultimately show ?case
    by (auto simp: p update_conv' map_add_def fun_eq_iff split: option.split)
qed (simp add: put_all_def)

text \<open>The order in which the source map is ranged over does not show.\<close>

lemma put_all_order:
  "distinct (map fst src) \<Longrightarrow> range_order \<rho> \<Longrightarrow>
   map_of (put_all dst (\<rho> src)) = map_of (put_all dst src)"
  by (simp add: map_of_put_all range_order_keys range_order_map_of)

lemma put_all_keys: "distinct (map fst dst) \<Longrightarrow> distinct (map fst (put_all dst src))"
  by (induction src arbitrary: dst) (auto simp: put_all_def distinct_update)

lemma prometheus_keys_distinct: "distinct (map fst (getPrometheusAnnotations port))"
  by (simp add: getPrometheusAnnotations_def)

lemma metrics_port_role_ports [simp]: "metrics_port role_ports = 9102"
  by (simp add: role_ports_def)


section \<open>Properties\<close>


text \<open>
  C31: The metrics service writes its four annotations into the role group's own annotation map
  and touches no other map; its labels are a copy of the role group's with one entry added, which
  leaves the role group's labels as they were.
\<close>

theorem metrics_service_aliasing:
  assumes "GetServiceReconciler L info ports s = (t, Inr (Some svc))"
    and "GetAnnotations L info s = (Some a, s)"
    and "\<And>u. GetLabels L info u = (Some b, u)" and "a \<noteq> b"
    and "distinct (map fst (read_map s (Some b)))"
  shows "svc_Annotations svc = Some a \<and>
    map_of (read_map t (Some a)) = map_of (read_map s (Some a)) ++
      map_of (getPrometheusAnnotations (word_of_int (metrics_port ports))) \<and>
    (\<forall>r. r \<noteq> a \<longrightarrow> t r = s r) \<and>
    map_option map_of (svc_Labels svc) =
      Some ((map_of (read_map s (Some b)))(''prometheus.io/scrape'' \<mapsto> ''true''))"
proof -
  let ?p = "getPrometheusAnnotations (word_of_int (metrics_port ports))"
  have pos: "metrics_port ports > 0"
    using assms(1) by (auto simp: GetServiceReconciler_def Let_def split: if_splits)
  have "?p \<noteq> []" by (simp add: getPrometheusAnnotations_def)
  then have t: "t = s(a \<mapsto> put_all (read_map s (Some a)) ?p)"
    and svc: "svc_Annotations svc = Some a"
      "svc_Labels svc = Some (AList.update ''prometheus.io/scrape'' ''true'' (put_all [] (read_map t (Some b))))"
    using assms(1) pos
    by (auto simp: GetServiceReconciler_def assms(2,3) maps_Copy_def Let_def method_then_def)
  have "read_map t (Some b) = read_map s (Some b)"
    using assms(4) by (simp add: t read_map_def)
  then have "map_option map_of (svc_Labels svc) =
      Some ((map_of (read_map s (Some b)))(''prometheus.io/scrape'' \<mapsto> ''true''))"
    using assms(5) by (simp add: svc(2) update_conv' map_of_put_all)
  moreover have "map_of (read_map t (Some a)) = map_of (read_map s (Some a)) ++ map_of ?p"
    using map_of_put_all [OF prometheus_keys_distinct] by (simp add: t read_map_def [of "s(a \<mapsto> _)"])
  ultimately show ?thesis
    by (simp add: svc(1) t)
qed

definition sample_info :: "string \<Rightarrow> string \<Rightarrow> RoleGroupInfo" where
  "sample_info role grp =
     \<lparr>rgi_RoleInfo = \<lparr>ri_ClusterInfo = \<lparr>ci_GVK = \<lparr>gvk_Group = gv_Group AirflowGroupVersion,
          gvk_Version = gv_Version AirflowGroupVersion, gvk_Kind = ''AirflowCluster''\<rparr>,
          ci_ClusterName = ''airflow''\<rparr>, ri_RoleName = role\<rparr>,
      rgi_RoleGroupName = grp\<rparr>"

text \<open>A store with a label map at 0 and an annotation map at 1.\<close>

definition sample_store :: map_store where
  "sample_store = [0 \<mapsto> [(''app'', ''airflow'')], 1 \<mapsto> [(''owner'', ''team'')]]"

theorem metrics_service_aliasing_witness:
  "\<exists>t svc. GetServiceReconciler sample_lib (sample_info WebserversRoleName ''default'') role_ports sample_store
      = (t, Inr (Some svc)) \<and>
    svc_Annotations svc = Some 1 \<and> map_of (read_map t (Some 1)) ''prometheus.io/port'' = Some ''9102'' \<and>
    map_of (read_map t (Some 1)) ''owner'' = Some ''team'' \<and> t 0 = sample_store 0"
proof -
  let ?info = "sample_info WebserversRoleName ''default''"
  have lib: "GetAnnotations sample_lib ?info u = (Some 1, u)" "GetLabels sample_lib ?info u = (Some 0, u)" for u
    by (simp_all add: sample_lib_def)
  have "nat_digits 9102 = ''9102''"
    by (subst nat_digits.simps, simp, subst nat_digits.simps, simp, subst nat_digits.simps, simp,
        subst nat_digits.simps, simp) (simp add: digit_char_def char_of_def bit_0)
  then have "Itoa 9102 = ''9102''" by (simp add: Itoa_def)
  then have port: "Itoa (sint (9102 :: 32 word)) = ''9102''" by simp
  obtain t r where tr: "GetServiceReconciler sample_lib ?info role_ports sample_store = (t, r)"
    by (cases "GetServiceReconciler sample_lib ?info role_ports sample_store")
  have "getPrometheusAnnotations p \<noteq> []" for p by (simp add: getPrometheusAnnotations_def)
  then have "\<exists>svc. r = Inr (Some svc)"
    using tr by (auto simp: GetServiceReconciler_def lib maps_Copy_def Let_def method_then_def)
  with tr obtain svc where built: "GetServiceReconciler sample_lib ?info role_ports sample_store = (t, Inr (Some svc))"
    by blast
  have "distinct (map fst (read_map sample_store (Some 0)))"
    by (simp add: read_map_def sample_store_def)
  then have "svc_Annotations svc = Some 1 \<and>
      map_of (read_map t (Some 1)) = map_of (read_map sample_store (Some 1)) ++
        map_of (getPrometheusAnnotations (word_of_int (metrics_port role_ports))) \<and>
      (\<forall>r. r \<noteq> 1 \<longrightarrow> t r = sample_store r)"
    using metrics_service_aliasing [OF built lib(1) lib(2)] by simp
  then show ?thesis
    using built port
    by (intro exI [of _ t] exI [of _ svc])
      (auto simp: read_map_def [of sample_store] read_map_def [of "[0 \<mapsto> _, Suc 0 \<mapsto> _]"] sample_store_def
        getPrometheusAnnotations_def)
qed

end
