(* ===== verification/Roles.thy ===== *)
theory Roles
  imports Service
begin

text \<open>
  \<open>internal/controller/role/celeryexecutor.go\<close>, \<open>scheduler.go\<close> and \<open>webserver.go\<close>: the three roles of
  a cluster. A role reconciler merges the configuration of each of its role groups with the
  role's and registers the group's resources: a config map, a stateful set and one or two
  services. The three types of the source have the same fields and the same loop over their role
  groups; they differ in what they register for one group.
\<close>

section \<open>Role reconcilers\<close>

text \<open>A nil \<open>*reconciler.Service\<close> in a slice of reconcilers is an element of it all the same.\<close>

datatype 'x resource_reconciler =
    ConfigRec "'x ConfigMapBuilder"
  | StatefulSetRec "'x StatefulSetReconciler"
  | ServiceRec ServiceReconciler
  | NilService

fun service_resource :: "ServiceReconciler option \<Rightarrow> 'x resource_reconciler" where
  "service_resource None = NilService"
| "service_resource (Some svc) = ServiceRec svc"

record 'x RoleReconciler =
  br_ClusterStopped :: bool
  br_RoleInfo :: RoleInfo
  br_Spec :: "'x RoleSpec option"
  br_ClusterConfig :: "'x ClusterConfigSpec option"
  br_Image :: Image
  br_Resources :: "'x resource_reconciler list"

definition NewCeleryExecutorsReconciler ::
  "bool \<Rightarrow> 'x ClusterConfigSpec option \<Rightarrow> RoleInfo \<Rightarrow> Image \<Rightarrow> 'x CeleryExecutorsSpec option \<Rightarrow>
   'x RoleReconciler"
where
  "NewCeleryExecutorsReconciler clusterStopped clusterConfig roleInfo img spec =
     \<lparr>br_ClusterStopped = clusterStopped, br_RoleInfo = roleInfo, br_Spec = spec,
      br_ClusterConfig = clusterConfig, br_Image = img, br_Resources = []\<rparr>"

definition NewSchedulersReconciler ::
  "bool \<Rightarrow> 'x ClusterConfigSpec option \<Rightarrow> RoleInfo \<Rightarrow> Image \<Rightarrow> 'x SchedulersSpec option \<Rightarrow>
   'x RoleReconciler"
where
  "NewSchedulersReconciler clusterStopped clusterConfig roleInfo img spec =
     \<lparr>br_ClusterStopped = clusterStopped, br_RoleInfo = roleInfo, br_Spec = spec,
      br_ClusterConfig = clusterConfig, br_Image = img, br_Resources = []\<rparr>"

definition NewWebserversReconciler ::
  "bool \<Rightarrow> 'x ClusterConfigSpec option \<Rightarrow> RoleInfo \<Rightarrow> Image \<Rightarrow> 'x WebserversSpec option \<Rightarrow>
   'x RoleReconciler"
where
  "NewWebserversReconciler clusterStopped clusterConfig roleInfo img spec =
     \<lparr>br_ClusterStopped = clusterStopped, br_RoleInfo = roleInfo, br_Spec = spec,
      br_ClusterConfig = clusterConfig, br_Image = img, br_Resources = []\<rparr>"

lemmas new_role_reconciler_defs =
  NewCeleryExecutorsReconciler_def NewSchedulersReconciler_def NewWebserversReconciler_def

section \<open>One role group\<close>

definition role_group_authentication ::
  "'x operator_lib \<Rightarrow> 'x ClusterConfigSpec option \<Rightarrow> Authentication option outcome"
where
  "role_group_authentication L clusterConfig =
     and_then (deref clusterConfig) (\<lambda>cc.
       if cc_Authentication cc \<noteq> []
       then and_then (NewAuthentication L (cc_Authentication cc)) (\<lambda>auth. Inr (Some auth))
       else Inr None)"

text \<open>The option function, run by the library on the options of each builder.\<close>

definition role_group_options ::
  "'x operator_lib \<Rightarrow> RoleGroupInfo \<Rightarrow> map_store \<Rightarrow> BuilderOptions \<times> map_store"
where
  "role_group_options L info s =
     (let (labels, s) = GetLabels L info s;
          (annotations, s) = GetAnnotations L info s
      in (\<lparr>o_ClusterName = ci_ClusterName (ri_ClusterInfo (rgi_RoleInfo info)),
           o_RoleName = ri_RoleName (rgi_RoleInfo info),
           o_RoleGroupName = rgi_RoleGroupName info,
           o_Labels = labels, o_Annotations = annotations\<rparr>, s))"

definition commons_config :: "'x ConfigSpec option \<Rightarrow> 'x RoleGroupConfigSpec option" where
  "commons_config config = (case config of None \<Rightarrow> None | Some c \<Rightarrow> cs_RoleGroupConfigSpec c)"

type_synonym 'x register_group =
  "'x RoleReconciler \<Rightarrow> RoleGroupInfo \<Rightarrow> 32 word option \<Rightarrow> 'x ConfigSpec option \<Rightarrow> 'x option \<Rightarrow>
   (map_store, 'x resource_reconciler list) stateful"

definition celery_RegisterResourceWithRoleGroup :: "'x operator_lib \<Rightarrow> 'x register_group" where
  "celery_RegisterResourceWithRoleGroup L r info replicas config overrides =
     method_then (method_return (role_group_authentication L (br_ClusterConfig r))) (\<lambda>auth s.
       let executorType = CeleryExecutor;
           (options, s) = role_group_options L info s;
           configmapReconciler = NewConfigReconciler L (br_ClusterConfig r) config info auth options;
           (options, s) = role_group_options L info s
       in method_then (method_return (NewStatefulSetReconciler L info (br_ClusterConfig r) []
              (br_Image r) replicas (br_ClusterStopped r) overrides (commons_config config)
              executorType auth options))
            (\<lambda>deploymentReconciler.
          method_then (GetServiceReconciler L info role_ports) (\<lambda>metricsSvc.
            method_return (Inr [ConfigRec configmapReconciler, StatefulSetRec deploymentReconciler,
              service_resource metricsSvc]))) s)"

definition schedulers_RegisterResourceWithRoleGroup :: "'x operator_lib \<Rightarrow> 'x register_group" where
  "schedulers_RegisterResourceWithRoleGroup L r info replicas config overrides =
     method_then (method_return (role_group_authentication L (br_ClusterConfig r))) (\<lambda>auth s.
       let executorType = CeleryExecutor;
           (options, s) = role_group_options L info s;
           configmapReconciler = NewConfigReconciler L (br_ClusterConfig r) config info auth options;
           (options, s) = role_group_options L info s
       in method_then (method_return (NewStatefulSetReconciler L info (br_ClusterConfig r) []
              (br_Image r) replicas (br_ClusterStopped r) overrides (commons_config config)
              executorType auth options))
            (\<lambda>deploymentReconciler.
          method_then (GetServiceReconciler L info role_ports) (\<lambda>metricsSvc.
            method_return (Inr [ConfigRec configmapReconciler, StatefulSetRec deploymentReconciler,
              service_resource metricsSvc]))) s)"

text \<open>The web servers have their own service beside the one for the metrics.\<close>

definition NewServiceReconciler :: "string \<Rightarrow> ContainerPort list \<Rightarrow> ServiceReconciler" where
  "NewServiceReconciler name ports =
     \<lparr>svc_Name = name, svc_Ports = ports, svc_Annotations = None, svc_Labels = None\<rparr>"

definition webservers_RegisterResourceWithRoleGroup :: "'x operator_lib \<Rightarrow> 'x register_group" where
  "webservers_RegisterResourceWithRoleGroup L r info replicas config overrides =
     method_then (method_return (role_group_authentication L (br_ClusterConfig r))) (\<lambda>auth s.
       let executorType = CeleryExecutor;
           (options, s) = role_group_options L info s;
           configmapReconciler = NewConfigReconciler L (br_ClusterConfig r) config info auth options;
           (options, s) = role_group_options L info s
       in method_then (method_return (NewStatefulSetReconciler L info (br_ClusterConfig r) role_ports
              (br_Image r) replicas (br_ClusterStopped r) overrides (commons_config config)
              executorType auth options))
            (\<lambda>deploymentReconciler.
          let svc = NewServiceReconciler (GetFullName L info) role_ports
          in method_then (GetServiceReconciler L info role_ports) (\<lambda>metricsSvc.
            method_return (Inr [ConfigRec configmapReconciler, StatefulSetRec deploymentReconciler,
              ServiceRec svc, service_resource metricsSvc]))) s)"

section \<open>All role groups of a role\<close>

text \<open>
  The loop all three types share: the groups are visited in map order, and a group that fails
  ends it, with the resources of the earlier groups already added to the role.
\<close>

definition register_group_step ::
  "'x operator_lib \<Rightarrow> 'x register_group \<Rightarrow> 'x RoleSpec \<Rightarrow> string \<times> 'x RoleGroupSpec \<Rightarrow>
   ('x RoleReconciler \<times> map_store, unit) stateful"
where
  "register_group_step L register spec entry =
     (case entry of (name, roleGroup) \<Rightarrow>
        method_then (method_return (checked (MergeConfig L (role_Config spec) (rg_Config roleGroup))))
          (\<lambda>mergedRoleGroupConfig.
        method_then (method_return (checked (MergeOverrides L (role_OverridesSpec spec) (rg_OverridesSpec roleGroup))))
          (\<lambda>mergedOverrides (r, s).
             let info = \<lparr>rgi_RoleInfo = br_RoleInfo r, rgi_RoleGroupName = name\<rparr>
             in case register r info (rg_Replicas roleGroup) mergedRoleGroupConfig mergedOverrides s of
                  (s', Inl fault) \<Rightarrow> ((r, s'), Inl fault)
                | (s', Inr reconcilers) \<Rightarrow>
                    ((r\<lparr>br_Resources := br_Resources r @ reconcilers\<rparr>, s'), Inr ()))))"

definition register_role_groups ::
  "'x operator_lib \<Rightarrow> ((string \<times> 'x RoleGroupSpec) list \<Rightarrow> (string \<times> 'x RoleGroupSpec) list) \<Rightarrow>
   'x register_group \<Rightarrow> ('x RoleReconciler \<times> map_store, unit) stateful"
where
  "register_role_groups L \<rho> register rs =
     method_then (method_return (deref (br_Spec (fst rs)))) (\<lambda>spec.
       method_for_each (register_group_step L register spec) (\<rho> (role_RoleGroups spec))) rs"

definition celery_RegisterResources where
  "celery_RegisterResources L \<rho> = register_role_groups L \<rho> (celery_RegisterResourceWithRoleGroup L)"

definition schedulers_RegisterResources where
  "schedulers_RegisterResources L \<rho> = register_role_groups L \<rho> (schedulers_RegisterResourceWithRoleGroup L)"

definition webservers_RegisterResources where
  "webservers_RegisterResources L \<rho> = register_role_groups L \<rho> (webservers_RegisterResourceWithRoleGroup L)"

section \<open>What a role promises of a group\<close>

text \<open>
  The resources of one role group: a config map, a stateful set and \<open>k\<close> services, all of one
  name, the first two built from the role's cluster configuration and labelled as the group.
\<close>

definition group_ok ::
  "string \<Rightarrow> nat \<Rightarrow> 'x RoleReconciler \<Rightarrow> RoleGroupInfo \<Rightarrow> 32 word option \<Rightarrow> 'x option \<Rightarrow>
   'x resource_reconciler list \<Rightarrow> bool"
where
  "group_ok name k r info replicas overrides rs \<longleftrightarrow>
     (\<exists>cm ss svcs. rs = ConfigRec cm # StatefulSetRec ss # map ServiceRec svcs \<and> length svcs = k \<and>
        cmb_Name (cm_base cm) = name \<and> sb_Name (ss_base (ssr_builder ss)) = name \<and>
        list_all (\<lambda>svc. svc_Name svc = name) svcs \<and>
        cm_RoleName cm = ri_RoleName (rgi_RoleInfo info) \<and>
        ss_RoleName (ssr_builder ss) = ri_RoleName (rgi_RoleInfo info) \<and>
        ss_RoleGroupName (ssr_builder ss) = rgi_RoleGroupName info \<and>
        cm_ClusterConfig cm = br_ClusterConfig r \<and>
        (\<exists>ports rgc auth opts. ssr_builder ss = NewStatefulSetBuilder name (br_ClusterConfig r) replicas
           (br_Image r) ports overrides rgc CeleryExecutor auth opts) \<and>
        ssr_stopped ss = br_ClusterStopped r)"

text \<open>
  The same resources in full, computed from the role and the group without the store: what is
  registered differs from them only in the label and annotation maps the library hands out.
\<close>

definition no_maps :: "BuilderOptions \<Rightarrow> BuilderOptions" where
  "no_maps opts = opts\<lparr>o_Labels := None, o_Annotations := None\<rparr>"

fun forget_maps :: "'x resource_reconciler \<Rightarrow> 'x resource_reconciler" where
  "forget_maps (ConfigRec cm) =
     ConfigRec (cm\<lparr>cm_base := (cm_base cm)\<lparr>cmb_Options := no_maps (cmb_Options (cm_base cm))\<rparr>\<rparr>)"
| "forget_maps (StatefulSetRec ss) =
     (let b = ssr_builder ss
      in StatefulSetRec (ss\<lparr>ssr_builder :=
           b\<lparr>ss_base := (ss_base b)\<lparr>sb_Options := no_maps (sb_Options (ss_base b))\<rparr>\<rparr>\<rparr>))"
| "forget_maps (ServiceRec svc) =
     ServiceRec (svc\<lparr>svc_Annotations := map_option (\<lambda>_. 0) (svc_Annotations svc),
       svc_Labels := map_option (\<lambda>_. []) (svc_Labels svc)\<rparr>)"
| "forget_maps NilService = NilService"

definition group_options :: "RoleGroupInfo \<Rightarrow> BuilderOptions" where
  "group_options info = \<lparr>o_ClusterName = ci_ClusterName (ri_ClusterInfo (rgi_RoleInfo info)),
     o_RoleName = ri_RoleName (rgi_RoleInfo info), o_RoleGroupName = rgi_RoleGroupName info,
     o_Labels = None, o_Annotations = None\<rparr>"

definition metrics_service :: "string \<Rightarrow> ServiceReconciler" where
  "metrics_service name = \<lparr>svc_Name = name,
     svc_Ports = [\<lparr>cp_Name = ''metrics'', cp_ContainerPort = 9102, cp_Protocol = []\<rparr>],
     svc_Annotations = Some 0, svc_Labels = Some []\<rparr>"

definition group_objects ::
  "'x operator_lib \<Rightarrow> nat \<Rightarrow> 'x RoleReconciler \<Rightarrow> RoleGroupInfo \<Rightarrow> 32 word option \<Rightarrow> 'x ConfigSpec option \<Rightarrow>
   'x option \<Rightarrow> 'x resource_reconciler list outcome"
where
  "group_objects L k r info replicas config overrides =
     and_then (role_group_authentication L (br_ClusterConfig r)) (\<lambda>auth.
       let name = GetFullName L info
       in Inr (ConfigRec (NewConfigMapBuilder name (br_ClusterConfig r) config auth (group_options info)) #
            StatefulSetRec \<lparr>ssr_builder = NewStatefulSetBuilder name (br_ClusterConfig r) replicas (br_Image r)
                [] overrides (commons_config config) CeleryExecutor auth (group_options info),
              ssr_stopped = br_ClusterStopped r\<rparr> #
            map ServiceRec (replicate (k - 1) (NewServiceReconciler name role_ports) @ [metrics_service name])))"

locale role_contract =
  fixes L :: "'x operator_lib"
    and register :: "'x register_group"
    and services :: nat
  assumes registers: "register r info replicas config overrides s = (t, Inr rs) \<Longrightarrow>
      group_ok (GetFullName L info) services r info replicas overrides rs"
    and objects: "register r info replicas config overrides s = (t, Inr rs) \<Longrightarrow>
      group_objects L services r info replicas config overrides = Inr (map forget_maps rs)"
    and needs_config: "br_ClusterConfig r = None \<Longrightarrow>
      register r info replicas config overrides s = (s, Inl NilDereference)"
begin

lemma group_length: "register r info replicas config overrides s = (t, Inr rs) \<Longrightarrow> length rs = services + 2"
  by (auto dest!: registers simp: group_ok_def)

end

text \<open>A loop over the groups adds the resources of a prefix of them, in order, and nothing else.\<close>

definition group_added ::
  "'x operator_lib \<Rightarrow> nat \<Rightarrow> 'x RoleReconciler \<Rightarrow> 'x RoleSpec \<Rightarrow>
   string \<times> 'x RoleGroupSpec \<Rightarrow> 'x resource_reconciler list \<Rightarrow> bool"
where
  "group_added L k r spec entry rs \<longleftrightarrow>
     (\<exists>config overrides. MergeConfig L (role_Config spec) (rg_Config (snd entry)) = Inr config \<and>
        MergeOverrides L (role_OverridesSpec spec) (rg_OverridesSpec (snd entry)) = Inr overrides \<and>
        (let info = \<lparr>rgi_RoleInfo = br_RoleInfo r, rgi_RoleGroupName = fst entry\<rparr>
         in group_ok (GetFullName L info) k r info (rg_Replicas (snd entry)) overrides rs \<and>
            group_objects L k r info (rg_Replicas (snd entry)) config overrides = Inr (map forget_maps rs)))"

lemma group_added_resources [simp]:
  "group_added L k (r\<lparr>br_Resources := x\<rparr>) spec = group_added L k r spec"
  by (intro ext) (simp add: group_added_def group_ok_def group_objects_def)

lemma register_group_step_eq:
  "register_group_step L register spec (name, g) (r, s) =
     (case MergeConfig L (role_Config spec) (rg_Config g) of
        Inl e \<Rightarrow> ((r, s), Inl (Fail e))
      | Inr config \<Rightarrow>
          (case MergeOverrides L (role_OverridesSpec spec) (rg_OverridesSpec g) of
             Inl e \<Rightarrow> ((r, s), Inl (Fail e))
           | Inr overrides \<Rightarrow>
               (case register r \<lparr>rgi_RoleInfo = br_RoleInfo r, rgi_RoleGroupName = name\<rparr> (rg_Replicas g)
                    config overrides s of
                  (s', Inl fault) \<Rightarrow> ((r, s'), Inl fault)
                | (s', Inr rs) \<Rightarrow> ((r\<lparr>br_Resources := br_Resources r @ rs\<rparr>, s'), Inr ()))))"
  by (cases "MergeConfig L (role_Config spec) (rg_Config g)";
      cases "MergeOverrides L (role_OverridesSpec spec) (rg_OverridesSpec g)")
    (simp_all add: register_group_step_def Let_def)

context role_contract
begin

lemma step_success:
  assumes "register_group_step L register spec entry (r, s) = ((r', s'), Inr ())"
  shows "\<exists>rs. group_added L services r spec entry rs \<and> r' = r\<lparr>br_Resources := br_Resources r @ rs\<rparr>"
proof (cases entry)
  case (Pair name g)
  with assms obtain config overrides rs where
    "MergeConfig L (role_Config spec) (rg_Config g) = Inr config"
    and "MergeOverrides L (role_OverridesSpec spec) (rg_OverridesSpec g) = Inr overrides"
    and reg: "register r \<lparr>rgi_RoleInfo = br_RoleInfo r, rgi_RoleGroupName = name\<rparr> (rg_Replicas g) config overrides s
      = (s', Inr rs)"
    and "r' = r\<lparr>br_Resources := br_Resources r @ rs\<rparr>"
    by (auto simp: register_group_step_eq split: sum.splits prod.splits)
  then show ?thesis
    using registers [OF reg] objects [OF reg] by (intro exI [of _ rs]) (simp add: group_added_def Pair Let_def)
qed

lemma step_failure:
  assumes "register_group_step L register spec entry (r, s) = ((r', s'), Inl fault)"
  shows "r' = r"
  using assms
  by (cases entry) (auto simp: register_group_step_eq split: prod.splits sum.splits)

lemma loop_prefix:
  assumes "method_for_each (register_group_step L register spec) gs (r, s) = ((r', s'), result)"
  shows "\<exists>n blocks. n \<le> length gs \<and> list_all2 (group_added L services r spec) (take n gs) blocks \<and>
    r' = r\<lparr>br_Resources := br_Resources r @ concat blocks\<rparr> \<and> (result = Inr () \<longleftrightarrow> n = length gs)"
proof -
  let ?fixed = "\<lambda>rs :: 'x RoleReconciler \<times> map_store. (fst rs)\<lparr>br_Resources := []\<rparr>"
  let ?out = "\<lambda>rs :: 'x RoleReconciler \<times> map_store. br_Resources (fst rs)"
  have "\<exists>n blocks. n \<le> length gs \<and>
      list_all2 (group_added L services (?fixed (r, s)) spec) (take n gs) blocks \<and>
      ?out (r', s') = ?out (r, s) @ concat blocks \<and> ?fixed (r', s') = ?fixed (r, s) \<and>
      (result = Inr () \<longleftrightarrow> n = length gs)"
  proof (rule method_for_each_prefix [where R = "\<lambda>r. group_added L services r spec", OF assms])
    fix g rs ts
    assume "register_group_step L register spec g rs = (ts, Inr ())"
    then show "?fixed ts = ?fixed rs \<and>
        (\<exists>y. group_added L services (?fixed rs) spec g y \<and> ?out ts = ?out rs @ y)"
      using step_success [of spec g "fst rs" "snd rs" "fst ts" "snd ts"] by force
  next
    fix g rs ts e
    assume "register_group_step L register spec g rs = (ts, Inl e)"
    then show "?fixed ts = ?fixed rs \<and> ?out ts = ?out rs"
      using step_failure [of spec g "fst rs" "snd rs" "fst ts" "snd ts" e] by simp
  qed
  then obtain n blocks where blocks: "n \<le> length gs"
      "list_all2 (group_added L services r spec) (take n gs) blocks"
      "br_Resources r' = br_Resources r @ concat blocks" "result = Inr () \<longleftrightarrow> n = length gs"
    and "r'\<lparr>br_Resources := []\<rparr> = r\<lparr>br_Resources := []\<rparr>"
    by auto
  then have "r' = r\<lparr>br_Resources := br_Resources r @ concat blocks\<rparr>"
    by (cases r; cases r') simp
  with blocks show ?thesis by blast
qed

lemma register_prefix:
  assumes "register_role_groups L \<rho> register (r, s) = ((r', s'), result)" and "br_Spec r = Some spec"
  shows "\<exists>n blocks. n \<le> length (\<rho> (role_RoleGroups spec)) \<and>
     list_all2 (group_added L services r spec) (take n (\<rho> (role_RoleGroups spec))) blocks \<and>
     r' = r\<lparr>br_Resources := br_Resources r @ concat blocks\<rparr> \<and>
     (result = Inr () \<longleftrightarrow> n = length (\<rho> (role_RoleGroups spec)))"
  using assms loop_prefix by (simp add: register_role_groups_def)

lemma register_nil_spec:
  "br_Spec r = None \<Longrightarrow> register_role_groups L \<rho> register (r, s) = ((r, s), Inl NilDereference)"
  by (simp add: register_role_groups_def)

end

lemma group_added_length: "group_added L k r spec entry rs \<Longrightarrow> length rs = k + 2"
  by (auto simp: group_added_def group_ok_def Let_def)

lemma blocks_length:
  "list_all2 (group_added L k r spec) gs blocks \<Longrightarrow>
   length (concat blocks) = length gs * (k + 2)"
  by (induction rule: list_all2_induct) (auto simp: group_added_length)

section \<open>The three roles keep the promise\<close>

lemma metrics_service_built:
  assumes "GetServiceReconciler L info role_ports s = (t, Inr m)"
  shows "\<exists>svc. m = Some svc \<and> svc_Name svc = GetFullName L info \<and>
    forget_maps (ServiceRec svc) = ServiceRec (metrics_service (GetFullName L info))"
  using assms
  by (auto simp: GetServiceReconciler_def method_then_def maps_Copy_def getPrometheusAnnotations_def
      metrics_service_def Let_def split: prod.splits sum.splits option.splits)

lemma role_group_options_names:
  "role_group_options L info s = (opts, t) \<Longrightarrow>
   o_RoleName opts = ri_RoleName (rgi_RoleInfo info) \<and> o_RoleGroupName opts = rgi_RoleGroupName info \<and>
   no_maps opts = group_options info"
  by (auto simp: role_group_options_def no_maps_def group_options_def Let_def split: prod.splits)

text \<open>What a role group's registration comes to once its options are known.\<close>

lemma celery_register_eq:
  "celery_RegisterResourceWithRoleGroup L r info replicas config overrides s =
     (case role_group_authentication L (br_ClusterConfig r) of
        Inl fault \<Rightarrow> (s, Inl fault)
      | Inr auth \<Rightarrow>
          (case role_group_options L info s of (opts, u) \<Rightarrow>
          (case role_group_options L info u of (opts', v) \<Rightarrow>
          (case GetServiceReconciler L info role_ports v of
             (t, Inl fault) \<Rightarrow> (t, Inl fault)
           | (t, Inr m) \<Rightarrow>
               (t, Inr [ConfigRec (NewConfigReconciler L (br_ClusterConfig r) config info auth opts),
                  StatefulSetRec \<lparr>ssr_builder = NewStatefulSetBuilder (GetFullName L info) (br_ClusterConfig r)
                      replicas (br_Image r) [] overrides (commons_config config) CeleryExecutor auth opts',
                    ssr_stopped = br_ClusterStopped r\<rparr>,
                  service_resource m])))))"
  by (simp add: celery_RegisterResourceWithRoleGroup_def Let_def NewStatefulSetReconciler_def
      method_then_def method_return_def split: sum.split prod.split)

lemma schedulers_register_eq:
  "schedulers_RegisterResourceWithRoleGroup = celery_RegisterResourceWithRoleGroup"
  by (intro ext) (simp add: schedulers_RegisterResourceWithRoleGroup_def celery_RegisterResourceWithRoleGroup_def)

lemma webservers_register_eq:
  "webservers_RegisterResourceWithRoleGroup L r info replicas config overrides s =
     (case role_group_authentication L (br_ClusterConfig r) of
        Inl fault \<Rightarrow> (s, Inl fault)
      | Inr auth \<Rightarrow>
          (case role_group_options L info s of (opts, u) \<Rightarrow>
          (case role_group_options L info u of (opts', v) \<Rightarrow>
          (case GetServiceReconciler L info role_ports v of
             (t, Inl fault) \<Rightarrow> (t, Inl fault)
           | (t, Inr m) \<Rightarrow>
               (t, Inr [ConfigRec (NewConfigReconciler L (br_ClusterConfig r) config info auth opts),
                  StatefulSetRec \<lparr>ssr_builder = NewStatefulSetBuilder (GetFullName L info) (br_ClusterConfig r)
                      replicas (br_Image r) role_ports overrides (commons_config config) CeleryExecutor auth opts',
                    ssr_stopped = br_ClusterStopped r\<rparr>,
                  ServiceRec (NewServiceReconciler (GetFullName L info) role_ports),
                  service_resource m])))))"
  by (simp add: webservers_RegisterResourceWithRoleGroup_def Let_def NewStatefulSetReconciler_def
      method_then_def method_return_def split: sum.split prod.split)

lemma NewStatefulSetBuilder_role_group [simp]:
  "ss_RoleGroupName (NewStatefulSetBuilder name cc rp img ports ov rgc ex auth opts) = o_RoleGroupName opts"
  by (simp add: NewStatefulSetBuilder_def)

lemma group_okI:
  assumes "role_group_options L info s = (opts, u)" and "role_group_options L info u' = (opts', v)"
    and "list_all (\<lambda>svc. svc_Name svc = GetFullName L info) svcs" and "length svcs = k"
  shows "group_ok (GetFullName L info) k r info replicas overrides
    (ConfigRec (NewConfigReconciler L (br_ClusterConfig r) config info auth opts) #
     StatefulSetRec \<lparr>ssr_builder = NewStatefulSetBuilder (GetFullName L info) (br_ClusterConfig r)
         replicas (br_Image r) ports overrides rgc CeleryExecutor auth opts',
       ssr_stopped = br_ClusterStopped r\<rparr> # map ServiceRec svcs)"
    (is "group_ok _ _ _ _ _ _ (ConfigRec ?cm # StatefulSetRec ?ss # _)")
  unfolding group_ok_def
proof (intro exI [of _ ?cm] exI [of _ ?ss] exI [of _ svcs] conjI)
  show "\<exists>ports rgc auth opts. ssr_builder ?ss = NewStatefulSetBuilder (GetFullName L info)
      (br_ClusterConfig r) replicas (br_Image r) ports overrides rgc CeleryExecutor auth opts"
    by auto
qed (use role_group_options_names [OF assms(1)] role_group_options_names [OF assms(2)] assms(3,4)
    in \<open>simp_all add: NewConfigReconciler_def NewConfigMapBuilder_def\<close>)

lemma group_objectsI:
  fixes L :: "'x operator_lib"
  assumes "role_group_authentication L (br_ClusterConfig r) = Inr auth"
    and "role_group_options L info s = (opts, u)" and "role_group_options L info u' = (opts', v)"
    and "map (forget_maps \<circ> ServiceRec :: ServiceReconciler \<Rightarrow> 'x resource_reconciler) svcs =
      map ServiceRec (replicate (k - 1) (NewServiceReconciler (GetFullName L info) role_ports) @
        [metrics_service (GetFullName L info)])"
  shows "group_objects L k r info replicas config overrides = Inr (map forget_maps
    (ConfigRec (NewConfigReconciler L (br_ClusterConfig r) config info auth opts) #
     StatefulSetRec \<lparr>ssr_builder = NewStatefulSetBuilder (GetFullName L info) (br_ClusterConfig r)
         replicas (br_Image r) ports overrides (commons_config config) CeleryExecutor auth opts',
       ssr_stopped = br_ClusterStopped r\<rparr> # map ServiceRec svcs))"
  using role_group_options_names [OF assms(2)] role_group_options_names [OF assms(3)] assms(4)
  by (simp add: group_objects_def assms(1) Let_def NewConfigReconciler_def NewConfigMapBuilder_def
      NewStatefulSetBuilder_def)

text \<open>The group registrations in one form, for both promises at once.\<close>

lemma group_registered:
  fixes L :: "'x operator_lib"
  assumes "role_group_authentication L (br_ClusterConfig r) = Inr auth"
    and "role_group_options L info s = (opts, u)" and "role_group_options L info u = (opts', v)"
    and "GetServiceReconciler L info role_ports v = (t, Inr m)"
    and "rs = ConfigRec (NewConfigReconciler L (br_ClusterConfig r) config info auth opts) #
      StatefulSetRec \<lparr>ssr_builder = NewStatefulSetBuilder (GetFullName L info) (br_ClusterConfig r) replicas
          (br_Image r) ports overrides (commons_config config) CeleryExecutor auth opts',
        ssr_stopped = br_ClusterStopped r\<rparr> #
      map ServiceRec (replicate k (NewServiceReconciler (GetFullName L info) role_ports)) @ [service_resource m]"
  shows "group_ok (GetFullName L info) (k + 1) r info replicas overrides rs \<and>
    group_objects L (k + 1) r info replicas config overrides = Inr (map forget_maps rs)"
proof -
  obtain svc where svc: "m = Some svc" "svc_Name svc = GetFullName L info"
    "(forget_maps (ServiceRec svc) :: 'x resource_reconciler) = ServiceRec (metrics_service (GetFullName L info))"
    using metrics_service_built [OF assms(4)] by blast
  let ?svcs = "replicate k (NewServiceReconciler (GetFullName L info) role_ports) @ [svc]"
  have rs: "rs = ConfigRec (NewConfigReconciler L (br_ClusterConfig r) config info auth opts) #
      StatefulSetRec \<lparr>ssr_builder = NewStatefulSetBuilder (GetFullName L info) (br_ClusterConfig r) replicas
          (br_Image r) ports overrides (commons_config config) CeleryExecutor auth opts',
        ssr_stopped = br_ClusterStopped r\<rparr> # map ServiceRec ?svcs"
    by (simp add: assms(5) svc(1))
  have "list_all (\<lambda>svc. svc_Name svc = GetFullName L info) ?svcs"
    by (simp add: list_all_iff svc(2) NewServiceReconciler_def)
  from group_okI [OF assms(2,3) this, of "k + 1"]
  have "group_ok (GetFullName L info) (k + 1) r info replicas overrides rs" by (simp add: rs)
  moreover have "map (forget_maps \<circ> ServiceRec :: ServiceReconciler \<Rightarrow> 'x resource_reconciler) ?svcs =
      map ServiceRec (replicate (k + 1 - 1) (NewServiceReconciler (GetFullName L info) role_ports) @
        [metrics_service (GetFullName L info)])"
    using svc(3) by (simp add: NewServiceReconciler_def)
  then have "group_objects L (k + 1) r info replicas config overrides = Inr (map forget_maps rs)"
    unfolding rs by (rule group_objectsI [OF assms(1-3)])
  ultimately show ?thesis ..
qed

lemma celery_registered:
  assumes "celery_RegisterResourceWithRoleGroup L r info replicas config overrides s = (t, Inr rs)"
  shows "group_ok (GetFullName L info) 1 r info replicas overrides rs \<and>
    group_objects L 1 r info replicas config overrides = Inr (map forget_maps rs)"
proof -
  from assms obtain auth opts u opts' v m where
    "role_group_authentication L (br_ClusterConfig r) = Inr auth"
    and "role_group_options L info s = (opts, u)" "role_group_options L info u = (opts', v)"
    and "GetServiceReconciler L info role_ports v = (t, Inr m)"
    and rs: "rs = [ConfigRec (NewConfigReconciler L (br_ClusterConfig r) config info auth opts),
      StatefulSetRec \<lparr>ssr_builder = NewStatefulSetBuilder (GetFullName L info) (br_ClusterConfig r) replicas
          (br_Image r) [] overrides (commons_config config) CeleryExecutor auth opts',
        ssr_stopped = br_ClusterStopped r\<rparr>, service_resource m]"
    by (auto simp: celery_register_eq split: sum.splits prod.splits)
  then have "group_ok (GetFullName L info) (0 + 1) r info replicas overrides rs \<and>
      group_objects L (0 + 1) r info replicas config overrides = Inr (map forget_maps rs)"
    by (intro group_registered [where ports = "[]"]) (assumption | simp add: rs)+
  then show ?thesis by simp
qed

lemma webservers_registered:
  assumes "webservers_RegisterResourceWithRoleGroup L r info replicas config overrides s = (t, Inr rs)"
  shows "group_ok (GetFullName L info) 2 r info replicas overrides rs \<and>
    group_objects L 2 r info replicas config overrides = Inr (map forget_maps rs)"
proof -
  from assms obtain auth opts u opts' v m where
    "role_group_authentication L (br_ClusterConfig r) = Inr auth"
    and "role_group_options L info s = (opts, u)" "role_group_options L info u = (opts', v)"
    and "GetServiceReconciler L info role_ports v = (t, Inr m)"
    and rs: "rs = [ConfigRec (NewConfigReconciler L (br_ClusterConfig r) config info auth opts),
      StatefulSetRec \<lparr>ssr_builder = NewStatefulSetBuilder (GetFullName L info) (br_ClusterConfig r) replicas
          (br_Image r) role_ports overrides (commons_config config) CeleryExecutor auth opts',
        ssr_stopped = br_ClusterStopped r\<rparr>,
      ServiceRec (NewServiceReconciler (GetFullName L info) role_ports), service_resource m]"
    by (auto simp: webservers_register_eq split: sum.splits prod.splits)
  then have "group_ok (GetFullName L info) (1 + 1) r info replicas overrides rs \<and>
      group_objects L (1 + 1) r info replicas config overrides = Inr (map forget_maps rs)"
    by (intro group_registered [where ports = "role_ports"]) (assumption | simp add: rs)+
  then show ?thesis by (simp add: numeral_2_eq_2)
qed

interpretation celery: role_contract L "celery_RegisterResourceWithRoleGroup L" 1
  for L :: "'x operator_lib"
  by unfold_locales
    (blast dest: celery_registered, blast dest: celery_registered,
      simp add: celery_register_eq role_group_authentication_def)

interpretation schedulers: role_contract L "schedulers_RegisterResourceWithRoleGroup L" 1
  for L :: "'x operator_lib"
  unfolding schedulers_register_eq by unfold_locales

interpretation webservers: role_contract L "webservers_RegisterResourceWithRoleGroup L" 2
  for L :: "'x operator_lib"
  by unfold_locales
    (blast dest: webservers_registered, blast dest: webservers_registered,
      simp add: webservers_register_eq role_group_authentication_def)

section \<open>One role group of any role\<close>

definition group_registrations :: "'x operator_lib \<Rightarrow> ('x register_group \<times> nat) list" where
  "group_registrations L =
     [(celery_RegisterResourceWithRoleGroup L, 1), (schedulers_RegisterResourceWithRoleGroup L, 1),
      (webservers_RegisterResourceWithRoleGroup L, 2)]"

lemma group_registration_shape:
  assumes "(register, k) \<in> set (group_registrations L)"
    and "register r info replicas config overrides s = (t, Inr rs)"
  shows "\<exists>auth opts u opts' v svc svcs ports. role_group_authentication L (br_ClusterConfig r) = Inr auth \<and>
    role_group_options L info s = (opts, u) \<and> role_group_options L info u = (opts', v) \<and>
    GetServiceReconciler L info role_ports v = (t, Inr (Some svc)) \<and> length svcs = k \<and>
    rs = ConfigRec (NewConfigReconciler L (br_ClusterConfig r) config info auth opts) #
      StatefulSetRec \<lparr>ssr_builder = NewStatefulSetBuilder (GetFullName L info) (br_ClusterConfig r) replicas
          (br_Image r) ports overrides (commons_config config) CeleryExecutor auth opts',
        ssr_stopped = br_ClusterStopped r\<rparr> # map ServiceRec svcs"
proof -
  have one: "\<exists>svcs. length svcs = 1 \<and> [ServiceRec svc] = map ServiceRec svcs"
    and two: "\<exists>svcs. length svcs = 2 \<and> [ServiceRec svc', ServiceRec svc] = map ServiceRec svcs"
    for svc svc' by (rule exI [of _ "[svc]"], simp) (rule exI [of _ "[svc', svc]"], simp)
  have m: "\<exists>svc. x = Some svc" if "GetServiceReconciler L info role_ports v = (t, Inr x)" for v x
    using metrics_service_built [OF that] by blast
  from assms(1) consider "register = celery_RegisterResourceWithRoleGroup L" "k = 1"
    | "register = webservers_RegisterResourceWithRoleGroup L" "k = 2"
    by (auto simp: group_registrations_def schedulers_register_eq)
  then show ?thesis
  proof cases
    case 1
    with assms(2) show ?thesis
      using one by (fastforce simp: celery_register_eq dest: m split: sum.splits prod.splits)
  next
    case 2
    with assms(2) show ?thesis
      using two by (fastforce simp: webservers_register_eq dest: m split: sum.splits prod.splits)
  qed
qed

lemma any_register_prefix:
  assumes "(register, k) \<in> set (group_registrations L)"
    and "register_role_groups L \<rho> register (r, s) = ((r', s'), result)" and "br_Spec r = Some spec"
  shows "\<exists>n blocks. n \<le> length (\<rho> (role_RoleGroups spec)) \<and>
    list_all2 (group_added L k r spec) (take n (\<rho> (role_RoleGroups spec))) blocks \<and>
    r' = r\<lparr>br_Resources := br_Resources r @ concat blocks\<rparr> \<and>
    (result = Inr () \<longleftrightarrow> n = length (\<rho> (role_RoleGroups spec)))"
proof -
  from assms(1) consider (c) "register = celery_RegisterResourceWithRoleGroup L" "k = 1"
    | (s) "register = schedulers_RegisterResourceWithRoleGroup L" "k = 1"
    | (w) "register = webservers_RegisterResourceWithRoleGroup L" "k = 2"
    by (auto simp: group_registrations_def)
  then show ?thesis
  proof cases
    case c
    show ?thesis using celery.register_prefix [OF assms(2) [unfolded c(1)] assms(3)] by (simp only: c(2))
  next
    case s
    show ?thesis using schedulers.register_prefix [OF assms(2) [unfolded s(1)] assms(3)] by (simp only: s(2))
  next
    case w
    show ?thesis using webservers.register_prefix [OF assms(2) [unfolded w(1)] assms(3)] by (simp only: w(2))
  qed
qed

section \<open>Examples for closed statements\<close>

definition sample_role_info :: RoleInfo where
  "sample_role_info = rgi_RoleInfo (sample_info WebserversRoleName ''default'')"

definition sample_role_spec :: "nat RoleSpec" where
  "sample_role_spec = \<lparr>
     role_RoleGroups = [(''default'', \<lparr>rg_Replicas = Some 1, rg_Config = None, rg_OverridesSpec = None\<rparr>),
       (''spare'', \<lparr>rg_Replicas = Some 2, rg_Config = None, rg_OverridesSpec = None\<rparr>)],
     role_RoleConfig = None, role_Config = Some sample_config, role_OverridesSpec = None\<rparr>"

definition sample_auth_config :: "nat ClusterConfigSpec" where
  "sample_auth_config = (sample_cluster_config ''team'')\<lparr>cc_Authentication := [auth_entry ''ldap'', auth_entry ''sso'']\<rparr>"

definition sample_webservers :: "nat ClusterConfigSpec \<Rightarrow> nat RoleReconciler" where
  "sample_webservers cc = NewWebserversReconciler False (Some cc) sample_role_info sample_image (Some sample_role_spec)"

lemma sample_options_step:
  assumes "GetLabels L = (\<lambda>i s. (Some 0, s))" and "GetAnnotations L = (\<lambda>i s. (Some 1, s))"
  shows "snd (role_group_options L info s) = s"
  by (simp add: role_group_options_def assms Let_def)

lemma sample_metrics_service:
  assumes "GetLabels L = (\<lambda>i s. (Some 0, s))" and "GetAnnotations L = (\<lambda>i s. (Some 1, s))"
  shows "\<exists>t svc. GetServiceReconciler L info role_ports s = (t, Inr (Some svc))"
proof -
  have "getPrometheusAnnotations p \<noteq> []" for p by (simp add: getPrometheusAnnotations_def)
  then show ?thesis
    by (simp add: GetServiceReconciler_def assms maps_Copy_def Let_def method_then_def)
qed

text \<open>In a library that hands out the maps 0 and 1, a group is registered when its authentication is.\<close>

lemma any_registration:
  assumes "GetLabels L = (\<lambda>i s. (Some 0, s))" and "GetAnnotations L = (\<lambda>i s. (Some 1, s))"
    and "role_group_authentication L (br_ClusterConfig r) = Inr auth"
    and "(register, k) \<in> set (group_registrations L)"
  shows "\<exists>t rs. register r info replicas config overrides s = (t, Inr rs)"
proof -
  obtain opts u where o1: "role_group_options L info s = (opts, u)" by (cases "role_group_options L info s")
  obtain opts' v where o2: "role_group_options L info u = (opts', v)" by (cases "role_group_options L info u")
  obtain t svc where "GetServiceReconciler L info role_ports v = (t, Inr (Some svc))"
    using sample_metrics_service [OF assms(1,2)] by blast
  then show ?thesis
    using assms(4)
    by (auto simp: group_registrations_def schedulers_register_eq webservers_register_eq celery_register_eq
        assms(3) o1 o2)
qed

lemma webservers_in_registrations:
  "(webservers_RegisterResourceWithRoleGroup L, 2) \<in> set (group_registrations L)"
  by (simp add: group_registrations_def)

lemmas sample_registration = any_registration [OF _ _ _ webservers_in_registrations]

lemma auth_lib_maps:
  "GetLabels auth_lib = (\<lambda>i s. (Some 0, s))" "GetAnnotations auth_lib = (\<lambda>i s. (Some 1, s))"
  by (simp_all add: auth_lib_def sample_lib_def)

lemma sample_lib_maps:
  "GetLabels sample_lib = (\<lambda>i s. (Some 0, s))" "GetAnnotations sample_lib = (\<lambda>i s. (Some 1, s))"
  by (simp_all add: sample_lib_def)

lemma sample_step_run:
  assumes "br_ClusterConfig r = Some (sample_cluster_config ''team'')"
    and "(register, k) \<in> set (group_registrations sample_lib)"
  shows "\<exists>r' s'. register_group_step sample_lib register spec entry (r, s) = ((r', s'), Inr ()) \<and>
    br_ClusterConfig r' = br_ClusterConfig r"
proof -
  obtain name g where entry: "entry = (name, g)" by (cases entry)
  have "\<exists>c. MergeConfig sample_lib a b = Inr c" "\<exists>c. MergeOverrides sample_lib a' b' = Inr c" for a b a' b'
    by (simp_all add: sample_lib_def)
  then obtain c ov where c: "MergeConfig sample_lib (role_Config spec) (rg_Config g) = Inr c"
    and ov: "MergeOverrides sample_lib (role_OverridesSpec spec) (rg_OverridesSpec g) = Inr ov"
    by blast
  have "role_group_authentication sample_lib (br_ClusterConfig r) = Inr None"
    by (simp add: assms(1) role_group_authentication_def sample_cluster_config_def)
  from any_registration [OF sample_lib_maps this assms(2)] obtain t rs where
    "register r \<lparr>rgi_RoleInfo = br_RoleInfo r, rgi_RoleGroupName = name\<rparr> (rg_Replicas g) c ov s = (t, Inr rs)"
    by blast
  then show ?thesis by (simp add: entry register_group_step_eq c ov)
qed

lemma sample_role_run:
  assumes "br_ClusterConfig r = Some (sample_cluster_config ''team'')" and "br_Spec r = Some spec"
    and "(register, k) \<in> set (group_registrations sample_lib)"
  shows "\<exists>r' s'. register_role_groups sample_lib \<rho> register (r, s) = ((r', s'), Inr ())"
proof -
  have "\<exists>r' s'. method_for_each (register_group_step sample_lib register spec) gs (r, s) = ((r', s'), Inr ())" for gs
    using assms(1)
  proof (induction gs arbitrary: r s)
    case (Cons g gs)
    obtain r1 s1 where "register_group_step sample_lib register spec g (r, s) = ((r1, s1), Inr ())"
      and "br_ClusterConfig r1 = br_ClusterConfig r"
      using sample_step_run [OF Cons.prems assms(3)] by blast
    then show ?case using Cons.IH [of r1 s1] Cons.prems by simp
  qed simp
  then show ?thesis by (simp add: register_role_groups_def assms(2))
qed

lemma sample_webservers_fields:
  "br_ClusterConfig (sample_webservers cc) = Some cc" "br_Spec (sample_webservers cc) = Some sample_role_spec"
  "br_Resources (sample_webservers cc) = []"
  by (simp_all add: sample_webservers_def NewWebserversReconciler_def)

section \<open>Properties\<close>

text \<open>
  C11: Registering a role adds, for some number of its role groups in the order they are visited,
  exactly the resources of these groups, and succeeds when that is all of them: a fault in one
  group keeps what the earlier ones registered and registers nothing of the later ones. A group of
  the executors or schedulers has three resources, one of the web servers has four.
\<close>

theorem role_registers_prefix:
  assumes "(register, k) \<in> set (group_registrations L)" and "br_Spec r = Some spec"
    and "register_role_groups L \<rho> register (r, s) = ((r', s'), result)"
  shows "\<exists>n blocks. n \<le> length (\<rho> (role_RoleGroups spec)) \<and>
    list_all2 (group_added L k r spec) (take n (\<rho> (role_RoleGroups spec))) blocks \<and>
    r' = r\<lparr>br_Resources := br_Resources r @ concat blocks\<rparr> \<and>
    (result = Inr () \<longleftrightarrow> n = length (\<rho> (role_RoleGroups spec)))"
  using any_register_prefix [OF assms(1,3,2)] .

theorem role_registers_prefix_witness:
  "\<exists>r' s' blocks. webservers_RegisterResources sample_lib rev
      (sample_webservers (sample_cluster_config ''team''), sample_store) = ((r', s'), Inr ()) \<and>
    list_all2 (group_added sample_lib 2 (sample_webservers (sample_cluster_config ''team'')) sample_role_spec)
      (rev (role_RoleGroups sample_role_spec)) blocks \<and>
    br_Resources r' = concat blocks \<and> length blocks = 2 \<and> length (br_Resources r') = 8"
proof -
  let ?r = "sample_webservers (sample_cluster_config ''team'')"
  obtain r' s' where run: "register_role_groups sample_lib rev
      (webservers_RegisterResourceWithRoleGroup sample_lib) (?r, sample_store) = ((r', s'), Inr ())"
    using sample_role_run [OF sample_webservers_fields(1,2) webservers_in_registrations] by blast
  obtain blocks where
    blocks: "list_all2 (group_added sample_lib 2 ?r sample_role_spec) (rev (role_RoleGroups sample_role_spec)) blocks"
    and "r' = ?r\<lparr>br_Resources := br_Resources ?r @ concat blocks\<rparr>"
    using role_registers_prefix [OF webservers_in_registrations sample_webservers_fields(2) run] by auto
  then have resources: "br_Resources r' = concat blocks" by (simp add: sample_webservers_fields)
  have groups: "length (role_RoleGroups sample_role_spec) = 2" by (simp add: sample_role_spec_def)
  have "length blocks = 2" using list_all2_lengthD [OF blocks] groups by simp
  moreover have "length (concat blocks) = 8"
    using blocks_length [OF blocks] groups by (simp del: length_concat)
  ultimately show ?thesis
    using run blocks resources unfolding webservers_RegisterResources_def by metis
qed

text \<open>
  When a role's registration succeeds, the number of resources does not depend on the order
  in which the role groups are visited.
\<close>

theorem role_resource_count:
  assumes "(register, k) \<in> set (group_registrations L)" and "br_Spec r = Some spec"
    and "range_order \<rho>" and "register_role_groups L \<rho> register (r, s) = ((r', s'), Inr ())"
  shows "length (br_Resources r') = length (br_Resources r) + (k + 2) * length (role_RoleGroups spec)"
proof -
  obtain blocks where
    all: "list_all2 (group_added L k r spec) (\<rho> (role_RoleGroups spec)) blocks"
    and r': "r' = r\<lparr>br_Resources := br_Resources r @ concat blocks\<rparr>"
    using any_register_prefix [OF assms(1,4,2)] by auto
  have "length (concat blocks) = length (\<rho> (role_RoleGroups spec)) * (k + 2)"
    using all by (rule blocks_length)
  then show ?thesis
    by (simp add: r' range_order_length [OF assms(3)] del: length_concat)
qed

theorem role_resource_count_witness:
  "\<exists>r' s'. webservers_RegisterResources sample_lib rev
      (sample_webservers (sample_cluster_config ''team''), sample_store) = ((r', s'), Inr ()) \<and>
    length (br_Resources r') = 8"
proof -
  obtain r' s' where run: "register_role_groups sample_lib rev (webservers_RegisterResourceWithRoleGroup sample_lib)
     (sample_webservers (sample_cluster_config ''team''), sample_store) = ((r', s'), Inr ())"
    using sample_role_run [OF sample_webservers_fields(1,2) webservers_in_registrations] by blast
  have "(webservers_RegisterResourceWithRoleGroup sample_lib, 2) \<in> set (group_registrations sample_lib)"
    by (simp add: group_registrations_def)
  from role_resource_count [OF this _ range_order_rev run, of sample_role_spec] run show ?thesis
    by (simp add: webservers_RegisterResources_def sample_webservers_def NewWebserversReconciler_def
        sample_role_spec_def)
qed

text \<open>
  C16: The configuration volume of a role group's stateful set is the config map registered beside
  it: both carry the group's full name, for every role.
\<close>

theorem config_volume_is_group_config_map:
  assumes "(register, k) \<in> set (group_registrations L)"
    and "register r info replicas config overrides s = (t, Inr rs)"
  shows "\<exists>cm ss services. rs = ConfigRec cm # StatefulSetRec ss # services \<and>
    cmb_Name (cm_base cm) = GetFullName L info \<and>
    (case StatefulSetBuilder_Build L \<rho> (ssr_builder ss) of
       (b', Inl fault) \<Rightarrow> True
     | (b', Inr obj) \<Rightarrow> \<exists>base vols. StatefulSetObject L base = Inr obj \<and>
         AddVolumes vols \<in> set (sb_Calls base) \<and>
         ConfigMapVolume ConfigVolumeMountName (cmb_Name (cm_base cm)) (Some 420) \<in> set vols)"
proof -
  obtain auth opts opts' svcs ports where rs: "rs =
      ConfigRec (NewConfigReconciler L (br_ClusterConfig r) config info auth opts) #
      StatefulSetRec \<lparr>ssr_builder = NewStatefulSetBuilder (GetFullName L info) (br_ClusterConfig r) replicas
          (br_Image r) ports overrides (commons_config config) CeleryExecutor auth opts',
        ssr_stopped = br_ClusterStopped r\<rparr> # map ServiceRec svcs"
    using group_registration_shape [OF assms] by blast
  let ?b = "NewStatefulSetBuilder (GetFullName L info) (br_ClusterConfig r) replicas
          (br_Image r) ports overrides (commons_config config) CeleryExecutor auth opts'"
  have built: "\<exists>base vols. StatefulSetObject L base = Inr obj \<and> AddVolumes vols \<in> set (sb_Calls base) \<and>
      ConfigMapVolume ConfigVolumeMountName (GetFullName L info) (Some 420) \<in> set vols"
    if build: "StatefulSetBuilder_Build L \<rho> ?b = (b', Inr obj)" for b' obj
  proof -
    obtain cb where "StatefulSetObject L (workload L ?b cb) = Inr obj"
      using StatefulSetBuilder_Build_Inr [OF build] by blast
    then show ?thesis
      by (intro exI [of _ "workload L ?b cb"] exI [of _ "pod_volumes (GetFullName L info)"])
        (simp add: workload_def pod_volumes_def)
  qed
  show ?thesis
    unfolding rs using built
    by (auto simp: NewConfigReconciler_def NewConfigMapBuilder_def split: prod.splits sum.splits)
qed

theorem config_volume_is_group_config_map_witness:
  "\<exists>t cm ss services. webservers_RegisterResourceWithRoleGroup sample_lib
      (sample_webservers (sample_cluster_config ''team'')) (sample_info WebserversRoleName ''default'')
      (Some 1) None None sample_store = (t, Inr (ConfigRec cm # StatefulSetRec ss # services)) \<and>
    cmb_Name (cm_base cm) = ''airflow-webservers-default''"
proof -
  let ?r = "sample_webservers (sample_cluster_config ''team'')"
  have "role_group_authentication sample_lib (br_ClusterConfig ?r) = Inr None"
    by (simp add: sample_webservers_def NewWebserversReconciler_def role_group_authentication_def
        sample_cluster_config_def)
  from sample_registration [OF sample_lib_maps this] obtain t rs where
    run: "webservers_RegisterResourceWithRoleGroup sample_lib ?r (sample_info WebserversRoleName ''default'')
      (Some 1) None None sample_store = (t, Inr rs)" by blast
  have in_list: "(webservers_RegisterResourceWithRoleGroup sample_lib, 2) \<in> set (group_registrations sample_lib)"
    by (simp add: group_registrations_def)
  have name: "GetFullName sample_lib (sample_info WebserversRoleName ''default'') = ''airflow-webservers-default''"
    by (simp add: sample_lib_def sample_info_def role_name_defs)
  show ?thesis
    using config_volume_is_group_config_map [OF in_list run, of "\<lambda>m. m"] run unfolding name by blast
qed

text \<open>
  C4: Every role group of a cluster with an OpenID Connect authenticator is registered with a
  config map that can never be built, of the executors and schedulers as well as of the web
  servers, because all roles hand the authentication to their config map.
\<close>

theorem oidc_role_groups_never_configured:
  assumes "template_ok L" and "properties_ok L"
    and "(register, k) \<in> set (group_registrations L)"
    and "register r info replicas config overrides s = (t, Inr rs)"
    and "br_ClusterConfig r = Some cc" and "entry \<in> set (cc_Authentication cc)"
    and "entry_authenticator L entry = Some (OidcAuthenticator oidc)"
    and "range_order \<rho>" and "range_order \<sigma>"
  shows "\<exists>cm others fault. rs = ConfigRec cm # others \<and> ConfigMapBuilder_Build L \<rho> \<sigma> cm = (cm, Inl fault)"
proof -
  obtain auth opts others where auth: "role_group_authentication L (br_ClusterConfig r) = Inr auth"
    and rs: "rs = ConfigRec (NewConfigReconciler L (br_ClusterConfig r) config info auth opts) # others"
    using group_registration_shape [OF assms(3,4)] by blast
  let ?cm = "NewConfigReconciler L (br_ClusterConfig r) config info auth opts"
  have "cc_Authentication cc \<noteq> []" using assms(6) by auto
  with auth obtain a where a: "NewAuthentication L (cc_Authentication cc) = Inr a" and "auth = Some a"
    by (auto simp: role_group_authentication_def assms(5) and_then_eq_Inr)
  have ok: "authentication_ok a"
    using new_authentication_loop_ok [OF _ empty_authentication_ok] a
    unfolding NewAuthentication_def by blast
  have "of_type a AuthenticatorTypeOIDC = filter (\<lambda>x. authenticator_type x = AuthenticatorTypeOIDC)
      (map (\<lambda>auth. the (entry_authenticator L auth)) (cc_Authentication cc))"
    using new_authentication_loop_of_type [of L "cc_Authentication cc" empty_authentication a] a
    by (simp add: NewAuthentication_def of_type_def empty_authentication_def map_slice_def)
  moreover have "authenticator_type (the (entry_authenticator L entry)) = AuthenticatorTypeOIDC"
    by (simp add: assms(7))
  ultimately have "of_type a AuthenticatorTypeOIDC \<noteq> []"
    using assms(6) by (auto simp: filter_empty_conv)
  then have "\<nexists>cfg. Authentication_GetConfig L \<rho> \<sigma> a = Inr cfg"
    using config_succeeds_iff [OF assms(1,2,8,9) ok] by simp
  then obtain fault where "Authentication_GetConfig L \<rho> \<sigma> a = Inl fault"
    by (cases "Authentication_GetConfig L \<rho> \<sigma> a") auto
  then have "ConfigMapBuilder_Build L \<rho> \<sigma> ?cm = (?cm, Inl fault)"
    by (simp add: ConfigMapBuilder_Build_def getAirflowConfig_def NewConfigReconciler_def
        NewConfigMapBuilder_def \<open>auth = Some a\<close>)
  then show ?thesis using rs by blast
qed

theorem oidc_role_groups_never_configured_witness:
  "\<exists>t cm others fault. webservers_RegisterResourceWithRoleGroup auth_lib
      (sample_webservers sample_auth_config) (sample_info WebserversRoleName ''default'')
      (Some 1) None None sample_store = (t, Inr (ConfigRec cm # others)) \<and>
    ConfigMapBuilder_Build auth_lib rev (\<lambda>m. m) cm = (cm, Inl fault)"
proof -
  let ?r = "sample_webservers sample_auth_config"
  have cc: "br_ClusterConfig ?r = Some sample_auth_config"
    by (simp add: sample_webservers_def NewWebserversReconciler_def)
  have "role_group_authentication auth_lib (br_ClusterConfig ?r) = Inr (Some sample_authentication)"
    unfolding cc by (simp add: role_group_authentication_def sample_auth_config_def sample_new_authentication)
  from sample_registration [OF auth_lib_maps this] obtain t rs where
    run: "webservers_RegisterResourceWithRoleGroup auth_lib ?r (sample_info WebserversRoleName ''default'')
      (Some 1) None None sample_store = (t, Inr rs)" by blast
  have in_list: "(webservers_RegisterResourceWithRoleGroup auth_lib, 2) \<in> set (group_registrations auth_lib)"
    by (simp add: group_registrations_def)
  have lib: "template_ok auth_lib" "properties_ok auth_lib"
    using template_ok_sample_lib properties_ok_sample_lib
    by (simp_all add: template_ok_def properties_ok_def auth_lib_def)
  have sso: "auth_entry ''sso'' \<in> set (cc_Authentication sample_auth_config)"
    "entry_authenticator auth_lib (auth_entry ''sso'') = Some (OidcAuthenticator sample_oidc)"
    by (simp_all add: sample_auth_config_def entry_authenticator_def auth_lib_def auth_entry_def sample_oidc_def)
  from oidc_role_groups_never_configured [OF lib in_list run cc sso range_order_rev range_order_id] run
  show ?thesis by blast
qed

text \<open>
  C33: A web server role group is registered with two services of the same name and different
  ports, so that the cluster can hold only one of them: the one for users, on ports 8080 and 9102
  without annotations, or the one for metrics, on port 9102 alone.
\<close>

theorem webserver_services_collide:
  assumes "webservers_RegisterResourceWithRoleGroup L r info replicas config overrides s = (t, Inr rs)"
  shows "\<exists>cm ss user metrics. rs = [cm, ss, ServiceRec user, ServiceRec metrics] \<and>
    svc_Name user = svc_Name metrics \<and>
    map cp_ContainerPort (svc_Ports user) = [8080, 9102] \<and>
    map cp_ContainerPort (svc_Ports metrics) = [9102] \<and>
    svc_Annotations user = None \<and> svc_Annotations metrics \<noteq> None"
proof -
  obtain cm ss v m where m: "GetServiceReconciler L info role_ports v = (t, Inr m)"
    and rs: "rs = [cm, ss, ServiceRec (NewServiceReconciler (GetFullName L info) role_ports), service_resource m]"
    using assms by (auto simp: webservers_register_eq split: sum.splits prod.splits)
  obtain svc where "m = Some svc" and "svc_Name svc = GetFullName L info"
    and "map cp_ContainerPort (svc_Ports svc) = [9102]" and "svc_Annotations svc \<noteq> None"
    using m by (auto simp: GetServiceReconciler_def method_then_def maps_Copy_def Let_def
        getPrometheusAnnotations_def split: prod.splits sum.splits option.splits)
  then show ?thesis
    by (simp add: rs NewServiceReconciler_def role_ports_def)
qed

theorem webserver_services_collide_witness:
  "\<exists>t cm ss user metrics. webservers_RegisterResourceWithRoleGroup sample_lib
      (sample_webservers (sample_cluster_config ''team'')) (sample_info WebserversRoleName ''default'')
      (Some 1) None None sample_store = (t, Inr [cm, ss, ServiceRec user, ServiceRec metrics]) \<and>
    svc_Name user = svc_Name metrics \<and> svc_Ports user \<noteq> svc_Ports metrics"
proof -
  let ?r = "sample_webservers (sample_cluster_config ''team'')"
  have "role_group_authentication sample_lib (br_ClusterConfig ?r) = Inr None"
    by (simp add: sample_webservers_def NewWebserversReconciler_def role_group_authentication_def
        sample_cluster_config_def)
  from sample_registration [OF sample_lib_maps this] obtain t rs where
    run: "webservers_RegisterResourceWithRoleGroup sample_lib ?r (sample_info WebserversRoleName ''default'')
      (Some 1) None None sample_store = (t, Inr rs)" by blast
  obtain cm ss user metrics where
    "rs = [cm, ss, ServiceRec user, ServiceRec metrics]" "svc_Name user = svc_Name metrics"
    "map cp_ContainerPort (svc_Ports user) = [8080, 9102]"
    "map cp_ContainerPort (svc_Ports metrics) = [9102]"
    using webserver_services_collide [OF run] by (elim exE conjE) (rule that)
  with run show ?thesis by auto
qed

end
