(* ===== verification/Cluster.thy ===== *)
theory Cluster
  imports Roles
begin

text \<open>
  \<open>internal/controller/cluster.go\<close> and \<open>internal/controller/airflowclusters_controller.go\<close>: the
  cluster registers its three roles one after the other, and the controller's \<open>Reconcile\<close> reads
  the custom resource, registers the cluster and runs it. Reading the resource and running the
  registered cluster are calls into the controller runtime and the support library, the
  parameters \<open>get\<close> and \<open>run\<close>.
\<close>

section \<open>The cluster reconciler\<close>

text \<open>What \<open>AddResource\<close> is handed: a role reconciler, of one of three types.\<close>

datatype 'x role_resource =
    CeleryExecutorsRole "'x RoleReconciler"
  | SchedulersRole "'x RoleReconciler"
  | WebserversRole "'x RoleReconciler"

fun role_of :: "'x role_resource \<Rightarrow> 'x RoleReconciler" where
  "role_of (CeleryExecutorsRole r) = r"
| "role_of (SchedulersRole r) = r"
| "role_of (WebserversRole r) = r"

record 'x ClusterReconciler =
  cr_ClusterInfo :: ClusterInfo
  cr_ClusterOperation :: "'x option"
  cr_Spec :: "'x AirflowClusterSpec"
  cr_ClusterConfig :: "'x ClusterConfigSpec option"
  cr_Resources :: "'x role_resource list"

definition NewClusterReconciler :: "ClusterInfo \<Rightarrow> 'x AirflowClusterSpec \<Rightarrow> 'x ClusterReconciler" where
  "NewClusterReconciler clusterInfo spec =
     \<lparr>cr_ClusterInfo = clusterInfo, cr_ClusterOperation = spec_ClusterOperation spec, cr_Spec = spec,
      cr_ClusterConfig = spec_ClusterConfig spec, cr_Resources = []\<rparr>"

definition GetImage :: "'x operator_lib \<Rightarrow> 'x ClusterReconciler \<Rightarrow> Image outcome" where
  "GetImage L r =
     and_then (deref (spec_Image (cr_Spec r))) (\<lambda>spec.
       let productVersion =
             (if img_ProductVersion spec \<noteq> [] then img_ProductVersion spec else DefaultProductVersion);
           img = \<lparr>im_ProductName = DefaultProductName, im_BuildVersion = BuildVersion L,
                  im_ProductVersion = productVersion, im_Custom = img_Custom spec,
                  im_Repo = img_Repo spec, im_PullPolicy = img_PullPolicy spec,
                  im_KubedoopVersion = None\<rparr>
       in Inr (if img_KubedoopVersion spec \<noteq> []
               then img\<lparr>im_KubedoopVersion := Some (img_KubedoopVersion spec)\<rparr> else img))"

definition role_info :: "'x ClusterReconciler \<Rightarrow> string \<Rightarrow> RoleInfo" where
  "role_info r name = \<lparr>ri_ClusterInfo = cr_ClusterInfo r, ri_RoleName = name\<rparr>"

type_synonym 'x group_order = "(string \<times> 'x RoleGroupSpec) list \<Rightarrow> (string \<times> 'x RoleGroupSpec) list"

text \<open>
  One role: the image is computed for each, the role registers its groups, and only a role that
  did so completely is added to the cluster.
\<close>

definition add_role ::
  "('x RoleReconciler \<Rightarrow> 'x role_resource) \<Rightarrow> ('x RoleReconciler \<times> map_store, unit) stateful \<Rightarrow>
   'x RoleReconciler \<Rightarrow> ('x ClusterReconciler \<times> map_store, unit) stateful"
where
  "add_role kind registerResources role rs =
     (case registerResources (role, snd rs) of
        ((role', s'), Inl fault) \<Rightarrow> ((fst rs, s'), Inl fault)
      | ((role', s'), Inr _) \<Rightarrow>
          (((fst rs)\<lparr>cr_Resources := cr_Resources (fst rs) @ [kind role']\<rparr>, s'), Inr ()))"

definition RegisterResource ::
  "'x operator_lib \<Rightarrow> (string \<Rightarrow> 'x group_order) \<Rightarrow> ('x ClusterReconciler \<times> map_store, unit) stateful"
where
  "RegisterResource L orders rs =
     method_then (\<lambda>(r, s). method_then (method_return (GetImage L r)) (\<lambda>img.
         add_role CeleryExecutorsRole (celery_RegisterResources L (orders CeleryExecutorsRoleName))
           (NewCeleryExecutorsReconciler (IsStopped L (cr_ClusterOperation r)) (cr_ClusterConfig r)
              (role_info r CeleryExecutorsRoleName) img (spec_CeleryExecutors (cr_Spec r)))) (r, s)) (\<lambda>_.
     method_then (\<lambda>(r, s). method_then (method_return (GetImage L r)) (\<lambda>img.
         add_role SchedulersRole (schedulers_RegisterResources L (orders SchedulersRoleName))
           (NewSchedulersReconciler (IsStopped L (cr_ClusterOperation r)) (cr_ClusterConfig r)
              (role_info r SchedulersRoleName) img (spec_Schedulers (cr_Spec r)))) (r, s)) (\<lambda>_.
     (\<lambda>(r, s). method_then (method_return (GetImage L r)) (\<lambda>img.
         add_role WebserversRole (webservers_RegisterResources L (orders WebserversRoleName))
           (NewWebserversReconciler (IsStopped L (cr_ClusterOperation r)) (cr_ClusterConfig r)
              (role_info r WebserversRoleName) img (spec_Webservers (cr_Spec r)))) (r, s)))) rs"

section \<open>Reconcile\<close>

record ctrl_Result =
  res_Requeue :: bool
  res_RequeueAfter :: int

definition empty_Result :: ctrl_Result where
  "empty_Result = \<lparr>res_Requeue = False, res_RequeueAfter = 0\<rparr>"

definition cluster_info :: "'x AirflowCluster \<Rightarrow> ClusterInfo" where
  "cluster_info obj =
     \<lparr>ci_GVK = \<lparr>gvk_Group = gv_Group AirflowGroupVersion, gvk_Version = gv_Version AirflowGroupVersion,
        gvk_Kind = ''AirflowCluster''\<rparr>,
      ci_ClusterName = ac_Name obj\<rparr>"

definition Reconcile ::
  "'x operator_lib \<Rightarrow> (string \<Rightarrow> 'x group_order) \<Rightarrow> ('k \<Rightarrow> api_error + 'x AirflowCluster) \<Rightarrow>
   ('x ClusterReconciler \<Rightarrow> go_error + ctrl_Result) \<Rightarrow> 'k \<Rightarrow> (map_store, ctrl_Result) stateful"
where
  "Reconcile L orders get run req s =
     (case get req of
        Inl err \<Rightarrow>
          (case IgnoreNotFound err of
             None \<Rightarrow> (s, Inr empty_Result)
           | Some _ \<Rightarrow> (s, Inl (Fail (ApiError err))))
      | Inr obj \<Rightarrow>
          (case RegisterResource L orders (NewClusterReconciler (cluster_info obj) (ac_Spec obj), s) of
             ((r, s'), Inl fault) \<Rightarrow> (s', Inl fault)
           | ((r, s'), Inr _) \<Rightarrow> (s', checked (run r))))"

section \<open>The three steps\<close>

text \<open>Everything a cluster hands to its roles, for a role of any kind.\<close>

definition role_for ::
  "'x operator_lib \<Rightarrow> 'x ClusterReconciler \<Rightarrow> string \<Rightarrow> Image \<Rightarrow> 'x RoleSpec option \<Rightarrow> 'x RoleReconciler"
where
  "role_for L r name img spec =
     \<lparr>br_ClusterStopped = IsStopped L (cr_ClusterOperation r), br_RoleInfo = role_info r name,
      br_Spec = spec, br_ClusterConfig = cr_ClusterConfig r, br_Image = img, br_Resources = []\<rparr>"

lemma NewClusterReconciler_simps [simp]:
  "cr_Spec (NewClusterReconciler info spec) = spec"
  "cr_ClusterConfig (NewClusterReconciler info spec) = spec_ClusterConfig spec"
  "cr_ClusterOperation (NewClusterReconciler info spec) = spec_ClusterOperation spec"
  "cr_Resources (NewClusterReconciler info spec) = []"
  by (simp_all add: NewClusterReconciler_def)

lemma role_for_simps [simp]:
  "br_Spec (role_for L r name img spec) = spec"
  "br_Resources (role_for L r name img spec) = []"
  by (simp_all add: role_for_def)

lemma role_for_eq:
  "NewCeleryExecutorsReconciler (IsStopped L (cr_ClusterOperation r)) (cr_ClusterConfig r) (role_info r n) img spec
     = role_for L r n img spec"
  "NewSchedulersReconciler (IsStopped L (cr_ClusterOperation r)) (cr_ClusterConfig r) (role_info r n) img spec
     = role_for L r n img spec"
  "NewWebserversReconciler (IsStopped L (cr_ClusterOperation r)) (cr_ClusterConfig r) (role_info r n) img spec
     = role_for L r n img spec"
  by (simp_all add: role_for_def new_role_reconciler_defs)

definition role_step ::
  "'x operator_lib \<Rightarrow> 'x group_order \<Rightarrow>
   ('x RoleReconciler \<Rightarrow> 'x role_resource) \<times> string \<times> 'x register_group \<times> ('x AirflowClusterSpec \<Rightarrow> 'x RoleSpec option) \<Rightarrow>
   ('x ClusterReconciler \<times> map_store, unit) stateful"
where
  "role_step L \<rho> step rs =
     (case step of (kind, name, register, field) \<Rightarrow>
        method_then (method_return (GetImage L (fst rs))) (\<lambda>img.
          add_role kind (register_role_groups L \<rho> register)
            (role_for L (fst rs) name img (field (cr_Spec (fst rs))))) rs)"

definition role_steps ::
  "'x operator_lib \<Rightarrow>
   (('x RoleReconciler \<Rightarrow> 'x role_resource) \<times> string \<times> 'x register_group \<times> ('x AirflowClusterSpec \<Rightarrow> 'x RoleSpec option)) list"
where
  "role_steps L =
     [(CeleryExecutorsRole, CeleryExecutorsRoleName, celery_RegisterResourceWithRoleGroup L, spec_CeleryExecutors),
      (SchedulersRole, SchedulersRoleName, schedulers_RegisterResourceWithRoleGroup L, spec_Schedulers),
      (WebserversRole, WebserversRoleName, webservers_RegisterResourceWithRoleGroup L, spec_Webservers)]"

text \<open>The three statements of the source are a loop over the three roles.\<close>

lemma method_then_unit: "method_then m (\<lambda>_ :: unit. \<lambda>s. (s, Inr ())) = m"
proof
  fix s
  obtain t r where "m s = (t, r)" by (cases "m s")
  then show "method_then m (\<lambda>_ :: unit. \<lambda>s. (s, Inr ())) s = m s"
    by (cases r) (simp_all add: method_then_def)
qed

lemma RegisterResource_loop:
  "RegisterResource L orders rs =
     method_for_each (\<lambda>step. role_step L (orders (fst (snd step))) step) (role_steps L) rs"
proof -
  have step: "(\<lambda>(r, s). method_then (method_return (GetImage L r)) (\<lambda>img. f img r) (r, s)) =
      (\<lambda>rs. method_then (method_return (GetImage L (fst rs))) (\<lambda>img. f img (fst rs)) rs)"
    for f :: "Image \<Rightarrow> 'a ClusterReconciler \<Rightarrow> ('a ClusterReconciler \<times> map_store, unit) stateful"
    by (auto simp: fun_eq_iff)
  show ?thesis
    unfolding RegisterResource_def role_for_eq celery_RegisterResources_def schedulers_RegisterResources_def
      webservers_RegisterResources_def step role_steps_def
    by (simp add: role_step_def [abs_def] method_then_unit method_for_each.simps [abs_def])
qed

text \<open>
  What a completed step adds: one role of its kind, with the cluster's settings and image, all of
  whose groups are registered, each with one service or, for the web servers, two.
\<close>

definition role_services :: "string \<Rightarrow> nat" where
  "role_services name = (if name = WebserversRoleName then 2 else 1)"

definition role_registered ::
  "'x operator_lib \<Rightarrow> (string \<Rightarrow> 'x group_order) \<Rightarrow> 'x ClusterReconciler \<Rightarrow>
   ('x RoleReconciler \<Rightarrow> 'x role_resource) \<times> string \<times> 'x register_group \<times> ('x AirflowClusterSpec \<Rightarrow> 'x RoleSpec option) \<Rightarrow>
   'x role_resource list \<Rightarrow> bool"
where
  "role_registered L orders r step ys \<longleftrightarrow>
     (case step of (kind, name, register, field) \<Rightarrow>
        \<exists>img spec blocks. GetImage L r = Inr img \<and> field (cr_Spec r) = Some spec \<and>
          list_all2 (group_added L (role_services name) (role_for L r name img (Some spec)) spec)
            (orders name (role_RoleGroups spec)) blocks \<and>
          ys = [kind ((role_for L r name img (Some spec))\<lparr>br_Resources := concat blocks\<rparr>)])"

lemma role_registered_resources [simp]:
  "role_registered L orders (r\<lparr>cr_Resources := x\<rparr>) = role_registered L orders r"
  by (intro ext) (simp add: role_registered_def GetImage_def role_for_def role_info_def)

lemma role_step_success:
  assumes "step \<in> set (role_steps L)"
    and "role_step L (orders (fst (snd step))) step (r, s) = ((r', s'), Inr ())"
  shows "\<exists>ys. role_registered L orders r step ys \<and> r' = r\<lparr>cr_Resources := cr_Resources r @ ys\<rparr>"
proof -
  obtain kind name register field where step: "step = (kind, name, register, field)"
    by (metis prod.exhaust)
  have k: "(register, role_services name) \<in> set (group_registrations L)"
    using assms(1) by (auto simp: step role_steps_def group_registrations_def role_services_def role_name_defs)
  obtain img where img: "GetImage L r = Inr img"
    using assms(2) by (cases "GetImage L r") (auto simp: step role_step_def)
  let ?role = "role_for L r name img (field (cr_Spec r))"
  obtain role' where run: "register_role_groups L (orders name) register (?role, s) = ((role', s'), Inr ())"
    and r': "r' = r\<lparr>cr_Resources := cr_Resources r @ [kind role']\<rparr>"
    using assms(2) by (auto simp: step role_step_def img add_role_def split: prod.splits sum.splits)
  obtain spec where spec: "field (cr_Spec r) = Some spec"
    using run by (cases "field (cr_Spec r)") (auto simp: register_role_groups_def role_for_def)
  obtain blocks where
    "list_all2 (group_added L (role_services name) ?role spec)
       (orders name (role_RoleGroups spec)) blocks"
    "role' = ?role\<lparr>br_Resources := br_Resources ?role @ concat blocks\<rparr>"
    using any_register_prefix [OF k run] spec by (auto simp: role_for_def)
  then show ?thesis
    using img spec r' by (auto simp: role_registered_def step role_for_def)
qed

lemma role_step_failure:
  assumes "role_step L \<rho> step (r, s) = ((r', s'), Inl fault)"
  shows "r' = r"
  using assms
  by (cases "GetImage L r")
    (auto simp: role_step_def add_role_def split: prod.splits sum.splits)

lemma RegisterResource_prefix:
  assumes "RegisterResource L orders (r, s) = ((r', s'), res)"
  shows "\<exists>n ys. n \<le> 3 \<and> list_all2 (role_registered L orders r) (take n (role_steps L)) ys \<and>
    r' = r\<lparr>cr_Resources := cr_Resources r @ concat ys\<rparr> \<and> (res = Inr () \<longleftrightarrow> n = 3)"
proof -
  let ?fixed = "\<lambda>rs :: 'a ClusterReconciler \<times> map_store. (fst rs)\<lparr>cr_Resources := []\<rparr>"
  let ?out = "\<lambda>rs :: 'a ClusterReconciler \<times> map_store. cr_Resources (fst rs)"
  have "\<exists>n ys. n \<le> length (role_steps L) \<and>
      list_all2 (role_registered L orders (?fixed (r, s))) (take n (role_steps L)) ys \<and>
      ?out (r', s') = ?out (r, s) @ concat ys \<and> ?fixed (r', s') = ?fixed (r, s) \<and>
      (res = Inr () \<longleftrightarrow> n = length (role_steps L))"
  proof (rule method_for_each_prefix [where R = "role_registered L orders",
        OF assms [unfolded RegisterResource_loop]])
    fix step rs ts
    assume "step \<in> set (role_steps L)" and "role_step L (orders (fst (snd step))) step rs = (ts, Inr ())"
    then show "?fixed ts = ?fixed rs \<and> (\<exists>y. role_registered L orders (?fixed rs) step y \<and> ?out ts = ?out rs @ y)"
      using role_step_success [of step L orders "fst rs" "snd rs" "fst ts" "snd ts"] by force
  next
    fix step rs ts e
    assume "role_step L (orders (fst (snd step))) step rs = (ts, Inl e)"
    then show "?fixed ts = ?fixed rs \<and> ?out ts = ?out rs"
      using role_step_failure [of L "orders (fst (snd step))" step "fst rs" "snd rs" "fst ts" "snd ts" e] by simp
  qed
  then obtain n ys where ys: "n \<le> 3" "list_all2 (role_registered L orders r) (take n (role_steps L)) ys"
      "cr_Resources r' = cr_Resources r @ concat ys" "res = Inr () \<longleftrightarrow> n = 3"
    and "r'\<lparr>cr_Resources := []\<rparr> = r\<lparr>cr_Resources := []\<rparr>"
    by (auto simp: role_steps_def numeral_3_eq_3)
  then have "r' = r\<lparr>cr_Resources := cr_Resources r @ concat ys\<rparr>"
    by (cases r; cases r') simp
  with ys show ?thesis by blast
qed

text \<open>The roles a cluster holds, by name.\<close>

definition role_names :: "'x ClusterReconciler \<Rightarrow> string list" where
  "role_names r = map (\<lambda>x. ri_RoleName (br_RoleInfo (role_of x))) (cr_Resources r)"

lemma role_registered_name:
  assumes "step \<in> set (role_steps L)" and "role_registered L orders r step ys"
  shows "map (\<lambda>x. ri_RoleName (br_RoleInfo (role_of x))) ys = [fst (snd step)]"
  using assms by (auto simp: role_registered_def role_steps_def role_for_def role_info_def)

lemma registered_names:
  "list_all2 (role_registered L orders r) steps ys \<Longrightarrow> set steps \<subseteq> set (role_steps L) \<Longrightarrow>
   map (\<lambda>x. ri_RoleName (br_RoleInfo (role_of x))) (concat ys) = map (\<lambda>step. fst (snd step)) steps"
  by (induction rule: list_all2_induct)
    (auto simp: role_registered_name [where L = L and orders = orders and r = r])

text \<open>
  The roles a custom resource asks for, in the order they are registered, and what it means that one
  of them is registered completely: the reconciler has the cluster's stop flag, configuration and
  image and the role's specification, and its resources are those of every role group, one block
  for each, in the order the groups are visited.
\<close>

definition planned_roles :: "'x AirflowClusterSpec \<Rightarrow> (string \<times> 'x RoleSpec option) list" where
  "planned_roles spec =
     [(CeleryExecutorsRoleName, spec_CeleryExecutors spec),
      (SchedulersRoleName, spec_Schedulers spec),
      (WebserversRoleName, spec_Webservers spec)]"

definition role_base ::
  "'x operator_lib \<Rightarrow> ClusterInfo \<Rightarrow> 'x AirflowClusterSpec \<Rightarrow> string \<Rightarrow> Image \<Rightarrow> 'x RoleSpec \<Rightarrow> 'x RoleReconciler"
where
  "role_base L info spec name img rspec =
     \<lparr>br_ClusterStopped = IsStopped L (spec_ClusterOperation spec),
      br_RoleInfo = \<lparr>ri_ClusterInfo = info, ri_RoleName = name\<rparr>, br_Spec = Some rspec,
      br_ClusterConfig = spec_ClusterConfig spec, br_Image = img, br_Resources = []\<rparr>"

definition role_complete ::
  "'x operator_lib \<Rightarrow> (string \<Rightarrow> 'x group_order) \<Rightarrow> ClusterInfo \<Rightarrow> 'x AirflowClusterSpec \<Rightarrow>
   string \<times> 'x RoleSpec option \<Rightarrow> 'x role_resource \<Rightarrow> bool"
where
  "role_complete L orders info spec planned role \<longleftrightarrow>
     (\<exists>name rspec img blocks. planned = (name, Some rspec) \<and>
        GetImage L (NewClusterReconciler info spec) = Inr img \<and>
        list_all2 (group_added L (role_services name) (role_base L info spec name img rspec) rspec)
          (orders name (role_RoleGroups rspec)) blocks \<and>
        role_of role = (role_base L info spec name img rspec)\<lparr>br_Resources := concat blocks\<rparr>)"

lemma role_for_base:
  "role_for L (NewClusterReconciler info spec) name img (Some rspec) = role_base L info spec name img rspec"
  by (simp add: role_for_def role_base_def role_info_def NewClusterReconciler_def)

lemma role_registered_complete:
  assumes "role_registered L orders (NewClusterReconciler info spec) (kind, name, register, field) ys"
    and "role_of \<circ> kind = id"
  shows "\<exists>role. ys = [role] \<and> role_complete L orders info spec (name, field spec) role"
  using assms by (fastforce simp: role_registered_def role_complete_def role_for_base fun_eq_iff)

lemma registered_roles_complete:
  assumes "list_all2 (role_registered L orders (NewClusterReconciler info spec)) (take n (role_steps L)) ys"
  shows "list_all2 (role_complete L orders info spec) (take n (planned_roles spec)) (concat ys)"
proof -
  have kinds: "role_of \<circ> CeleryExecutorsRole = id" "role_of \<circ> SchedulersRole = id" "role_of \<circ> WebserversRole = id"
    by (simp_all add: fun_eq_iff)
  consider "n = 0" | "n = 1" | "n = 2" | "3 \<le> n" by linarith
  then show ?thesis
    using assms
    by cases (auto simp: role_steps_def planned_roles_def list_all2_Cons1 numeral_2_eq_2
        dest!: role_registered_complete intro: kinds)
qed

lemma RegisterResource_complete:
  assumes "RegisterResource L orders (NewClusterReconciler info spec, s) = ((r, s'), res)"
  shows "\<exists>n \<le> 3. list_all2 (role_complete L orders info spec) (take n (planned_roles spec)) (cr_Resources r) \<and>
    (res = Inr () \<longleftrightarrow> n = 3)"
proof -
  obtain n ys where "n \<le> 3" "res = Inr () \<longleftrightarrow> n = 3" "cr_Resources r = concat ys"
    and "list_all2 (role_registered L orders (NewClusterReconciler info spec)) (take n (role_steps L)) ys"
    using RegisterResource_prefix [OF assms] by auto
  then show ?thesis using registered_roles_complete by fastforce
qed

lemma complete_role_needs:
  "role_complete L orders info spec (name, rspec) role \<Longrightarrow> spec_Image spec \<noteq> None \<and> rspec \<noteq> None"
  by (auto simp: role_complete_def GetImage_def and_then_eq_Inr deref_eq_Inr)

lemma complete_role_name:
  "role_complete L orders info spec planned role \<Longrightarrow> ri_RoleName (br_RoleInfo (role_of role)) = fst planned"
  by (auto simp: role_complete_def role_base_def)

lemma complete_role_names:
  "list_all2 (role_complete L orders info spec) ps roles \<Longrightarrow>
   map (\<lambda>x. ri_RoleName (br_RoleInfo (role_of x))) roles = map fst ps"
  by (induction rule: list_all2_induct) (simp_all add: complete_role_name)

section \<open>Examples for closed statements\<close>

definition sample_image_spec :: ImageSpec where
  "sample_image_spec = \<lparr>img_Custom = [], img_Repo = DefaultRepository, img_KubedoopVersion = ''0.0.0-dev'',
     img_ProductVersion = [], img_PullPolicy = ''IfNotPresent'', img_PullSecretName = []\<rparr>"

definition sample_spec :: "nat AirflowClusterSpec" where
  "sample_spec = \<lparr>spec_Image = Some sample_image_spec, spec_ClusterOperation = None,
     spec_ClusterConfig = Some (sample_cluster_config ''team''),
     spec_CeleryExecutors = Some sample_role_spec, spec_KubernetesExecutors = None,
     spec_Schedulers = Some sample_role_spec, spec_Webservers = Some sample_role_spec\<rparr>"

definition sample_kubernetes :: "nat KubernetesExecutorsSpec" where
  "sample_kubernetes = \<lparr>kes_RoleConfig = None, kes_Config = None, kes_OverridesSpec = None,
     kes_RoleGroupConfigSpec = None\<rparr>"

definition sample_cluster :: "nat AirflowCluster" where
  "sample_cluster = \<lparr>ac_Name = ''airflow'', ac_Namespace = ''default'', ac_Spec = sample_spec\<rparr>"

definition sample_reconciler :: "nat ClusterReconciler" where
  "sample_reconciler = NewClusterReconciler (cluster_info sample_cluster) sample_spec"

lemma sample_image_built: "\<exists>img. GetImage sample_lib (sample_reconciler\<lparr>cr_Resources := x\<rparr>) = Inr img"
  by (simp add: GetImage_def sample_reconciler_def NewClusterReconciler_def sample_spec_def Let_def)

lemma sample_register_run:
  "\<exists>r' s'. RegisterResource sample_lib orders (sample_reconciler, s) = ((r', s'), Inr ())"
proof -
  have step: "\<exists>y s'. role_step sample_lib \<rho> st (sample_reconciler\<lparr>cr_Resources := x\<rparr>, s) =
      ((sample_reconciler\<lparr>cr_Resources := y\<rparr>, s'), Inr ())"
    if st: "st \<in> set (role_steps sample_lib)" for \<rho> st x s
  proof -
    obtain kind name register field where eq: "st = (kind, name, register, field)" by (metis prod.exhaust)
    obtain k where k: "(register, k) \<in> set (group_registrations sample_lib)"
      using st by (auto simp: eq role_steps_def group_registrations_def)
    obtain img where img: "GetImage sample_lib (sample_reconciler\<lparr>cr_Resources := x\<rparr>) = Inr img"
      using sample_image_built by blast
    let ?role = "role_for sample_lib (sample_reconciler\<lparr>cr_Resources := x\<rparr>) name img
      (field (cr_Spec (sample_reconciler\<lparr>cr_Resources := x\<rparr>)))"
    have "br_ClusterConfig ?role = Some (sample_cluster_config ''team'')" and "br_Spec ?role = Some sample_role_spec"
      using st by (auto simp: eq role_steps_def role_for_def sample_reconciler_def NewClusterReconciler_def sample_spec_def)
    from sample_role_run [OF this k, of \<rho> s] obtain r' s' where
      "register_role_groups sample_lib \<rho> register (?role, s) = ((r', s'), Inr ())" by blast
    then show ?thesis by (auto simp: eq role_step_def img add_role_def)
  qed
  have "\<exists>y s'. method_for_each (\<lambda>st. role_step sample_lib (orders (fst (snd st))) st) sts
      (sample_reconciler\<lparr>cr_Resources := x\<rparr>, s) = ((sample_reconciler\<lparr>cr_Resources := y\<rparr>, s'), Inr ())"
    if "set sts \<subseteq> set (role_steps sample_lib)" for sts x s
    using that
  proof (induction sts arbitrary: x s)
    case (Cons st sts)
    obtain y s1 where "role_step sample_lib (orders (fst (snd st))) st (sample_reconciler\<lparr>cr_Resources := x\<rparr>, s) =
        ((sample_reconciler\<lparr>cr_Resources := y\<rparr>, s1), Inr ())"
      using step [of st "orders (fst (snd st))" x s] Cons.prems by auto
    then show ?case using Cons.IH [of y s1] Cons.prems by simp
  qed auto
  from this [of "role_steps sample_lib" "cr_Resources sample_reconciler" s] show ?thesis
    unfolding RegisterResource_loop by fastforce
qed

section \<open>Properties\<close>

text \<open>
  C1: Registering a cluster registers its roles in the order executors, schedulers, web servers: the
  cluster ends with a prefix of them, each one complete (the resources of all its role groups, built
  for the cluster's image, configuration and stop flag), and the call succeeds exactly when it is
  all three; a role that fails is not added, with nothing of what it registered. A role without a
  specification, or a missing image, ends the prefix.
\<close>

theorem cluster_registers_prefix:
  assumes "RegisterResource L orders (NewClusterReconciler info spec, s) = ((r, s'), res)"
  shows "\<exists>n. n \<le> 3 \<and>
    list_all2 (role_complete L orders info spec) (take n (planned_roles spec)) (cr_Resources r) \<and>
    role_names r = take n [CeleryExecutorsRoleName, SchedulersRoleName, WebserversRoleName] \<and>
    (res = Inr () \<longleftrightarrow> n = 3) \<and>
    (spec_Image spec = None \<longrightarrow> n = 0) \<and> (spec_CeleryExecutors spec = None \<longrightarrow> n = 0) \<and>
    (spec_Schedulers spec = None \<longrightarrow> n \<le> 1) \<and> (spec_Webservers spec = None \<longrightarrow> n \<le> 2)"
proof -
  obtain n where n: "n \<le> 3" "res = Inr () \<longleftrightarrow> n = 3"
    and complete: "list_all2 (role_complete L orders info spec) (take n (planned_roles spec)) (cr_Resources r)"
    using RegisterResource_complete [OF assms] by blast
  have names: "role_names r = take n [CeleryExecutorsRoleName, SchedulersRoleName, WebserversRoleName]"
    using complete_role_names [OF complete]
    by (simp add: role_names_def take_map [symmetric] planned_roles_def)
  have needs: "spec_Image spec \<noteq> None \<and> snd (planned_roles spec ! i) \<noteq> None" if "i < n" for i
  proof -
    have "i < length (take n (planned_roles spec))" using that n(1) by (simp add: planned_roles_def)
    from list_all2_nthD [OF complete this] show ?thesis
      using that complete_role_needs [of L orders info spec "fst (planned_roles spec ! i)" "snd (planned_roles spec ! i)"]
      by simp
  qed
  have "n = 0" if "spec_Image spec = None \<or> spec_CeleryExecutors spec = None"
    using needs [of 0] that by (cases n) (auto simp: planned_roles_def)
  moreover have "\<not> 1 < n" if "spec_Schedulers spec = None"
    using needs [of 1] that by (auto simp: planned_roles_def)
  moreover have "\<not> 2 < n" if "spec_Webservers spec = None"
    using needs [of 2] that by (auto simp: planned_roles_def)
  ultimately show ?thesis
    using n names complete by (intro exI [of _ n]) (simp add: not_less)
qed

theorem cluster_registers_prefix_witness:
  "\<exists>r s'. RegisterResource sample_lib (\<lambda>_ m. m) (sample_reconciler, sample_store) = ((r, s'), Inr ()) \<and>
    list_all2 (role_complete sample_lib (\<lambda>_ m. m) (cluster_info sample_cluster) sample_spec)
      (planned_roles sample_spec) (cr_Resources r) \<and>
    role_names r = [CeleryExecutorsRoleName, SchedulersRoleName, WebserversRoleName]"
proof -
  obtain r s' where run: "RegisterResource sample_lib (\<lambda>_ m. m) (sample_reconciler, sample_store) = ((r, s'), Inr ())"
    using sample_register_run by blast
  have "length (planned_roles sample_spec) = 3" by (simp add: planned_roles_def)
  with cluster_registers_prefix [OF run [unfolded sample_reconciler_def]] run show ?thesis by auto
qed

text \<open>
  C2: What one reconciliation does with the custom resource: nothing when it is gone, the API's
  error when it cannot be read, the registration's fault when it cannot be registered; the cluster
  is run only when all three roles are registered, and then the outcome is the run's.
\<close>

theorem reconcile_outcome:
  "case get req of
     Inl (ApiNotFound n) \<Rightarrow> Reconcile L orders get run req s = (s, Inr empty_Result)
   | Inl (ApiOther e) \<Rightarrow> Reconcile L orders get run req s = (s, Inl (Fail (ApiError (ApiOther e))))
   | Inr obj \<Rightarrow> \<exists>r s' res.
       RegisterResource L orders (NewClusterReconciler (cluster_info obj) (ac_Spec obj), s) = ((r, s'), res) \<and>
       Reconcile L orders get run req s =
         (s', if role_names r = [CeleryExecutorsRoleName, SchedulersRoleName, WebserversRoleName]
              then checked (run r) else Inl (projl res))"
proof (cases "get req")
  case (Inl e)
  then show ?thesis by (cases e) (simp_all add: Reconcile_def IgnoreNotFound_def)
next
  case (Inr obj)
  let ?r = "NewClusterReconciler (cluster_info obj) (ac_Spec obj)"
  obtain r s' res where run: "RegisterResource L orders (?r, s) = ((r, s'), res)"
    by (metis prod.exhaust)
  obtain n ys where n: "n \<le> 3" "list_all2 (role_registered L orders ?r) (take n (role_steps L)) ys"
    and r: "r = ?r\<lparr>cr_Resources := cr_Resources ?r @ concat ys\<rparr>" and res: "res = Inr () \<longleftrightarrow> n = 3"
    using RegisterResource_prefix [OF run] by blast
  have "role_names r = map (\<lambda>step. fst (snd step)) (take n (role_steps L))"
    using registered_names [OF n(2)] set_take_subset [of n "role_steps L"]
    by (simp add: role_names_def r NewClusterReconciler_def)
  then have names: "role_names r = take n [CeleryExecutorsRoleName, SchedulersRoleName, WebserversRoleName]"
    by (simp add: take_map [symmetric] role_steps_def)
  then have "length (role_names r) = n" using n(1) by simp
  with names res have "role_names r = [CeleryExecutorsRoleName, SchedulersRoleName, WebserversRoleName] \<longleftrightarrow> res = Inr ()"
    by auto
  then show ?thesis
    using run Inr by (cases res) (simp_all add: Reconcile_def)
qed

lemma missing_executors_panic:
  assumes "spec_CeleryExecutors spec = None"
  shows "RegisterResource L orders (NewClusterReconciler info spec, s) =
    ((NewClusterReconciler info spec, s), Inl NilDereference)"
proof -
  let ?r = "NewClusterReconciler info spec"
  have "role_step L (orders CeleryExecutorsRoleName) (role_steps L ! 0) (?r, s) = ((?r, s), Inl NilDereference)"
  proof (cases "GetImage L ?r")
    case (Inl fault)
    then have "fault = NilDereference"
      by (auto simp: GetImage_def and_then_eq_Inl Let_def deref_def split: option.splits)
    then show ?thesis by (simp add: role_steps_def role_step_def Inl)
  next
    case (Inr img)
    then show ?thesis
      using celery.register_nil_spec [of "role_for L ?r CeleryExecutorsRoleName img None"]
      by (simp add: role_steps_def role_step_def add_role_def assms)
  qed
  then show ?thesis unfolding RegisterResource_loop by (simp add: role_steps_def)
qed

text \<open>
  C34: A cluster that leaves out one of its executors, schedulers and web servers is never
  reconciled, whatever else it specifies (its Kubernetes executors included): every reconciliation
  fails, and without the Celery executors it panics on a nil pointer before anything is registered.
\<close>

theorem missing_role_fails:
  assumes "get req = Inr obj"
    and "spec_CeleryExecutors (ac_Spec obj) = None \<or> spec_Schedulers (ac_Spec obj) = None \<or>
      spec_Webservers (ac_Spec obj) = None"
  shows "\<exists>s' fault. Reconcile L orders get run req s = (s', Inl fault) \<and>
    (spec_CeleryExecutors (ac_Spec obj) = None \<longrightarrow> s' = s \<and> fault = NilDereference)"
proof (cases "spec_CeleryExecutors (ac_Spec obj) = None")
  case True
  then show ?thesis by (simp add: Reconcile_def assms(1) missing_executors_panic)
next
  case False
  let ?r = "NewClusterReconciler (cluster_info obj) (ac_Spec obj)"
  obtain r s' res where run: "RegisterResource L orders (?r, s) = ((r, s'), res)" by (metis prod.exhaust)
  obtain n where n: "n \<le> 3" "res = Inr () \<longleftrightarrow> n = 3" and
    complete: "list_all2 (role_complete L orders (cluster_info obj) (ac_Spec obj))
      (take n (planned_roles (ac_Spec obj))) (cr_Resources r)"
    using RegisterResource_complete [OF run] by blast
  have "n \<noteq> 3"
    using complete assms(2) complete_role_needs
    by (fastforce simp: planned_roles_def list_all2_Cons1 numeral_3_eq_3)
  then obtain fault where "res = Inl fault" using n(2) by (cases res) auto
  then show ?thesis using run False by (auto simp: Reconcile_def assms(1))
qed

theorem missing_role_fails_witness:
  "Reconcile sample_lib (\<lambda>_ m. m)
     (\<lambda>k :: string. Inr (sample_cluster\<lparr>ac_Spec := sample_spec\<lparr>spec_CeleryExecutors := None,
        spec_KubernetesExecutors := Some sample_kubernetes\<rparr>\<rparr>))
     (\<lambda>r. Inr empty_Result) ''airflow'' sample_store = (sample_store, Inl NilDereference)"
proof -
  let ?obj = "sample_cluster\<lparr>ac_Spec := sample_spec\<lparr>spec_CeleryExecutors := None,
    spec_KubernetesExecutors := Some sample_kubernetes\<rparr>\<rparr>"
  have "spec_CeleryExecutors (ac_Spec ?obj) = None" by simp
  then show ?thesis
    using missing_role_fails [of "\<lambda>k :: string. Inr ?obj" "''airflow''" ?obj sample_lib "\<lambda>_ m. m"
        "\<lambda>r. Inr empty_Result" sample_store] by fastforce
qed

lemma group_ok_uniform:
  assumes "group_ok name k r info replicas overrides rs" and "x \<in> set rs"
  shows "case x of
      ConfigRec cm \<Rightarrow> cm_ClusterConfig cm = br_ClusterConfig r
    | StatefulSetRec ss \<Rightarrow> ss_ClusterConfig (ssr_builder ss) = br_ClusterConfig r \<and>
        sb_Image (ss_base (ssr_builder ss)) = br_Image r \<and> ss_Executor (ssr_builder ss) = CeleryExecutor \<and>
        ss_RoleName (ssr_builder ss) = ri_RoleName (rgi_RoleInfo info) \<and> ssr_stopped ss = br_ClusterStopped r
    | ServiceRec svc \<Rightarrow> True
    | NilService \<Rightarrow> False"
  using assms by (auto simp: group_ok_def)

lemma group_added_uniform:
  assumes "list_all2 (group_added L k r spec) gs blocks" and "x \<in> set (concat blocks)"
  shows "\<exists>name info replicas overrides rs. group_ok name k r info replicas overrides rs \<and> x \<in> set rs \<and>
    ri_RoleName (rgi_RoleInfo info) = ri_RoleName (br_RoleInfo r)"
proof -
  obtain rs where "rs \<in> set blocks" and x: "x \<in> set rs" using assms(2) by auto
  then obtain g where "group_added L k r spec g rs"
    using assms(1) by (metis in_set_conv_nth list_all2_conv_all_nth)
  then show ?thesis using x by (fastforce simp: group_added_def Let_def)
qed

text \<open>What one resource must agree with.\<close>

definition resource_uniform ::
  "'x AirflowClusterSpec \<Rightarrow> Image \<Rightarrow> bool \<Rightarrow> string \<Rightarrow> 'x resource_reconciler \<Rightarrow> bool"
where
  "resource_uniform spec img stopped role_name x =
     (case x of
        ConfigRec cm \<Rightarrow> cm_ClusterConfig cm = spec_ClusterConfig spec
      | StatefulSetRec ss \<Rightarrow> ss_ClusterConfig (ssr_builder ss) = spec_ClusterConfig spec \<and>
          sb_Image (ss_base (ssr_builder ss)) = img \<and> ss_Executor (ssr_builder ss) = CeleryExecutor \<and>
          ss_RoleName (ssr_builder ss) = role_name \<and> ssr_stopped ss = stopped
      | ServiceRec svc \<Rightarrow> True
      | NilService \<Rightarrow> False)"

lemma registered_role_uniform:
  assumes "step \<in> set (role_steps L)"
    and "role_registered L orders (NewClusterReconciler info spec) step ys"
    and "GetImage L (NewClusterReconciler info spec) = Inr img" and "role \<in> set ys"
  shows "list_all (resource_uniform spec img (IsStopped L (spec_ClusterOperation spec))
    (ri_RoleName (br_RoleInfo (role_of role)))) (br_Resources (role_of role))"
proof -
  let ?r = "NewClusterReconciler info spec"
  obtain name gs k rspec blocks where
    blocks: "list_all2 (group_added L k (role_for L ?r name img (Some rspec)) rspec) gs blocks"
    and role: "role_of role = (role_for L ?r name img (Some rspec))\<lparr>br_Resources := concat blocks\<rparr>"
    using assms by (auto simp: role_registered_def role_steps_def)
  show ?thesis
    unfolding list_all_iff
  proof
    fix x
    assume "x \<in> set (br_Resources (role_of role))"
    then have "x \<in> set (concat blocks)" by (simp add: role)
    from group_added_uniform [OF blocks this] group_ok_uniform
    show "resource_uniform spec img (IsStopped L (spec_ClusterOperation spec))
        (ri_RoleName (br_RoleInfo (role_of role))) x"
      by (fastforce simp: resource_uniform_def role role_for_def role_info_def NewClusterReconciler_def
          split: resource_reconciler.splits)
  qed
qed

text \<open>
  C5: After a complete registration every workload of the cluster agrees with its specification:
  all config maps and stateful sets carry its cluster configuration, all stateful sets run the
  same image with the Celery executor, bear the name of their role, and are stopped exactly when
  the cluster is; no resource is nil.
\<close>

theorem cluster_workloads_uniform:
  assumes "RegisterResource L orders (NewClusterReconciler info spec, s) = ((r, s'), Inr ())"
  shows "\<exists>img. GetImage L (NewClusterReconciler info spec) = Inr img \<and>
    list_all (\<lambda>role. list_all (\<lambda>x. case x of
        ConfigRec cm \<Rightarrow> cm_ClusterConfig cm = spec_ClusterConfig spec
      | StatefulSetRec ss \<Rightarrow> ss_ClusterConfig (ssr_builder ss) = spec_ClusterConfig spec \<and>
          sb_Image (ss_base (ssr_builder ss)) = img \<and> ss_Executor (ssr_builder ss) = CeleryExecutor \<and>
          ss_RoleName (ssr_builder ss) = ri_RoleName (br_RoleInfo (role_of role)) \<and>
          ssr_stopped ss = IsStopped L (spec_ClusterOperation spec)
      | ServiceRec svc \<Rightarrow> True
      | NilService \<Rightarrow> False) (br_Resources (role_of role))) (cr_Resources r)"
proof -
  let ?r = "NewClusterReconciler info spec"
  obtain ys where ys: "list_all2 (role_registered L orders ?r) (role_steps L) ys"
    and r: "cr_Resources r = concat ys"
    using RegisterResource_prefix [OF assms] by (auto simp: role_steps_def NewClusterReconciler_def)
  then obtain y where "role_registered L orders ?r (role_steps L ! 0) y"
    by (auto simp: role_steps_def list_all2_Cons1)
  then obtain img where img: "GetImage L ?r = Inr img"
    by (auto simp: role_registered_def role_steps_def)
  have "list_all (resource_uniform spec img (IsStopped L (spec_ClusterOperation spec))
      (ri_RoleName (br_RoleInfo (role_of role)))) (br_Resources (role_of role))"
    if member: "role \<in> set (cr_Resources r)" for role
  proof -
    obtain y where "y \<in> set ys" and y: "role \<in> set y" using member by (auto simp: r)
    then obtain step where step: "step \<in> set (role_steps L)" "role_registered L orders ?r step y"
      using ys by (metis in_set_conv_nth list_all2_conv_all_nth)
    show ?thesis
      using registered_role_uniform [OF step img y] by simp
  qed
  then show ?thesis
    using img unfolding resource_uniform_def by (auto simp: list_all_iff)
qed

theorem cluster_workloads_uniform_witness:
  "\<exists>r s' img. RegisterResource sample_lib (\<lambda>_. rev) (sample_reconciler, sample_store) = ((r, s'), Inr ()) \<and>
    GetImage sample_lib sample_reconciler = Inr img \<and>
    list_all (\<lambda>role. list_all (\<lambda>x. case x of
        StatefulSetRec ss \<Rightarrow> sb_Image (ss_base (ssr_builder ss)) = img
      | NilService \<Rightarrow> False
      | _ \<Rightarrow> True) (br_Resources (role_of role))) (cr_Resources r)"
proof -
  obtain r s' where run: "RegisterResource sample_lib (\<lambda>_. rev) (sample_reconciler, sample_store) = ((r, s'), Inr ())"
    using sample_register_run by blast
  from cluster_workloads_uniform [OF run [unfolded sample_reconciler_def]] run show ?thesis
    by (fastforce simp: sample_reconciler_def list_all_iff split: resource_reconciler.splits)
qed

lemma method_for_each_map:
  assumes "\<And>x s. x \<in> set xs \<Longrightarrow> body x (h s) = map_prod h (\<lambda>r. r) (body x s)"
  shows "method_for_each body xs (h s) = map_prod h (\<lambda>r. r) (method_for_each body xs s)"
  using assms
proof (induction xs arbitrary: s)
  case (Cons x xs)
  obtain t r where step: "body x s = (t, r)" by (cases "body x s")
  then have "body x (h s) = (h t, r)" using Cons.prems [of x s] by simp
  with step show ?case using Cons by (cases r) (simp_all add: method_then_def)
qed simp

lemma role_step_kubernetes:
  assumes "step \<in> set (role_steps L)"
  shows "role_step L \<rho> step (r\<lparr>cr_Spec := (cr_Spec r)\<lparr>spec_KubernetesExecutors := k\<rparr>\<rparr>, s) =
    map_prod (\<lambda>(r, s). (r\<lparr>cr_Spec := (cr_Spec r)\<lparr>spec_KubernetesExecutors := k\<rparr>\<rparr>, s)) (\<lambda>x. x)
      (role_step L \<rho> step (r, s))"
proof -
  obtain kind name register field where step: "step = (kind, name, register, field)" by (metis prod.exhaust)
  let ?h = "\<lambda>r. r\<lparr>cr_Spec := (cr_Spec r)\<lparr>spec_KubernetesExecutors := k\<rparr>\<rparr>"
  have field: "field (cr_Spec (?h r)) = field (cr_Spec r)"
    using assms by (auto simp: step role_steps_def)
  have img: "GetImage L (?h r) = GetImage L r" by (simp add: GetImage_def)
  have role: "role_for L (?h r) name i sp = role_for L r name i sp" for i sp
    by (simp add: role_for_def role_info_def)
  show ?thesis
  proof (cases "GetImage L r")
    case (Inr i)
    obtain t x where "register_role_groups L \<rho> register (role_for L r name i (field (cr_Spec r)), s) = (t, x)"
      by (metis prod.exhaust)
    then show ?thesis
      using img field role Inr by (cases t; cases x) (simp_all add: step role_step_def add_role_def)
  qed (use img in \<open>simp add: step role_step_def\<close>)
qed

text \<open>
  The Kubernetes executors of a cluster's specification are ignored: with any value of that
  field the same roles are registered, in the same way and with the same outcome.
\<close>

theorem kubernetes_executors_ignored:
  "(case RegisterResource L orders (NewClusterReconciler info (spec\<lparr>spec_KubernetesExecutors := k\<rparr>), s) of
      ((r, s'), res) \<Rightarrow> (cr_Resources r, s', res)) =
   (case RegisterResource L orders (NewClusterReconciler info spec, s) of
      ((r, s'), res) \<Rightarrow> (cr_Resources r, s', res))"
proof -
  let ?h = "\<lambda>(r :: 'a ClusterReconciler, s :: map_store).
    (r\<lparr>cr_Spec := (cr_Spec r)\<lparr>spec_KubernetesExecutors := k\<rparr>\<rparr>, s)"
  have start: "(NewClusterReconciler info (spec\<lparr>spec_KubernetesExecutors := k\<rparr>), s) =
      ?h (NewClusterReconciler info spec, s)"
    by (simp add: NewClusterReconciler_def)
  have "RegisterResource L orders (?h (NewClusterReconciler info spec, s)) =
      map_prod ?h (\<lambda>x. x) (RegisterResource L orders (NewClusterReconciler info spec, s))"
    unfolding RegisterResource_loop
    by (rule method_for_each_map) (auto simp: role_step_kubernetes split: prod.split)
  then show ?thesis
    unfolding start by (cases "RegisterResource L orders (NewClusterReconciler info spec, s)") auto
qed

end
