(* ===== verification/ClusterPlan.thy ===== *)
theory ClusterPlan
  imports Cluster
begin

text \<open>
  The abstract specification of the registration: what a custom resource asks for, as a list of
  planned objects computed from it alone. The cluster that registers its roles refines it: the
  objects it holds, seen through an abstraction that forgets how they are built, are the plan.
\<close>

section \<open>The plan\<close>

datatype planned =
    PlannedConfigMap string string
  | PlannedStatefulSet string string string "32 word option" bool
  | PlannedService string

text \<open>One role group: its objects all bear the full name the library gives the group.\<close>

definition group_plan ::
  "string \<Rightarrow> string \<Rightarrow> string \<Rightarrow> 32 word option \<Rightarrow> bool \<Rightarrow> planned list"
where
  "group_plan full_name role_name group_name replicas stopped =
     PlannedConfigMap full_name role_name #
     PlannedStatefulSet full_name role_name group_name replicas stopped #
     replicate (role_services role_name) (PlannedService full_name)"

definition role_plan ::
  "'x operator_lib \<Rightarrow> ClusterInfo \<Rightarrow> bool \<Rightarrow> string \<Rightarrow> (string \<times> 'x RoleGroupSpec) list \<Rightarrow> planned list"
where
  "role_plan L info stopped name groups =
     concat (map (\<lambda>(group_name, g).
       group_plan
         (GetFullName L \<lparr>rgi_RoleInfo = \<lparr>ri_ClusterInfo = info, ri_RoleName = name\<rparr>,
            rgi_RoleGroupName = group_name\<rparr>)
         name group_name (rg_Replicas g) stopped) groups)"

text \<open>The three roles of the cluster, a missing one without objects.\<close>

definition role_groups_of :: "'x RoleSpec option \<Rightarrow> (string \<times> 'x RoleGroupSpec) list" where
  "role_groups_of rspec = (case rspec of None \<Rightarrow> [] | Some rs \<Rightarrow> role_RoleGroups rs)"

definition cluster_plan ::
  "'x operator_lib \<Rightarrow> (string \<Rightarrow> 'x group_order) \<Rightarrow> ClusterInfo \<Rightarrow> 'x AirflowClusterSpec \<Rightarrow> planned list list"
where
  "cluster_plan L orders info spec =
     map (\<lambda>(name, rspec). role_plan L info (IsStopped L (spec_ClusterOperation spec)) name
       (orders name (role_groups_of rspec))) (planned_roles spec)"

section \<open>The abstraction\<close>

fun resource_abs :: "'x resource_reconciler \<Rightarrow> planned list" where
  "resource_abs (ConfigRec cm) = [PlannedConfigMap (cmb_Name (cm_base cm)) (cm_RoleName cm)]"
| "resource_abs (StatefulSetRec ss) =
     [PlannedStatefulSet (sb_Name (ss_base (ssr_builder ss))) (ss_RoleName (ssr_builder ss))
        (ss_RoleGroupName (ssr_builder ss)) (sb_Replicas (ss_base (ssr_builder ss))) (ssr_stopped ss)]"
| "resource_abs (ServiceRec svc) = [PlannedService (svc_Name svc)]"
| "resource_abs NilService = []"

definition resources_abs :: "'x resource_reconciler list \<Rightarrow> planned list" where
  "resources_abs rs = concat (map resource_abs rs)"

definition cluster_abs :: "'x ClusterReconciler \<Rightarrow> planned list list" where
  "cluster_abs r = map (\<lambda>role. resources_abs (br_Resources (role_of role))) (cr_Resources r)"

lemma resources_abs_simps [simp]:
  "resources_abs [] = []"
  "resources_abs (x # xs) = resource_abs x @ resources_abs xs"
  "resources_abs (xs @ ys) = resources_abs xs @ resources_abs ys"
  by (simp_all add: resources_abs_def)

lemma resources_abs_services:
  "list_all (\<lambda>svc. svc_Name svc = name) svcs \<Longrightarrow>
   resources_abs (map ServiceRec svcs) = replicate (length svcs) (PlannedService name)"
  by (induction svcs) auto

section \<open>The refinement\<close>

lemma group_ok_plan:
  assumes "group_ok name (role_services (ri_RoleName (rgi_RoleInfo info))) r info replicas overrides rs"
  shows "resources_abs rs = group_plan name (ri_RoleName (rgi_RoleInfo info)) (rgi_RoleGroupName info)
    replicas (br_ClusterStopped r)"
  using assms
  by (auto simp: group_ok_def group_plan_def resources_abs_services NewStatefulSetBuilder_def)

lemma groups_added_plan:
  assumes "list_all2 (group_added L (role_services name) (role_for L r name img rspec) spec) gs blocks"
  shows "resources_abs (concat blocks) =
    role_plan L (cr_ClusterInfo r) (IsStopped L (cr_ClusterOperation r)) name gs"
  using assms
proof (induction rule: list_all2_induct)
  case (Cons g gs rs blocks)
  obtain group_name rg where g: "g = (group_name, rg)" by (cases g)
  let ?info = "\<lparr>rgi_RoleInfo = role_info r name, rgi_RoleGroupName = group_name\<rparr>"
  from Cons(1) obtain overrides where
    "group_ok (GetFullName L ?info) (role_services (ri_RoleName (rgi_RoleInfo ?info)))
       (role_for L r name img rspec) ?info (rg_Replicas rg) overrides rs"
    by (auto simp: group_added_def g Let_def role_for_def role_info_def)
  from group_ok_plan [OF this] Cons show ?case
    by (simp add: role_plan_def g role_for_def role_info_def)
qed (simp add: role_plan_def)

lemma role_registered_plan:
  assumes "role_registered L orders r (kind, name, register, field) ys" and "role_of \<circ> kind = id"
  shows "map (\<lambda>role. resources_abs (br_Resources (role_of role))) ys =
    [role_plan L (cr_ClusterInfo r) (IsStopped L (cr_ClusterOperation r)) name
       (orders name (role_groups_of (field (cr_Spec r))))]"
proof -
  obtain img spec blocks where "field (cr_Spec r) = Some spec"
    and blocks: "list_all2 (group_added L (role_services name) (role_for L r name img (Some spec)) spec)
      (orders name (role_RoleGroups spec)) blocks"
    and "ys = [kind ((role_for L r name img (Some spec))\<lparr>br_Resources := concat blocks\<rparr>)]"
    using assms(1) by (auto simp: role_registered_def)
  then show ?thesis
    using groups_added_plan [OF blocks] assms(2) by (simp add: role_groups_of_def fun_eq_iff)
qed

lemma registered_roles_plan:
  assumes "list_all2 (role_registered L orders (NewClusterReconciler info spec)) (take n (role_steps L)) ys"
  shows "map (\<lambda>role. resources_abs (br_Resources (role_of role))) (concat ys) =
    take n (cluster_plan L orders info spec)"
proof -
  have kinds: "role_of \<circ> CeleryExecutorsRole = id" "role_of \<circ> SchedulersRole = id" "role_of \<circ> WebserversRole = id"
    by (simp_all add: fun_eq_iff)
  consider "n = 0" | "n = 1" | "n = 2" | "3 \<le> n" by linarith
  then show ?thesis
    using assms
    by cases (auto simp: role_steps_def cluster_plan_def planned_roles_def list_all2_Cons1
        NewClusterReconciler_def numeral_2_eq_2 dest!: role_registered_plan intro: kinds)
qed

lemma cluster_plan_length: "length (cluster_plan L orders info spec) = 3"
  by (simp add: cluster_plan_def planned_roles_def)

text \<open>The registered objects, as much of them as there are, are the planned ones.\<close>

lemma RegisterResource_plan:
  assumes "RegisterResource L orders (NewClusterReconciler info spec, s) = ((r, s'), res)"
  shows "\<exists>n \<le> 3. cluster_abs r = take n (cluster_plan L orders info spec) \<and> (res = Inr () \<longleftrightarrow> n = 3)"
proof -
  obtain n ys where n: "n \<le> 3" "res = Inr () \<longleftrightarrow> n = 3"
    and ys: "list_all2 (role_registered L orders (NewClusterReconciler info spec)) (take n (role_steps L)) ys"
    and r: "cr_Resources r = concat ys"
    using RegisterResource_prefix [OF assms] by auto
  have "cluster_abs r = take n (cluster_plan L orders info spec)"
    unfolding cluster_abs_def r by (rule registered_roles_plan [OF ys])
  with n show ?thesis by blast
qed

text \<open>The order in which a range visits the role groups only permutes the plan of a role.\<close>

lemma role_plan_order:
  assumes "mset gs = mset gs'"
  shows "mset (role_plan L info stopped name gs) = mset (role_plan L info stopped name gs')"
proof -
  have flat: "mset (concat (map f xs)) = sum_mset (image_mset (\<lambda>x. mset (f x)) (mset xs))"
    for f :: "string \<times> 'a RoleGroupSpec \<Rightarrow> planned list" and xs
    by (induction xs) auto
  show ?thesis by (simp add: role_plan_def flat assms)
qed

lemma cluster_plan_order:
  assumes "\<And>name. range_order (orders name)" and "\<And>name. range_order (orders' name)"
  shows "mset (concat (cluster_plan L orders info spec)) = mset (concat (cluster_plan L orders' info spec))"
proof -
  have "mset (role_plan L info stopped name (orders name gs)) = mset (role_plan L info stopped name (orders' name gs))"
    for stopped name gs
    by (rule role_plan_order) (simp add: range_order_mset assms)
  then show ?thesis by (simp add: cluster_plan_def planned_roles_def)
qed

section \<open>Properties\<close>

text \<open>
  C3: The registration refines the plan: the objects of the cluster, role by role, are the planned
  ones of a prefix of the executors, schedulers and web servers, each role with every object of
  every group (its config map, its stateful set with the replicas, role, group and stop flag of the
  resource, its services) and no other; after a success they are the whole plan, which depends on
  the resource alone.
\<close>

theorem registered_cluster_is_plan:
  assumes "RegisterResource L orders (NewClusterReconciler info spec, s) = ((r, s'), res)"
  shows "\<exists>n \<le> 3. cluster_abs r = take n (cluster_plan L orders info spec) \<and>
    (res = Inr () \<longleftrightarrow> cluster_abs r = cluster_plan L orders info spec)"
proof -
  obtain n where n: "n \<le> 3" "cluster_abs r = take n (cluster_plan L orders info spec)" "res = Inr () \<longleftrightarrow> n = 3"
    using RegisterResource_plan [OF assms] by blast
  have "cluster_abs r = cluster_plan L orders info spec \<longleftrightarrow> n = 3"
  proof
    assume "cluster_abs r = cluster_plan L orders info spec"
    then have "length (take n (cluster_plan L orders info spec)) = 3"
      by (simp add: n(2) [symmetric] cluster_plan_length)
    with n(1) show "n = 3" by (simp add: cluster_plan_length)
  qed (simp add: n(2) cluster_plan_length)
  with n show ?thesis by blast
qed

theorem registered_cluster_is_plan_witness:
  "\<exists>r s'. RegisterResource sample_lib (\<lambda>_. rev) (sample_reconciler, sample_store) = ((r, s'), Inr ()) \<and>
    cluster_abs r = cluster_plan sample_lib (\<lambda>_. rev) (cluster_info sample_cluster) sample_spec \<and>
    length (concat (cluster_abs r)) = 20"
proof -
  obtain r s' where run: "RegisterResource sample_lib (\<lambda>_. rev) (sample_reconciler, sample_store) = ((r, s'), Inr ())"
    using sample_register_run by blast
  from registered_cluster_is_plan [OF run [unfolded sample_reconciler_def]]
  have "cluster_abs r = cluster_plan sample_lib (\<lambda>_. rev) (cluster_info sample_cluster) sample_spec" by blast
  moreover from this have "length (concat (cluster_abs r)) = 20"
    by (simp add: cluster_plan_def planned_roles_def role_groups_of_def role_plan_def group_plan_def
        sample_spec_def sample_role_spec_def role_services_def role_name_defs)
  ultimately show ?thesis using run by blast
qed

section \<open>The registered objects in full\<close>

text \<open>
  The objects of each role with everything the operator sets on them (names, replicas, image,
  merged configuration and overrides, authentication, ports, options), without the label and
  annotation maps of the library.
\<close>

definition cluster_objects :: "'x ClusterReconciler \<Rightarrow> 'x resource_reconciler list list" where
  "cluster_objects r = map (\<lambda>role. map forget_maps (br_Resources (role_of role))) (cr_Resources r)"

text \<open>The objects of a role are a function of each group's entry, one block for each group.\<close>

definition group_block ::
  "'x operator_lib \<Rightarrow> nat \<Rightarrow> 'x RoleReconciler \<Rightarrow> 'x RoleSpec \<Rightarrow> string \<times> 'x RoleGroupSpec \<Rightarrow>
   'x resource_reconciler list"
where
  "group_block L k base rspec entry =
     (case MergeConfig L (role_Config rspec) (rg_Config (snd entry)) of Inl e \<Rightarrow> []
      | Inr config \<Rightarrow>
          (case MergeOverrides L (role_OverridesSpec rspec) (rg_OverridesSpec (snd entry)) of Inl e \<Rightarrow> []
           | Inr overrides \<Rightarrow>
               (case group_objects L k base \<lparr>rgi_RoleInfo = br_RoleInfo base, rgi_RoleGroupName = fst entry\<rparr>
                    (rg_Replicas (snd entry)) config overrides of
                  Inl fault \<Rightarrow> [] | Inr objects \<Rightarrow> objects)))"

lemma group_added_block: "group_added L k base rspec entry rs \<Longrightarrow> map forget_maps rs = group_block L k base rspec entry"
  by (auto simp: group_added_def group_block_def Let_def)

lemma groups_added_blocks:
  "list_all2 (group_added L k base rspec) gs blocks \<Longrightarrow>
   map forget_maps (concat blocks) = concat (map (group_block L k base rspec) gs)"
  by (induction rule: list_all2_induct) (simp_all add: group_added_block)

lemma mset_concat_map: "mset xs = mset ys \<Longrightarrow> mset (concat (map f xs)) = mset (concat (map f ys))"
proof -
  assume same: "mset xs = mset ys"
  have "mset (concat (map f xs)) = sum_mset (image_mset (\<lambda>x. mset (f x)) (mset xs))" for xs
    by (induction xs) auto
  then show ?thesis by (simp add: same)
qed

lemma complete_roles_same:
  assumes "role_complete L orders info spec planned role" and "role_complete L orders' info spec planned role'"
    and "range_order (orders (fst planned))" and "range_order (orders' (fst planned))"
  shows "mset (map forget_maps (br_Resources (role_of role))) = mset (map forget_maps (br_Resources (role_of role')))"
proof -
  obtain name rspec img blocks where planned: "planned = (name, Some rspec)"
    and img: "GetImage L (NewClusterReconciler info spec) = Inr img"
    and blocks: "list_all2 (group_added L (role_services name) (role_base L info spec name img rspec) rspec)
      (orders name (role_RoleGroups rspec)) blocks" "br_Resources (role_of role) = concat blocks"
    using assms(1) by (auto simp: role_complete_def)
  obtain blocks' where
    blocks': "list_all2 (group_added L (role_services name) (role_base L info spec name img rspec) rspec)
      (orders' name (role_RoleGroups rspec)) blocks'" "br_Resources (role_of role') = concat blocks'"
    using assms(2) by (auto simp: role_complete_def planned img)
  have "mset (orders name (role_RoleGroups rspec)) = mset (orders' name (role_RoleGroups rspec))"
    using assms(3,4) by (simp add: planned range_order_mset)
  from mset_concat_map [OF this] show ?thesis
    by (simp only: blocks(2) blocks'(2) groups_added_blocks [OF blocks(1)] groups_added_blocks [OF blocks'(1)])
qed

text \<open>
  C13: Registering the same custom resource again gives the same objects: two successful
  registrations, in whatever order they visit the role groups and whatever label and annotation maps
  there are by then, hold the same roles in the same order, each with the same multiset of objects,
  in all that the operator sets on them: names, replicas, image, the group's merged configuration
  and overrides, authentication, ports and options. Nothing of one group reaches another.
\<close>

theorem registration_repeatable:
  assumes "RegisterResource L orders (NewClusterReconciler info spec, s) = ((r, s'), Inr ())"
    and "RegisterResource L orders' (NewClusterReconciler info spec, t) = ((r', t'), Inr ())"
    and "\<And>name. range_order (orders name)" and "\<And>name. range_order (orders' name)"
  shows "role_names r = role_names r' \<and> map mset (cluster_objects r) = map mset (cluster_objects r')"
proof -
  have complete: "list_all2 (role_complete L orders info spec) (planned_roles spec) (cr_Resources r)"
    "list_all2 (role_complete L orders' info spec) (planned_roles spec) (cr_Resources r')"
    using RegisterResource_complete [OF assms(1)] RegisterResource_complete [OF assms(2)]
    by (auto simp: planned_roles_def)
  have same: "map (\<lambda>role. mset (map forget_maps (br_Resources (role_of role)))) roles =
      map (\<lambda>role. mset (map forget_maps (br_Resources (role_of role)))) roles'"
    if "list_all2 (role_complete L orders info spec) ps roles"
      and "list_all2 (role_complete L orders' info spec) ps roles'" for ps roles roles'
    using that
  proof (induction ps arbitrary: roles roles')
    case (Cons p ps)
    from Cons.prems obtain x xs y ys where roles: "roles = x # xs" "roles' = y # ys"
      and first: "role_complete L orders info spec p x" "role_complete L orders' info spec p y"
      and tails: "list_all2 (role_complete L orders info spec) ps xs"
        "list_all2 (role_complete L orders' info spec) ps ys"
      by (auto simp: list_all2_Cons1)
    show ?case
      using complete_roles_same [OF first assms(3,4)] Cons.IH [OF tails] by (simp only: roles list.map)
  qed simp
  show ?thesis
    using same [OF complete] complete_role_names [OF complete(1)] complete_role_names [OF complete(2)]
    by (simp add: cluster_objects_def role_names_def comp_def)
qed

theorem registration_repeatable_witness:
  "\<exists>r s' r' t'. RegisterResource sample_lib (\<lambda>_. rev) (sample_reconciler, sample_store) = ((r, s'), Inr ()) \<and>
    RegisterResource sample_lib (\<lambda>_ m. m) (sample_reconciler, s') = ((r', t'), Inr ()) \<and>
    length (cluster_objects r) = 3 \<and> map mset (cluster_objects r) = map mset (cluster_objects r')"
proof -
  obtain r s' where first: "RegisterResource sample_lib (\<lambda>_. rev) (sample_reconciler, sample_store) = ((r, s'), Inr ())"
    using sample_register_run by blast
  obtain r' t' where again: "RegisterResource sample_lib (\<lambda>_ m. m) (sample_reconciler, s') = ((r', t'), Inr ())"
    using sample_register_run by blast
  have "length (cluster_objects r) = 3"
    using RegisterResource_complete [OF first [unfolded sample_reconciler_def]]
    by (auto simp: cluster_objects_def planned_roles_def dest!: list_all2_lengthD)
  moreover have "map mset (cluster_objects r) = map mset (cluster_objects r')"
    using registration_repeatable [OF first [unfolded sample_reconciler_def] again [unfolded sample_reconciler_def]]
    by (auto simp: range_order_rev range_order_id)
  ultimately show ?thesis using first again by blast
qed

end
