(* ===== verification/GoFlag.thy ===== *)
theory GoFlag
  imports Prelude
begin

text \<open>
  What the operator's binary uses of Go's package \<open>flag\<close>: the parsing of the command line into
  variables, with the policy \<open>ExitOnError\<close> of the default flag set. A flag is described by how
  its value changes the variables, a record of type \<open>'s\<close>; a flag of another package only accepts
  a value or refuses it.
\<close>

datatype 's flag =
    StringVar "string \<Rightarrow> 's \<Rightarrow> 's"
  | BoolVar "bool \<Rightarrow> 's \<Rightarrow> 's"
  | OtherVar bool "string \<Rightarrow> bool"

fun IsBoolFlag :: "'s flag \<Rightarrow> bool" where
  "IsBoolFlag (StringVar upd) = False"
| "IsBoolFlag (BoolVar upd) = True"
| "IsBoolFlag (OtherVar bool accepts) = bool"

definition ParseBool :: "string \<Rightarrow> bool option" where
  "ParseBool s =
     (if s \<in> {''1'', ''t'', ''T'', ''true'', ''TRUE'', ''True''} then Some True
      else if s \<in> {''0'', ''f'', ''F'', ''false'', ''FALSE'', ''False''} then Some False
      else None)"

fun set_flag :: "'s flag \<Rightarrow> string \<Rightarrow> 's \<Rightarrow> 's option" where
  "set_flag (StringVar upd) v s = Some (upd v s)"
| "set_flag (BoolVar upd) v s = map_option (\<lambda>b. upd b s) (ParseBool v)"
| "set_flag (OtherVar bool accepts) v s = (if accepts v then Some s else None)"

text \<open>A name and, after the first equals sign that is not its first character, a value.\<close>

fun split_value :: "string \<Rightarrow> string \<times> string option" where
  "split_value [] = ([], None)"
| "split_value (c # cs) =
     (let rest = takeWhile (\<lambda>d. d \<noteq> CHR ''='') cs
      in (c # rest, if rest = cs then None else Some (drop (Suc (length rest)) cs)))"

text \<open>
  One step of \<open>parse\<close>: the flags end, an error, a request for help, or the flag is set and the rest
  of the arguments remains.
\<close>

datatype 's flag_step = FlagsEnd "string list" | FlagError | FlagHelp | FlagSet "string list" 's

fun flag_name :: "string \<Rightarrow> string option" where
  "flag_name (a # b # s) =
     (if a \<noteq> CHR ''-'' then None else if b = CHR ''-'' then Some s else Some (b # s))"
| "flag_name s = None"

definition apply_flag :: "'s flag \<Rightarrow> string \<Rightarrow> string list \<Rightarrow> 's \<Rightarrow> 's flag_step" where
  "apply_flag f v args s = (case set_flag f v s of None \<Rightarrow> FlagError | Some t \<Rightarrow> FlagSet args t)"

definition parse_one :: "(string \<Rightarrow> 's flag option) \<Rightarrow> string list \<Rightarrow> 's \<Rightarrow> 's flag_step" where
  "parse_one formal args s =
     (case args of
        [] \<Rightarrow> FlagsEnd []
      | arg # rest \<Rightarrow>
          (case flag_name arg of
             None \<Rightarrow> FlagsEnd args
           | Some name \<Rightarrow>
               if arg = ''--'' then FlagsEnd rest
               else if name = [] \<or> hd name = CHR ''-'' \<or> hd name = CHR ''='' then FlagError
               else
                 (let (name, value) = split_value name
                  in case formal name of
                       None \<Rightarrow> if name = ''help'' \<or> name = ''h'' then FlagHelp else FlagError
                     | Some f \<Rightarrow>
                         (case value of
                            Some v \<Rightarrow> apply_flag f v rest s
                          | None \<Rightarrow>
                              if IsBoolFlag f then apply_flag f ''true'' rest s
                              else (case rest of
                                      [] \<Rightarrow> FlagError
                                    | v # rest' \<Rightarrow> apply_flag f v rest' s)))))"

text \<open>The loop; a flag set takes at least one argument away.\<close>

datatype 's parsed = Parsed 's "string list" | ParseFailed | HelpShown

lemma apply_flag_args: "apply_flag f v args s = FlagSet rest t \<Longrightarrow> rest = args"
  by (auto simp: apply_flag_def split: option.splits)

lemma parse_one_shorter: "parse_one formal args s = FlagSet rest t \<Longrightarrow> length rest < length args"
  by (auto simp: parse_one_def Let_def split: list.splits option.splits if_splits prod.splits
      dest!: apply_flag_args)

function flag_Parse :: "(string \<Rightarrow> 's flag option) \<Rightarrow> string list \<Rightarrow> 's \<Rightarrow> 's parsed" where
  "flag_Parse formal args s =
     (case parse_one formal args s of
        FlagsEnd rest \<Rightarrow> Parsed s rest
      | FlagError \<Rightarrow> ParseFailed
      | FlagHelp \<Rightarrow> HelpShown
      | FlagSet rest t \<Rightarrow> flag_Parse formal rest t)"
  by pat_completeness auto
termination
  by (relation "measure (\<lambda>(formal, args, s). length args)") (auto dest: parse_one_shorter)

declare flag_Parse.simps [simp del]

section \<open>Arguments that set flags\<close>

text \<open>A name that can be written before an equals sign, and the argument that sets it.\<close>

definition flag_name_ok :: "string \<Rightarrow> bool" where
  "flag_name_ok name \<longleftrightarrow> name \<noteq> [] \<and> hd name \<noteq> CHR ''-'' \<and> CHR ''='' \<notin> set name"

definition assign :: "string \<Rightarrow> string \<Rightarrow> string" where
  "assign name v = ''--'' @ name @ ''='' @ v"

lemma takeWhile_until: "c \<notin> set xs \<Longrightarrow> takeWhile (\<lambda>d. d \<noteq> c) (xs @ c # ys) = xs"
  by (induction xs) auto

lemma split_value_assign: "flag_name_ok name \<Longrightarrow> split_value (name @ ''='' @ v) = (name, Some v)"
  by (cases name) (auto simp: flag_name_ok_def takeWhile_until Let_def)

lemma parse_one_assign:
  assumes "flag_name_ok name" and "formal name = Some f"
  shows "parse_one formal (assign name v # args) s = apply_flag f v args s"
  using assms split_value_assign [OF assms(1), of v]
  by (cases name) (auto simp: parse_one_def assign_def flag_name_ok_def)

lemma flag_Parse_assign:
  assumes "flag_name_ok name" and "formal name \<noteq> None"
  shows "flag_Parse formal (assign name v # args) s =
    (case set_flag (the (formal name)) v s of
       None \<Rightarrow> ParseFailed
     | Some t \<Rightarrow> flag_Parse formal args t)"
proof -
  obtain f where "formal name = Some f" using assms(2) by auto
  then show ?thesis
    by (subst flag_Parse.simps)
      (simp add: parse_one_assign [where formal = formal, OF assms(1)] apply_flag_def split: option.splits)
qed

text \<open>Assignments that are all accepted are passed over, whatever follows them.\<close>

lemma flag_Parse_assigns:
  assumes "\<forall>(name, v) \<in> set kvs. flag_name_ok name \<and>
    (\<exists>f. formal name = Some f \<and> (\<forall>s. set_flag f v s \<noteq> None))"
  shows "\<exists>t. flag_Parse formal (map (\<lambda>(name, v). assign name v) kvs @ args) s = flag_Parse formal args t"
  using assms
proof (induction kvs arbitrary: s)
  case Nil
  then show ?case by auto
next
  case (Cons kv kvs)
  obtain name v where kv: "kv = (name, v)" by (cases kv)
  then obtain f t where "formal name = Some f" "set_flag f v s = Some t" "flag_name_ok name"
    using Cons.prems by fastforce
  with Cons show ?case by (simp add: kv flag_Parse_assign)
qed

lemma flag_Parse_Nil [simp]: "flag_Parse formal [] s = Parsed s []"
  by (subst flag_Parse.simps) (simp add: parse_one_def)

lemma ParseBool_FormatBool [simp]: "ParseBool (FormatBool b) = Some b"
  by (simp add: ParseBool_def FormatBool_def)

end
