(* ===== verification/AppVersion.thy ===== *)
theory AppVersion
  imports Prelude
begin

text \<open>
  \<open>internal/util/version/version.go\<close>: the version information and its JSON form, with what the
  code uses of Go's \<open>encoding/json\<close> (the encoding of a string and of a struct of strings). Strings
  are Go's byte strings. A reader of JSON objects whose values are strings is the reference the
  encoding is compared with.
\<close>

section \<open>The version information\<close>

text \<open>The variables the linker sets, with the values they have otherwise.\<close>

record build_info =
  bi_BuildVersion :: string
  bi_BuildTime :: string
  bi_GitCommit :: string

definition default_build_info :: build_info where
  "default_build_info = \<lparr>bi_BuildVersion = ''N/A'', bi_BuildTime = ''N/A'', bi_GitCommit = ''N/A''\<rparr>"

text \<open>What the package reads of Go's package \<open>runtime\<close>.\<close>

record go_runtime =
  runtime_Version :: string
  runtime_Compiler :: string
  runtime_GOOS :: string
  runtime_GOARCH :: string

record AppInfo =
  ai_Name :: string
  ai_AppVersion :: string
  ai_BuildTime :: string
  ai_GitCommit :: string
  ai_GoVersion :: string
  ai_Compiler :: string
  ai_Platform :: string

definition NewAppInfo :: "build_info \<Rightarrow> go_runtime \<Rightarrow> string \<Rightarrow> AppInfo" where
  "NewAppInfo b r name = \<lparr>
     ai_Name = name,
     ai_AppVersion = bi_BuildVersion b,
     ai_BuildTime = bi_BuildTime b,
     ai_GitCommit = bi_GitCommit b,
     ai_GoVersion = runtime_Version r,
     ai_Compiler = runtime_Compiler r,
     ai_Platform = runtime_GOOS r @ ''/'' @ runtime_GOARCH r\<rparr>"

section \<open>JSON strings\<close>

text \<open>The bytes of a UTF-8 sequence at the start of a string; none where there is no valid one.\<close>

definition cont_byte :: "nat \<Rightarrow> bool" where
  "cont_byte b \<longleftrightarrow> 128 \<le> b \<and> b < 192"

fun rune_size :: "nat list \<Rightarrow> nat" where
  "rune_size (a # bs) =
     (if a < 128 then 1
      else if 194 \<le> a \<and> a < 224 then
        (case bs of b # _ \<Rightarrow> if cont_byte b then 2 else 0 | _ \<Rightarrow> 0)
      else if 224 \<le> a \<and> a < 240 then
        (case bs of
           b # c # _ \<Rightarrow>
             if cont_byte b \<and> cont_byte c \<and> (a = 224 \<longrightarrow> 160 \<le> b) \<and> (a = 237 \<longrightarrow> b < 160) then 3 else 0
         | _ \<Rightarrow> 0)
      else if 240 \<le> a \<and> a < 245 then
        (case bs of
           b # c # d # _ \<Rightarrow>
             if cont_byte b \<and> cont_byte c \<and> cont_byte d \<and> (a = 240 \<longrightarrow> 144 \<le> b) \<and> (a = 244 \<longrightarrow> b < 144)
             then 4 else 0
         | _ \<Rightarrow> 0)
      else 0)"
| "rune_size [] = 0"

definition byte :: "char \<Rightarrow> nat" where
  "byte c = of_char c"

definition hex_digit :: "nat \<Rightarrow> char" where
  "hex_digit d = (if d < 10 then char_of (48 + d) else char_of (87 + d))"

definition unicode_escape :: "nat \<Rightarrow> string" where
  "unicode_escape n = [CHR 0x5C, CHR ''u'', hex_digit (n div 4096), hex_digit (n div 256 mod 16),
     hex_digit (n div 16 mod 16), hex_digit (n mod 16)]"

text \<open>\<open>appendString\<close> with HTML escaping, as \<open>Marshal\<close> calls it.\<close>

definition escape_byte :: "char \<Rightarrow> string" where
  "escape_byte c =
     (if c = CHR 0x5C \<or> c = CHR 0x22 then [CHR 0x5C, c]
      else if byte c = 8 then [CHR 0x5C, CHR ''b'']
      else if byte c = 12 then [CHR 0x5C, CHR ''f'']
      else if byte c = 10 then [CHR 0x5C, CHR ''n'']
      else if byte c = 13 then [CHR 0x5C, CHR ''r'']
      else if byte c = 9 then [CHR 0x5C, CHR ''t'']
      else if byte c < 32 \<or> c \<in> {CHR ''<'', CHR ''>'', CHR ''&''} then unicode_escape (byte c)
      else [c])"

text \<open>The text of the first rune of a string, and how many bytes follow its first one.\<close>

definition escape_rune :: "char \<Rightarrow> string \<Rightarrow> string \<times> nat" where
  "escape_rune c cs =
     (let n = rune_size (map byte (c # cs)); rune = take n (c # cs)
      in if byte c < 128 then (escape_byte c, 0)
         else if n = 0 then (unicode_escape 65533, 0)
         else if map byte rune = [226, 128, 168] then (unicode_escape 8232, n - 1)
         else if map byte rune = [226, 128, 169] then (unicode_escape 8233, n - 1)
         else (rune, n - 1))"

fun json_escape :: "string \<Rightarrow> string" where
  "json_escape [] = []"
| "json_escape (c # cs) = fst (escape_rune c cs) @ json_escape (drop (snd (escape_rune c cs)) cs)"

definition json_string :: "string \<Rightarrow> string" where
  "json_string s = CHR 0x22 # json_escape s @ [CHR 0x22]"

text \<open>A struct of strings: its fields in order, with the names of their tags.\<close>

definition json_object :: "(string \<times> string) list \<Rightarrow> string" where
  "json_object kvs =
     ''{'' @ strings_Join (map (\<lambda>(k, v). json_string k @ '':'' @ json_string v) kvs) '','' @ ''}''"

definition AppInfo_fields :: "AppInfo \<Rightarrow> (string \<times> string) list" where
  "AppInfo_fields a = [
     (''AppName'', ai_Name a), (''AppVersion'', ai_AppVersion a), (''BuildTime'', ai_BuildTime a),
     (''GitCommit'', ai_GitCommit a), (''GoVersion'', ai_GoVersion a), (''Compiler'', ai_Compiler a),
     (''Platform'', ai_Platform a)]"

definition json_Marshal :: "AppInfo \<Rightarrow> go_error + string" where
  "json_Marshal a = Inr (json_object (AppInfo_fields a))"

definition AppInfo_String :: "AppInfo \<Rightarrow> string" where
  "AppInfo_String a =
     (case json_Marshal a of Inl err \<Rightarrow> ''Error marshaling AppInfo'' | Inr data \<Rightarrow> data)"

section \<open>A reader of JSON strings\<close>

definition hex_value :: "char \<Rightarrow> nat option" where
  "hex_value c =
     (if 48 \<le> byte c \<and> byte c < 58 then Some (byte c - 48)
      else if 97 \<le> byte c \<and> byte c < 103 then Some (byte c - 87)
      else if 65 \<le> byte c \<and> byte c < 71 then Some (byte c - 55)
      else None)"

definition hex_step :: "nat option \<Rightarrow> char \<Rightarrow> nat option" where
  "hex_step n c = Option.bind n (\<lambda>m. map_option (\<lambda>d. m * 16 + d) (hex_value c))"

definition read_hex4 :: "string \<Rightarrow> nat option" where
  "read_hex4 s = (if length s < 4 then None else foldl hex_step (Some 0) (take 4 s))"

text \<open>A code point of the basic plane as UTF-8.\<close>

definition utf8_encode :: "nat \<Rightarrow> string" where
  "utf8_encode n =
     (if n < 128 then [char_of n]
      else if n < 2048 then [char_of (192 + n div 64), char_of (128 + n mod 64)]
      else [char_of (224 + n div 4096), char_of (128 + n div 64 mod 64), char_of (128 + n mod 64)])"

definition simple_escape :: "char \<Rightarrow> char option" where
  "simple_escape c = map_of
     [(CHR 0x22, CHR 0x22), (CHR 0x5C, CHR 0x5C), (CHR ''/'', CHR ''/''), (CHR ''b'', CHR 0x08),
      (CHR ''f'', CHR 0x0C), (CHR ''n'', CHR 0x0A), (CHR ''r'', CHR 0x0D), (CHR ''t'', CHR 0x09)] c"

definition prepend :: "string \<Rightarrow> (string \<times> 'a) option \<Rightarrow> (string \<times> 'a) option" where
  "prepend s = map_option (\<lambda>(t, r). (s @ t, r))"

text \<open>Reads up to the closing quote; gives the string and what follows it.\<close>

fun read_chars :: "string \<Rightarrow> (string \<times> string) option" where
  "read_chars [] = None"
| "read_chars (c # cs) =
     (if c = CHR 0x22 then Some ([], cs)
      else if c = CHR 0x5C then
        (case cs of
           e # cs' \<Rightarrow>
             (case simple_escape e of
                Some d \<Rightarrow> prepend [d] (read_chars cs')
              | None \<Rightarrow>
                  if e \<noteq> CHR ''u'' then None
                  else (case read_hex4 cs' of
                          Some n \<Rightarrow> prepend (utf8_encode n) (read_chars (drop 4 cs'))
                        | None \<Rightarrow> None))
         | [] \<Rightarrow> None)
      else prepend [c] (read_chars cs))"

definition read_string :: "string \<Rightarrow> (string \<times> string) option" where
  "read_string s = (case s of c # cs \<Rightarrow> if c = CHR 0x22 then read_chars cs else None | [] \<Rightarrow> None)"

fun read_pairs :: "nat \<Rightarrow> string \<Rightarrow> ((string \<times> string) list \<times> string) option" where
  "read_pairs 0 s = None"
| "read_pairs (Suc n) s =
     Option.bind (read_string s) (\<lambda>(k, s).
     case s of
       [] \<Rightarrow> None
     | c # s \<Rightarrow>
         if c \<noteq> CHR '':'' then None
         else Option.bind (read_string s) (\<lambda>(v, s).
           case s of
             [] \<Rightarrow> None
           | d # s \<Rightarrow>
               if d = CHR ''}'' then Some ([(k, v)], s)
               else if d = CHR '','' then map_option (\<lambda>(kvs, s). ((k, v) # kvs, s)) (read_pairs n s)
               else None))"

text \<open>A JSON object whose values are strings, with nothing after it; a pair takes a character.\<close>

definition read_object :: "string \<Rightarrow> (string \<times> string) list option" where
  "read_object s =
     (case s of
        [] \<Rightarrow> None
      | c # s' \<Rightarrow>
          if c \<noteq> CHR ''{'' then None
          else (case read_pairs (length s) s' of Some (kvs, []) \<Rightarrow> Some kvs | _ \<Rightarrow> None))"

section \<open>Reading what was written\<close>

fun valid_utf8 :: "string \<Rightarrow> bool" where
  "valid_utf8 [] = True"
| "valid_utf8 (c # cs) =
     (rune_size (map byte (c # cs)) \<noteq> 0 \<and> valid_utf8 (drop (snd (escape_rune c cs)) cs))"

lemma prepend_simps [simp]:
  "prepend s None = None"
  "prepend s (Some (t, r)) = Some (s @ t, r)"
  by (simp_all add: prepend_def)

lemma byte_inject [simp]: "byte c = byte d \<longleftrightarrow> c = d"
  by (simp add: byte_def)

lemma hex_value_hex_digit: "d < 16 \<Longrightarrow> hex_value (hex_digit d) = Some d"
  by (auto simp: hex_value_def hex_digit_def byte_def of_char_of)

lemma read_hex4_unicode_escape:
  assumes "n < 65536"
  shows "read_hex4 (drop 2 (unicode_escape n) @ s) = Some n"
proof -
  have "n div 4096 = n div 256 div 16" and "n div 256 = n div 16 div 16"
    by (simp_all add: div_mult2_eq [symmetric])
  then have "((n div 4096 * 16 + n div 256 mod 16) * 16 + n div 16 mod 16) * 16 + n mod 16 = n"
    by (metis div_mult_mod_eq)
  moreover have "n div 4096 < 16" using assms by simp
  ultimately show ?thesis
    by (simp add: read_hex4_def unicode_escape_def hex_step_def hex_value_hex_digit)
qed

lemma read_chars_unicode_escape:
  assumes "n < 65536"
  shows "read_chars (unicode_escape n @ s) = prepend (utf8_encode n) (read_chars s)"
  using read_hex4_unicode_escape [OF assms, of s]
  by (simp add: unicode_escape_def simple_escape_def)

lemma read_chars_plain:
  "c \<noteq> CHR 0x22 \<Longrightarrow> c \<noteq> CHR 0x5C \<Longrightarrow> read_chars (c # s) = prepend [c] (read_chars s)"
  by simp

lemma map_byte_inject: "map byte xs = map byte ys \<Longrightarrow> xs = ys"
  by (simp add: inj_map_eq_map inj_def)

lemma prepend_prepend [simp]: "prepend s (prepend t r) = prepend (s @ t) r"
  by (cases r) auto

lemma utf8_encode_byte: "byte c < 128 \<Longrightarrow> utf8_encode (byte c) = [c]"
  by (simp add: utf8_encode_def byte_def)

lemma read_chars_escape_byte:
  assumes "byte c < 128"
  shows "read_chars (escape_byte c @ s) = prepend [c] (read_chars s)"
proof -
  have special: "byte c = 8 \<longleftrightarrow> c = CHR 0x08" "byte c = 12 \<longleftrightarrow> c = CHR 0x0C"
    "byte c = 10 \<longleftrightarrow> c = CHR 0x0A" "byte c = 13 \<longleftrightarrow> c = CHR 0x0D" "byte c = 9 \<longleftrightarrow> c = CHR 0x09"
    by (subst byte_inject [symmetric], simp add: byte_def)+
  have "read_chars (unicode_escape (byte c) @ s) = prepend [c] (read_chars s)"
    using assms by (simp add: read_chars_unicode_escape utf8_encode_byte)
  then show ?thesis
    by (auto simp: escape_byte_def simple_escape_def special)
qed

lemma read_chars_high:
  "\<forall>d \<in> set xs. 128 \<le> byte d \<Longrightarrow> read_chars (xs @ s) = prepend xs (read_chars s)"
proof (induction xs)
  case Nil
  then show ?case by (cases "read_chars s") auto
next
  case (Cons d xs)
  then have "byte d \<noteq> 34" and "byte d \<noteq> 92" by auto
  then have "d \<noteq> CHR 0x22" and "d \<noteq> CHR 0x5C" by (auto simp: byte_def)
  with Cons show ?case by (cases "read_chars s") (simp_all add: read_chars_plain)
qed

lemma rune_high:
  assumes "rune_size (map byte (c # cs)) = n" and "n \<noteq> 0" and "128 \<le> byte c"
  shows "(\<forall>d \<in> set (take n (c # cs)). 128 \<le> byte d) \<and> 2 \<le> n \<and> n - 1 \<le> length cs"
  using assms
  by (cases cs; cases "tl cs"; cases "tl (tl cs)")
    (auto simp: cont_byte_def split: if_splits)

lemma read_chars_rune:
  assumes "rune_size (map byte (c # cs)) \<noteq> 0"
  shows "read_chars (fst (escape_rune c cs) @ s) = prepend (c # take (snd (escape_rune c cs)) cs) (read_chars s)"
proof (cases "byte c < 128")
  case True
  then show ?thesis by (simp add: escape_rune_def Let_def read_chars_escape_byte)
next
  case False
  let ?n = "rune_size (map byte (c # cs))"
  have n: "\<forall>d \<in> set (take ?n (c # cs)). 128 \<le> byte d" "2 \<le> ?n"
    using rune_high [OF refl assms] False by auto
  have rune: "take ?n (c # cs) = c # take (?n - 1) cs"
    using n(2) by (cases ?n) (simp_all del: rune_size.simps)
  have separator: "c # take (?n - 1) cs = utf8_encode u"
    if "map byte (take ?n (c # cs)) = map byte (utf8_encode u)" for u
    using that unfolding rune by (rule map_byte_inject)
  have line: "map byte (utf8_encode 8232) = [226, 128, 168]"
    and para: "map byte (utf8_encode 8233) = [226, 128, 169]"
    by (simp_all add: utf8_encode_def byte_def)
  consider (line) "map byte (take ?n (c # cs)) = [226, 128, 168]"
    | (para) "map byte (take ?n (c # cs)) = [226, 128, 169]"
    | (copy) "map byte (take ?n (c # cs)) \<noteq> [226, 128, 168]" "map byte (take ?n (c # cs)) \<noteq> [226, 128, 169]"
    by blast
  then show ?thesis
  proof cases
    case line
    then have "escape_rune c cs = (unicode_escape 8232, ?n - 1)"
      using False assms by (simp add: escape_rune_def Let_def del: rune_size.simps list.map)
    then show ?thesis using separator [of 8232] line \<open>map byte (utf8_encode 8232) = _\<close>
      by (simp add: read_chars_unicode_escape del: rune_size.simps)
  next
    case para
    then have "escape_rune c cs = (unicode_escape 8233, ?n - 1)"
      using False assms by (simp add: escape_rune_def Let_def del: rune_size.simps list.map)
    then show ?thesis using separator [of 8233] para \<open>map byte (utf8_encode 8233) = _\<close>
      by (simp add: read_chars_unicode_escape del: rune_size.simps)
  next
    case copy
    then have "escape_rune c cs = (take ?n (c # cs), ?n - 1)"
      using False assms by (simp only: escape_rune_def Let_def if_False)
    then show ?thesis using read_chars_high [OF n(1), of s] rune by simp
  qed
qed

lemma read_chars_json_escape:
  "valid_utf8 s \<Longrightarrow> read_chars (json_escape s @ CHR 0x22 # rest) = Some (s, rest)"
proof (induction s rule: valid_utf8.induct)
  case 1
  then show ?case by simp
next
  case (2 c cs)
  then have "read_chars (json_escape (drop (snd (escape_rune c cs)) cs) @ CHR 0x22 # rest)
      = Some (drop (snd (escape_rune c cs)) cs, rest)" by simp
  then show ?case
    using read_chars_rune [of c cs "json_escape (drop (snd (escape_rune c cs)) cs) @ CHR 0x22 # rest"] 2(2)
    by (simp del: rune_size.simps)
qed

lemma read_string_json_string [simp]:
  "valid_utf8 s \<Longrightarrow> read_string (json_string s @ rest) = Some (s, rest)"
  by (simp add: read_string_def json_string_def read_chars_json_escape)

lemma read_pairs_write:
  assumes "kvs \<noteq> []" and "\<forall>(k, v) \<in> set kvs. valid_utf8 k \<and> valid_utf8 v" and "length kvs \<le> n"
  shows "read_pairs n (strings_Join (map (\<lambda>(k, v). json_string k @ '':'' @ json_string v) kvs) '',''
      @ ''}'' @ rest) = Some (kvs, rest)"
  using assms
proof (induction kvs arbitrary: n)
  case (Cons kv kvs)
  obtain k v where kv: "kv = (k, v)" by (cases kv)
  obtain m where n: "n = Suc m" "length kvs \<le> m" using Cons.prems(3) by (cases n) auto
  show ?case
    using Cons n by (cases "kvs = []") (simp_all add: kv strings_Join_Cons)
qed simp

lemma length_strings_Join: "\<forall>x \<in> set xs. 1 \<le> length x \<Longrightarrow> length xs \<le> length (strings_Join xs sep)"
  by (induction xs) (auto simp: strings_Join_Cons)

lemma read_object_json_object:
  assumes "kvs \<noteq> []" and "\<forall>(k, v) \<in> set kvs. valid_utf8 k \<and> valid_utf8 v"
  shows "read_object (json_object kvs) = Some kvs"
proof -
  let ?text = "strings_Join (map (\<lambda>(k, v). json_string k @ '':'' @ json_string v) kvs) '',''"
  have "\<forall>x \<in> set (map (\<lambda>(k, v). json_string k @ '':'' @ json_string v) kvs). 1 \<le> length x"
    by (auto simp: json_string_def)
  from length_strings_Join [OF this] have "length kvs \<le> length ?text" by simp
  then have "read_pairs (Suc (length (?text @ ''}''))) (?text @ ''}'') = Some (kvs, [])"
    using read_pairs_write [OF assms, of "Suc (length (?text @ ''}''))" "[]"] by simp
  then show ?thesis by (simp add: read_object_def json_object_def del: read_pairs.simps)
qed

text \<open>Plain ASCII is valid.\<close>

lemma valid_utf8_ascii: "\<forall>c \<in> set s. byte c < 128 \<Longrightarrow> valid_utf8 s"
  by (induction s) (auto simp: escape_rune_def)

definition info_valid :: "AppInfo \<Rightarrow> bool" where
  "info_valid a \<longleftrightarrow> (\<forall>(k, v) \<in> set (AppInfo_fields a). valid_utf8 v)"

text \<open>
  C22: The version text is the JSON object of the seven fields: for UTF-8 values a JSON reader gets
  every field back under its tag, whatever characters the values have, so that two builds with
  different information never print the same text.
\<close>

theorem version_text_roundtrip:
  assumes "info_valid a"
  shows "read_object (AppInfo_String a) = Some (AppInfo_fields a) \<and>
    (info_valid b \<and> AppInfo_String b = AppInfo_String a \<longrightarrow> b = a)"
proof -
  have read: "read_object (AppInfo_String x) = Some (AppInfo_fields x)" if "info_valid x" for x
  proof -
    have "\<forall>k \<in> fst ` set (AppInfo_fields x). valid_utf8 k"
      by (auto simp: AppInfo_fields_def byte_def intro!: valid_utf8_ascii simp del: valid_utf8.simps)
    then have "\<forall>(k, v) \<in> set (AppInfo_fields x). valid_utf8 k \<and> valid_utf8 v"
      using that by (force simp: info_valid_def)
    then show ?thesis
      by (simp add: AppInfo_String_def json_Marshal_def read_object_json_object AppInfo_fields_def [of x])
  qed
  moreover have "b = a" if "AppInfo_fields b = AppInfo_fields a"
    using that by (cases a; cases b) (simp add: AppInfo_fields_def)
  ultimately show ?thesis using assms by (metis option.inject)
qed

theorem version_text_roundtrip_witness:
  "read_object (AppInfo_String (NewAppInfo default_build_info
      \<lparr>runtime_Version = ''go1.25'', runtime_Compiler = ''g<c>'', runtime_GOOS = ''linux'',
       runtime_GOARCH = ''amd64''\<rparr> ''airflow-operator'')) \<noteq> None"
proof -
  have "info_valid (NewAppInfo default_build_info
      \<lparr>runtime_Version = ''go1.25'', runtime_Compiler = ''g<c>'', runtime_GOOS = ''linux'',
       runtime_GOARCH = ''amd64''\<rparr> ''airflow-operator'')"
    by (auto simp: info_valid_def AppInfo_fields_def NewAppInfo_def default_build_info_def byte_def
        intro!: valid_utf8_ascii simp del: valid_utf8.simps)
  from version_text_roundtrip [OF this] show ?thesis by simp
qed

end
