(* ===== verification/Entry.thy ===== *)
theory Entry
  imports GoFlag AppVersion Cluster
begin

text \<open>
  \<open>cmd/main.go\<close>, and \<open>SetupWithManager\<close> of \<open>internal/controller/airflowclusters_controller.go\<close>: the
  command line of the operator, the options of its two servers and of the manager, and the
  start-up as a state machine whose steps are the calls of \<open>init\<close> and \<open>main\<close>, each with every
  result it can have. The function \<open>operator_main\<close> runs the same start-up against given results.
\<close>

section \<open>The command line\<close>

record settings =
  metricsAddr :: string
  metricsCertPath :: string
  metricsCertName :: string
  metricsCertKey :: string
  webhookCertPath :: string
  webhookCertName :: string
  webhookCertKey :: string
  enableLeaderElection :: bool
  probeAddr :: string
  secureMetrics :: bool
  enableHTTP2 :: bool
  showVersion :: bool

definition default_settings :: settings where
  "default_settings = \<lparr>
     metricsAddr = ''0'',
     metricsCertPath = '''', metricsCertName = ''tls.crt'', metricsCertKey = ''tls.key'',
     webhookCertPath = '''', webhookCertName = ''tls.crt'', webhookCertKey = ''tls.key'',
     enableLeaderElection = False,
     probeAddr = '':8081'',
     secureMetrics = True,
     enableHTTP2 = False,
     showVersion = False\<rparr>"

definition operator_flags :: "(string \<times> settings flag) list" where
  "operator_flags = [
     (''metrics-bind-address'', StringVar (\<lambda>v. metricsAddr_update (\<lambda>_. v))),
     (''health-probe-bind-address'', StringVar (\<lambda>v. probeAddr_update (\<lambda>_. v))),
     (''leader-elect'', BoolVar (\<lambda>b. enableLeaderElection_update (\<lambda>_. b))),
     (''metrics-secure'', BoolVar (\<lambda>b. secureMetrics_update (\<lambda>_. b))),
     (''webhook-cert-path'', StringVar (\<lambda>v. webhookCertPath_update (\<lambda>_. v))),
     (''webhook-cert-name'', StringVar (\<lambda>v. webhookCertName_update (\<lambda>_. v))),
     (''webhook-cert-key'', StringVar (\<lambda>v. webhookCertKey_update (\<lambda>_. v))),
     (''metrics-cert-path'', StringVar (\<lambda>v. metricsCertPath_update (\<lambda>_. v))),
     (''metrics-cert-name'', StringVar (\<lambda>v. metricsCertName_update (\<lambda>_. v))),
     (''metrics-cert-key'', StringVar (\<lambda>v. metricsCertKey_update (\<lambda>_. v))),
     (''enable-http2'', BoolVar (\<lambda>b. enableHTTP2_update (\<lambda>_. b))),
     (''version'', BoolVar (\<lambda>b. showVersion_update (\<lambda>_. b)))]"

text \<open>
  The flags of other packages (\<open>opts.BindFlags\<close> and those registered when packages are
  initialised) do not change the variables of \<open>main\<close>.
\<close>

definition all_flags :: "(string \<Rightarrow> (bool \<times> (string \<Rightarrow> bool)) option) \<Rightarrow> string \<Rightarrow> settings flag option" where
  "all_flags others name =
     (case map_of operator_flags name of
        Some f \<Rightarrow> Some f
      | None \<Rightarrow> map_option (\<lambda>(bool, accepts). OtherVar bool accepts) (others name))"

definition parse_command_line ::
  "(string \<Rightarrow> (bool \<times> (string \<Rightarrow> bool)) option) \<Rightarrow> string list \<Rightarrow> settings parsed" where
  "parse_command_line others args = flag_Parse (all_flags others) args default_settings"

section \<open>The options of the servers and of the manager\<close>

record tls_Config =
  NextProtos :: "string list"

definition disableHTTP2 :: "tls_Config \<Rightarrow> tls_Config" where
  "disableHTTP2 c = c\<lparr>NextProtos := [''http/1.1'']\<rparr>"

definition tls_options :: "settings \<Rightarrow> (tls_Config \<Rightarrow> tls_Config) list" where
  "tls_options s = (if \<not> enableHTTP2 s then [] @ [disableHTTP2] else [])"

record webhook_Options =
  wh_TLSOpts :: "(tls_Config \<Rightarrow> tls_Config) list"
  wh_CertDir :: string
  wh_CertName :: string
  wh_KeyName :: string

definition webhook_options :: "settings \<Rightarrow> webhook_Options" where
  "webhook_options s =
     (let opts = \<lparr>wh_TLSOpts = tls_options s, wh_CertDir = '''', wh_CertName = '''', wh_KeyName = ''''\<rparr>
      in if length (webhookCertPath s) > 0
         then opts\<lparr>wh_CertDir := webhookCertPath s, wh_CertName := webhookCertName s,
                   wh_KeyName := webhookCertKey s\<rparr>
         else opts)"

datatype filter_provider = WithAuthenticationAndAuthorization

record metrics_Options =
  ms_BindAddress :: string
  ms_SecureServing :: bool
  ms_TLSOpts :: "(tls_Config \<Rightarrow> tls_Config) list"
  ms_FilterProvider :: "filter_provider option"
  ms_CertDir :: string
  ms_CertName :: string
  ms_KeyName :: string

definition metrics_options :: "settings \<Rightarrow> metrics_Options" where
  "metrics_options s =
     (let opts = \<lparr>ms_BindAddress = metricsAddr s, ms_SecureServing = secureMetrics s,
                   ms_TLSOpts = tls_options s, ms_FilterProvider = None, ms_CertDir = '''',
                   ms_CertName = '''', ms_KeyName = ''''\<rparr>;
          opts = (if secureMetrics s
                  then opts\<lparr>ms_FilterProvider := Some WithAuthenticationAndAuthorization\<rparr> else opts)
      in if length (metricsCertPath s) > 0
         then opts\<lparr>ms_CertDir := metricsCertPath s, ms_CertName := metricsCertName s,
                   ms_KeyName := metricsCertKey s\<rparr>
         else opts)"

text \<open>
  The types the scheme knows: Kubernetes' own, and those the API group registers with its
  \<open>SchemeBuilder\<close>.
\<close>

datatype scheme_part = ClientGoTypes | GroupTypes GroupVersion "string list"

definition registered_types :: "string list" where
  "registered_types = [''AirflowCluster'', ''AirflowClusterList'']"

definition AirflowTypes :: scheme_part where
  "AirflowTypes = GroupTypes AirflowGroupVersion registered_types"

definition operator_scheme :: "scheme_part list" where
  "operator_scheme = [ClientGoTypes, AirflowTypes]"

lemma scheme_parts_distinct [simp]: "ClientGoTypes \<noteq> AirflowTypes" "AirflowTypes \<noteq> ClientGoTypes"
  by (simp_all add: AirflowTypes_def)

record manager_Options =
  mgr_Scheme :: "scheme_part list"
  mgr_Metrics :: metrics_Options
  mgr_HealthProbeBindAddress :: string
  mgr_LeaderElection :: bool
  mgr_WebhookServer :: webhook_Options
  mgr_LeaderElectionID :: string

definition manager_options :: "settings \<Rightarrow> manager_Options" where
  "manager_options s = \<lparr>
     mgr_Scheme = operator_scheme,
     mgr_Metrics = metrics_options s,
     mgr_HealthProbeBindAddress = probeAddr s,
     mgr_LeaderElection = enableLeaderElection s,
     mgr_WebhookServer = webhook_options s,
     mgr_LeaderElectionID = ''7816a0c4.kubedoop.dev''\<rparr>"

text \<open>The controller, built for the kind of the custom resource with the manager's scheme.\<close>

record controller_setup =
  ctl_For :: GVK
  ctl_Named :: string
  ctl_Scheme :: "scheme_part list"

definition SetupWithManager :: "manager_Options \<Rightarrow> controller_setup" where
  "SetupWithManager mgr = \<lparr>
     ctl_For = \<lparr>gvk_Group = gv_Group AirflowGroupVersion, gvk_Version = gv_Version AirflowGroupVersion,
                gvk_Kind = ''AirflowCluster''\<rparr>,
     ctl_Named = ''airflowcluster'',
     ctl_Scheme = mgr_Scheme mgr\<rparr>"

section \<open>The start-up\<close>

text \<open>
  What the process does that can be seen from outside, in order: the calls that succeeded, and the
  one event of an exit.
\<close>

datatype event =
    AddedToScheme scheme_part
  | LoggerSet
  | WebhookServerCreated webhook_Options
  | ManagerCreated manager_Options
  | ControllerCreated controller_setup
  | HealthzAdded string
  | ReadyzAdded string
  | ManagerStarted
  | Panicked
  | FlagErrorShown
  | UsageShown
  | VersionPrinted string
  | ErrorLogged string
  | ManagerStopped

text \<open>
  Where the process is: in \<open>init\<close> with types left to add, before a statement of \<open>main\<close>, inside
  \<open>mgr.Start\<close>, or gone with an exit code. The rest of its state are the variables and the log.
\<close>

datatype point =
    AtInit "scheme_part list" | AtFlags | AtVersion | AtServers | AtManager | AtController
  | AtHealthz | AtReadyz | AtStart | Serving | Exited nat

type_synonym process = "point \<times> settings \<times> event list"

record invocation =
  inv_args :: "string list"
  inv_others :: "string \<Rightarrow> (bool \<times> (string \<Rightarrow> bool)) option"
  inv_build :: build_info
  inv_go :: go_runtime

definition command_line :: "invocation \<Rightarrow> settings parsed" where
  "command_line cmd = parse_command_line (inv_others cmd) (inv_args cmd)"

definition version_text :: "invocation \<Rightarrow> string" where
  "version_text cmd = AppInfo_String (NewAppInfo (inv_build cmd) (inv_go cmd) ''airflow-operator'')"

text \<open>A statement that succeeds: the events, the next point and the variables.\<close>

inductive calls :: "invocation \<Rightarrow> point \<Rightarrow> settings \<Rightarrow> event list \<Rightarrow> point \<Rightarrow> settings \<Rightarrow> bool" for cmd where
  scheme_part_added: "calls cmd (AtInit (t # ts)) s [AddedToScheme t] (AtInit ts) s"
| init_done: "calls cmd (AtInit []) s [] AtFlags s"
| flags_parsed: "command_line cmd = Parsed t rest \<Longrightarrow> calls cmd AtFlags s [] AtVersion t"
| no_version: "\<not> showVersion s \<Longrightarrow> calls cmd AtVersion s [LoggerSet] AtServers s"
| servers_configured: "calls cmd AtServers s [WebhookServerCreated (webhook_options s)] AtManager s"
| manager_created: "calls cmd AtManager s [ManagerCreated (manager_options s)] AtController s"
| controller_created:
    "calls cmd AtController s [ControllerCreated (SetupWithManager (manager_options s))] AtHealthz s"
| healthz_added: "calls cmd AtHealthz s [HealthzAdded ''healthz''] AtReadyz s"
| readyz_added: "calls cmd AtReadyz s [ReadyzAdded ''readyz''] AtStart s"
| manager_started: "calls cmd AtStart s [ManagerStarted] Serving s"

text \<open>A statement that ends the process: its event and the exit code.\<close>

inductive exits :: "invocation \<Rightarrow> point \<Rightarrow> settings \<Rightarrow> event \<Rightarrow> nat \<Rightarrow> bool" for cmd where
  must_panics: "exits cmd (AtInit (t # ts)) s Panicked 2"
| flags_refused: "command_line cmd = ParseFailed \<Longrightarrow> exits cmd AtFlags s FlagErrorShown 2"
| help_shown: "command_line cmd = HelpShown \<Longrightarrow> exits cmd AtFlags s UsageShown 0"
| version_shown: "showVersion s \<Longrightarrow> exits cmd AtVersion s (VersionPrinted (version_text cmd)) 0"
| no_kubeconfig: "exits cmd AtManager s (ErrorLogged ''unable to get kubeconfig'') 1"
| manager_fails: "exits cmd AtManager s (ErrorLogged ''unable to start manager'') 1"
| controller_fails: "exits cmd AtController s (ErrorLogged ''unable to create controller'') 1"
| healthz_fails: "exits cmd AtHealthz s (ErrorLogged ''unable to set up health check'') 1"
| readyz_fails: "exits cmd AtReadyz s (ErrorLogged ''unable to set up ready check'') 1"
| manager_returns: "exits cmd Serving s ManagerStopped 0"
| serving_fails: "exits cmd Serving s (ErrorLogged ''problem running manager'') 1"

inductive start_step :: "invocation \<Rightarrow> process \<Rightarrow> process \<Rightarrow> bool" for cmd where
  goes_on: "calls cmd p s es z t \<Longrightarrow> start_step cmd (p, s, l) (z, t, l @ es)"
| ends: "exits cmd p s e n \<Longrightarrow> start_step cmd (p, s, l) (Exited n, s, l @ [e])"

inductive reachable :: "invocation \<Rightarrow> process \<Rightarrow> bool" for cmd where
  start: "reachable cmd (AtInit operator_scheme, default_settings, [])"
| step: "reachable cmd x \<Longrightarrow> start_step cmd x y \<Longrightarrow> reachable cmd y"

inductive_simps calls_exited [simp]: "calls cmd (Exited n) s es z t"
inductive_simps exits_exited [simp]: "exits cmd (Exited n) s e m"
inductive_simps exits_startable [simp]: "exits cmd AtStart s e m" "exits cmd AtServers s e m"

subsection \<open>The same start-up against given results\<close>

datatype run_end = Blocks | Returns "go_error option"

record runtime =
  rt_AddToScheme :: "scheme_part \<Rightarrow> bool"
  rt_GetConfig :: bool
  rt_NewManager :: "manager_Options \<Rightarrow> go_error option"
  rt_Complete :: "controller_setup \<Rightarrow> go_error option"
  rt_AddHealthz :: "go_error option"
  rt_AddReadyz :: "go_error option"
  rt_Start :: run_end

fun add_to_scheme :: "runtime \<Rightarrow> scheme_part list \<Rightarrow> event list \<Rightarrow> event list \<times> bool" where
  "add_to_scheme rt [] l = (l, True)"
| "add_to_scheme rt (t # ts) l =
     (if rt_AddToScheme rt t then add_to_scheme rt ts (l @ [AddedToScheme t]) else (l, False))"

definition run_manager :: "runtime \<Rightarrow> event list \<Rightarrow> event list \<times> nat option" where
  "run_manager rt l =
     (let l = l @ [ManagerStarted]
      in case rt_Start rt of
           Blocks \<Rightarrow> (l, None)
         | Returns None \<Rightarrow> (l @ [ManagerStopped], Some 0)
         | Returns (Some err) \<Rightarrow> (l @ [ErrorLogged ''problem running manager''], Some 1))"

definition start_manager :: "runtime \<Rightarrow> settings \<Rightarrow> event list \<Rightarrow> event list \<times> nat option" where
  "start_manager rt s l =
     (let l = l @ [WebhookServerCreated (webhook_options s)]; mgr = manager_options s
      in if \<not> rt_GetConfig rt then (l @ [ErrorLogged ''unable to get kubeconfig''], Some 1)
         else if rt_NewManager rt mgr \<noteq> None then (l @ [ErrorLogged ''unable to start manager''], Some 1)
         else
           (let l = l @ [ManagerCreated mgr]; ctl = SetupWithManager mgr
            in if rt_Complete rt ctl \<noteq> None
               then (l @ [ErrorLogged ''unable to create controller''], Some 1)
               else
                 (let l = l @ [ControllerCreated ctl]
                  in if rt_AddHealthz rt \<noteq> None
                     then (l @ [ErrorLogged ''unable to set up health check''], Some 1)
                     else if rt_AddReadyz rt \<noteq> None
                     then (l @ [HealthzAdded ''healthz'', ErrorLogged ''unable to set up ready check''], Some 1)
                     else run_manager rt (l @ [HealthzAdded ''healthz'', ReadyzAdded ''readyz'']))))"

definition operator_main :: "invocation \<Rightarrow> runtime \<Rightarrow> event list \<times> nat option" where
  "operator_main cmd rt =
     (case add_to_scheme rt operator_scheme [] of
        (l, False) \<Rightarrow> (l @ [Panicked], Some 2)
      | (l, True) \<Rightarrow>
          (case command_line cmd of
             ParseFailed \<Rightarrow> (l @ [FlagErrorShown], Some 2)
           | HelpShown \<Rightarrow> (l @ [UsageShown], Some 0)
           | Parsed s rest \<Rightarrow>
               if showVersion s then (l @ [VersionPrinted (version_text cmd)], Some 0)
               else start_manager rt s (l @ [LoggerSet])))"

section \<open>Every reachable state\<close>

text \<open>
  The log of a start-up that gets everywhere, and how much of it a process has written that has
  come to a point; what is known of the command line there.
\<close>

definition full_log :: "settings \<Rightarrow> event list" where
  "full_log s = [AddedToScheme ClientGoTypes,
     AddedToScheme AirflowTypes, LoggerSet,
     WebhookServerCreated (webhook_options s), ManagerCreated (manager_options s),
     ControllerCreated (SetupWithManager (manager_options s)), HealthzAdded ''healthz'',
     ReadyzAdded ''readyz'', ManagerStarted]"

fun written :: "point \<Rightarrow> nat" where
  "written (AtInit ts) = 2 - length ts"
| "written AtFlags = 2"
| "written AtVersion = 2"
| "written AtServers = 3"
| "written AtManager = 4"
| "written AtController = 5"
| "written AtHealthz = 6"
| "written AtReadyz = 7"
| "written AtStart = 8"
| "written Serving = 9"
| "written (Exited n) = 0"

fun known :: "invocation \<Rightarrow> point \<Rightarrow> settings \<Rightarrow> bool" where
  "known cmd (AtInit ts) s = (s = default_settings \<and> ts \<in> {operator_scheme, tl operator_scheme, []})"
| "known cmd AtFlags s = (s = default_settings)"
| "known cmd AtVersion s = (\<exists>rest. command_line cmd = Parsed s rest)"
| "known cmd (Exited n) s = False"
| "known cmd p s = (\<not> showVersion s \<and> (\<exists>rest. command_line cmd = Parsed s rest))"

definition log_at :: "point \<Rightarrow> settings \<Rightarrow> event list" where
  "log_at p s = take (written p) (full_log s)"

lemmas log_simps = log_at_def full_log_def operator_scheme_def

lemma calls_known:
  "calls cmd p s es z t \<Longrightarrow> known cmd p s \<Longrightarrow> known cmd z t \<and> log_at z t = log_at p s @ es"
  by (erule calls.cases)
    (auto simp: log_simps)

lemma reachable_cases:
  assumes "reachable cmd (p, s, l)"
  shows "known cmd p s \<and> l = log_at p s \<or>
    (\<exists>n z e. p = Exited n \<and> known cmd z s \<and> exits cmd z s e n \<and> l = log_at z s @ [e])"
  using assms
proof (induction "(p, s, l)" arbitrary: p s l rule: reachable.induct)
  case start
  then show ?case by (simp add: log_simps)
next
  case (step x)
  obtain p' s' l' where x: "x = (p', s', l')" by (metis prod.exhaust)
  from step(3) show ?case
    unfolding x
  proof cases
    case (goes_on es)
    then have "known cmd p' s' \<and> l' = log_at p' s'" using step(2) [OF x] by auto
    then show ?thesis using calls_known goes_on by metis
  next
    case (ends e n)
    then have "known cmd p' s' \<and> l' = log_at p' s'" using step(2) [OF x] by auto
    then show ?thesis using ends by blast
  qed
qed

text \<open>Every point about which the command line says the right thing can be reached.\<close>

lemma reachable_call:
  assumes "reachable cmd (p, s, log_at p s)" and "known cmd p s" and "calls cmd p s es z t"
  shows "reachable cmd (z, t, log_at z t)"
  using reachable.step [OF assms(1) start_step.goes_on [OF assms(3)]] calls_known [OF assms(3,2)] by simp

lemma reachable_known:
  assumes "known cmd p s"
  shows "reachable cmd (p, s, log_at p s)"
proof -
  let ?at = "\<lambda>p s. reachable cmd (p, s, log_at p s)"
  have 0: "?at (AtInit operator_scheme) default_settings"
    using reachable.start [of cmd] by (simp add: log_simps)
  have 1: "?at (AtInit (tl operator_scheme)) default_settings"
    using reachable_call [OF 0, of "[AddedToScheme ClientGoTypes]" "AtInit (tl operator_scheme)"]
    by (simp add: operator_scheme_def calls.scheme_part_added)
  have 2: "?at (AtInit []) default_settings"
    using reachable_call [OF 1, of "[AddedToScheme (hd (tl operator_scheme))]" "AtInit []"]
    by (simp add: operator_scheme_def calls.scheme_part_added)
  have 3: "?at AtFlags default_settings"
    by (rule reachable_call [OF 2 _ calls.init_done]) simp
  have 4: "?at AtVersion t" if "command_line cmd = Parsed t rest" for t rest
    by (rule reachable_call [OF 3 _ calls.flags_parsed [OF that]]) simp
  have rest: "?at AtServers s \<and> ?at AtManager s \<and> ?at AtController s \<and> ?at AtHealthz s \<and>
      ?at AtReadyz s \<and> ?at AtStart s \<and> ?at Serving s" if "known cmd AtServers s"
  proof -
    from that obtain rest where parsed: "command_line cmd = Parsed s rest" and s: "\<not> showVersion s" by auto
    have 5: "?at AtServers s"
      using reachable_call [OF 4 [OF parsed] _ calls.no_version [OF s]] parsed by simp
    have 6: "?at AtManager s" using reachable_call [OF 5 _ calls.servers_configured] that by simp
    have 7: "?at AtController s" using reachable_call [OF 6 _ calls.manager_created] that by simp
    have 8: "?at AtHealthz s" using reachable_call [OF 7 _ calls.controller_created] that by simp
    have 9: "?at AtReadyz s" using reachable_call [OF 8 _ calls.healthz_added] that by simp
    have 10: "?at AtStart s" using reachable_call [OF 9 _ calls.readyz_added] that by simp
    have "?at Serving s" using reachable_call [OF 10 _ calls.manager_started] that by simp
    with 5 6 7 8 9 10 show ?thesis by simp
  qed
  show ?thesis
    using assms 0 1 2 3 4 rest by (cases p) auto
qed

section \<open>What the runs against given results come to\<close>

inductive outcome :: "invocation \<Rightarrow> event list \<Rightarrow> nat option \<Rightarrow> bool" for cmd where
  exit: "known cmd z s \<Longrightarrow> exits cmd z s e n \<Longrightarrow> outcome cmd (log_at z s @ [e]) (Some n)"
| serve: "known cmd Serving s \<Longrightarrow> outcome cmd (log_at Serving s) None"

lemma run_manager_outcome:
  assumes "known cmd Serving s" and "run_manager rt (log_at AtStart s) = (l, res)"
  shows "outcome cmd l res"
proof -
  have log: "log_at AtStart s @ [ManagerStarted] = log_at Serving s" by (simp add: log_simps)
  show ?thesis
    using assms outcome.serve [OF assms(1)] outcome.exit [OF assms(1) exits.manager_returns]
      outcome.exit [OF assms(1) exits.serving_fails]
    unfolding run_manager_def Let_def log by (auto split: run_end.splits option.splits)
qed

lemma start_manager_outcome:
  assumes "known cmd AtServers s" and "start_manager rt s (log_at AtServers s) = (l, res)"
  shows "outcome cmd l res"
proof -
  have known: "known cmd AtManager s" "known cmd AtController s" "known cmd AtHealthz s"
    "known cmd AtReadyz s" "known cmd Serving s"
    using assms(1) by auto
  note ends = outcome.exit [OF known(1) exits.no_kubeconfig] outcome.exit [OF known(1) exits.manager_fails]
    outcome.exit [OF known(2) exits.controller_fails] outcome.exit [OF known(3) exits.healthz_fails]
    outcome.exit [OF known(4) exits.readyz_fails] run_manager_outcome [OF known(5), of rt l res]
  have logs: "log_at AtServers s @ [WebhookServerCreated (webhook_options s)] = log_at AtManager s"
    "log_at AtManager s @ [ManagerCreated (manager_options s)] = log_at AtController s"
    "log_at AtController s @ [ControllerCreated (SetupWithManager (manager_options s))] = log_at AtHealthz s"
    "log_at AtHealthz s @ [HealthzAdded ''healthz'', ErrorLogged x] = log_at AtReadyz s @ [ErrorLogged x]"
    "log_at AtHealthz s @ [HealthzAdded ''healthz'', ReadyzAdded ''readyz''] = log_at AtStart s" for x
    by (simp_all add: log_simps)
  show ?thesis
    using assms(2) ends unfolding start_manager_def Let_def logs by (simp split: if_splits)
qed

lemma operator_main_outcome:
  assumes "operator_main cmd rt = (l, res)"
  shows "outcome cmd l res"
proof -
  have init: "outcome cmd (log_at (AtInit (t # ts)) default_settings @ [Panicked]) (Some 2)"
    if "t # ts \<in> {operator_scheme, tl operator_scheme}" for t ts
    using that by (intro outcome.exit exits.must_panics) auto
  have logs: "log_at (AtInit operator_scheme) default_settings = []"
    "log_at (AtInit (tl operator_scheme)) default_settings = [AddedToScheme ClientGoTypes]"
    "log_at AtFlags x = [AddedToScheme ClientGoTypes,
       AddedToScheme AirflowTypes]"
    "log_at AtVersion x = log_at AtFlags y" "log_at AtServers x = log_at AtFlags y @ [LoggerSet]" for x y
    by (simp_all add: log_simps)
  consider (client) "\<not> rt_AddToScheme rt ClientGoTypes"
    | (group) "rt_AddToScheme rt ClientGoTypes"
        "\<not> rt_AddToScheme rt AirflowTypes"
    | (added) "add_to_scheme rt operator_scheme [] = (log_at AtFlags default_settings, True)"
    by (cases "rt_AddToScheme rt ClientGoTypes";
        cases "rt_AddToScheme rt AirflowTypes")
      (simp_all add: operator_scheme_def logs)
  then show ?thesis
  proof cases
    case client
    then show ?thesis
      using assms init [of ClientGoTypes "tl operator_scheme"] logs(1)
      by (auto simp: operator_main_def operator_scheme_def)
  next
    case group
    then show ?thesis
      using assms init [of _ "[]"] logs(2) by (auto simp: operator_main_def operator_scheme_def)
  next
    case added
    show ?thesis
    proof (cases "command_line cmd")
      case (Parsed s rest)
      then show ?thesis
        using assms added outcome.exit [OF _ exits.version_shown, of cmd s] logs(4) [of s default_settings]
          logs(5) [of s default_settings] start_manager_outcome [of cmd s rt l res]
        by (auto simp: operator_main_def split: if_splits)
    next
      case ParseFailed
      then show ?thesis
        using assms added outcome.exit [OF _ exits.flags_refused, of cmd default_settings]
        by (auto simp: operator_main_def)
    next
      case HelpShown
      then show ?thesis
        using assms added outcome.exit [OF _ exits.help_shown, of cmd default_settings]
        by (auto simp: operator_main_def)
    qed
  qed
qed

text \<open>And every exit is one of the results.\<close>

definition good_runtime :: runtime where
  "good_runtime = \<lparr>rt_AddToScheme = (\<lambda>_. True), rt_GetConfig = True, rt_NewManager = (\<lambda>_. None),
     rt_Complete = (\<lambda>_. None), rt_AddHealthz = None, rt_AddReadyz = None, rt_Start = Blocks\<rparr>"

lemmas main_defs =
  operator_main_def operator_scheme_def start_manager_def run_manager_def good_runtime_def log_simps
  Let_def

lemma serving_result: "known cmd Serving s \<Longrightarrow> operator_main cmd good_runtime = (log_at Serving s, None)"
  by (auto simp: main_defs)

lemma exit_result:
  assumes "exits cmd z s e n" and "known cmd z s"
  shows "\<exists>rt. operator_main cmd rt = (log_at z s @ [e], Some n)"
  using assms
proof cases
  case (must_panics t ts)
  then show ?thesis
    using assms(2) by (intro exI [of _ "good_runtime\<lparr>rt_AddToScheme := (\<lambda>x. x \<noteq> t)\<rparr>"]) (auto simp: main_defs)
next
  case no_kubeconfig
  then show ?thesis
    using assms(2) by (intro exI [of _ "good_runtime\<lparr>rt_GetConfig := False\<rparr>"]) (auto simp: main_defs)
next
  case manager_fails
  then show ?thesis
    using assms(2) by (intro exI [of _ "good_runtime\<lparr>rt_NewManager := (\<lambda>_. Some (LibraryError []))\<rparr>"])
      (auto simp: main_defs)
next
  case controller_fails
  then show ?thesis
    using assms(2) by (intro exI [of _ "good_runtime\<lparr>rt_Complete := (\<lambda>_. Some (LibraryError []))\<rparr>"])
      (auto simp: main_defs)
next
  case healthz_fails
  then show ?thesis
    using assms(2) by (intro exI [of _ "good_runtime\<lparr>rt_AddHealthz := Some (LibraryError [])\<rparr>"])
      (auto simp: main_defs)
next
  case readyz_fails
  then show ?thesis
    using assms(2) by (intro exI [of _ "good_runtime\<lparr>rt_AddReadyz := Some (LibraryError [])\<rparr>"])
      (auto simp: main_defs)
next
  case manager_returns
  then show ?thesis
    using assms(2) by (intro exI [of _ "good_runtime\<lparr>rt_Start := Returns None\<rparr>"]) (auto simp: main_defs)
next
  case serving_fails
  then show ?thesis
    using assms(2) by (intro exI [of _ "good_runtime\<lparr>rt_Start := Returns (Some (LibraryError []))\<rparr>"])
      (auto simp: main_defs)
qed (use assms(2) in \<open>auto simp: main_defs intro: exI [of _ good_runtime]\<close>)

text \<open>A start without arguments.\<close>

definition sample_invocation :: invocation where
  "sample_invocation = \<lparr>inv_args = [], inv_others = (\<lambda>_. None), inv_build = default_build_info,
     inv_go = \<lparr>runtime_Version = ''go1.25'', runtime_Compiler = ''gc'', runtime_GOOS = ''linux'',
       runtime_GOARCH = ''amd64''\<rparr>\<rparr>"

lemma sample_command_line [simp]: "command_line sample_invocation = Parsed default_settings []"
  by (simp add: command_line_def parse_command_line_def sample_invocation_def)

lemma sample_serves: "reachable sample_invocation (Serving, default_settings, full_log default_settings)"
  using reachable_known [of sample_invocation Serving default_settings]
  by (simp add: log_at_def full_log_def default_settings_def)

lemma sample_fails: "reachable sample_invocation
    (Exited 1, default_settings, full_log default_settings @ [ErrorLogged ''problem running manager''])"
  by (rule reachable.step [OF sample_serves start_step.ends [OF exits.serving_fails]])

section \<open>What the start-up guarantees\<close>

text \<open>
  The state machine of the start-up and the sequential reading of \<open>main\<close> agree: the logs and exit
  codes of the processes that have ended, and the logs of those that serve, are exactly the results
  of \<open>main\<close> over all results its calls can have.
\<close>

lemma start_up_is_main:
  "((\<exists>s. reachable cmd (Exited n, s, l)) \<longleftrightarrow> (\<exists>rt. operator_main cmd rt = (l, Some n))) \<and>
   ((\<exists>s. reachable cmd (Serving, s, l)) \<longleftrightarrow> (\<exists>rt. operator_main cmd rt = (l, None)))"
proof -
  have exited: "(\<exists>s. reachable cmd (Exited n, s, l)) \<longleftrightarrow> outcome cmd l (Some n)"
  proof
    assume "\<exists>s. reachable cmd (Exited n, s, l)"
    then show "outcome cmd l (Some n)"
      by (auto dest!: reachable_cases intro: outcome.exit)
  next
    assume "outcome cmd l (Some n)"
    then show "\<exists>s. reachable cmd (Exited n, s, l)"
      by cases (blast intro: reachable.step reachable_known start_step.ends)
  qed
  have serving: "(\<exists>s. reachable cmd (Serving, s, l)) \<longleftrightarrow> outcome cmd l None"
  proof
    assume "\<exists>s. reachable cmd (Serving, s, l)"
    then show "outcome cmd l None"
      by (auto dest!: reachable_cases intro: outcome.serve)
  next
    assume "outcome cmd l None"
    then show "\<exists>s. reachable cmd (Serving, s, l)"
      by cases (use reachable_known in blast)+
  qed
  have "outcome cmd l res \<longleftrightarrow> (\<exists>rt. operator_main cmd rt = (l, res))" for res
  proof
    assume "outcome cmd l res"
    then show "\<exists>rt. operator_main cmd rt = (l, res)"
      by cases (use exit_result serving_result in blast)+
  qed (use operator_main_outcome in blast)
  with exited serving show ?thesis by simp
qed

text \<open>The calls between the logger and the start of the manager, each of which can stop it.\<close>

definition calls_succeed :: "runtime \<Rightarrow> settings \<Rightarrow> bool" where
  "calls_succeed rt s \<longleftrightarrow> rt_GetConfig rt \<and> rt_NewManager rt (manager_options s) = None \<and>
     rt_Complete rt (SetupWithManager (manager_options s)) = None \<and>
     rt_AddHealthz rt = None \<and> rt_AddReadyz rt = None"

definition types_registered :: "runtime \<Rightarrow> bool" where
  "types_registered rt \<longleftrightarrow> rt_AddToScheme rt ClientGoTypes \<and> rt_AddToScheme rt AirflowTypes"

lemma add_to_scheme_result:
  "types_registered rt \<Longrightarrow> add_to_scheme rt operator_scheme [] =
     ([AddedToScheme ClientGoTypes, AddedToScheme AirflowTypes], True)"
  "\<not> types_registered rt \<Longrightarrow> \<exists>l. add_to_scheme rt operator_scheme [] = (l, False) \<and> ManagerStarted \<notin> set l"
  by (auto simp: types_registered_def operator_scheme_def)

lemma start_manager_result:
  assumes "start_manager rt s l = (l', res)" and "ManagerStarted \<notin> set l"
  shows "ManagerStarted \<in> set l' \<longleftrightarrow> calls_succeed rt s"
    and "\<not> calls_succeed rt s \<Longrightarrow> res = Some 1"
    and "calls_succeed rt s \<Longrightarrow> res =
      (case rt_Start rt of Blocks \<Rightarrow> None | Returns None \<Rightarrow> Some 0 | Returns (Some err) \<Rightarrow> Some 1)"
  using assms
  by (auto simp: start_manager_def run_manager_def calls_succeed_def Let_def
      split: if_splits run_end.splits option.splits)

text \<open>
  C9: What becomes of the operator, for every command line and every result its calls can have. The
  manager is started exactly when both groups of types are registered, the command line is
  understood and asks for no version, and the cluster configuration, the manager, the controller and
  both probes are all set up without an error. The process stays exactly when the started manager
  blocks; it exits with 2 for types that cannot be registered or a command line that is not
  understood, with 0 after the usage, the version or a manager that returns without an error, and
  with 1 when one of the calls or the manager fails.
\<close>

theorem main_outcome:
  assumes "operator_main cmd rt = (l, res)"
  shows "(ManagerStarted \<in> set l \<longleftrightarrow>
      types_registered rt \<and> (\<exists>s rest. command_line cmd = Parsed s rest \<and> \<not> showVersion s \<and> calls_succeed rt s)) \<and>
    (res = None \<longleftrightarrow> ManagerStarted \<in> set l \<and> rt_Start rt = Blocks) \<and>
    (res = Some 2 \<longleftrightarrow> \<not> types_registered rt \<or> command_line cmd = ParseFailed) \<and>
    (res = Some 0 \<longleftrightarrow> ManagerStarted \<in> set l \<and> rt_Start rt = Returns None \<or>
      types_registered rt \<and> (command_line cmd = HelpShown \<or>
        (\<exists>s rest. command_line cmd = Parsed s rest \<and> showVersion s))) \<and>
    (res = Some 1 \<longleftrightarrow> types_registered rt \<and> (\<exists>s rest. command_line cmd = Parsed s rest \<and> \<not> showVersion s \<and>
      (\<not> calls_succeed rt s \<or> (\<exists>err. rt_Start rt = Returns (Some err)))))"
proof (cases "types_registered rt")
  case False
  then obtain l0 where "add_to_scheme rt operator_scheme [] = (l0, False)" and "ManagerStarted \<notin> set l0"
    using add_to_scheme_result(2) by blast
  then show ?thesis using assms False by (auto simp: operator_main_def)
next
  case True
  note main = assms [unfolded operator_main_def add_to_scheme_result(1) [OF True]]
  show ?thesis
  proof (cases "command_line cmd")
    case (Parsed s rest)
    show ?thesis
    proof (cases "showVersion s")
      case False
      then have "start_manager rt s [AddedToScheme ClientGoTypes, AddedToScheme AirflowTypes, LoggerSet] = (l, res)"
        using main Parsed by simp
      from start_manager_result [OF this] show ?thesis
        using True Parsed False
        by (cases "calls_succeed rt s") (auto split: run_end.splits option.splits)
    qed (use main True Parsed in auto)
  qed (use main True in auto)
qed

theorem main_outcome_witness:
  "ManagerStarted \<in> set (fst (operator_main sample_invocation good_runtime)) \<and>
   snd (operator_main sample_invocation (good_runtime\<lparr>rt_AddReadyz := Some (LibraryError [])\<rparr>)) = Some 1"
proof -
  have flags: "\<not> showVersion default_settings" by (simp add: default_settings_def)
  have "types_registered good_runtime" "calls_succeed good_runtime default_settings"
    by (simp_all add: types_registered_def calls_succeed_def good_runtime_def)
  then have "ManagerStarted \<in> set (fst (operator_main sample_invocation good_runtime))"
    using main_outcome [of sample_invocation good_runtime, OF surjective_pairing] flags by simp
  moreover let ?rt = "good_runtime\<lparr>rt_AddReadyz := Some (LibraryError [])\<rparr>"
  have "types_registered ?rt" "\<not> calls_succeed ?rt default_settings"
    by (simp_all add: types_registered_def calls_succeed_def good_runtime_def)
  then have "snd (operator_main sample_invocation ?rt) = Some 1"
    using main_outcome [of sample_invocation ?rt, OF surjective_pairing] flags by simp
  ultimately show ?thesis ..
qed

lemma manager_started_log: "ManagerStarted \<in> set (log_at z s) \<Longrightarrow> z = Serving \<and> log_at z s = full_log s"
  by (cases z) (auto simp: log_simps take_Cons' split: if_splits)

text \<open>
  C14: The manager is the last thing to start: in every reachable state of the process that has
  started it, the command line was parsed, asked for no version, and the whole sequence of scheme,
  logger, webhook server, manager with the options of that command line, controller and both probes
  lies before the start in the log, and at most the event of the exit behind it.
\<close>

theorem manager_starts_last:
  assumes "reachable cmd (p, s, l)" and "ManagerStarted \<in> set l"
  shows "(\<exists>rest. command_line cmd = Parsed s rest) \<and> \<not> showVersion s \<and>
    (p = Serving \<and> l = full_log s \<or> (\<exists>e n. p = Exited n \<and> l = full_log s @ [e]))"
  using reachable_cases [OF assms(1)]
proof
  assume "known cmd p s \<and> l = log_at p s"
  with assms(2) manager_started_log [of p s] show ?thesis by auto
next
  assume "\<exists>n z e. p = Exited n \<and> known cmd z s \<and> exits cmd z s e n \<and> l = log_at z s @ [e]"
  then obtain n z e where p: "p = Exited n" "known cmd z s" "exits cmd z s e n" "l = log_at z s @ [e]"
    by blast
  moreover have "e \<noteq> ManagerStarted" using p(3) by cases auto
  ultimately show ?thesis using assms(2) manager_started_log [of z s] by auto
qed

theorem manager_starts_last_witness:
  "(\<exists>rest. command_line sample_invocation = Parsed default_settings rest) \<and>
   ManagerStarted \<in> set (full_log default_settings)"
  using manager_starts_last [OF sample_fails] by (simp add: full_log_def)

text \<open>
  C23: The exit code tells why the process ended: 0 after the usage, the version or a manager that was
  told to stop; 1 after a logged error, once the command line was understood; 2 for a command line it
  does not understand or types it cannot register. A version request creates no manager.
\<close>

theorem exit_code_cause:
  assumes "reachable cmd (Exited n, s, l)"
  shows "(n = 0 \<longleftrightarrow> last l \<in> {UsageShown, VersionPrinted (version_text cmd), ManagerStopped}) \<and>
    (n = 1 \<longleftrightarrow> (\<exists>msg. last l = ErrorLogged msg)) \<and>
    (n = 2 \<longleftrightarrow> last l \<in> {Panicked, FlagErrorShown}) \<and>
    (last l = FlagErrorShown \<longrightarrow> command_line cmd = ParseFailed) \<and>
    (n = 1 \<longrightarrow> (\<exists>rest. command_line cmd = Parsed s rest \<and> \<not> showVersion s)) \<and>
    (showVersion s \<longrightarrow> last l = VersionPrinted (version_text cmd) \<and> (\<forall>m. ManagerCreated m \<notin> set l))"
proof -
  obtain z e where z: "known cmd z s" "exits cmd z s e n" "l = log_at z s @ [e]"
    using reachable_cases [OF assms] by auto
  show ?thesis
    using z(2,1) by cases (auto simp: z(3) log_simps default_settings_def)
qed

theorem exit_code_cause_witness:
  "\<exists>l. reachable sample_invocation (Exited 1, default_settings, l) \<and>
    last l = ErrorLogged ''problem running manager'' \<and>
    (\<exists>rest. command_line sample_invocation = Parsed default_settings rest) \<and>
    last l \<notin> {UsageShown, VersionPrinted (version_text sample_invocation), ManagerStopped, Panicked, FlagErrorShown}"
proof -
  let ?l = "full_log default_settings @ [ErrorLogged ''problem running manager'']"
  note cause = exit_code_cause [OF sample_fails]
  have "\<exists>rest. command_line sample_invocation = Parsed default_settings rest"
    using cause by blast
  moreover have "last ?l \<notin> {UsageShown, VersionPrinted (version_text sample_invocation), ManagerStopped} \<and>
      last ?l \<notin> {Panicked, FlagErrorShown}"
    using cause by (metis numeral_eq_one_iff semiring_norm(85) zero_neq_one)
  ultimately show ?thesis using sample_fails by (intro exI [of _ ?l]) simp
qed

text \<open>What remains of a start-up when every call succeeds.\<close>

lemma reachable_steps: "(start_step cmd)\<^sup>*\<^sup>* x y \<Longrightarrow> reachable cmd x \<Longrightarrow> reachable cmd y"
  by (induction rule: rtranclp_induct) (auto intro: reachable.step)

lemma calls_towards:
  "calls cmd p s es z t \<Longrightarrow> \<exists>l'. (start_step cmd)\<^sup>*\<^sup>* (z, t, l @ es) (Serving, u, l') \<Longrightarrow>
    \<exists>l'. (start_step cmd)\<^sup>*\<^sup>* (p, s, l) (Serving, u, l')"
  by (blast intro: converse_rtranclp_into_rtranclp start_step.goes_on)

lemma serving_from_servers:
  assumes "p \<in> {AtServers, AtManager, AtController, AtHealthz, AtReadyz, AtStart, Serving}"
  shows "\<exists>l'. (start_step cmd)\<^sup>*\<^sup>* (p, s, l) (Serving, s, l')"
proof -
  let ?goes = "\<lambda>p. \<forall>l. \<exists>l'. (start_step cmd)\<^sup>*\<^sup>* (p, s, l) (Serving, s, l')"
  have "?goes Serving" by blast
  moreover from this have "?goes AtStart" by (blast intro: calls_towards calls.manager_started)
  moreover from this have "?goes AtReadyz" by (blast intro: calls_towards calls.readyz_added)
  moreover from this have "?goes AtHealthz" by (blast intro: calls_towards calls.healthz_added)
  moreover from this have "?goes AtController" by (blast intro: calls_towards calls.controller_created)
  moreover from this have "?goes AtManager" by (blast intro: calls_towards calls.manager_created)
  moreover from this have "?goes AtServers" by (blast intro: calls_towards calls.servers_configured)
  ultimately show ?thesis using assms by blast
qed

lemma serving_from_flags:
  assumes "command_line cmd = Parsed t rest" and "\<not> showVersion t"
  shows "\<exists>l'. (start_step cmd)\<^sup>*\<^sup>* (AtFlags, s, l) (Serving, t, l')"
  using assms by (blast intro: calls_towards calls.flags_parsed calls.no_version serving_from_servers)

lemma serving_from_init:
  assumes "command_line cmd = Parsed t rest" and "\<not> showVersion t"
  shows "\<exists>l'. (start_step cmd)\<^sup>*\<^sup>* (AtInit ts, s, l) (Serving, t, l')"
proof (induction ts arbitrary: l)
  case Nil
  show ?case by (rule calls_towards [OF calls.init_done serving_from_flags [OF assms]])
next
  case (Cons part ts)
  show ?case by (rule calls_towards [OF calls.scheme_part_added Cons])
qed

text \<open>
  C24: The operator never loses its way to a running manager before it ends: from every reachable
  state that has not ended, there are steps to a manager that serves with the settings of the command
  line exactly when the command line is understood and asks for no version; with any other command
  line no state ever serves.
\<close>

theorem serving_stays_possible:
  assumes "reachable cmd (p, s, l)" and "\<forall>n. p \<noteq> Exited n"
  shows "(\<exists>l'. (start_step cmd)\<^sup>*\<^sup>* (p, s, l) (Serving, t, l')) \<longleftrightarrow>
    (\<exists>rest. command_line cmd = Parsed t rest) \<and> \<not> showVersion t"
proof
  assume "\<exists>l'. (start_step cmd)\<^sup>*\<^sup>* (p, s, l) (Serving, t, l')"
  then obtain l' where "reachable cmd (Serving, t, l')" using assms(1) reachable_steps by blast
  from reachable_cases [OF this] show "(\<exists>rest. command_line cmd = Parsed t rest) \<and> \<not> showVersion t"
    by auto
next
  assume parsed: "(\<exists>rest. command_line cmd = Parsed t rest) \<and> \<not> showVersion t"
  have known: "known cmd p s" using reachable_cases [OF assms(1)] assms(2) by auto
  show "\<exists>l'. (start_step cmd)\<^sup>*\<^sup>* (p, s, l) (Serving, t, l')"
  proof (cases p)
    case (AtInit ts)
    then show ?thesis using parsed serving_from_init by blast
  next
    case AtFlags
    then show ?thesis using parsed serving_from_flags by blast
  next
    case AtVersion
    then have "s = t" using known parsed by auto
    then show ?thesis
      using AtVersion parsed by (blast intro: calls_towards calls.no_version serving_from_servers)
  next
    case (Exited n)
    then show ?thesis using assms(2) by blast
  qed (use known parsed serving_from_servers [of p cmd s l] in auto)
qed

theorem serving_stays_possible_witness:
  "\<exists>l'. (start_step sample_invocation)\<^sup>*\<^sup>* (AtFlags, default_settings, log_at AtFlags default_settings)
     (Serving, default_settings, l')"
proof -
  have "reachable sample_invocation (AtFlags, default_settings, log_at AtFlags default_settings)"
    by (rule reachable_known) simp
  from serving_stays_possible [OF this, of default_settings] show ?thesis
    by (simp add: default_settings_def)
qed

text \<open>
  What a server makes of a configuration: it applies the options in order.
\<close>

definition served_protocols :: "(tls_Config \<Rightarrow> tls_Config) list \<Rightarrow> tls_Config \<Rightarrow> string list" where
  "served_protocols opts config = NextProtos (fold (\<lambda>f c. f c) opts config)"

lemma reachable_manager:
  assumes "reachable cmd (p, s, l)" and "ManagerCreated m \<in> set l"
  shows "m = manager_options s"
proof -
  have at: "ManagerCreated m \<in> set (log_at z s) \<Longrightarrow> m = manager_options s" for z
    by (auto simp: log_simps dest: in_set_takeD)
  show ?thesis
    using reachable_cases [OF assms(1)]
  proof
    assume "\<exists>n z e. p = Exited n \<and> known cmd z s \<and> exits cmd z s e n \<and> l = log_at z s @ [e]"
    then show ?thesis using assms(2) at by (auto elim: exits.cases)
  qed (use assms(2) at in blast)
qed

text \<open>
  C25: Every manager the process creates serves as its command line says, whatever else the library
  puts into a TLS configuration: without \<open>--enable-http2\<close> both servers offer HTTP/1.1 only, with it
  they keep the protocols of the configuration; the metrics endpoint asks for authentication exactly
  when it is served over HTTPS; and a certificate is configured exactly when its directory is given.
\<close>

theorem servers_as_configured:
  assumes "reachable cmd (p, s, l)" and "ManagerCreated m \<in> set l"
  shows "let metrics = mgr_Metrics m; webhook = mgr_WebhookServer m in
    served_protocols (ms_TLSOpts metrics) config = (if enableHTTP2 s then NextProtos config else [''http/1.1'']) \<and>
    served_protocols (wh_TLSOpts webhook) config = served_protocols (ms_TLSOpts metrics) config \<and>
    (ms_FilterProvider metrics \<noteq> None \<longleftrightarrow> ms_SecureServing metrics) \<and>
    ms_SecureServing metrics = secureMetrics s \<and>
    (ms_CertDir metrics, ms_CertName metrics, ms_KeyName metrics) =
      (if metricsCertPath s = [] then ([], [], [])
       else (metricsCertPath s, metricsCertName s, metricsCertKey s)) \<and>
    (wh_CertDir webhook, wh_CertName webhook, wh_KeyName webhook) =
      (if webhookCertPath s = [] then ([], [], [])
       else (webhookCertPath s, webhookCertName s, webhookCertKey s))"
  using reachable_manager [OF assms]
  by (simp add: manager_options_def metrics_options_def webhook_options_def tls_options_def
      disableHTTP2_def served_protocols_def Let_def)

theorem servers_as_configured_witness:
  "served_protocols (ms_TLSOpts (mgr_Metrics (manager_options default_settings)))
     \<lparr>NextProtos = [''h2'', ''http/1.1'']\<rparr> = [''http/1.1'']"
proof -
  have "ManagerCreated (manager_options default_settings) \<in> set (full_log default_settings)"
    by (simp add: full_log_def)
  from servers_as_configured [OF sample_serves this, of "\<lparr>NextProtos = [''h2'', ''http/1.1'']\<rparr>"]
  show ?thesis by (simp add: Let_def default_settings_def)
qed

text \<open>The command line that gives every setting.\<close>

definition settings_args :: "settings \<Rightarrow> string list" where
  "settings_args s = [
     assign ''metrics-bind-address'' (metricsAddr s),
     assign ''health-probe-bind-address'' (probeAddr s),
     assign ''leader-elect'' (FormatBool (enableLeaderElection s)),
     assign ''metrics-secure'' (FormatBool (secureMetrics s)),
     assign ''webhook-cert-path'' (webhookCertPath s),
     assign ''webhook-cert-name'' (webhookCertName s),
     assign ''webhook-cert-key'' (webhookCertKey s),
     assign ''metrics-cert-path'' (metricsCertPath s),
     assign ''metrics-cert-name'' (metricsCertName s),
     assign ''metrics-cert-key'' (metricsCertKey s),
     assign ''enable-http2'' (FormatBool (enableHTTP2 s)),
     assign ''version'' (FormatBool (showVersion s))]"

text \<open>
  C21: Every setting of the operator can be given on the command line, with any values, also values
  that look like flags or contain equals signs, and what is given last counts: parsing the twelve
  assignments gives back exactly these settings, whatever valid assignments come before them.
\<close>

theorem settings_roundtrip:
  assumes "\<forall>(name, v) \<in> set earlier. \<exists>f. map_of operator_flags name = Some f \<and>
    (IsBoolFlag f \<longrightarrow> ParseBool v \<noteq> None)"
  shows "parse_command_line others (map (\<lambda>(name, v). assign name v) earlier @ settings_args s) = Parsed s []"
proof -
  have names: "flag_name_ok name \<and> (\<exists>g. all_flags others name = Some g \<and> (\<forall>s. set_flag g v s \<noteq> None))"
    if "map_of operator_flags name = Some f" "IsBoolFlag f \<longrightarrow> ParseBool v \<noteq> None" for name f v
  proof -
    have "name \<in> set (map fst operator_flags)" using that(1) by (force dest: map_of_SomeD)
    then have "flag_name_ok name" by (auto simp: operator_flags_def flag_name_ok_def)
    moreover have "set_flag f v s \<noteq> None" for s
      using that map_of_SomeD [OF that(1)] by (auto simp: operator_flags_def)
    ultimately show ?thesis using that(1) by (auto simp: all_flags_def)
  qed
  have "\<exists>t. parse_command_line others (map (\<lambda>(name, v). assign name v) earlier @ settings_args s) =
      flag_Parse (all_flags others) (settings_args s) t"
    unfolding parse_command_line_def using assms names by (intro flag_Parse_assigns) fastforce
  moreover have "flag_Parse (all_flags others) (settings_args s) t = Parsed s []" for t
    by (simp add: settings_args_def flag_Parse_assign flag_name_ok_def all_flags_def operator_flags_def)
  ultimately show ?thesis by metis
qed

theorem settings_roundtrip_witness:
  "parse_command_line (\<lambda>_. None) (assign ''version'' ''true'' #
     settings_args (default_settings\<lparr>probeAddr := ''--a=b''\<rparr>)) = Parsed (default_settings\<lparr>probeAddr := ''--a=b''\<rparr>) []"
  using settings_roundtrip [of "[(''version'', ''true'')]" "\<lambda>_. None" "default_settings\<lparr>probeAddr := ''--a=b''\<rparr>"]
  by (auto simp: operator_flags_def ParseBool_def)

end
