(* ===== verification/GoMemory.thy ===== *)
theory GoMemory
  imports Prelude
begin

text \<open>
  Go's memory as far as the generated deep copies need it: cells at addresses, \<open>new\<close>, reading
  and writing through a pointer, and the three shapes in which the copies follow a reference (a
  pointer, a slice, a map). A pointer, a slice and a map are \<open>None\<close> when nil and else the address
  of what they refer to. The locale \<open>deep_copy\<close> is what a \<open>DeepCopyInto\<close> method promises; the
  locales that extend it give the promise for the three shapes from the promise for what they
  refer to.
\<close>

section \<open>Memory\<close>

type_synonym addr = nat
type_synonym 'c cells = "addr \<Rightarrow> 'c option"

record 'c memory =
  mem_next :: addr
  mem_cells :: "'c cells"

definition memory_ok :: "'c memory \<Rightarrow> bool" where
  "memory_ok h \<longleftrightarrow> (\<forall>a c. mem_cells h a = Some c \<longrightarrow> a < mem_next h)"

text \<open>The cells allocated between two memories, and the growth of a memory by allocation.\<close>

definition fresh :: "'c memory \<Rightarrow> 'c memory \<Rightarrow> 'c cells" where
  "fresh h h' = mem_cells h' |` {mem_next h..<mem_next h'}"

definition extends :: "'c memory \<Rightarrow> 'c memory \<Rightarrow> bool" where
  "extends h h' \<longleftrightarrow> memory_ok h' \<and> mem_next h \<le> mem_next h' \<and>
     (\<forall>a < mem_next h. mem_cells h' a = mem_cells h a)"

text \<open>
  How a value of a type sits in a cell, and the value back. A read of another kind of cell cannot
  happen in Go; it is a fault here.
\<close>

record ('v, 'c) cell_type =
  ct_cell :: "'v \<Rightarrow> 'c"
  ct_value :: "'c \<Rightarrow> 'v option"

definition cell_type_ok :: "('v, 'c) cell_type \<Rightarrow> bool" where
  "cell_type_ok T \<longleftrightarrow> (\<forall>v. ct_value T (ct_cell T v) = Some v)"

definition new_cell :: "('v, 'c) cell_type \<Rightarrow> 'v \<Rightarrow> ('c memory, addr) stateful" where
  "new_cell T v h =
     (h\<lparr>mem_next := Suc (mem_next h), mem_cells := (mem_cells h)(mem_next h \<mapsto> ct_cell T v)\<rparr>,
      Inr (mem_next h))"

definition load :: "('v, 'c) cell_type \<Rightarrow> addr \<Rightarrow> ('c memory, 'v) stateful" where
  "load T a h = (h, deref (Option.bind (mem_cells h a) (ct_value T)))"

definition store :: "('v, 'c) cell_type \<Rightarrow> addr \<Rightarrow> 'v \<Rightarrow> ('c memory, unit) stateful" where
  "store T a v h = (h\<lparr>mem_cells := (mem_cells h)(a \<mapsto> ct_cell T v)\<rparr>, Inr ())"

lemma extends_refl [simp]: "extends h h \<longleftrightarrow> memory_ok h"
  by (simp add: extends_def)

lemma extends_trans [trans]: "extends h0 h1 \<Longrightarrow> extends h1 h2 \<Longrightarrow> extends h0 h2"
  by (simp add: extends_def)

lemma extends_memory_ok: "extends h h' \<Longrightarrow> memory_ok h'"
  by (simp add: extends_def)

lemma extends_next: "extends h h' \<Longrightarrow> mem_next h \<le> mem_next h'"
  by (simp add: extends_def)

lemma memory_ok_old: "memory_ok h \<Longrightarrow> mem_cells h a = Some c \<Longrightarrow> a < mem_next h"
  by (auto simp: memory_ok_def)

lemma extends_old: "extends h h' \<Longrightarrow> a < mem_next h \<Longrightarrow> mem_cells h' a = mem_cells h a"
  by (simp add: extends_def)

lemma extends_map_le: "extends h h' \<Longrightarrow> memory_ok h \<Longrightarrow> mem_cells h \<subseteq>\<^sub>m mem_cells h'"
  by (auto simp: extends_def memory_ok_def map_le_def)

lemma fresh_map_le: "fresh h h' \<subseteq>\<^sub>m mem_cells h'"
  by (auto simp: fresh_def map_le_def restrict_map_def)

lemma fresh_grows:
  assumes "extends h0 h1" and "extends h1 h2"
  shows "fresh h0 h1 \<subseteq>\<^sub>m fresh h0 h2" and "fresh h1 h2 \<subseteq>\<^sub>m fresh h0 h2"
  using assms by (auto simp: fresh_def map_le_def restrict_map_def extends_def split: if_splits)

lemma new_cell_extends:
  "memory_ok h \<Longrightarrow> new_cell T v h = (h', Inr a) \<Longrightarrow> extends h h' \<and> a = mem_next h \<and>
     mem_next h' = Suc a \<and> mem_cells h' a = Some (ct_cell T v)"
  by (auto simp: new_cell_def extends_def memory_ok_def less_Suc_eq)

lemma load_cell [simp]:
  "cell_type_ok T \<Longrightarrow> mem_cells h a = Some (ct_cell T v) \<Longrightarrow> load T a h = (h, Inr v)"
  by (simp add: load_def cell_type_ok_def)

text \<open>
  Writing to a cell that was allocated after \<open>h\<close> leaves \<open>h\<close> as it was.
\<close>

lemma store_new_extends:
  assumes "extends h h1" and "mem_next h \<le> a" and "a < mem_next h1"
    and "store T a v h1 = (h2, r)"
  shows "extends h h2" and "mem_next h2 = mem_next h1"
    and "mem_cells h2 = (mem_cells h1)(a \<mapsto> ct_cell T v)" and "r = Inr ()"
  using assms by (auto simp: store_def extends_def memory_ok_def split: if_splits)

section \<open>Copying behind a reference\<close>

text \<open>
  \<open>if in.F != nil { *out = new(T); (*in).DeepCopyInto(*out) }\<close>, which is also the body of
  the method \<open>DeepCopy\<close> of a pointer to \<open>T\<close>. The argument \<open>copy\<close> is \<open>DeepCopyInto\<close>: from the
  value of \<open>*in\<close> to the value it leaves in \<open>*out\<close>; \<open>zero\<close> is the zero value \<open>new\<close> puts in the cell.
\<close>

definition copy_pointer ::
  "('v, 'c) cell_type \<Rightarrow> 'v \<Rightarrow> ('v \<Rightarrow> ('c memory, 'v) stateful) \<Rightarrow>
   addr option \<Rightarrow> ('c memory, addr option) stateful" where
  "copy_pointer T zero copy p =
     (case p of
        None \<Rightarrow> method_return (Inr None)
      | Some inp \<Rightarrow>
          method_then (new_cell T zero) (\<lambda>out.
          method_then (load T inp) (\<lambda>v.
          method_then (copy v) (\<lambda>w.
          method_then (store T out w) (\<lambda>_.
          method_return (Inr (Some out)))))))"

text \<open>
  \<open>if in.F != nil { *out = make([]T, len(*in)); for i := range *in { (*in)[i].DeepCopyInto(&(*out)[i]) } }\<close>
\<close>

definition copy_element ::
  "('v list, 'c) cell_type \<Rightarrow> ('v \<Rightarrow> ('c memory, 'v) stateful) \<Rightarrow> addr \<Rightarrow> addr \<Rightarrow> nat \<Rightarrow>
   ('c memory, unit) stateful" where
  "copy_element T copy inp out i =
     method_then (load T inp) (\<lambda>xs.
     method_then (copy (xs ! i)) (\<lambda>w.
     method_then (load T out) (\<lambda>ys.
     store T out (ys[i := w]))))"

definition copy_slice ::
  "('v list, 'c) cell_type \<Rightarrow> 'v \<Rightarrow> ('v \<Rightarrow> ('c memory, 'v) stateful) \<Rightarrow>
   addr option \<Rightarrow> ('c memory, addr option) stateful" where
  "copy_slice T zero copy p =
     (case p of
        None \<Rightarrow> method_return (Inr None)
      | Some inp \<Rightarrow>
          method_then (load T inp) (\<lambda>xs.
          method_then (new_cell T (replicate (length xs) zero)) (\<lambda>out.
          method_then (method_for_each (copy_element T copy inp out) [0..<length xs]) (\<lambda>_.
          method_return (Inr (Some out))))))"

text \<open>
  \<open>if in.F != nil { *out = make(map[string]T, len(*in)); for key, val := range *in { (*out)[key] = ... } }\<close>
\<close>

definition copy_entry ::
  "(('k \<times> 'v) list, 'c) cell_type \<Rightarrow> ('v \<Rightarrow> ('c memory, 'v) stateful) \<Rightarrow> addr \<Rightarrow> 'k \<times> 'v \<Rightarrow>
   ('c memory, unit) stateful" where
  "copy_entry T copy out = (\<lambda>(key, val).
     method_then (copy val) (\<lambda>w.
     method_then (load T out) (\<lambda>m.
     store T out (AList.update key w m))))"

definition copy_map ::
  "(('k \<times> 'v) list, 'c) cell_type \<Rightarrow> (('k \<times> 'v) list \<Rightarrow> ('k \<times> 'v) list) \<Rightarrow>
   ('v \<Rightarrow> ('c memory, 'v) stateful) \<Rightarrow> addr option \<Rightarrow> ('c memory, addr option) stateful" where
  "copy_map T \<rho> copy p =
     (case p of
        None \<Rightarrow> method_return (Inr None)
      | Some inp \<Rightarrow>
          method_then (new_cell T []) (\<lambda>out.
          method_then (load T inp) (\<lambda>m.
          method_then (method_for_each (copy_entry T copy out) (\<rho> m)) (\<lambda>_.
          method_return (Inr (Some out))))))"

section \<open>What a deep copy promises\<close>

text \<open>
  A representation relation says which value of the data model a value in memory stands for;
  it looks at the cells the value refers to. A deep copy, made in a memory where its argument
  stands for a value, returns without a fault, writes to no cell there was, and gives a result
  that stands for the same value by the newly allocated cells alone.
\<close>

locale deep_copy =
  fixes copy :: "'v \<Rightarrow> ('c memory, 'v) stateful"
    and rep :: "'c cells \<Rightarrow> 'v \<Rightarrow> 'a \<Rightarrow> bool"
  assumes rep_mono: "rep c v a \<Longrightarrow> c \<subseteq>\<^sub>m d \<Longrightarrow> rep d v a"
    and copies: "memory_ok h \<Longrightarrow> rep (mem_cells h) v a \<Longrightarrow>
      \<exists>h' w. copy v h = (h', Inr w) \<and> extends h h' \<and> rep (fresh h h') w a"
begin

text \<open>The form in which a struct's method uses the copies of its fields, one after another.\<close>

lemma copies_later:
  assumes "memory_ok h0" and "extends h0 h" and "rep (mem_cells h0) v a"
  obtains h' w where "copy v h = (h', Inr w)" and "extends h h'" and "extends h0 h'"
    and "fresh h0 h \<subseteq>\<^sub>m fresh h0 h'" and "rep (fresh h0 h') w a"
proof -
  have "rep (mem_cells h) v a"
    using assms by (blast intro: rep_mono extends_map_le)
  then obtain h' w where run: "copy v h = (h', Inr w)" "extends h h'" "rep (fresh h h') w a"
    using copies assms(2) extends_memory_ok by blast
  have "fresh h h' \<subseteq>\<^sub>m fresh h0 h'"
    by (rule fresh_grows(2) [OF assms(2) run(2)])
  with run(3) have "rep (fresh h0 h') w a"
    by (rule rep_mono)
  with run(1,2) show thesis
    using that extends_trans [OF assms(2) run(2)] fresh_grows(1) [OF assms(2) run(2)] by blast
qed

text \<open>Neither side of a copy sees what happens to the cells of the other.\<close>

lemma copy_independent:
  assumes "rep (fresh h h') w a" and "\<And>x. mem_next h \<le> x \<Longrightarrow> x < mem_next h' \<Longrightarrow> d x = mem_cells h' x"
  shows "rep d w a"
proof (rule rep_mono [OF assms(1)])
  show "fresh h h' \<subseteq>\<^sub>m d"
    using assms(2) by (auto simp: fresh_def map_le_def restrict_map_def split: if_splits)
qed

lemma original_independent:
  assumes "memory_ok h" and "rep (mem_cells h) v a" and "\<And>x. x < mem_next h \<Longrightarrow> d x = mem_cells h x"
  shows "rep d v a"
proof (rule rep_mono [OF assms(2)])
  show "mem_cells h \<subseteq>\<^sub>m d"
    using assms(1,3) by (auto simp: memory_ok_def map_le_def)
qed

end

text \<open>A value without references: \<open>**out = **in\<close> and \<open>*out = *in\<close> copy it.\<close>

definition copy_plain :: "'v \<Rightarrow> ('c memory, 'v) stateful" where
  "copy_plain v = method_return (Inr v)"

definition rep_plain :: "'c cells \<Rightarrow> 'v \<Rightarrow> 'v \<Rightarrow> bool" where
  "rep_plain c v a \<longleftrightarrow> v = a"

interpretation plain: deep_copy copy_plain rep_plain
  by unfold_locales (simp_all add: copy_plain_def rep_plain_def)

section \<open>Pointers\<close>

definition rep_pointer ::
  "('v, 'c) cell_type \<Rightarrow> ('c cells \<Rightarrow> 'v \<Rightarrow> 'a \<Rightarrow> bool) \<Rightarrow>
   'c cells \<Rightarrow> addr option \<Rightarrow> 'a option \<Rightarrow> bool" where
  "rep_pointer T rep c p x \<longleftrightarrow>
     rel_option (\<lambda>p a. \<exists>v. c p = Some (ct_cell T v) \<and> rep c v a) p x"

definition copy_dereferenced ::
  "('v, 'c) cell_type \<Rightarrow> 'v \<Rightarrow> ('v \<Rightarrow> ('c memory, 'v) stateful) \<Rightarrow> 'v \<Rightarrow> ('c memory, 'v) stateful" where
  "copy_dereferenced T zero copy val =
     method_then (new_cell T val) (\<lambda>p.
     method_then (copy_pointer T zero copy (Some p)) (\<lambda>q.
     method_then (method_return (deref q)) (load T)))"

locale pointee = deep_copy copy rep
  for copy :: "'v \<Rightarrow> ('c memory, 'v) stateful" and rep :: "'c cells \<Rightarrow> 'v \<Rightarrow> 'a \<Rightarrow> bool" +
  fixes T :: "('v, 'c) cell_type" and zero :: 'v
  assumes cell_type_ok: "cell_type_ok T"
begin

lemma rep_pointer_mono:
  assumes "rep_pointer T rep c p x" and "c \<subseteq>\<^sub>m d"
  shows "rep_pointer T rep d p x"
  using assms(1) unfolding rep_pointer_def
proof (rule option.rel_mono_strong)
  fix p a
  assume "\<exists>v. c p = Some (ct_cell T v) \<and> rep c v a"
  then show "\<exists>v. d p = Some (ct_cell T v) \<and> rep d v a"
    using assms(2) rep_mono by (metis domI map_le_def)
qed

lemma pointer_copies:
  assumes "memory_ok h" and "rep_pointer T rep (mem_cells h) p x"
  shows "\<exists>h' q. copy_pointer T zero copy p h = (h', Inr q) \<and> extends h h' \<and>
    rep_pointer T rep (fresh h h') q x"
proof (cases p)
  case None
  with assms show ?thesis by (simp add: copy_pointer_def rep_pointer_def)
next
  case (Some inp)
  then obtain a v where x: "x = Some a" and v: "mem_cells h inp = Some (ct_cell T v)"
    and rep: "rep (mem_cells h) v a"
    using assms(2) by (auto simp: rep_pointer_def option_rel_Some1)
  obtain h1 out where new: "new_cell T zero h = (h1, Inr out)" by (simp add: new_cell_def)
  note h1 = new_cell_extends [OF assms(1) new]
  have load: "load T inp h1 = (h1, Inr v)"
    using load_cell [OF cell_type_ok] extends_old v memory_ok_old [OF assms(1) v] h1 by metis
  obtain h2 w where copy: "copy v h1 = (h2, Inr w)" "extends h1 h2" "rep (fresh h1 h2) w a"
    using copies [of h1 v a] rep rep_mono extends_map_le extends_memory_ok h1 assms(1) by blast
  obtain h3 r where store: "store T out w h2 = (h3, r)" by fastforce
  have "extends h h2" and "out < mem_next h2"
    using h1 copy(2) by (auto intro: extends_trans dest: extends_next)
  note h3 = store_new_extends [OF this(1) _ this(2) store]
  have "fresh h1 h2 \<subseteq>\<^sub>m fresh h h3"
    using h1 h3 by (auto simp: fresh_def map_le_def restrict_map_def split: if_splits)
  with copy(3) have "rep (fresh h h3) w a" by (rule rep_mono)
  moreover have "fresh h h3 out = Some (ct_cell T w)"
    using h1 h3 \<open>out < mem_next h2\<close> by (simp add: fresh_def)
  ultimately have "rep_pointer T rep (fresh h h3) (Some out) x"
    unfolding rep_pointer_def x by auto
  then show ?thesis
    using h1 h3 load copy(1) store new by (simp add: copy_pointer_def Some)
qed

text \<open>The copy of a pointer is nil or points to a new cell.\<close>

lemma pointer_new:
  assumes "memory_ok h" and "rep_pointer T rep (mem_cells h) (Some p) x"
  shows "\<exists>h' q. copy_pointer T zero copy (Some p) h = (h', Inr (Some q)) \<and> extends h h' \<and>
    rep_pointer T rep (fresh h h') (Some q) x \<and> mem_next h \<le> q \<and> p < mem_next h"
proof -
  obtain h' q where copy: "copy_pointer T zero copy (Some p) h = (h', Inr q)" "extends h h'"
    "rep_pointer T rep (fresh h h') q x"
    using pointer_copies [OF assms] by blast
  then obtain q' where "q = Some q'" and "fresh h h' q' \<noteq> None"
    using assms(2) by (auto simp: rep_pointer_def option_rel_Some1 option_rel_Some2)
  moreover have "p < mem_next h"
    using assms memory_ok_old by (fastforce simp: rep_pointer_def option_rel_Some1)
  ultimately show ?thesis
    using copy by (auto simp: fresh_def restrict_map_def split: if_splits)
qed

text \<open>A value copied through a pointer to it: \<open>*val.DeepCopy()\<close>.\<close>

lemma dereferenced_copies:
  assumes "memory_ok h" and "rep (mem_cells h) v a"
  shows "\<exists>h' w. copy_dereferenced T zero copy v h = (h', Inr w) \<and> extends h h' \<and> rep (fresh h h') w a"
proof -
  obtain h1 p where new: "new_cell T v h = (h1, Inr p)" by (simp add: new_cell_def)
  note h1 = new_cell_extends [OF assms(1) new]
  have "rep (mem_cells h1) v a"
    using rep_mono [OF assms(2)] extends_map_le h1 assms(1) by blast
  then have "rep_pointer T rep (mem_cells h1) (Some p) (Some a)"
    using h1 by (auto simp: rep_pointer_def)
  then obtain h2 q where copy: "copy_pointer T zero copy (Some p) h1 = (h2, Inr q)" "extends h1 h2"
    "rep_pointer T rep (fresh h1 h2) q (Some a)"
    using pointer_copies h1 extends_memory_ok by blast
  then obtain q' w where q: "q = Some q'" "fresh h1 h2 q' = Some (ct_cell T w)" "rep (fresh h1 h2) w a"
    by (auto simp: rep_pointer_def option_rel_Some2)
  have "extends h h2" using extends_trans h1 copy(2) by blast
  moreover have "rep (fresh h h2) w a"
    using q(3) fresh_grows(2) [OF _ copy(2)] h1 by (blast intro: rep_mono)
  moreover have "mem_cells h2 q' = Some (ct_cell T w)"
    using q(2) by (auto simp: fresh_def restrict_map_def split: if_splits)
  then have "load T q' h2 = (h2, Inr w)" by (rule load_cell [OF cell_type_ok])
  ultimately show ?thesis
    using new copy(1) q(1) by (simp add: copy_dereferenced_def)
qed

end

sublocale pointee \<subseteq> pointer: deep_copy "copy_pointer T zero copy" "rep_pointer T rep"
  by unfold_locales (rule rep_pointer_mono, assumption+, rule pointer_copies)

sublocale pointee \<subseteq> dereferenced: deep_copy "copy_dereferenced T zero copy" rep
  by unfold_locales (rule rep_mono, assumption+, rule dereferenced_copies)

context pointee begin

lemmas pointer_deep_copy = pointer.deep_copy_axioms

lemmas dereferenced_deep_copy = dereferenced.deep_copy_axioms

end

section \<open>Slices\<close>

definition rep_slice ::
  "('v list, 'c) cell_type \<Rightarrow> ('c cells \<Rightarrow> 'v \<Rightarrow> 'a \<Rightarrow> bool) \<Rightarrow>
   'c cells \<Rightarrow> addr option \<Rightarrow> 'a list \<Rightarrow> bool" where
  "rep_slice T rep c p as \<longleftrightarrow>
     (case p of
        None \<Rightarrow> as = []
      | Some a \<Rightarrow> \<exists>vs. c a = Some (ct_cell T vs) \<and> list_all2 (rep c) vs as)"

locale sliceable = deep_copy copy rep
  for copy :: "'v \<Rightarrow> ('c memory, 'v) stateful" and rep :: "'c cells \<Rightarrow> 'v \<Rightarrow> 'a \<Rightarrow> bool" +
  fixes T :: "('v list, 'c) cell_type" and zero :: 'v
  assumes cell_type_ok: "cell_type_ok T"
begin

lemma rep_slice_mono:
  assumes "rep_slice T rep c p as" and "c \<subseteq>\<^sub>m d"
  shows "rep_slice T rep d p as"
proof (cases p)
  case None
  with assms(1) show ?thesis by (simp add: rep_slice_def)
next
  case (Some a)
  then obtain vs where "c a = Some (ct_cell T vs)" and "list_all2 (rep c) vs as"
    using assms(1) by (auto simp: rep_slice_def)
  moreover from this have "list_all2 (rep d) vs as"
    using assms(2) by (auto elim: list_all2_mono rep_mono)
  ultimately show ?thesis
    using assms(2) Some by (auto simp: rep_slice_def map_le_def dom_def)
qed

text \<open>
  The state of the loop after \<open>i\<close> iterations: the new array holds the copies of the first \<open>i\<close>
  elements, made of cells allocated after it.
\<close>

definition copied_prefix :: "'c memory \<Rightarrow> 'c memory \<Rightarrow> 'a list \<Rightarrow> nat \<Rightarrow> bool" where
  "copied_prefix h g as i \<longleftrightarrow> extends h g \<and> mem_next h < mem_next g \<and>
     (\<exists>ys. mem_cells g (mem_next h) = Some (ct_cell T ys) \<and> length ys = length as \<and>
        (\<forall>j < i. rep (mem_cells g |` {mem_next h<..<mem_next g}) (ys ! j) (as ! j)))"

lemma copied_prefix_step:
  assumes "memory_ok h" and "mem_cells h inp = Some (ct_cell T xs)"
    and "list_all2 (rep (mem_cells h)) xs as" and "copied_prefix h g as i" and "i < length as"
  shows "\<exists>g'. copy_element T copy inp (mem_next h) i g = (g', Inr ()) \<and> copied_prefix h g' as (Suc i)"
proof -
  let ?out = "mem_next h"
  obtain ys where g: "extends h g" "?out < mem_next g" and ys: "mem_cells g ?out = Some (ct_cell T ys)"
    "length ys = length as" and reps: "\<And>j. j < i \<Longrightarrow> rep (mem_cells g |` {?out<..<mem_next g}) (ys ! j) (as ! j)"
    using assms(4) by (auto simp: copied_prefix_def)
  have inp: "load T inp g = (g, Inr xs)"
    using load_cell [OF cell_type_ok] extends_old [OF g(1)] assms(2) memory_ok_old [OF assms(1,2)] by metis
  have "rep (mem_cells h) (xs ! i) (as ! i)"
    using assms(3,5) by (simp add: list_all2_conv_all_nth)
  then have "rep (mem_cells g) (xs ! i) (as ! i)"
    using extends_map_le [OF g(1) assms(1)] by (rule rep_mono)
  then obtain g1 w where w: "copy (xs ! i) g = (g1, Inr w)" "extends g g1" "rep (fresh g g1) w (as ! i)"
    using copies extends_memory_ok [OF g(1)] by blast
  have out: "load T ?out g1 = (g1, Inr ys)"
    using load_cell [OF cell_type_ok] extends_old [OF w(2) g(2)] ys(1) by simp
  obtain g2 r where store: "store T ?out (ys[i := w]) g1 = (g2, r)" by fastforce
  have "?out < mem_next g1" using g(2) extends_next [OF w(2)] by simp
  note g2 = store_new_extends [OF extends_trans [OF g(1) w(2)] order_refl this store]
  have new: "mem_cells g |` {?out<..<mem_next g} \<subseteq>\<^sub>m mem_cells g2 |` {?out<..<mem_next g2}"
    "fresh g g1 \<subseteq>\<^sub>m mem_cells g2 |` {?out<..<mem_next g2}"
    using g(2) g2 w(2) by (auto simp: fresh_def map_le_def restrict_map_def extends_def split: if_splits)
  have "rep (mem_cells g2 |` {?out<..<mem_next g2}) (ys[i := w] ! j) (as ! j)" if "j < Suc i" for j
    using that reps [of j] w(3) new rep_mono ys(2) assms(5) by (cases "j = i") (auto simp: nth_list_update)
  moreover have "copy_element T copy inp ?out i g = (g2, Inr ())"
    using inp w(1) out store g2(4) by (simp add: copy_element_def)
  ultimately show ?thesis
    using g2 ys(2) \<open>?out < mem_next g1\<close> by (auto simp: copied_prefix_def)
qed

lemma copied_prefix_loop:
  assumes "memory_ok h" and "mem_cells h inp = Some (ct_cell T xs)"
    and "list_all2 (rep (mem_cells h)) xs as" and "copied_prefix h h1 as 0"
  shows "\<exists>t. method_for_each (copy_element T copy inp (mem_next h)) [0..<length xs] h1 = (t, Inr ()) \<and>
    copied_prefix h t as (length as)"
proof -
  have n: "length xs = length as" using assms(3) by (rule list_all2_lengthD)
  have "\<exists>t. method_for_each (copy_element T copy inp (mem_next h)) [0..<length xs] h1 = (t, Inr ()) \<and>
      copied_prefix h t as (length [0..<length xs])"
    using assms(4)
  proof (rule method_for_each_total [where I = "\<lambda>before t. copied_prefix h t as (length before)",
        simplified list.size(3)])
    fix before x after s
    assume split: "[0..<length xs] = before @ x # after" and inv: "copied_prefix h s as (length before)"
    have "x = length before" and "x < length as"
      using split n by (metis add_0 append_eq_conv_conj id_take_nth_drop length_append length_upt
          nth_append_length nth_upt less_add_Suc1 diff_zero list.size(4) add_Suc_right)+
    with copied_prefix_step [OF assms(1-3) inv]
    show "\<exists>t. copy_element T copy inp (mem_next h) x s = (t, Inr ()) \<and>
        copied_prefix h t as (length (before @ [x]))"
      by simp
  qed
  then show ?thesis by (simp add: n)
qed

lemma copied_prefix_rep:
  assumes "copied_prefix h g as (length as)"
  shows "rep_slice T rep (fresh h g) (Some (mem_next h)) as"
proof -
  obtain ys where "mem_next h < mem_next g" and cell: "mem_cells g (mem_next h) = Some (ct_cell T ys)"
    and "length ys = length as"
    and "\<And>j. j < length as \<Longrightarrow> rep (mem_cells g |` {mem_next h<..<mem_next g}) (ys ! j) (as ! j)"
    using assms by (auto simp: copied_prefix_def)
  moreover have "mem_cells g |` {mem_next h<..<mem_next g} \<subseteq>\<^sub>m fresh h g"
    by (auto simp: fresh_def map_le_def restrict_map_def)
  ultimately have "list_all2 (rep (fresh h g)) ys as"
    by (auto simp: list_all2_conv_all_nth intro: rep_mono)
  moreover have "fresh h g (mem_next h) = Some (ct_cell T ys)"
    using cell \<open>mem_next h < mem_next g\<close> by (simp add: fresh_def)
  ultimately show ?thesis by (auto simp: rep_slice_def)
qed

lemma slice_copies:
  assumes "memory_ok h" and "rep_slice T rep (mem_cells h) p as"
  shows "\<exists>h' q. copy_slice T zero copy p h = (h', Inr q) \<and> extends h h' \<and>
    rep_slice T rep (fresh h h') q as"
proof (cases p)
  case None
  with assms show ?thesis by (simp add: copy_slice_def rep_slice_def)
next
  case (Some inp)
  then obtain xs where xs: "mem_cells h inp = Some (ct_cell T xs)" "list_all2 (rep (mem_cells h)) xs as"
    using assms(2) by (auto simp: rep_slice_def)
  obtain h1 out where new: "new_cell T (replicate (length xs) zero) h = (h1, Inr out)"
    by (simp add: new_cell_def)
  note h1 = new_cell_extends [OF assms(1) new]
  have "copied_prefix h h1 as 0"
    using h1 list_all2_lengthD [OF xs(2)] by (auto simp: copied_prefix_def)
  then obtain h2 where loop: "method_for_each (copy_element T copy inp out) [0..<length xs] h1 = (h2, Inr ())"
    and h2: "copied_prefix h h2 as (length as)"
    using copied_prefix_loop [OF assms(1) xs] h1 by blast
  have "copy_slice T zero copy p h = (h2, Inr (Some out))"
    using load_cell [OF cell_type_ok xs(1)] new loop by (simp add: copy_slice_def Some)
  moreover have "extends h h2" using h2 by (simp add: copied_prefix_def)
  ultimately show ?thesis
    using copied_prefix_rep [OF h2] h1 by blast
qed

text \<open>An empty slice stays an empty slice and nil stays nil.\<close>

lemma slice_nil: "copy_slice T zero copy p h = (h', Inr q) \<Longrightarrow> q = None \<longleftrightarrow> p = None"
  by (auto simp: copy_slice_def method_then_eq_Inr split: option.splits)

end

sublocale sliceable \<subseteq> slice: deep_copy "copy_slice T zero copy" "rep_slice T rep"
  by unfold_locales (rule rep_slice_mono, assumption+, rule slice_copies)

context sliceable begin

lemmas slice_deep_copy = slice.deep_copy_axioms

end

section \<open>Maps\<close>

text \<open>A map in memory and one of the data model agree up to the order of their entries.\<close>

definition rep_entry :: "('c cells \<Rightarrow> 'v \<Rightarrow> 'a \<Rightarrow> bool) \<Rightarrow> 'c cells \<Rightarrow> 'k \<times> 'v \<Rightarrow> 'k \<times> 'a \<Rightarrow> bool" where
  "rep_entry rep c = (\<lambda>(k, v) (k', a). k = k' \<and> rep c v a)"

definition rep_map ::
  "(('k \<times> 'v) list, 'c) cell_type \<Rightarrow> ('c cells \<Rightarrow> 'v \<Rightarrow> 'a \<Rightarrow> bool) \<Rightarrow>
   'c cells \<Rightarrow> addr option \<Rightarrow> ('k \<times> 'a) list \<Rightarrow> bool" where
  "rep_map T rep c p am \<longleftrightarrow>
     (case p of
        None \<Rightarrow> am = []
      | Some a \<Rightarrow> \<exists>m bm. c a = Some (ct_cell T m) \<and> distinct (map fst m) \<and>
          list_all2 (rep_entry rep c) m bm \<and> mset bm = mset am)"

locale mappable = deep_copy copy rep
  for copy :: "'v \<Rightarrow> ('c memory, 'v) stateful" and rep :: "'c cells \<Rightarrow> 'v \<Rightarrow> 'a \<Rightarrow> bool" +
  fixes T :: "(('k \<times> 'v) list, 'c) cell_type" and \<rho> :: "('k \<times> 'v) list \<Rightarrow> ('k \<times> 'v) list"
  assumes cell_type_ok: "cell_type_ok T" and order: "range_order \<rho>"
begin

lemma rep_entries_mono:
  "list_all2 (rep_entry rep c) m bm \<Longrightarrow> c \<subseteq>\<^sub>m d \<Longrightarrow> list_all2 (rep_entry rep d) m bm"
  by (erule list_all2_mono) (auto simp: rep_entry_def intro: rep_mono)

lemma rep_map_mono:
  assumes "rep_map T rep c p am" and "c \<subseteq>\<^sub>m d"
  shows "rep_map T rep d p am"
proof (cases p)
  case None
  with assms(1) show ?thesis by (simp add: rep_map_def)
next
  case (Some a)
  then obtain m bm where "c a = Some (ct_cell T m)" "distinct (map fst m)" "mset bm = mset am"
    and "list_all2 (rep_entry rep c) m bm"
    using assms(1) by (auto simp: rep_map_def)
  moreover from this have "list_all2 (rep_entry rep d) m bm"
    using assms(2) by (blast intro: rep_entries_mono)
  moreover have "d a = c a" using assms(2) \<open>c a = _\<close> by (auto simp: map_le_def dom_def)
  ultimately show ?thesis unfolding rep_map_def Some by auto
qed

text \<open>
  The state of the loop after some entries: the new map holds their copies, in the order of the
  visit, made of cells allocated after it.
\<close>

definition copied_entries :: "'c memory \<Rightarrow> 'c memory \<Rightarrow> ('k \<times> 'v) list \<Rightarrow> ('k \<times> 'a) list \<Rightarrow> bool" where
  "copied_entries h g before bm \<longleftrightarrow> extends h g \<and> mem_next h < mem_next g \<and>
     (\<exists>n. mem_cells g (mem_next h) = Some (ct_cell T n) \<and> map fst n = map fst before \<and>
        list_all2 (rep_entry rep (mem_cells g |` {mem_next h<..<mem_next g})) n bm)"

lemma update_new_key: "k \<notin> set (map fst m) \<Longrightarrow> AList.update k v m = m @ [(k, v)]"
  by (induction m) auto

lemma copied_entries_step:
  assumes "memory_ok h" and "rep (mem_cells h) v a" and "k \<notin> set (map fst before)"
    and "copied_entries h g before bm"
  shows "\<exists>g'. copy_entry T copy (mem_next h) (k, v) g = (g', Inr ()) \<and>
    copied_entries h g' (before @ [(k, v)]) (bm @ [(k, a)])"
proof -
  let ?out = "mem_next h"
  obtain n where g: "extends h g" "?out < mem_next g" and n: "mem_cells g ?out = Some (ct_cell T n)"
    "map fst n = map fst before" and reps: "list_all2 (rep_entry rep (mem_cells g |` {?out<..<mem_next g})) n bm"
    using assms(4) by (auto simp: copied_entries_def)
  have "rep (mem_cells g) v a"
    using extends_map_le [OF g(1) assms(1)] assms(2) by (blast intro: rep_mono)
  then obtain g1 w where w: "copy v g = (g1, Inr w)" "extends g g1" "rep (fresh g g1) w a"
    using copies extends_memory_ok [OF g(1)] by blast
  have out: "load T ?out g1 = (g1, Inr n)"
    using load_cell [OF cell_type_ok] extends_old [OF w(2) g(2)] n(1) by simp
  have upd: "AList.update k w n = n @ [(k, w)]"
    using assms(3) n(2) by (intro update_new_key) simp
  obtain g2 r where store: "store T ?out (n @ [(k, w)]) g1 = (g2, r)" by fastforce
  have "?out < mem_next g1" using g(2) extends_next [OF w(2)] by simp
  note g2 = store_new_extends [OF extends_trans [OF g(1) w(2)] order_refl this store]
  have new: "mem_cells g |` {?out<..<mem_next g} \<subseteq>\<^sub>m mem_cells g2 |` {?out<..<mem_next g2}"
    "fresh g g1 \<subseteq>\<^sub>m mem_cells g2 |` {?out<..<mem_next g2}"
    using g(2) g2 w(2) by (auto simp: fresh_def map_le_def restrict_map_def extends_def split: if_splits)
  have "list_all2 (rep_entry rep (mem_cells g2 |` {?out<..<mem_next g2})) (n @ [(k, w)]) (bm @ [(k, a)])"
    using rep_entries_mono [OF reps new(1)] rep_mono [OF w(3) new(2)]
    by (auto simp: rep_entry_def intro: list_all2_appendI)
  moreover have "copy_entry T copy ?out (k, v) g = (g2, Inr ())"
    using w(1) out store upd g2(4) by (simp add: copy_entry_def)
  ultimately show ?thesis
    using g2 n(2) \<open>?out < mem_next g1\<close> by (auto simp: copied_entries_def)
qed

lemma copied_entries_loop:
  assumes "memory_ok h" and "distinct (map fst kvs)" and "copied_entries h h1 [] []"
    and cm: "list_all2 (rep_entry rep (mem_cells h)) kvs cm"
  shows "\<exists>t. method_for_each (copy_entry T copy (mem_next h)) kvs h1 = (t, Inr ()) \<and>
    copied_entries h t kvs cm"
proof -
  have n: "length kvs = length cm" using cm by (rule list_all2_lengthD)
  have "\<exists>t. method_for_each (copy_entry T copy (mem_next h)) kvs h1 = (t, Inr ()) \<and>
      copied_entries h t kvs (take (length kvs) cm)"
  proof (rule method_for_each_total [where I = "\<lambda>before t. copied_entries h t before (take (length before) cm)"])
    show "copied_entries h h1 [] (take (length []) cm)" using assms(3) by simp
  next
    fix before x after s
    assume split: "kvs = before @ x # after" and inv: "copied_entries h s before (take (length before) cm)"
    obtain k v where x: "x = (k, v)" by (cases x)
    have new: "k \<notin> set (map fst before)" using assms(2) by (auto simp: split x)
    have i: "length before < length cm" using n by (simp add: split)
    have "rep_entry rep (mem_cells h) (kvs ! length before) (cm ! length before)"
      using i n by (intro list_all2_nthD [OF cm]) simp
    then obtain a where "cm ! length before = (k, a)" and "rep (mem_cells h) v a"
      by (auto simp: split x nth_append rep_entry_def)
    then show "\<exists>t. copy_entry T copy (mem_next h) x s = (t, Inr ()) \<and>
        copied_entries h t (before @ [x]) (take (length (before @ [x])) cm)"
      using copied_entries_step [OF assms(1) _ new inv, of v a] i
      by (simp add: x take_Suc_conv_app_nth)
  qed
  then show ?thesis by (simp add: n)
qed

lemma copied_entries_rep:
  assumes "copied_entries h g kvs cm" and "distinct (map fst kvs)" and "mset cm = mset am"
  shows "rep_map T rep (fresh h g) (Some (mem_next h)) am"
proof -
  obtain n where "mem_next h < mem_next g" and cell: "mem_cells g (mem_next h) = Some (ct_cell T n)"
    and keys: "map fst n = map fst kvs"
    and reps: "list_all2 (rep_entry rep (mem_cells g |` {mem_next h<..<mem_next g})) n cm"
    using assms(1) by (auto simp: copied_entries_def)
  have "mem_cells g |` {mem_next h<..<mem_next g} \<subseteq>\<^sub>m fresh h g"
    by (auto simp: fresh_def map_le_def restrict_map_def)
  then have "list_all2 (rep_entry rep (fresh h g)) n cm" by (rule rep_entries_mono [OF reps])
  moreover have "fresh h g (mem_next h) = Some (ct_cell T n)"
    using cell \<open>mem_next h < mem_next g\<close> by (simp add: fresh_def)
  ultimately show ?thesis using keys assms(2,3) by (auto simp: rep_map_def)
qed

lemma map_copies:
  assumes "memory_ok h" and "rep_map T rep (mem_cells h) p am"
  shows "\<exists>h' q. copy_map T \<rho> copy p h = (h', Inr q) \<and> extends h h' \<and>
    rep_map T rep (fresh h h') q am"
proof (cases p)
  case None
  with assms show ?thesis by (simp add: copy_map_def rep_map_def)
next
  case (Some inp)
  then obtain m bm where m: "mem_cells h inp = Some (ct_cell T m)" "distinct (map fst m)"
    "list_all2 (rep_entry rep (mem_cells h)) m bm" "mset bm = mset am"
    using assms(2) by (auto simp: rep_map_def)
  obtain cm where cm: "list_all2 (rep_entry rep (mem_cells h)) (\<rho> m) cm" "mset cm = mset am"
    using list_all2_reorder_left_invariance [OF m(3) range_order_mset [OF order]] m(4) by auto
  have keys: "distinct (map fst (\<rho> m))" using m(2) order by (simp add: range_order_keys)
  obtain h1 out where new: "new_cell T [] h = (h1, Inr out)" by (simp add: new_cell_def)
  note h1 = new_cell_extends [OF assms(1) new]
  have load: "load T inp h1 = (h1, Inr m)"
    using load_cell [OF cell_type_ok] extends_old m(1) memory_ok_old [OF assms(1) m(1)] h1 by metis
  have "copied_entries h h1 [] []"
    using h1 by (auto simp: copied_entries_def)
  then obtain h2 where loop: "method_for_each (copy_entry T copy out) (\<rho> m) h1 = (h2, Inr ())"
    and h2: "copied_entries h h2 (\<rho> m) cm"
    using copied_entries_loop [OF assms(1) keys _ cm(1)] h1 by blast
  have "copy_map T \<rho> copy p h = (h2, Inr (Some out))"
    using load new loop by (simp add: copy_map_def Some)
  moreover have "extends h h2" using h2 by (simp add: copied_entries_def)
  ultimately show ?thesis
    using copied_entries_rep [OF h2 keys cm(2)] h1 by blast
qed

end

sublocale mappable \<subseteq> mapping: deep_copy "copy_map T \<rho> copy" "rep_map T rep"
  by unfold_locales (rule rep_map_mono, assumption+, rule map_copies)

context mappable begin

lemmas map_deep_copy = mapping.deep_copy_axioms

end

section \<open>Structs\<close>

text \<open>
  A struct's method is \<open>*out = *in\<close> followed by one block for each field that needs more; a
  struct in memory stands for a record when their fields stand for each other. Both are built
  field by field in the order of the code, so that one rule a field proves the promise.
\<close>

definition copy_field ::
  "('r \<Rightarrow> 'f) \<Rightarrow> (('f \<Rightarrow> 'f) \<Rightarrow> 'r \<Rightarrow> 'r) \<Rightarrow> ('f \<Rightarrow> ('c memory, 'f) stateful) \<Rightarrow>
   ('r \<Rightarrow> ('c memory, 'r) stateful) \<Rightarrow> 'r \<Rightarrow> ('c memory, 'r) stateful" where
  "copy_field get update copy before inp =
     method_then (before inp) (\<lambda>out.
     method_then (copy (get inp)) (\<lambda>w.
     method_return (Inr (update (\<lambda>_. w) out))))"

definition copy_struct ::
  "(('r \<Rightarrow> ('c memory, 'r) stateful) \<Rightarrow> 'r \<Rightarrow> ('c memory, 'r) stateful) list \<Rightarrow>
   'r \<Rightarrow> ('c memory, 'r) stateful" where
  "copy_struct blocks = fold id blocks copy_plain"

definition rep_field ::
  "('r \<Rightarrow> 'f) \<Rightarrow> ('c cells \<Rightarrow> 'f \<Rightarrow> 'b \<Rightarrow> bool) \<Rightarrow> ('a \<Rightarrow> 'b) \<Rightarrow>
   ('c cells \<Rightarrow> 'r \<Rightarrow> 'a \<Rightarrow> bool) \<Rightarrow> 'c cells \<Rightarrow> 'r \<Rightarrow> 'a \<Rightarrow> bool" where
  "rep_field get rep aget before c v a \<longleftrightarrow> before c v a \<and> rep c (get v) (aget a)"

definition rep_values :: "('r \<Rightarrow> 'a \<Rightarrow> bool) \<Rightarrow> 'c cells \<Rightarrow> 'r \<Rightarrow> 'a \<Rightarrow> bool" where
  "rep_values same c v a \<longleftrightarrow> same v a"

definition rep_struct ::
  "('r \<Rightarrow> 'a \<Rightarrow> bool) \<Rightarrow> (('c cells \<Rightarrow> 'r \<Rightarrow> 'a \<Rightarrow> bool) \<Rightarrow> 'c cells \<Rightarrow> 'r \<Rightarrow> 'a \<Rightarrow> bool) list \<Rightarrow>
   'c cells \<Rightarrow> 'r \<Rightarrow> 'a \<Rightarrow> bool" where
  "rep_struct same blocks = fold id blocks (rep_values same)"

named_theorems deep_copy_intros \<open>deep copies from the deep copies of parts\<close>

lemma deep_copy_plain [deep_copy_intros]: "deep_copy copy_plain rep_plain"
  by (rule plain.deep_copy_axioms)

lemma deep_copy_values: "deep_copy copy_plain (rep_values same)"
  by unfold_locales (auto simp: copy_plain_def rep_values_def)

lemma deep_copy_pointer [deep_copy_intros]:
  assumes "deep_copy copy rep" and "cell_type_ok T"
  shows "deep_copy (copy_pointer T zero copy) (rep_pointer T rep)"
proof -
  from assms have "pointee copy rep T" by (simp add: pointee_def pointee_axioms_def)
  then show ?thesis by (rule pointee.pointer_deep_copy)
qed

lemma deep_copy_dereferenced [deep_copy_intros]:
  assumes "deep_copy copy rep" and "cell_type_ok T"
  shows "deep_copy (copy_dereferenced T zero copy) rep"
proof -
  from assms have "pointee copy rep T" by (simp add: pointee_def pointee_axioms_def)
  then show ?thesis by (rule pointee.dereferenced_deep_copy)
qed

lemma deep_copy_slice [deep_copy_intros]:
  assumes "deep_copy copy rep" and "cell_type_ok T"
  shows "deep_copy (copy_slice T zero copy) (rep_slice T rep)"
proof -
  from assms have "sliceable copy rep T" by (simp add: sliceable_def sliceable_axioms_def)
  then show ?thesis by (rule sliceable.slice_deep_copy)
qed

lemma deep_copy_map [deep_copy_intros]:
  assumes "deep_copy copy rep" and "cell_type_ok T" and "range_order \<rho>"
  shows "deep_copy (copy_map T \<rho> copy) (rep_map T rep)"
proof -
  from assms have "mappable copy rep T \<rho>" by (simp add: mappable_def mappable_axioms_def)
  then show ?thesis by (rule mappable.map_deep_copy)
qed

lemma deep_copy_field:
  assumes before: "deep_copy before rr" and field: "deep_copy copy rep"
    and "\<And>c w v a. rr c (update (\<lambda>_. w) v) a = rr c v a"
    and "\<And>w v. get (update (\<lambda>_. w) v) = w"
  shows "deep_copy (copy_field get update copy before) (rep_field get rep aget rr)"
proof
  fix c d v a
  assume "rep_field get rep aget rr c v a" and "c \<subseteq>\<^sub>m d"
  then show "rep_field get rep aget rr d v a"
    by (auto simp: rep_field_def intro: deep_copy.rep_mono [OF before] deep_copy.rep_mono [OF field])
next
  fix h v a
  assume ok: "memory_ok h" and "rep_field get rep aget rr (mem_cells h) v a"
  then have reps: "rr (mem_cells h) v a" "rep (mem_cells h) (get v) (aget a)"
    by (simp_all add: rep_field_def)
  obtain h1 out where out: "before v h = (h1, Inr out)" "extends h h1" "rr (fresh h h1) out a"
    using deep_copy.copies [OF before ok reps(1)] by blast
  obtain h2 w where w: "copy (get v) h1 = (h2, Inr w)" "extends h h2"
    "fresh h h1 \<subseteq>\<^sub>m fresh h h2" "rep (fresh h h2) w (aget a)"
    using deep_copy.copies_later [OF field ok out(2) reps(2)] by metis
  have "rr (fresh h h2) out a" by (rule deep_copy.rep_mono [OF before out(3) w(3)])
  then show "\<exists>h' u. copy_field get update copy before v h = (h', Inr u) \<and> extends h h' \<and>
      rep_field get rep aget rr (fresh h h') u a"
    using out(1) w assms(3,4) by (simp add: copy_field_def rep_field_def)
qed

lemmas struct_simps = copy_struct_def rep_struct_def fold_simps id_apply

lemmas same_fields = rep_field_def rep_values_def

end
