(* ===== verification/DeepCopy.thy ===== *)
theory DeepCopy
  imports GoMemory ApiTypes
begin

text \<open>
  \<open>api/v1alpha1/zz_generated.deepcopy.go\<close>: the deep copies of the custom resource, over the
  memory of \<open>GoMemory\<close>. Every struct of the API group has a form in memory, whose pointers,
  slices and maps are addresses; its \<open>DeepCopyInto\<close> is the list of the field blocks of the source
  after \<open>*out = *in\<close>; and a representation relation says which value of \<open>ApiTypes\<close> it stands for.
  The structs of other repositories (\<open>'l\<close>) are copied by their own methods, which are parameters.
\<close>

section \<open>The API group in memory\<close>

record TypeMeta =
  tm_Kind :: string
  tm_APIVersion :: string

record m_AuthenticationSpec =
  mas_AuthenticationClass :: string
  mas_Oidc :: "addr option"
  mas_SyncRolesAt :: string
  mas_UserRegistration :: bool
  mas_UserRegistrationRole :: string

record m_DagsGitSyncSpec =
  mdg_Branch :: string
  mdg_CrdentialsSecret :: string
  mdg_Depth :: "addr option"
  mdg_GitFolder :: string
  mdg_GitSyncConf :: "addr option"
  mdg_Repo :: string
  mdg_Wait :: "addr option"

record m_ClusterConfigSpec =
  mcc_Authentication :: "addr option"
  mcc_Credentials :: string
  mcc_DagsGitSync :: "addr option"
  mcc_ExposeConfig :: bool
  mcc_LoadExamples :: bool
  mcc_ListenerClass :: string
  mcc_VectorAggregatorConfigMapName :: string
  mcc_Volumes :: "addr option"
  mcc_VolumeMounts :: "addr option"

record m_ConfigSpec =
  mcs_RoleGroupConfigSpec :: "addr option"

record m_RoleGroupSpec =
  mrg_Replicas :: "addr option"
  mrg_Config :: "addr option"
  mrg_OverridesSpec :: "addr option"

record m_RoleSpec =
  mrole_RoleGroups :: "addr option"
  mrole_RoleConfig :: "addr option"
  mrole_Config :: "addr option"
  mrole_OverridesSpec :: "addr option"

record m_KubernetesExecutorsSpec =
  mkes_RoleConfig :: "addr option"
  mkes_Config :: "addr option"
  mkes_OverridesSpec :: "addr option"
  mkes_RoleGroupConfigSpec :: "addr option"

record m_AirflowClusterSpec =
  mspec_Image :: "addr option"
  mspec_ClusterOperation :: "addr option"
  mspec_ClusterConfig :: "addr option"
  mspec_CeleryExecutors :: "addr option"
  mspec_KubernetesExecutors :: "addr option"
  mspec_Schedulers :: "addr option"
  mspec_Webservers :: "addr option"

text \<open>The status is a struct without fields.\<close>

type_synonym AirflowClusterStatus = unit

record 'l m_AirflowCluster =
  mac_TypeMeta :: TypeMeta
  mac_ObjectMeta :: 'l
  mac_Spec :: m_AirflowClusterSpec
  mac_Status :: AirflowClusterStatus

record 'l m_AirflowClusterList =
  mal_TypeMeta :: TypeMeta
  mal_ListMeta :: 'l
  mal_Items :: "addr option"

text \<open>What one address holds: a variable of one of these types, an array or a map.\<close>

datatype 'l cell =
    Int8Cell "8 word"
  | Int16Cell "16 word"
  | Int32Cell "32 word"
  | StringMapCell "(string \<times> string) list"
  | LibraryCell 'l
  | LibrariesCell "'l list"
  | ImageSpecCell ImageSpec
  | AuthenticationCell m_AuthenticationSpec
  | AuthenticationsCell "m_AuthenticationSpec list"
  | GitSyncCell m_DagsGitSyncSpec
  | GitSyncsCell "m_DagsGitSyncSpec list"
  | ClusterConfigCell m_ClusterConfigSpec
  | ConfigCell m_ConfigSpec
  | RoleGroupCell m_RoleGroupSpec
  | RoleGroupsCell "(string \<times> m_RoleGroupSpec) list"
  | RoleCell m_RoleSpec
  | KubernetesExecutorsCell m_KubernetesExecutorsSpec
  | ClusterSpecCell m_AirflowClusterSpec
  | StatusCell AirflowClusterStatus
  | ClusterCell "'l m_AirflowCluster"
  | ClustersCell "'l m_AirflowCluster list"
  | ClusterListCell "'l m_AirflowClusterList"

definition int8_cell :: "(8 word, 'l cell) cell_type" where
  "int8_cell = \<lparr>ct_cell = Int8Cell, ct_value = (\<lambda>c. case c of Int8Cell v \<Rightarrow> Some v | _ \<Rightarrow> None)\<rparr>"

definition int16_cell :: "(16 word, 'l cell) cell_type" where
  "int16_cell = \<lparr>ct_cell = Int16Cell, ct_value = (\<lambda>c. case c of Int16Cell v \<Rightarrow> Some v | _ \<Rightarrow> None)\<rparr>"

definition int32_cell :: "(32 word, 'l cell) cell_type" where
  "int32_cell = \<lparr>ct_cell = Int32Cell, ct_value = (\<lambda>c. case c of Int32Cell v \<Rightarrow> Some v | _ \<Rightarrow> None)\<rparr>"

definition string_map_cell :: "((string \<times> string) list, 'l cell) cell_type" where
  "string_map_cell = \<lparr>ct_cell = StringMapCell, ct_value = (\<lambda>c. case c of StringMapCell v \<Rightarrow> Some v | _ \<Rightarrow> None)\<rparr>"

definition library_cell :: "('l, 'l cell) cell_type" where
  "library_cell = \<lparr>ct_cell = LibraryCell, ct_value = (\<lambda>c. case c of LibraryCell v \<Rightarrow> Some v | _ \<Rightarrow> None)\<rparr>"

definition libraries_cell :: "('l list, 'l cell) cell_type" where
  "libraries_cell = \<lparr>ct_cell = LibrariesCell, ct_value = (\<lambda>c. case c of LibrariesCell v \<Rightarrow> Some v | _ \<Rightarrow> None)\<rparr>"

definition image_cell :: "(ImageSpec, 'l cell) cell_type" where
  "image_cell = \<lparr>ct_cell = ImageSpecCell, ct_value = (\<lambda>c. case c of ImageSpecCell v \<Rightarrow> Some v | _ \<Rightarrow> None)\<rparr>"

definition authentication_cell :: "(m_AuthenticationSpec, 'l cell) cell_type" where
  "authentication_cell = \<lparr>ct_cell = AuthenticationCell, ct_value = (\<lambda>c. case c of AuthenticationCell v \<Rightarrow> Some v | _ \<Rightarrow> None)\<rparr>"

definition authentications_cell :: "(m_AuthenticationSpec list, 'l cell) cell_type" where
  "authentications_cell = \<lparr>ct_cell = AuthenticationsCell, ct_value = (\<lambda>c. case c of AuthenticationsCell v \<Rightarrow> Some v | _ \<Rightarrow> None)\<rparr>"

definition git_sync_cell :: "(m_DagsGitSyncSpec, 'l cell) cell_type" where
  "git_sync_cell = \<lparr>ct_cell = GitSyncCell, ct_value = (\<lambda>c. case c of GitSyncCell v \<Rightarrow> Some v | _ \<Rightarrow> None)\<rparr>"

definition git_syncs_cell :: "(m_DagsGitSyncSpec list, 'l cell) cell_type" where
  "git_syncs_cell = \<lparr>ct_cell = GitSyncsCell, ct_value = (\<lambda>c. case c of GitSyncsCell v \<Rightarrow> Some v | _ \<Rightarrow> None)\<rparr>"

definition cluster_config_cell :: "(m_ClusterConfigSpec, 'l cell) cell_type" where
  "cluster_config_cell = \<lparr>ct_cell = ClusterConfigCell, ct_value = (\<lambda>c. case c of ClusterConfigCell v \<Rightarrow> Some v | _ \<Rightarrow> None)\<rparr>"

definition config_cell :: "(m_ConfigSpec, 'l cell) cell_type" where
  "config_cell = \<lparr>ct_cell = ConfigCell, ct_value = (\<lambda>c. case c of ConfigCell v \<Rightarrow> Some v | _ \<Rightarrow> None)\<rparr>"

definition role_group_cell :: "(m_RoleGroupSpec, 'l cell) cell_type" where
  "role_group_cell = \<lparr>ct_cell = RoleGroupCell, ct_value = (\<lambda>c. case c of RoleGroupCell v \<Rightarrow> Some v | _ \<Rightarrow> None)\<rparr>"

definition role_groups_cell :: "((string \<times> m_RoleGroupSpec) list, 'l cell) cell_type" where
  "role_groups_cell = \<lparr>ct_cell = RoleGroupsCell, ct_value = (\<lambda>c. case c of RoleGroupsCell v \<Rightarrow> Some v | _ \<Rightarrow> None)\<rparr>"

definition role_cell :: "(m_RoleSpec, 'l cell) cell_type" where
  "role_cell = \<lparr>ct_cell = RoleCell, ct_value = (\<lambda>c. case c of RoleCell v \<Rightarrow> Some v | _ \<Rightarrow> None)\<rparr>"

definition kubernetes_executors_cell :: "(m_KubernetesExecutorsSpec, 'l cell) cell_type" where
  "kubernetes_executors_cell = \<lparr>ct_cell = KubernetesExecutorsCell, ct_value = (\<lambda>c. case c of KubernetesExecutorsCell v \<Rightarrow> Some v | _ \<Rightarrow> None)\<rparr>"

definition cluster_spec_cell :: "(m_AirflowClusterSpec, 'l cell) cell_type" where
  "cluster_spec_cell = \<lparr>ct_cell = ClusterSpecCell, ct_value = (\<lambda>c. case c of ClusterSpecCell v \<Rightarrow> Some v | _ \<Rightarrow> None)\<rparr>"

definition status_cell :: "(AirflowClusterStatus, 'l cell) cell_type" where
  "status_cell = \<lparr>ct_cell = StatusCell, ct_value = (\<lambda>c. case c of StatusCell v \<Rightarrow> Some v | _ \<Rightarrow> None)\<rparr>"

definition cluster_cell :: "('l m_AirflowCluster, 'l cell) cell_type" where
  "cluster_cell = \<lparr>ct_cell = ClusterCell, ct_value = (\<lambda>c. case c of ClusterCell v \<Rightarrow> Some v | _ \<Rightarrow> None)\<rparr>"

definition clusters_cell :: "('l m_AirflowCluster list, 'l cell) cell_type" where
  "clusters_cell = \<lparr>ct_cell = ClustersCell, ct_value = (\<lambda>c. case c of ClustersCell v \<Rightarrow> Some v | _ \<Rightarrow> None)\<rparr>"

definition cluster_list_cell :: "('l m_AirflowClusterList, 'l cell) cell_type" where
  "cluster_list_cell = \<lparr>ct_cell = ClusterListCell, ct_value = (\<lambda>c. case c of ClusterListCell v \<Rightarrow> Some v | _ \<Rightarrow> None)\<rparr>"

lemmas cell_defs =
  int8_cell_def int16_cell_def int32_cell_def string_map_cell_def
  library_cell_def libraries_cell_def image_cell_def authentication_cell_def
  authentications_cell_def git_sync_cell_def git_syncs_cell_def cluster_config_cell_def
  config_cell_def role_group_cell_def role_groups_cell_def role_cell_def
  kubernetes_executors_cell_def cluster_spec_cell_def status_cell_def cluster_cell_def
  clusters_cell_def cluster_list_cell_def

lemma cell_types_ok [deep_copy_intros]:
  "cell_type_ok int8_cell"
  "cell_type_ok int16_cell"
  "cell_type_ok int32_cell"
  "cell_type_ok string_map_cell"
  "cell_type_ok library_cell"
  "cell_type_ok libraries_cell"
  "cell_type_ok image_cell"
  "cell_type_ok authentication_cell"
  "cell_type_ok authentications_cell"
  "cell_type_ok git_sync_cell"
  "cell_type_ok git_syncs_cell"
  "cell_type_ok cluster_config_cell"
  "cell_type_ok config_cell"
  "cell_type_ok role_group_cell"
  "cell_type_ok role_groups_cell"
  "cell_type_ok role_cell"
  "cell_type_ok kubernetes_executors_cell"
  "cell_type_ok cluster_spec_cell"
  "cell_type_ok status_cell"
  "cell_type_ok cluster_cell"
  "cell_type_ok clusters_cell"
  "cell_type_ok cluster_list_cell"
  by (simp_all add: cell_type_ok_def cell_defs)

section \<open>The methods\<close>

text \<open>
  The methods of other repositories, and the orders in which the runtime visits the two maps. The
  zero values are those of \<open>new\<close> and \<open>make\<close>.
\<close>

record 'l copy_env =
  OidcSpec_DeepCopyInto :: "'l \<Rightarrow> ('l cell memory, 'l) stateful"
  RoleConfigSpec_DeepCopyInto :: "'l \<Rightarrow> ('l cell memory, 'l) stateful"
  RoleGroupConfigSpec_DeepCopyInto :: "'l \<Rightarrow> ('l cell memory, 'l) stateful"
  OverridesSpec_DeepCopyInto :: "'l \<Rightarrow> ('l cell memory, 'l) stateful"
  RawExtension_DeepCopyInto :: "'l \<Rightarrow> ('l cell memory, 'l) stateful"
  ObjectMeta_DeepCopyInto :: "'l \<Rightarrow> ('l cell memory, 'l) stateful"
  ListMeta_DeepCopyInto :: "'l \<Rightarrow> ('l cell memory, 'l) stateful"
  zero_library :: 'l
  string_map_order :: "(string \<times> string) list \<Rightarrow> (string \<times> string) list"
  role_group_order :: "(string \<times> m_RoleGroupSpec) list \<Rightarrow> (string \<times> m_RoleGroupSpec) list"

definition zero_ImageSpec :: ImageSpec where
  "zero_ImageSpec = \<lparr>img_Custom = [], img_Repo = [], img_KubedoopVersion = [],
     img_ProductVersion = [], img_PullPolicy = [], img_PullSecretName = []\<rparr>"

definition zero_AuthenticationSpec :: m_AuthenticationSpec where
  "zero_AuthenticationSpec = \<lparr>mas_AuthenticationClass = [], mas_Oidc = None, mas_SyncRolesAt = [],
     mas_UserRegistration = False, mas_UserRegistrationRole = []\<rparr>"

definition zero_DagsGitSyncSpec :: m_DagsGitSyncSpec where
  "zero_DagsGitSyncSpec = \<lparr>mdg_Branch = [], mdg_CrdentialsSecret = [], mdg_Depth = None,
     mdg_GitFolder = [], mdg_GitSyncConf = None, mdg_Repo = [], mdg_Wait = None\<rparr>"

definition zero_ClusterConfigSpec :: m_ClusterConfigSpec where
  "zero_ClusterConfigSpec = \<lparr>mcc_Authentication = None, mcc_Credentials = [], mcc_DagsGitSync = None,
     mcc_ExposeConfig = False, mcc_LoadExamples = False, mcc_ListenerClass = [],
     mcc_VectorAggregatorConfigMapName = [], mcc_Volumes = None, mcc_VolumeMounts = None\<rparr>"

definition zero_ConfigSpec :: m_ConfigSpec where
  "zero_ConfigSpec = \<lparr>mcs_RoleGroupConfigSpec = None\<rparr>"

definition zero_RoleGroupSpec :: m_RoleGroupSpec where
  "zero_RoleGroupSpec = \<lparr>mrg_Replicas = None, mrg_Config = None, mrg_OverridesSpec = None\<rparr>"

definition zero_RoleSpec :: m_RoleSpec where
  "zero_RoleSpec = \<lparr>mrole_RoleGroups = None, mrole_RoleConfig = None, mrole_Config = None,
     mrole_OverridesSpec = None\<rparr>"

definition zero_KubernetesExecutorsSpec :: m_KubernetesExecutorsSpec where
  "zero_KubernetesExecutorsSpec = \<lparr>mkes_RoleConfig = None, mkes_Config = None,
     mkes_OverridesSpec = None, mkes_RoleGroupConfigSpec = None\<rparr>"

definition zero_AirflowClusterSpec :: m_AirflowClusterSpec where
  "zero_AirflowClusterSpec = \<lparr>mspec_Image = None, mspec_ClusterOperation = None,
     mspec_ClusterConfig = None, mspec_CeleryExecutors = None, mspec_KubernetesExecutors = None,
     mspec_Schedulers = None, mspec_Webservers = None\<rparr>"

definition zero_TypeMeta :: TypeMeta where
  "zero_TypeMeta = \<lparr>tm_Kind = [], tm_APIVersion = []\<rparr>"

definition zero_AirflowCluster :: "'l copy_env \<Rightarrow> 'l m_AirflowCluster" where
  "zero_AirflowCluster E = \<lparr>mac_TypeMeta = zero_TypeMeta, mac_ObjectMeta = zero_library E,
     mac_Spec = zero_AirflowClusterSpec, mac_Status = ()\<rparr>"

definition zero_AirflowClusterList :: "'l copy_env \<Rightarrow> 'l m_AirflowClusterList" where
  "zero_AirflowClusterList E = \<lparr>mal_TypeMeta = zero_TypeMeta, mal_ListMeta = zero_library E,
     mal_Items = None\<rparr>"

definition ImageSpec_DeepCopyInto :: "ImageSpec \<Rightarrow> ('l cell memory, ImageSpec) stateful" where
  "ImageSpec_DeepCopyInto = copy_struct []"

definition ImageSpec_DeepCopy :: "addr option \<Rightarrow> ('l cell memory, addr option) stateful" where
  "ImageSpec_DeepCopy = copy_pointer image_cell zero_ImageSpec ImageSpec_DeepCopyInto"

definition AirflowClusterStatus_DeepCopyInto ::
  "AirflowClusterStatus \<Rightarrow> ('l cell memory, AirflowClusterStatus) stateful" where
  "AirflowClusterStatus_DeepCopyInto = copy_struct []"

definition AirflowClusterStatus_DeepCopy :: "addr option \<Rightarrow> ('l cell memory, addr option) stateful" where
  "AirflowClusterStatus_DeepCopy = copy_pointer status_cell () AirflowClusterStatus_DeepCopyInto"

definition AuthenticationSpec_DeepCopyInto ::
  "'l copy_env \<Rightarrow> m_AuthenticationSpec \<Rightarrow> ('l cell memory, m_AuthenticationSpec) stateful" where
  "AuthenticationSpec_DeepCopyInto E = copy_struct [
     copy_field mas_Oidc mas_Oidc_update
       (copy_pointer library_cell (zero_library E) (OidcSpec_DeepCopyInto E))]"

definition AuthenticationSpec_DeepCopy ::
  "'l copy_env \<Rightarrow> addr option \<Rightarrow> ('l cell memory, addr option) stateful" where
  "AuthenticationSpec_DeepCopy E = copy_pointer authentication_cell zero_AuthenticationSpec (AuthenticationSpec_DeepCopyInto E)"

definition DagsGitSyncSpec_DeepCopyInto ::
  "'l copy_env \<Rightarrow> m_DagsGitSyncSpec \<Rightarrow> ('l cell memory, m_DagsGitSyncSpec) stateful" where
  "DagsGitSyncSpec_DeepCopyInto E = copy_struct [
     copy_field mdg_Depth mdg_Depth_update
       (copy_pointer int8_cell 0 copy_plain),
     copy_field mdg_GitSyncConf mdg_GitSyncConf_update
       (copy_map string_map_cell (string_map_order E) copy_plain),
     copy_field mdg_Wait mdg_Wait_update
       (copy_pointer int16_cell 0 copy_plain)]"

definition DagsGitSyncSpec_DeepCopy ::
  "'l copy_env \<Rightarrow> addr option \<Rightarrow> ('l cell memory, addr option) stateful" where
  "DagsGitSyncSpec_DeepCopy E = copy_pointer git_sync_cell zero_DagsGitSyncSpec (DagsGitSyncSpec_DeepCopyInto E)"

definition ClusterConfigSpec_DeepCopyInto ::
  "'l copy_env \<Rightarrow> m_ClusterConfigSpec \<Rightarrow> ('l cell memory, m_ClusterConfigSpec) stateful" where
  "ClusterConfigSpec_DeepCopyInto E = copy_struct [
     copy_field mcc_Authentication mcc_Authentication_update
       (copy_slice authentications_cell zero_AuthenticationSpec (AuthenticationSpec_DeepCopyInto E)),
     copy_field mcc_DagsGitSync mcc_DagsGitSync_update
       (copy_slice git_syncs_cell zero_DagsGitSyncSpec (DagsGitSyncSpec_DeepCopyInto E)),
     copy_field mcc_Volumes mcc_Volumes_update
       (copy_slice libraries_cell (zero_library E) (RawExtension_DeepCopyInto E)),
     copy_field mcc_VolumeMounts mcc_VolumeMounts_update
       (copy_slice libraries_cell (zero_library E) (RawExtension_DeepCopyInto E))]"

definition ClusterConfigSpec_DeepCopy ::
  "'l copy_env \<Rightarrow> addr option \<Rightarrow> ('l cell memory, addr option) stateful" where
  "ClusterConfigSpec_DeepCopy E = copy_pointer cluster_config_cell zero_ClusterConfigSpec (ClusterConfigSpec_DeepCopyInto E)"

definition ConfigSpec_DeepCopyInto ::
  "'l copy_env \<Rightarrow> m_ConfigSpec \<Rightarrow> ('l cell memory, m_ConfigSpec) stateful" where
  "ConfigSpec_DeepCopyInto E = copy_struct [
     copy_field mcs_RoleGroupConfigSpec mcs_RoleGroupConfigSpec_update
       (copy_pointer library_cell (zero_library E) (RoleGroupConfigSpec_DeepCopyInto E))]"

definition ConfigSpec_DeepCopy ::
  "'l copy_env \<Rightarrow> addr option \<Rightarrow> ('l cell memory, addr option) stateful" where
  "ConfigSpec_DeepCopy E = copy_pointer config_cell zero_ConfigSpec (ConfigSpec_DeepCopyInto E)"

definition RoleGroupSpec_DeepCopyInto ::
  "'l copy_env \<Rightarrow> m_RoleGroupSpec \<Rightarrow> ('l cell memory, m_RoleGroupSpec) stateful" where
  "RoleGroupSpec_DeepCopyInto E = copy_struct [
     copy_field mrg_Replicas mrg_Replicas_update
       (copy_pointer int32_cell 0 copy_plain),
     copy_field mrg_Config mrg_Config_update
       (copy_pointer config_cell zero_ConfigSpec (ConfigSpec_DeepCopyInto E)),
     copy_field mrg_OverridesSpec mrg_OverridesSpec_update
       (copy_pointer library_cell (zero_library E) (OverridesSpec_DeepCopyInto E))]"

definition RoleGroupSpec_DeepCopy ::
  "'l copy_env \<Rightarrow> addr option \<Rightarrow> ('l cell memory, addr option) stateful" where
  "RoleGroupSpec_DeepCopy E = copy_pointer role_group_cell zero_RoleGroupSpec (RoleGroupSpec_DeepCopyInto E)"

text \<open>The loop body over the role groups: \<open>(*out)[key] = *val.DeepCopy()\<close>.\<close>

definition copy_role_group :: "'l copy_env \<Rightarrow> m_RoleGroupSpec \<Rightarrow> ('l cell memory, m_RoleGroupSpec) stateful" where
  "copy_role_group E = copy_dereferenced role_group_cell zero_RoleGroupSpec (RoleGroupSpec_DeepCopyInto E)"

definition CeleryExecutorsSpec_DeepCopyInto ::
  "'l copy_env \<Rightarrow> m_RoleSpec \<Rightarrow> ('l cell memory, m_RoleSpec) stateful" where
  "CeleryExecutorsSpec_DeepCopyInto E = copy_struct [
     copy_field mrole_RoleGroups mrole_RoleGroups_update
       (copy_map role_groups_cell (role_group_order E) (copy_role_group E)),
     copy_field mrole_RoleConfig mrole_RoleConfig_update
       (copy_pointer library_cell (zero_library E) (RoleConfigSpec_DeepCopyInto E)),
     copy_field mrole_Config mrole_Config_update
       (copy_pointer config_cell zero_ConfigSpec (ConfigSpec_DeepCopyInto E)),
     copy_field mrole_OverridesSpec mrole_OverridesSpec_update
       (copy_pointer library_cell (zero_library E) (OverridesSpec_DeepCopyInto E))]"

definition CeleryExecutorsSpec_DeepCopy ::
  "'l copy_env \<Rightarrow> addr option \<Rightarrow> ('l cell memory, addr option) stateful" where
  "CeleryExecutorsSpec_DeepCopy E = copy_pointer role_cell zero_RoleSpec (CeleryExecutorsSpec_DeepCopyInto E)"

definition SchedulersSpec_DeepCopyInto ::
  "'l copy_env \<Rightarrow> m_RoleSpec \<Rightarrow> ('l cell memory, m_RoleSpec) stateful" where
  "SchedulersSpec_DeepCopyInto E = copy_struct [
     copy_field mrole_RoleGroups mrole_RoleGroups_update
       (copy_map role_groups_cell (role_group_order E) (copy_role_group E)),
     copy_field mrole_RoleConfig mrole_RoleConfig_update
       (copy_pointer library_cell (zero_library E) (RoleConfigSpec_DeepCopyInto E)),
     copy_field mrole_Config mrole_Config_update
       (copy_pointer config_cell zero_ConfigSpec (ConfigSpec_DeepCopyInto E)),
     copy_field mrole_OverridesSpec mrole_OverridesSpec_update
       (copy_pointer library_cell (zero_library E) (OverridesSpec_DeepCopyInto E))]"

definition SchedulersSpec_DeepCopy ::
  "'l copy_env \<Rightarrow> addr option \<Rightarrow> ('l cell memory, addr option) stateful" where
  "SchedulersSpec_DeepCopy E = copy_pointer role_cell zero_RoleSpec (SchedulersSpec_DeepCopyInto E)"

definition WebserversSpec_DeepCopyInto ::
  "'l copy_env \<Rightarrow> m_RoleSpec \<Rightarrow> ('l cell memory, m_RoleSpec) stateful" where
  "WebserversSpec_DeepCopyInto E = copy_struct [
     copy_field mrole_RoleGroups mrole_RoleGroups_update
       (copy_map role_groups_cell (role_group_order E) (copy_role_group E)),
     copy_field mrole_RoleConfig mrole_RoleConfig_update
       (copy_pointer library_cell (zero_library E) (RoleConfigSpec_DeepCopyInto E)),
     copy_field mrole_Config mrole_Config_update
       (copy_pointer config_cell zero_ConfigSpec (ConfigSpec_DeepCopyInto E)),
     copy_field mrole_OverridesSpec mrole_OverridesSpec_update
       (copy_pointer library_cell (zero_library E) (OverridesSpec_DeepCopyInto E))]"

definition WebserversSpec_DeepCopy ::
  "'l copy_env \<Rightarrow> addr option \<Rightarrow> ('l cell memory, addr option) stateful" where
  "WebserversSpec_DeepCopy E = copy_pointer role_cell zero_RoleSpec (WebserversSpec_DeepCopyInto E)"

definition KubernetesExecutorsSpec_DeepCopyInto ::
  "'l copy_env \<Rightarrow> m_KubernetesExecutorsSpec \<Rightarrow> ('l cell memory, m_KubernetesExecutorsSpec) stateful" where
  "KubernetesExecutorsSpec_DeepCopyInto E = copy_struct [
     copy_field mkes_RoleConfig mkes_RoleConfig_update
       (copy_pointer library_cell (zero_library E) (RoleConfigSpec_DeepCopyInto E)),
     copy_field mkes_Config mkes_Config_update
       (copy_pointer config_cell zero_ConfigSpec (ConfigSpec_DeepCopyInto E)),
     copy_field mkes_OverridesSpec mkes_OverridesSpec_update
       (copy_pointer library_cell (zero_library E) (OverridesSpec_DeepCopyInto E)),
     copy_field mkes_RoleGroupConfigSpec mkes_RoleGroupConfigSpec_update
       (copy_pointer library_cell (zero_library E) (RoleGroupConfigSpec_DeepCopyInto E))]"

definition KubernetesExecutorsSpec_DeepCopy ::
  "'l copy_env \<Rightarrow> addr option \<Rightarrow> ('l cell memory, addr option) stateful" where
  "KubernetesExecutorsSpec_DeepCopy E = copy_pointer kubernetes_executors_cell zero_KubernetesExecutorsSpec (KubernetesExecutorsSpec_DeepCopyInto E)"

definition AirflowClusterSpec_DeepCopyInto ::
  "'l copy_env \<Rightarrow> m_AirflowClusterSpec \<Rightarrow> ('l cell memory, m_AirflowClusterSpec) stateful" where
  "AirflowClusterSpec_DeepCopyInto E = copy_struct [
     copy_field mspec_Image mspec_Image_update
       (copy_pointer image_cell zero_ImageSpec copy_plain),
     copy_field mspec_ClusterOperation mspec_ClusterOperation_update
       (copy_pointer library_cell (zero_library E) copy_plain),
     copy_field mspec_ClusterConfig mspec_ClusterConfig_update
       (copy_pointer cluster_config_cell zero_ClusterConfigSpec (ClusterConfigSpec_DeepCopyInto E)),
     copy_field mspec_CeleryExecutors mspec_CeleryExecutors_update
       (copy_pointer role_cell zero_RoleSpec (CeleryExecutorsSpec_DeepCopyInto E)),
     copy_field mspec_KubernetesExecutors mspec_KubernetesExecutors_update
       (copy_pointer kubernetes_executors_cell zero_KubernetesExecutorsSpec
         (KubernetesExecutorsSpec_DeepCopyInto E)),
     copy_field mspec_Schedulers mspec_Schedulers_update
       (copy_pointer role_cell zero_RoleSpec (SchedulersSpec_DeepCopyInto E)),
     copy_field mspec_Webservers mspec_Webservers_update
       (copy_pointer role_cell zero_RoleSpec (WebserversSpec_DeepCopyInto E))]"

definition AirflowClusterSpec_DeepCopy ::
  "'l copy_env \<Rightarrow> addr option \<Rightarrow> ('l cell memory, addr option) stateful" where
  "AirflowClusterSpec_DeepCopy E = copy_pointer cluster_spec_cell zero_AirflowClusterSpec (AirflowClusterSpec_DeepCopyInto E)"

definition AirflowCluster_DeepCopyInto ::
  "'l copy_env \<Rightarrow> 'l m_AirflowCluster \<Rightarrow> ('l cell memory, 'l m_AirflowCluster) stateful" where
  "AirflowCluster_DeepCopyInto E = copy_struct [
     copy_field mac_TypeMeta mac_TypeMeta_update
       (copy_plain),
     copy_field mac_ObjectMeta mac_ObjectMeta_update
       (ObjectMeta_DeepCopyInto E),
     copy_field mac_Spec mac_Spec_update
       (AirflowClusterSpec_DeepCopyInto E),
     copy_field mac_Status mac_Status_update
       (copy_plain)]"

definition AirflowCluster_DeepCopy ::
  "'l copy_env \<Rightarrow> addr option \<Rightarrow> ('l cell memory, addr option) stateful" where
  "AirflowCluster_DeepCopy E = copy_pointer cluster_cell (zero_AirflowCluster E) (AirflowCluster_DeepCopyInto E)"

definition AirflowClusterList_DeepCopyInto ::
  "'l copy_env \<Rightarrow> 'l m_AirflowClusterList \<Rightarrow> ('l cell memory, 'l m_AirflowClusterList) stateful" where
  "AirflowClusterList_DeepCopyInto E = copy_struct [
     copy_field mal_TypeMeta mal_TypeMeta_update
       (copy_plain),
     copy_field mal_ListMeta mal_ListMeta_update
       (ListMeta_DeepCopyInto E),
     copy_field mal_Items mal_Items_update
       (copy_slice clusters_cell (zero_AirflowCluster E) (AirflowCluster_DeepCopyInto E))]"

definition AirflowClusterList_DeepCopy ::
  "'l copy_env \<Rightarrow> addr option \<Rightarrow> ('l cell memory, addr option) stateful" where
  "AirflowClusterList_DeepCopy E = copy_pointer cluster_list_cell (zero_AirflowClusterList E) (AirflowClusterList_DeepCopyInto E)"

text \<open>
  A value of the interface \<open>runtime.Object\<close> is nil or a pointer with its type; a nil pointer with
  a type is not the nil interface.
\<close>

datatype runtime_Object = AirflowClusterObject "addr option" | AirflowClusterListObject "addr option"

definition AirflowCluster_DeepCopyObject ::
  "'l copy_env \<Rightarrow> addr option \<Rightarrow> ('l cell memory, runtime_Object option) stateful" where
  "AirflowCluster_DeepCopyObject E inp =
     method_then (AirflowCluster_DeepCopy E inp) (\<lambda>c.
     if c \<noteq> None then method_return (Inr (Some (AirflowClusterObject c))) else method_return (Inr None))"

definition AirflowClusterList_DeepCopyObject ::
  "'l copy_env \<Rightarrow> addr option \<Rightarrow> ('l cell memory, runtime_Object option) stateful" where
  "AirflowClusterList_DeepCopyObject E inp =
     method_then (AirflowClusterList_DeepCopy E inp) (\<lambda>c.
     if c \<noteq> None then method_return (Inr (Some (AirflowClusterListObject c))) else method_return (Inr None))"

end
