(* ===== verification/DeepCopySpec.thy ===== *)
theory DeepCopySpec
  imports DeepCopy
begin

text \<open>
  What the deep copies are for: a copy stands for the same custom resource as the original and
  shares no memory with it. The structs in memory are related to the records of \<open>ApiTypes\<close>; the
  promise of every method follows from the promises of its fields, and from those of the methods
  of other repositories, which are the named hypothesis \<open>library_copies_ok\<close>.
\<close>

section \<open>What a struct in memory stands for\<close>

record ('l, 'x) library_meaning =
  rep_OidcSpec :: "'l cell cells \<Rightarrow> 'l \<Rightarrow> OidcSpec \<Rightarrow> bool"
  rep_RoleConfigSpec :: "'l cell cells \<Rightarrow> 'l \<Rightarrow> 'x \<Rightarrow> bool"
  rep_RoleGroupConfigSpec :: "'l cell cells \<Rightarrow> 'l \<Rightarrow> 'x RoleGroupConfigSpec \<Rightarrow> bool"
  rep_OverridesSpec :: "'l cell cells \<Rightarrow> 'l \<Rightarrow> 'x \<Rightarrow> bool"
  rep_RawExtension :: "'l cell cells \<Rightarrow> 'l \<Rightarrow> 'x \<Rightarrow> bool"
  rep_ClusterOperationSpec :: "'l cell cells \<Rightarrow> 'l \<Rightarrow> 'x \<Rightarrow> bool"
  rep_ObjectMeta :: "'l cell cells \<Rightarrow> 'l \<Rightarrow> 'x \<Rightarrow> bool"
  rep_ListMeta :: "'l cell cells \<Rightarrow> 'l \<Rightarrow> 'x \<Rightarrow> bool"
  meta_Name :: "'x \<Rightarrow> string"
  meta_Namespace :: "'x \<Rightarrow> string"

text \<open>
  The documented behaviour of the copied types of other repositories: their own methods are deep
  copies, the type \<open>ClusterOperationSpec\<close> has no references, and a range visits every entry of a
  map once.
\<close>

definition library_copies_ok :: "'l copy_env \<Rightarrow> ('l, 'x) library_meaning \<Rightarrow> bool" where
  "library_copies_ok E R \<longleftrightarrow>
     deep_copy (OidcSpec_DeepCopyInto E) (rep_OidcSpec R) \<and>
     deep_copy (RoleConfigSpec_DeepCopyInto E) (rep_RoleConfigSpec R) \<and>
     deep_copy (RoleGroupConfigSpec_DeepCopyInto E) (rep_RoleGroupConfigSpec R) \<and>
     deep_copy (OverridesSpec_DeepCopyInto E) (rep_OverridesSpec R) \<and>
     deep_copy (RawExtension_DeepCopyInto E) (rep_RawExtension R) \<and>
     deep_copy copy_plain (rep_ClusterOperationSpec R) \<and>
     deep_copy (ObjectMeta_DeepCopyInto E) (rep_ObjectMeta R) \<and>
     deep_copy (ListMeta_DeepCopyInto E) (rep_ListMeta R) \<and>
     range_order (string_map_order E) \<and> range_order (role_group_order E)"

lemma library_copies [deep_copy_intros]:
  assumes "library_copies_ok E R"
  shows "deep_copy (OidcSpec_DeepCopyInto E) (rep_OidcSpec R)"
    and "deep_copy (RoleConfigSpec_DeepCopyInto E) (rep_RoleConfigSpec R)"
    and "deep_copy (RoleGroupConfigSpec_DeepCopyInto E) (rep_RoleGroupConfigSpec R)"
    and "deep_copy (OverridesSpec_DeepCopyInto E) (rep_OverridesSpec R)"
    and "deep_copy (RawExtension_DeepCopyInto E) (rep_RawExtension R)"
    and "deep_copy copy_plain (rep_ClusterOperationSpec R)"
    and "deep_copy (ObjectMeta_DeepCopyInto E) (rep_ObjectMeta R)"
    and "deep_copy (ListMeta_DeepCopyInto E) (rep_ListMeta R)"
  using assms by (simp_all add: library_copies_ok_def)

lemma library_orders:
  "library_copies_ok E R \<Longrightarrow> range_order (string_map_order E)"
  "library_copies_ok E R \<Longrightarrow> range_order (role_group_order E)"
  by (simp_all add: library_copies_ok_def)

definition rep_AuthenticationSpec ::
  "('l, 'x) library_meaning \<Rightarrow> 'l cell cells \<Rightarrow> m_AuthenticationSpec \<Rightarrow> AuthenticationSpec \<Rightarrow> bool" where
  "rep_AuthenticationSpec R = rep_struct
     (\<lambda>v a. mas_AuthenticationClass v = as_AuthenticationClass a \<and> mas_SyncRolesAt v = as_SyncRolesAt a \<and>
        mas_UserRegistration v = as_UserRegistration a \<and>
        mas_UserRegistrationRole v = as_UserRegistrationRole a)
     [rep_field mas_Oidc (rep_pointer library_cell (rep_OidcSpec R)) as_Oidc]"

definition rep_DagsGitSyncSpec :: "'l cell cells \<Rightarrow> m_DagsGitSyncSpec \<Rightarrow> DagsGitSyncSpec \<Rightarrow> bool" where
  "rep_DagsGitSyncSpec = rep_struct
     (\<lambda>v a. mdg_Branch v = dgs_Branch a \<and> mdg_CrdentialsSecret v = dgs_CrdentialsSecret a \<and>
        mdg_GitFolder v = dgs_GitFolder a \<and> mdg_Repo v = dgs_Repo a)
     [rep_field mdg_Depth (rep_pointer int8_cell rep_plain) dgs_Depth,
      rep_field mdg_GitSyncConf (rep_map string_map_cell rep_plain) dgs_GitSyncConf,
      rep_field mdg_Wait (rep_pointer int16_cell rep_plain) dgs_Wait]"

definition rep_ClusterConfigSpec ::
  "('l, 'x) library_meaning \<Rightarrow> 'l cell cells \<Rightarrow> m_ClusterConfigSpec \<Rightarrow> 'x ClusterConfigSpec \<Rightarrow> bool" where
  "rep_ClusterConfigSpec R = rep_struct
     (\<lambda>v a. mcc_Credentials v = cc_Credentials a \<and> mcc_ExposeConfig v = cc_ExposeConfig a \<and>
        mcc_LoadExamples v = cc_LoadExamples a \<and> mcc_ListenerClass v = cc_ListenerClass a \<and>
        mcc_VectorAggregatorConfigMapName v = cc_VectorAggregatorConfigMapName a)
     [rep_field mcc_Authentication (rep_slice authentications_cell (rep_AuthenticationSpec R)) cc_Authentication,
      rep_field mcc_DagsGitSync (rep_slice git_syncs_cell rep_DagsGitSyncSpec) cc_DagsGitSync,
      rep_field mcc_Volumes (rep_slice libraries_cell (rep_RawExtension R)) cc_Volumes,
      rep_field mcc_VolumeMounts (rep_slice libraries_cell (rep_RawExtension R)) cc_VolumeMounts]"

definition rep_ConfigSpec ::
  "('l, 'x) library_meaning \<Rightarrow> 'l cell cells \<Rightarrow> m_ConfigSpec \<Rightarrow> 'x ConfigSpec \<Rightarrow> bool" where
  "rep_ConfigSpec R = rep_struct (\<lambda>v a. True)
     [rep_field mcs_RoleGroupConfigSpec (rep_pointer library_cell (rep_RoleGroupConfigSpec R))
        cs_RoleGroupConfigSpec]"

definition rep_RoleGroupSpec ::
  "('l, 'x) library_meaning \<Rightarrow> 'l cell cells \<Rightarrow> m_RoleGroupSpec \<Rightarrow> 'x RoleGroupSpec \<Rightarrow> bool" where
  "rep_RoleGroupSpec R = rep_struct (\<lambda>v a. True)
     [rep_field mrg_Replicas (rep_pointer int32_cell rep_plain) rg_Replicas,
      rep_field mrg_Config (rep_pointer config_cell (rep_ConfigSpec R)) rg_Config,
      rep_field mrg_OverridesSpec (rep_pointer library_cell (rep_OverridesSpec R)) rg_OverridesSpec]"

definition rep_RoleSpec ::
  "('l, 'x) library_meaning \<Rightarrow> 'l cell cells \<Rightarrow> m_RoleSpec \<Rightarrow> 'x RoleSpec \<Rightarrow> bool" where
  "rep_RoleSpec R = rep_struct (\<lambda>v a. True)
     [rep_field mrole_RoleGroups (rep_map role_groups_cell (rep_RoleGroupSpec R)) role_RoleGroups,
      rep_field mrole_RoleConfig (rep_pointer library_cell (rep_RoleConfigSpec R)) role_RoleConfig,
      rep_field mrole_Config (rep_pointer config_cell (rep_ConfigSpec R)) role_Config,
      rep_field mrole_OverridesSpec (rep_pointer library_cell (rep_OverridesSpec R)) role_OverridesSpec]"

definition rep_KubernetesExecutorsSpec ::
  "('l, 'x) library_meaning \<Rightarrow> 'l cell cells \<Rightarrow> m_KubernetesExecutorsSpec \<Rightarrow>
   'x KubernetesExecutorsSpec \<Rightarrow> bool" where
  "rep_KubernetesExecutorsSpec R = rep_struct (\<lambda>v a. True)
     [rep_field mkes_RoleConfig (rep_pointer library_cell (rep_RoleConfigSpec R)) kes_RoleConfig,
      rep_field mkes_Config (rep_pointer config_cell (rep_ConfigSpec R)) kes_Config,
      rep_field mkes_OverridesSpec (rep_pointer library_cell (rep_OverridesSpec R)) kes_OverridesSpec,
      rep_field mkes_RoleGroupConfigSpec (rep_pointer library_cell (rep_RoleGroupConfigSpec R))
        kes_RoleGroupConfigSpec]"

definition rep_AirflowClusterSpec ::
  "('l, 'x) library_meaning \<Rightarrow> 'l cell cells \<Rightarrow> m_AirflowClusterSpec \<Rightarrow> 'x AirflowClusterSpec \<Rightarrow> bool" where
  "rep_AirflowClusterSpec R = rep_struct (\<lambda>v a. True)
     [rep_field mspec_Image (rep_pointer image_cell rep_plain) spec_Image,
      rep_field mspec_ClusterOperation (rep_pointer library_cell (rep_ClusterOperationSpec R))
        spec_ClusterOperation,
      rep_field mspec_ClusterConfig (rep_pointer cluster_config_cell (rep_ClusterConfigSpec R))
        spec_ClusterConfig,
      rep_field mspec_CeleryExecutors (rep_pointer role_cell (rep_RoleSpec R)) spec_CeleryExecutors,
      rep_field mspec_KubernetesExecutors
        (rep_pointer kubernetes_executors_cell (rep_KubernetesExecutorsSpec R)) spec_KubernetesExecutors,
      rep_field mspec_Schedulers (rep_pointer role_cell (rep_RoleSpec R)) spec_Schedulers,
      rep_field mspec_Webservers (rep_pointer role_cell (rep_RoleSpec R)) spec_Webservers]"

text \<open>
  The whole object has more than the operator reads: its type, and metadata of which the record
  \<open>AirflowCluster\<close> has the name and the namespace.
\<close>

record 'x stored_cluster = "'x AirflowCluster" +
  sc_TypeMeta :: TypeMeta
  sc_ObjectMeta :: 'x

record 'x stored_list =
  sl_TypeMeta :: TypeMeta
  sl_ListMeta :: 'x
  sl_Items :: "'x stored_cluster list"

definition rep_AirflowCluster ::
  "('l, 'x) library_meaning \<Rightarrow> 'l cell cells \<Rightarrow> 'l m_AirflowCluster \<Rightarrow> 'x stored_cluster \<Rightarrow> bool" where
  "rep_AirflowCluster R = rep_struct
     (\<lambda>v a. ac_Name a = meta_Name R (sc_ObjectMeta a) \<and>
        ac_Namespace a = meta_Namespace R (sc_ObjectMeta a))
     [rep_field mac_TypeMeta rep_plain sc_TypeMeta,
      rep_field mac_ObjectMeta (rep_ObjectMeta R) sc_ObjectMeta,
      rep_field mac_Spec (rep_AirflowClusterSpec R) ac_Spec,
      rep_field mac_Status rep_plain (\<lambda>_. ())]"

definition rep_AirflowClusterList ::
  "('l, 'x) library_meaning \<Rightarrow> 'l cell cells \<Rightarrow> 'l m_AirflowClusterList \<Rightarrow> 'x stored_list \<Rightarrow> bool" where
  "rep_AirflowClusterList R = rep_struct (\<lambda>v a. True)
     [rep_field mal_TypeMeta rep_plain sl_TypeMeta,
      rep_field mal_ListMeta (rep_ListMeta R) sl_ListMeta,
      rep_field mal_Items (rep_slice clusters_cell (rep_AirflowCluster R)) sl_Items]"

section \<open>Every method is a deep copy\<close>

lemma AuthenticationSpec_deep_copy [deep_copy_intros]:
  "library_copies_ok E R \<Longrightarrow> deep_copy (AuthenticationSpec_DeepCopyInto E) (rep_AuthenticationSpec R)"
  unfolding AuthenticationSpec_DeepCopyInto_def rep_AuthenticationSpec_def struct_simps
  by (intro deep_copy_field deep_copy_values deep_copy_intros) (simp_all add: same_fields)

lemma DagsGitSyncSpec_deep_copy [deep_copy_intros]:
  "library_copies_ok E R \<Longrightarrow> deep_copy (DagsGitSyncSpec_DeepCopyInto E) rep_DagsGitSyncSpec"
  unfolding DagsGitSyncSpec_DeepCopyInto_def rep_DagsGitSyncSpec_def struct_simps
  by (intro deep_copy_field deep_copy_values deep_copy_intros library_orders) (simp_all add: same_fields)

lemma ClusterConfigSpec_deep_copy [deep_copy_intros]:
  "library_copies_ok E R \<Longrightarrow> deep_copy (ClusterConfigSpec_DeepCopyInto E) (rep_ClusterConfigSpec R)"
  unfolding ClusterConfigSpec_DeepCopyInto_def rep_ClusterConfigSpec_def struct_simps
  by (intro deep_copy_field deep_copy_values deep_copy_intros library_orders) (simp_all add: same_fields)

lemma ConfigSpec_deep_copy [deep_copy_intros]:
  "library_copies_ok E R \<Longrightarrow> deep_copy (ConfigSpec_DeepCopyInto E) (rep_ConfigSpec R)"
  unfolding ConfigSpec_DeepCopyInto_def rep_ConfigSpec_def struct_simps
  by (intro deep_copy_field deep_copy_values deep_copy_intros library_orders) (simp_all add: same_fields)

lemma RoleGroupSpec_deep_copy [deep_copy_intros]:
  "library_copies_ok E R \<Longrightarrow> deep_copy (RoleGroupSpec_DeepCopyInto E) (rep_RoleGroupSpec R)"
  unfolding RoleGroupSpec_DeepCopyInto_def rep_RoleGroupSpec_def struct_simps
  by (intro deep_copy_field deep_copy_values deep_copy_intros library_orders) (simp_all add: same_fields)

lemma copy_role_group_deep_copy [deep_copy_intros]:
  "library_copies_ok E R \<Longrightarrow> deep_copy (copy_role_group E) (rep_RoleGroupSpec R)"
  unfolding copy_role_group_def by (intro deep_copy_intros)

lemma CeleryExecutorsSpec_deep_copy [deep_copy_intros]:
  "library_copies_ok E R \<Longrightarrow> deep_copy (CeleryExecutorsSpec_DeepCopyInto E) (rep_RoleSpec R)"
  unfolding CeleryExecutorsSpec_DeepCopyInto_def rep_RoleSpec_def struct_simps
  by (intro deep_copy_field deep_copy_values deep_copy_intros library_orders) (simp_all add: same_fields)

lemma SchedulersSpec_deep_copy [deep_copy_intros]:
  "library_copies_ok E R \<Longrightarrow> deep_copy (SchedulersSpec_DeepCopyInto E) (rep_RoleSpec R)"
  unfolding SchedulersSpec_DeepCopyInto_def rep_RoleSpec_def struct_simps
  by (intro deep_copy_field deep_copy_values deep_copy_intros library_orders) (simp_all add: same_fields)

lemma WebserversSpec_deep_copy [deep_copy_intros]:
  "library_copies_ok E R \<Longrightarrow> deep_copy (WebserversSpec_DeepCopyInto E) (rep_RoleSpec R)"
  unfolding WebserversSpec_DeepCopyInto_def rep_RoleSpec_def struct_simps
  by (intro deep_copy_field deep_copy_values deep_copy_intros library_orders) (simp_all add: same_fields)

lemma KubernetesExecutorsSpec_deep_copy [deep_copy_intros]:
  "library_copies_ok E R \<Longrightarrow> deep_copy (KubernetesExecutorsSpec_DeepCopyInto E) (rep_KubernetesExecutorsSpec R)"
  unfolding KubernetesExecutorsSpec_DeepCopyInto_def rep_KubernetesExecutorsSpec_def struct_simps
  by (intro deep_copy_field deep_copy_values deep_copy_intros library_orders) (simp_all add: same_fields)

lemma AirflowClusterSpec_deep_copy [deep_copy_intros]:
  "library_copies_ok E R \<Longrightarrow> deep_copy (AirflowClusterSpec_DeepCopyInto E) (rep_AirflowClusterSpec R)"
  unfolding AirflowClusterSpec_DeepCopyInto_def rep_AirflowClusterSpec_def struct_simps
  by (intro deep_copy_field deep_copy_values deep_copy_intros library_orders) (simp_all add: same_fields)

lemma AirflowCluster_deep_copy [deep_copy_intros]:
  "library_copies_ok E R \<Longrightarrow> deep_copy (AirflowCluster_DeepCopyInto E) (rep_AirflowCluster R)"
  unfolding AirflowCluster_DeepCopyInto_def rep_AirflowCluster_def struct_simps
  by (intro deep_copy_field deep_copy_values deep_copy_intros library_orders) (simp_all add: same_fields)

lemma AirflowClusterList_deep_copy [deep_copy_intros]:
  "library_copies_ok E R \<Longrightarrow> deep_copy (AirflowClusterList_DeepCopyInto E) (rep_AirflowClusterList R)"
  unfolding AirflowClusterList_DeepCopyInto_def rep_AirflowClusterList_def struct_simps
  by (intro deep_copy_field deep_copy_values deep_copy_intros library_orders) (simp_all add: same_fields)

lemma ImageSpec_deep_copy [deep_copy_intros]: "deep_copy ImageSpec_DeepCopyInto rep_plain"
  unfolding ImageSpec_DeepCopyInto_def struct_simps by (rule deep_copy_plain)

text \<open>A pointer to a cluster and to a list of clusters.\<close>

abbreviation rep_cluster_pointer ::
  "('l, 'x) library_meaning \<Rightarrow> 'l cell cells \<Rightarrow> addr option \<Rightarrow> 'x stored_cluster option \<Rightarrow> bool" where
  "rep_cluster_pointer R \<equiv> rep_pointer cluster_cell (rep_AirflowCluster R)"

abbreviation rep_list_pointer ::
  "('l, 'x) library_meaning \<Rightarrow> 'l cell cells \<Rightarrow> addr option \<Rightarrow> 'x stored_list option \<Rightarrow> bool" where
  "rep_list_pointer R \<equiv> rep_pointer cluster_list_cell (rep_AirflowClusterList R)"

lemma AirflowCluster_pointee:
  "library_copies_ok E R \<Longrightarrow>
   pointee (AirflowCluster_DeepCopyInto E) (rep_AirflowCluster R) cluster_cell"
  by (simp add: pointee_def pointee_axioms_def AirflowCluster_deep_copy cell_types_ok)

lemma AirflowClusterList_pointee:
  "library_copies_ok E R \<Longrightarrow>
   pointee (AirflowClusterList_DeepCopyInto E) (rep_AirflowClusterList R) cluster_list_cell"
  by (simp add: pointee_def pointee_axioms_def AirflowClusterList_deep_copy cell_types_ok)

text \<open>Later writes to memory, as a list of addresses and their new cells.\<close>

fun write_all :: "(addr \<times> 'c) list \<Rightarrow> 'c cells \<Rightarrow> 'c cells" where
  "write_all [] c = c"
| "write_all ((a, x) # ws) c = write_all ws (c(a \<mapsto> x))"

lemma write_all_other: "a \<notin> fst ` set ws \<Longrightarrow> write_all ws c a = c a"
  by (induction ws c rule: write_all.induct) auto

section \<open>A library for the witnesses\<close>

text \<open>A struct of another repository with a reference of its own.\<close>

record sample_struct =
  ss_value :: string
  ss_limit :: "addr option"

definition sample_struct_copy :: "sample_struct \<Rightarrow> (sample_struct cell memory, sample_struct) stateful" where
  "sample_struct_copy = copy_struct [copy_field ss_limit ss_limit_update (copy_pointer int32_cell 0 copy_plain)]"

definition rep_sample :: "sample_struct cell cells \<Rightarrow> sample_struct \<Rightarrow> string \<times> 32 word option \<Rightarrow> bool" where
  "rep_sample = rep_struct (\<lambda>v a. ss_value v = fst a) [rep_field ss_limit (rep_pointer int32_cell rep_plain) snd]"

definition rep_sample_config ::
  "sample_struct cell cells \<Rightarrow> sample_struct \<Rightarrow> (string \<times> 32 word option) RoleGroupConfigSpec \<Rightarrow> bool" where
  "rep_sample_config c v a \<longleftrightarrow> rep_sample c v (rgc_rest a) \<and> rgc_Logging a = None"

definition rep_sample_oidc :: "sample_struct cell cells \<Rightarrow> sample_struct \<Rightarrow> OidcSpec \<Rightarrow> bool" where
  "rep_sample_oidc c v a \<longleftrightarrow> rep_sample c v (oidc_ClientCredentialsSecret a, None) \<and> oidc_ExtraScopes a = []"

definition sample_env :: "sample_struct copy_env" where
  "sample_env = \<lparr>OidcSpec_DeepCopyInto = sample_struct_copy, RoleConfigSpec_DeepCopyInto = sample_struct_copy,
     RoleGroupConfigSpec_DeepCopyInto = sample_struct_copy, OverridesSpec_DeepCopyInto = sample_struct_copy,
     RawExtension_DeepCopyInto = sample_struct_copy, ObjectMeta_DeepCopyInto = sample_struct_copy,
     ListMeta_DeepCopyInto = sample_struct_copy, zero_library = \<lparr>ss_value = [], ss_limit = None\<rparr>,
     string_map_order = rev, role_group_order = rev\<rparr>"

definition sample_meaning :: "(sample_struct, string \<times> 32 word option) library_meaning" where
  "sample_meaning = \<lparr>rep_OidcSpec = rep_sample_oidc, rep_RoleConfigSpec = rep_sample,
     rep_RoleGroupConfigSpec = rep_sample_config, rep_OverridesSpec = rep_sample,
     rep_RawExtension = rep_sample, rep_ClusterOperationSpec = (\<lambda>c v a. (ss_value v, None) = a),
     rep_ObjectMeta = rep_sample, rep_ListMeta = rep_sample,
     meta_Name = fst, meta_Namespace = (\<lambda>_. ''default'')\<rparr>"

lemma sample_deep_copy: "deep_copy sample_struct_copy rep_sample"
  unfolding sample_struct_copy_def rep_sample_def struct_simps
  by (intro deep_copy_field deep_copy_values deep_copy_intros) (simp_all add: same_fields)

lemma sample_library_copies_ok: "library_copies_ok sample_env sample_meaning"
proof -
  note mono = deep_copy.rep_mono [OF sample_deep_copy] and copies = deep_copy.copies [OF sample_deep_copy]
  have "deep_copy sample_struct_copy rep_sample_oidc" and "deep_copy sample_struct_copy rep_sample_config"
    by unfold_locales (auto simp: rep_sample_oidc_def rep_sample_config_def intro: mono dest: copies)
  moreover have "deep_copy copy_plain (\<lambda>c v a. (ss_value v, None) = a)"
    by unfold_locales (auto simp: copy_plain_def)
  ultimately show ?thesis
    by (simp add: library_copies_ok_def sample_env_def sample_meaning_def sample_deep_copy range_order_rev)
qed

text \<open>The locales of the three shapes hold of the operator's own methods.\<close>

interpretation image: pointee ImageSpec_DeepCopyInto rep_plain image_cell zero_ImageSpec
  by (simp add: pointee_def pointee_axioms_def ImageSpec_deep_copy cell_types_ok)

interpretation clusters: pointee "AirflowCluster_DeepCopyInto sample_env" "rep_AirflowCluster sample_meaning"
    cluster_cell "zero_AirflowCluster sample_env"
  by (rule AirflowCluster_pointee [OF sample_library_copies_ok])

interpretation items: sliceable "AirflowCluster_DeepCopyInto sample_env" "rep_AirflowCluster sample_meaning"
    clusters_cell "zero_AirflowCluster sample_env"
  by (simp add: sliceable_def sliceable_axioms_def cell_types_ok
      AirflowCluster_deep_copy sample_library_copies_ok)

interpretation role_groups: mappable "copy_role_group sample_env" "rep_RoleGroupSpec sample_meaning"
    role_groups_cell "role_group_order sample_env"
  by (simp add: mappable_def mappable_axioms_def cell_types_ok copy_role_group_deep_copy
      sample_library_copies_ok library_orders [OF sample_library_copies_ok])

text \<open>
  A cluster in memory: an image, a cluster configuration with one entry, executors with one role
  group, and a list with the cluster in it.
\<close>

definition sample_m_cluster :: "sample_struct m_AirflowCluster" where
  "sample_m_cluster = \<lparr>mac_TypeMeta = \<lparr>tm_Kind = ''AirflowCluster'', tm_APIVersion = ''v1alpha1''\<rparr>,
     mac_ObjectMeta = \<lparr>ss_value = ''airflow'', ss_limit = Some 1\<rparr>,
     mac_Spec = zero_AirflowClusterSpec\<lparr>mspec_Image := Some 0, mspec_ClusterConfig := Some 5,
       mspec_CeleryExecutors := Some 3\<rparr>,
     mac_Status = ()\<rparr>"

definition sample_memory :: "sample_struct cell memory" where
  "sample_memory = \<lparr>mem_next = 9, mem_cells = [
     0 \<mapsto> ImageSpecCell zero_ImageSpec,
     1 \<mapsto> Int32Cell 3,
     2 \<mapsto> RoleGroupsCell [(''default'', zero_RoleGroupSpec\<lparr>mrg_Replicas := Some 1\<rparr>)],
     3 \<mapsto> RoleCell (zero_RoleSpec\<lparr>mrole_RoleGroups := Some 2\<rparr>),
     4 \<mapsto> AuthenticationsCell [zero_AuthenticationSpec\<lparr>mas_AuthenticationClass := ''ldap''\<rparr>],
     5 \<mapsto> ClusterConfigCell (zero_ClusterConfigSpec\<lparr>mcc_Authentication := Some 4\<rparr>),
     6 \<mapsto> ClusterCell sample_m_cluster,
     7 \<mapsto> ClustersCell [sample_m_cluster],
     8 \<mapsto> ClusterListCell \<lparr>mal_TypeMeta = zero_TypeMeta,
       mal_ListMeta = \<lparr>ss_value = [], ss_limit = None\<rparr>, mal_Items = Some 7\<rparr>]\<rparr>"

definition sample_stored_spec :: "(string \<times> 32 word option) AirflowClusterSpec" where
  "sample_stored_spec = \<lparr>spec_Image = Some zero_ImageSpec, spec_ClusterOperation = None,
     spec_ClusterConfig = Some \<lparr>cc_Authentication = [\<lparr>as_AuthenticationClass = ''ldap'', as_Oidc = None,
         as_SyncRolesAt = [], as_UserRegistration = False, as_UserRegistrationRole = []\<rparr>],
       cc_Credentials = [], cc_DagsGitSync = [], cc_ExposeConfig = False, cc_LoadExamples = False,
       cc_ListenerClass = [], cc_VectorAggregatorConfigMapName = [], cc_Volumes = [],
       cc_VolumeMounts = []\<rparr>,
     spec_CeleryExecutors = Some \<lparr>role_RoleGroups =
         [(''default'', \<lparr>rg_Replicas = Some 3, rg_Config = None, rg_OverridesSpec = None\<rparr>)],
       role_RoleConfig = None, role_Config = None, role_OverridesSpec = None\<rparr>,
     spec_KubernetesExecutors = None, spec_Schedulers = None, spec_Webservers = None\<rparr>"

definition sample_stored :: "(string \<times> 32 word option) stored_cluster" where
  "sample_stored = \<lparr>ac_Name = ''airflow'', ac_Namespace = ''default'', ac_Spec = sample_stored_spec,
     sc_TypeMeta = \<lparr>tm_Kind = ''AirflowCluster'', tm_APIVersion = ''v1alpha1''\<rparr>,
     sc_ObjectMeta = (''airflow'', Some 3)\<rparr>"

lemmas rep_defs =
  rep_AuthenticationSpec_def rep_DagsGitSyncSpec_def rep_ClusterConfigSpec_def rep_ConfigSpec_def
  rep_RoleGroupSpec_def rep_RoleSpec_def rep_KubernetesExecutorsSpec_def rep_AirflowClusterSpec_def
  rep_AirflowCluster_def rep_AirflowClusterList_def rep_sample_def sample_meaning_def struct_simps
  same_fields rep_pointer_def rep_slice_def rep_map_def rep_entry_def rep_plain_def cell_defs

lemma sample_memory_ok: "memory_ok sample_memory"
  by (auto simp: memory_ok_def sample_memory_def split: if_splits)

lemmas sample_memory_defs =
  sample_memory_def sample_m_cluster_def sample_stored_def sample_stored_spec_def
  zero_AirflowClusterSpec_def zero_RoleGroupSpec_def zero_RoleSpec_def zero_AuthenticationSpec_def
  zero_ClusterConfigSpec_def

lemma sample_rep_pointer:
  "rep_cluster_pointer sample_meaning (mem_cells sample_memory) (Some 6) (Some sample_stored)"
  by (simp add: rep_defs sample_memory_defs)

lemma sample_rep_list:
  "rep_list_pointer sample_meaning (mem_cells sample_memory) (Some 8)
     (Some \<lparr>sl_TypeMeta = zero_TypeMeta, sl_ListMeta = ([], None), sl_Items = [sample_stored]\<rparr>)"
  by (simp add: rep_defs sample_memory_defs)

section \<open>The copies of a cluster and of a list\<close>

text \<open>
  C8: \<open>DeepCopy\<close> of a cluster in memory returns without a fault, changes no cell there was, and its
  result is a new cluster that stands for the same custom resource by new cells alone, whatever
  optional parts, slices and maps the resource has.
\<close>

theorem airflow_cluster_deep_copy:
  assumes "library_copies_ok E R" and "memory_ok h"
    and "rep_cluster_pointer R (mem_cells h) (Some p) (Some obj)"
  shows "\<exists>h' q. AirflowCluster_DeepCopy E (Some p) h = (h', Inr (Some q)) \<and> p < mem_next h \<and>
    mem_next h \<le> q \<and> extends h h' \<and> rep_cluster_pointer R (fresh h h') (Some q) (Some obj)"
  using pointee.pointer_new [OF AirflowCluster_pointee [OF assms(1)] assms(2,3)]
  unfolding AirflowCluster_DeepCopy_def by blast

theorem airflow_cluster_deep_copy_witness:
  "\<exists>h' q. AirflowCluster_DeepCopy sample_env (Some 6) sample_memory = (h', Inr (Some q)) \<and> 9 \<le> q \<and>
    rep_cluster_pointer sample_meaning (fresh sample_memory h') (Some q) (Some sample_stored)"
  using airflow_cluster_deep_copy [OF sample_library_copies_ok sample_memory_ok sample_rep_pointer]
  by (auto simp: sample_memory_def)

text \<open>
  C15: A cluster and its deep copy are isolated: after any writes through the copy, to cells that did
  not exist before it, the original stands for what it stood for; after any writes to the cells that
  existed, the copy does.
\<close>

theorem deep_copy_isolated:
  assumes "library_copies_ok E R" and "memory_ok h"
    and "rep_cluster_pointer R (mem_cells h) (Some p) (Some obj)"
    and "AirflowCluster_DeepCopy E (Some p) h = (h', Inr q)"
  shows "((\<forall>(a, c) \<in> set ws. mem_next h \<le> a) \<longrightarrow>
      rep_cluster_pointer R (write_all ws (mem_cells h')) (Some p) (Some obj)) \<and>
    ((\<forall>(a, c) \<in> set ws. a < mem_next h) \<longrightarrow>
      rep_cluster_pointer R (write_all ws (mem_cells h')) q (Some obj))"
proof -
  note contract = deep_copy_pointer [OF AirflowCluster_deep_copy [OF assms(1)] cell_types_ok(20),
      where zero = "zero_AirflowCluster E"]
  have copy: "extends h h'" "rep_cluster_pointer R (fresh h h') q (Some obj)"
    using deep_copy.copies [OF contract assms(2,3)] assms(4) by (auto simp: AirflowCluster_DeepCopy_def)
  show ?thesis
  proof (intro conjI impI)
    assume new: "\<forall>(a, c) \<in> set ws. mem_next h \<le> a"
    show "rep_cluster_pointer R (write_all ws (mem_cells h')) (Some p) (Some obj)"
    proof (rule deep_copy.original_independent [OF contract assms(2,3)])
      fix x assume "x < mem_next h"
      moreover from this have "x \<notin> fst ` set ws" using new by fastforce
      ultimately show "write_all ws (mem_cells h') x = mem_cells h x"
        by (simp add: write_all_other extends_old [OF copy(1)])
    qed
  next
    assume old: "\<forall>(a, c) \<in> set ws. a < mem_next h"
    show "rep_cluster_pointer R (write_all ws (mem_cells h')) q (Some obj)"
    proof (rule deep_copy.copy_independent [OF contract copy(2)])
      fix x assume "mem_next h \<le> x"
      then have "x \<notin> fst ` set ws" using old by fastforce
      then show "write_all ws (mem_cells h') x = mem_cells h' x" by (rule write_all_other)
    qed
  qed
qed

theorem deep_copy_isolated_witness:
  "\<exists>h' q. AirflowCluster_DeepCopy sample_env (Some 6) sample_memory = (h', Inr q) \<and>
    rep_cluster_pointer sample_meaning (write_all [(0, Int8Cell 7), (6, Int8Cell 0)] (mem_cells h'))
      q (Some sample_stored) \<and>
    rep_cluster_pointer sample_meaning (write_all [(12, Int8Cell 7)] (mem_cells h'))
      (Some 6) (Some sample_stored)"
proof -
  obtain h' q where copy: "AirflowCluster_DeepCopy sample_env (Some 6) sample_memory = (h', Inr q)"
    using clusters.pointer_copies [OF sample_memory_ok sample_rep_pointer]
    unfolding AirflowCluster_DeepCopy_def by blast
  show ?thesis
    using copy deep_copy_isolated [OF sample_library_copies_ok sample_memory_ok sample_rep_pointer copy,
        of "[(0, Int8Cell 7), (6, Int8Cell 0)]"]
      deep_copy_isolated [OF sample_library_copies_ok sample_memory_ok sample_rep_pointer copy,
        of "[(12, Int8Cell 7)]"]
    by (auto simp: sample_memory_def simp del: write_all.simps)
qed

text \<open>
  C26: \<open>DeepCopyObject\<close> of a list returns the nil interface for nil, never an interface that holds a
  nil pointer, and for a list in memory the pointer to a new list that stands for the same items by
  new cells alone.
\<close>

theorem cluster_list_deep_copy_object:
  assumes "library_copies_ok E R" and "memory_ok h" and "rep_list_pointer R (mem_cells h) p list"
  shows "\<exists>h' obj. AirflowClusterList_DeepCopyObject E p h = (h', Inr obj) \<and> extends h h' \<and>
    (obj = None \<longleftrightarrow> p = None) \<and>
    (\<forall>o'. obj = Some o' \<longrightarrow> (\<exists>q. o' = AirflowClusterListObject (Some q) \<and> mem_next h \<le> q \<and>
       rep_list_pointer R (fresh h h') (Some q) list))"
proof (cases p)
  case None
  with assms(2) show ?thesis
    by (simp add: AirflowClusterList_DeepCopyObject_def AirflowClusterList_DeepCopy_def copy_pointer_def)
next
  case (Some a)
  note pointer = pointee.pointer_new [OF AirflowClusterList_pointee [OF assms(1)] assms(2)
      assms(3) [unfolded Some], where zero = "zero_AirflowClusterList E"]
  then obtain h' q where "AirflowClusterList_DeepCopy E (Some a) h = (h', Inr (Some q))"
    and "extends h h'" and "mem_next h \<le> q" and "rep_list_pointer R (fresh h h') (Some q) list"
    unfolding AirflowClusterList_DeepCopy_def by blast
  then show ?thesis by (simp add: AirflowClusterList_DeepCopyObject_def Some)
qed

theorem cluster_list_deep_copy_object_witness:
  "\<exists>h' q. AirflowClusterList_DeepCopyObject sample_env (Some 8) sample_memory =
      (h', Inr (Some (AirflowClusterListObject (Some q)))) \<and> 9 \<le> q"
  using cluster_list_deep_copy_object [OF sample_library_copies_ok sample_memory_ok sample_rep_list]
  by (auto simp: sample_memory_def)

end
