(* ===== verification/Spec2Isabelle.thy ===== *)
theory Spec2Isabelle
  imports ClusterPlan Entry DeepCopySpec
begin

text \<open>
  A verification library for the Airflow operator, a Kubernetes operator written in Go
  (\<open>src/\<close>). The custom resource \<open>AirflowCluster\<close> describes an Airflow installation: an
  image, a cluster configuration (credentials, authentication, DAG folder, log aggregation) and
  three roles, each with role groups. The controller reads it and registers, for every role group,
  a config map, a stateful set and services with the support library \<open>operator-go\<close>, which
  creates them in the cluster.

  \<^bold>\<open>The parts and their theories\<close>

  \<^item> \<open>Prelude\<close>: what all theories share. A Go call has an \<open>outcome\<close>: a value or a fault, which is
    a returned error or one of the two panics the code can raise (nil dereference, write to a nil
    map). A method that changes its receiver before it fails is a function
    \<open>'s \<Rightarrow> 's \<times> 'a outcome\<close>. Loops over slices are \<open>for_each\<close> and
    \<open>method_for_each\<close>, with their invariant and prefix lemmas. A Go map is an association list and a range
    over it takes an arbitrary permutation (\<open>range_order\<close>), so that a theorem for all orders
    covers every run.
  \<^item> \<open>GoPath\<close>, \<open>GoUrl\<close>, \<open>GoTemplate\<close>: what the source uses of Go's \<open>path\<close>, \<open>net/url\<close> and
    \<open>text/template\<close>. The template model lexes, parses and executes; its lexer is total (the
    rest of the text shrinks) and execution is structural, so no fuel is needed.
  \<^item> \<open>ApiTypes\<close>: \<open>api/v1alpha1/airflowcluster_types.go\<close> and \<open>groupversion_info.go\<close>, and the
    library types the code reads field by field. A pointer is an option. The type variable
    \<open>'x\<close> stands for library values that are only passed on.
  \<^item> \<open>Library\<close>: the boundary. A library builder is the list of calls made on it; what the code
    reads back from the library, from constants of the product image to the API server, is a field
    of \<open>operator_lib\<close>, a parameter everywhere. The hypotheses \<open>template_ok\<close> and
    \<open>properties_ok\<close> say that the template parser runs \<open>text/template\<close> on the templates and data that
    \<open>GoTemplate\<close> models (nothing is asked of others) and that properties return what was added; \<open>sample_lib\<close> meets
    them and serves the witnesses. Label and annotation maps live in a store, because the code
    updates one of them through a shared reference.
  \<^item> \<open>Executor\<close>: \<open>internal/controller/common/commons.go\<close>.
  \<^item> \<open>Authenticator\<close>: \<open>internal/controller/common/auth.go\<close>, the LDAP and OpenID Connect
    authenticators. Go's interface \<open>Authenticator\<close> is the locale \<open>authenticator_contract\<close>,
    interpreted for both and for the dynamic dispatch between them.
  \<^item> \<open>Authentication\<close>: the aggregate of a cluster's authenticators, \<open>NewAuthentication\<close> and the
    collecting methods.
  \<^item> \<open>WebserverConfig\<close>: \<open>getLdapConfig\<close>, \<open>getOidcConfig\<close> and \<open>GetConfig\<close>, with the two templates
    of the source verbatim.
  \<^item> \<open>ConfigMap\<close>: \<open>internal/controller/common/config.go\<close>.
  \<^item> \<open>StatefulSet\<close>: \<open>internal/controller/common/statefulset.go\<close>.
  \<^item> \<open>Service\<close>: \<open>internal/controller/common/service.go\<close> and \<open>internal/controller/role/port.go\<close>.
  \<^item> \<open>Roles\<close>: \<open>internal/controller/role/celeryexecutor.go\<close>, \<open>scheduler.go\<close>, \<open>webserver.go\<close>. What a role
    promises of a registered group is the locale \<open>role_contract\<close>, interpreted for all three.
  \<^item> \<open>Cluster\<close>: \<open>internal/controller/cluster.go\<close> and \<open>airflowclusters_controller.go\<close>.

  \<^item> \<open>ClusterPlan\<close>: the abstract specification of the registration, a list of planned objects computed
    from the custom resource alone, and the refinement: the registered objects are the plan. The
    objects in full, with configuration, overrides and image, are compared over two registrations.
  \<^item> \<open>GoMemory\<close>: Go's memory for the deep copies: cells, \<open>new\<close>, reads and writes, and the copies of
    what a pointer, a slice or a map refers to and of a struct field by field. The contract of a
    \<open>DeepCopyInto\<close> method is the locale \<open>deep_copy\<close>; the locales \<open>pointee\<close>, \<open>sliceable\<close> and
    \<open>mappable\<close> extend it and give it for the three shapes by \<open>sublocale\<close>.
  \<^item> \<open>DeepCopy\<close>: \<open>api/v1alpha1/zz_generated.deepcopy.go\<close>, every method, on structs in memory whose
    references are addresses. The methods of other repositories are the parameter \<open>copy_env\<close>.
  \<^item> \<open>DeepCopySpec\<close>: which record of \<open>ApiTypes\<close> a struct in memory stands for, and that every method
    keeps it without sharing a cell. The hypothesis \<open>library_copies_ok\<close> asks the same of the
    copied types of other repositories; \<open>sample_env\<close> meets it.
  \<^item> \<open>GoFlag\<close>: the parsing of Go's package \<open>flag\<close>; its loop ends because a flag takes an argument away.
  \<^item> \<open>AppVersion\<close>: \<open>internal/util/version/version.go\<close> with the string encoding of \<open>encoding/json\<close>, and
    a JSON reader as the reference.
  \<^item> \<open>Entry\<close>: \<open>cmd/main.go\<close> and \<open>SetupWithManager\<close>: the flags, the options of the servers and of the
    manager, and the start-up twice, as a step relation (\<open>calls\<close>, \<open>exits\<close>, \<open>start_step\<close>) in which a call
    may have any result, and as the function \<open>operator_main\<close> of given results.

  \<^bold>\<open>How they interact\<close>

  \<open>main\<close> adds the API group to the scheme, reads the command line and starts a manager, which runs
  the controller. \<open>Reconcile\<close> builds a \<open>ClusterReconciler\<close> and calls \<open>RegisterResource\<close>, which calls
  \<open>RegisterResources\<close> of the three roles in turn; each merges the configuration of its role groups
  and calls \<open>RegisterResourceWithRoleGroup\<close>, which builds the authentication, the config map, the
  stateful set and the services. The builders' \<open>Build\<close> methods run later, when the library runs the
  registered cluster.

  \<^bold>\<open>What the theorems show\<close>

  For the registration: a cluster and a role always hold a complete prefix of what they were to
  register, and succeed exactly when it is all; the objects are the planned ones, the same at every
  reconciliation up to the order of a range; after success all workloads agree with the
  specification; the config volume of a stateful set is the config map beside it. For the
  start-up: what becomes of the process for every result of its calls, the manager starts last, the
  exit code tells the cause, until it ends it can still come to serve, HTTP/2 is off unless enabled, every setting can be given
  on the command line. For the deep copies: a copy stands for the same resource and neither side
  sees writes to the other. For the
  builders: what is built, on which inputs building fails, and what it leaves behind. For the
  environment: names are unique, secrets come from the credentials secret, every variable a
  command uses is set, admin credentials stay with the schedulers. For the authentication: when it
  can be built, what every entry does on every branch, independence of the map order. For the web
  server's configuration: its exact text, and when there is one. Several theorems record what the
  code does where that differs from what it means to do: OpenID Connect configurations never
  render, LDAP configurations end in OAuth, the authentication never reaches a stateful set, the log
  shipper is missing from the object, two services share a name, a cluster without one of its roles
  fails.

  \<^bold>\<open>What is not modelled\<close>

  Logging and contexts, the log configuration of \<open>zap\<close>, the texts \<open>flag\<close> prints, and the tests.
  The version a stateful set's image gets (\<open>BuildVersion\<close>) is a parameter of the library record.
  Capacities of slices and the order in which a map is stored. Merging of configurations,
  the objects the library finally creates and the API server are parameters. Outside the deep copies slices are values:
  the code never writes through a shared backing array.
\<close>

section \<open>Properties that span the components\<close>

lemma new_authentication_entries:
  "NewAuthentication L auths = Inr a \<Longrightarrow> auth \<in> set auths \<Longrightarrow> entry_authenticator L auth \<noteq> None"
  using new_authentication_loop_of_type [of L auths empty_authentication a]
  by (simp add: NewAuthentication_def)

text \<open>A role with a group is only registered when the authentication can be built.\<close>

lemma registered_authentication:
  assumes "(register, k) \<in> set (group_registrations L)" and "br_Spec r = Some spec"
    and "\<rho> (role_RoleGroups spec) \<noteq> []"
    and "register_role_groups L \<rho> register (r, s) = ((r', s'), Inr ())"
  shows "\<exists>auth. role_group_authentication L (br_ClusterConfig r) = Inr auth"
proof -
  obtain name g gs where groups: "\<rho> (role_RoleGroups spec) = (name, g) # gs"
    using assms(3) by (metis list.exhaust prod.exhaust)
  obtain t where "register_group_step L register spec (name, g) (r, s) = (t, Inr ())"
    using assms(2,4) by (auto simp: register_role_groups_def groups method_then_eq_Inr)
  then obtain info replicas config overrides u rs where
    "register r info replicas config overrides s = (u, Inr rs)"
    by (auto simp: register_group_step_eq split: sum.splits prod.splits)
  from group_registration_shape [OF assms(1) this] show ?thesis by blast
qed

text \<open>
  C10: One authentication entry that does not resolve to an LDAP or OpenID Connect provider stops
  the whole cluster: if the executors have a role group, no reconciliation succeeds, whatever the
  rest of the specification says.
\<close>

theorem unresolved_authentication_stops_cluster:
  assumes "get req = Inr obj" and "spec_ClusterConfig (ac_Spec obj) = Some cc"
    and "entry \<in> set (cc_Authentication cc)" and "entry_authenticator L entry = None"
    and "spec_CeleryExecutors (ac_Spec obj) = Some celery" and "role_RoleGroups celery \<noteq> []"
    and "range_order (orders CeleryExecutorsRoleName)"
  shows "\<exists>s' fault. Reconcile L orders get run req s = (s', Inl fault)"
proof -
  let ?r = "NewClusterReconciler (cluster_info obj) (ac_Spec obj)"
  have no_auth: "role_group_authentication L (Some cc) \<noteq> Inr auth" for auth
    using new_authentication_entries [of L "cc_Authentication cc" _ entry] assms(3,4)
    by (auto simp: role_group_authentication_def and_then_eq_Inr)
  have groups: "orders CeleryExecutorsRoleName (role_RoleGroups celery) \<noteq> []"
    using assms(6,7) by (metis list.size(3) length_0_conv range_order_length)
  have celery_in: "(celery_RegisterResourceWithRoleGroup L, 1) \<in> set (group_registrations L)"
    by (simp add: group_registrations_def)
  have first: "role_step L (orders CeleryExecutorsRoleName) (role_steps L ! 0) (?r, s) \<noteq> (t, Inr ())" for t
  proof
    assume step: "role_step L (orders CeleryExecutorsRoleName) (role_steps L ! 0) (?r, s) = (t, Inr ())"
    then obtain img where img: "GetImage L ?r = Inr img"
      by (cases "GetImage L ?r") (auto simp: role_steps_def role_step_def)
    let ?role = "role_for L ?r CeleryExecutorsRoleName img (Some celery)"
    obtain r' s' where "register_role_groups L (orders CeleryExecutorsRoleName)
        (celery_RegisterResourceWithRoleGroup L) (?role, s) = ((r', s'), Inr ())"
      using step by (auto simp: role_steps_def role_step_def img add_role_def assms(5)
          split: prod.splits sum.splits)
    from registered_authentication [OF celery_in _ groups this] show False
      using no_auth by (auto simp: role_for_def assms(2))
  qed
  obtain r s' res where run: "RegisterResource L orders (?r, s) = ((r, s'), res)"
    by (metis prod.exhaust)
  have "res \<noteq> Inr ()"
  proof
    assume "res = Inr ()"
    with run obtain t where "role_step L (orders CeleryExecutorsRoleName) (role_steps L ! 0) (?r, s) = (t, Inr ())"
      unfolding RegisterResource_loop by (auto simp: role_steps_def method_then_eq_Inr)
    with first show False by blast
  qed
  then obtain fault where "res = Inl fault" by (cases res) auto
  with run show ?thesis by (simp add: Reconcile_def assms(1))
qed

theorem unresolved_authentication_stops_cluster_witness:
  "\<exists>s' fault. Reconcile sample_lib (\<lambda>_. rev)
     (\<lambda>k :: string. Inr (sample_cluster\<lparr>ac_Spec := sample_spec\<lparr>spec_ClusterConfig :=
        Some ((sample_cluster_config ''team'')\<lparr>cc_Authentication := [auth_entry ''none'']\<rparr>)\<rparr>\<rparr>))
     (\<lambda>r. Inr empty_Result) ''airflow'' sample_store = (s', Inl fault)"
proof -
  let ?cc = "(sample_cluster_config ''team'')\<lparr>cc_Authentication := [auth_entry ''none'']\<rparr>"
  let ?obj = "sample_cluster\<lparr>ac_Spec := sample_spec\<lparr>spec_ClusterConfig := Some ?cc\<rparr>\<rparr>"
  have "spec_ClusterConfig (ac_Spec ?obj) = Some ?cc" and "spec_CeleryExecutors (ac_Spec ?obj) = Some sample_role_spec"
    by (simp_all add: sample_spec_def)
  moreover have "entry_authenticator sample_lib (auth_entry ''none'') = None"
    by (simp add: entry_authenticator_def sample_lib_def)
  moreover have "auth_entry ''none'' \<in> set (cc_Authentication ?cc)" by simp
  moreover have "role_RoleGroups sample_role_spec \<noteq> []" by (simp add: sample_role_spec_def)
  ultimately show ?thesis
    by (intro unresolved_authentication_stops_cluster [where obj = ?obj and cc = ?cc
          and entry = "auth_entry ''none''" and celery = sample_role_spec])
      (simp_all add: range_order_rev)
qed

end
